(* ===== verification/Go_Base.thy ===== *)
theory Go_Base
  imports Main "HOL-Library.State_Monad" "HOL-Library.AList" "HOL-Library.Sublist"
begin

text \<open>
  The prelude of the development: Go's error values, the byte strings and the functions of
  package strings the operator uses, the state monad in which effectful Go functions are
  written, and a small weakest-precondition calculus for it.  Every other theory imports it.

  A Go function that returns an error only is a computation with a result of type
  \<open>go_error option\<close> (\<open>None\<close> is nil); a function that returns a value or an error is one with
  a result of type \<open>go_error + 'a\<close>.  Log calls have no effect on the program and are left out.
\<close>

named_theorems wp_simps \<open>equations that push wp through a computation\<close>

section \<open>Errors\<close>

text \<open>
  What the operator reads of an error value: its text, and the status reason that
  \<open>k8serrors.IsNotFound\<close> and \<open>k8serrors.IsAlreadyExists\<close> look up through wrapped errors.
\<close>

datatype status_reason = ReasonUnknown | ReasonNotFound | ReasonAlreadyExists | ReasonInvalid

datatype go_error = GoError (error_reason: status_reason) (Error: string)

definition errors_New :: "string \<Rightarrow> go_error" where
  "errors_New s = GoError ReasonUnknown s"

text \<open>\<open>fmt.Errorf("prefix: %w", err)\<close> keeps the reason of the wrapped error,
  \<open>fmt.Errorf("prefix: %v", err)\<close> keeps the text only.\<close>

definition wrap_w :: "string \<Rightarrow> go_error \<Rightarrow> go_error" where
  "wrap_w p e = GoError (error_reason e) (p @ '': '' @ Error e)"

definition wrap_v :: "string \<Rightarrow> go_error \<Rightarrow> go_error" where
  "wrap_v p e = GoError ReasonUnknown (p @ '': '' @ Error e)"

definition IsNotFound :: "go_error \<Rightarrow> bool" where
  "IsNotFound e = (error_reason e = ReasonNotFound)"

definition IsAlreadyExists :: "go_error \<Rightarrow> bool" where
  "IsAlreadyExists e = (error_reason e = ReasonAlreadyExists)"

definition IsInvalid :: "go_error \<Rightarrow> bool" where
  "IsInvalid e = (error_reason e = ReasonInvalid)"

text \<open>\<open>errors.Join\<close>: nil errors are dropped, texts are joined by a newline, and a search
  through the joined error finds the first error that has a reason.\<close>

fun errors_Join :: "go_error option \<Rightarrow> go_error option \<Rightarrow> go_error option" where
  "errors_Join None e = e"
| "errors_Join (Some e) None = Some e"
| "errors_Join (Some e) (Some f) =
     Some (GoError (if error_reason e = ReasonUnknown then error_reason f else error_reason e)
                   (Error e @ CHR 0x0A # Error f))"

lemma IsNotFound_wrap_w [simp]: "IsNotFound (wrap_w p e) = IsNotFound e"
  by (simp add: IsNotFound_def wrap_w_def)

lemma IsNotFound_simps [simp]:
  "IsNotFound (GoError ReasonNotFound s)" "\<not> IsNotFound (GoError ReasonUnknown s)"
  "\<not> IsNotFound (GoError ReasonAlreadyExists s)" "\<not> IsNotFound (errors_New s)"
  "\<not> IsNotFound (wrap_v s e)" "\<not> IsNotFound (GoError ReasonInvalid s)"
  by (simp_all add: IsNotFound_def errors_New_def wrap_v_def)

lemma IsAlreadyExists_simps [simp]:
  "IsAlreadyExists (GoError ReasonAlreadyExists s)" "\<not> IsAlreadyExists (GoError ReasonUnknown s)"
  "\<not> IsAlreadyExists (GoError ReasonNotFound s)"
  by (simp_all add: IsAlreadyExists_def)

lemma Error_simps [simp]:
  "Error (errors_New s) = s" "Error (wrap_w p e) = p @ '': '' @ Error e"
  "Error (wrap_v p e) = p @ '': '' @ Error e"
  by (simp_all add: errors_New_def wrap_w_def wrap_v_def)

lemma errors_Join_None_iff [simp]: "errors_Join e f = None \<longleftrightarrow> e = None \<and> f = None"
  by (cases e; cases f) auto

text \<open>The outcome of code that may dereference a nil pointer.\<close>

datatype 'a outcome = Panics | Returns 'a

section \<open>Strings\<close>

text \<open>A Go string is its sequence of bytes, which is what Isabelle's \<open>string\<close> is.\<close>

definition strings_Contains :: "string \<Rightarrow> string \<Rightarrow> bool" where
  "strings_Contains s sub = sublist sub s"

definition strings_HasPrefix :: "string \<Rightarrow> string \<Rightarrow> bool" where
  "strings_HasPrefix s p = prefix p s"

definition strings_HasSuffix :: "string \<Rightarrow> string \<Rightarrow> bool" where
  "strings_HasSuffix s p = suffix p s"

definition strings_TrimSuffix :: "string \<Rightarrow> string \<Rightarrow> string" where
  "strings_TrimSuffix s p = (if suffix p s then take (length s - length p) s else s)"

text \<open>\<open>strings.Replace(s, old, new, 1)\<close>.\<close>

fun strings_Replace1 :: "string \<Rightarrow> string \<Rightarrow> string \<Rightarrow> string" where
  "strings_Replace1 [] old new = (if old = [] then new else [])"
| "strings_Replace1 (c # cs) old new =
     (if prefix old (c # cs) then new @ drop (length old) (c # cs)
      else c # strings_Replace1 cs old new)"

text \<open>\<open>strings.Split\<close> and \<open>strings.Cut\<close> at a separator of one byte.\<close>

fun strings_Split :: "string \<Rightarrow> char \<Rightarrow> string list" where
  "strings_Split [] sep = [[]]"
| "strings_Split (c # cs) sep =
     (let rest = strings_Split cs sep
      in if c = sep then [] # rest else (c # hd rest) # tl rest)"

definition strings_Cut :: "string \<Rightarrow> char \<Rightarrow> string \<times> string \<times> bool" where
  "strings_Cut s sep =
     (takeWhile (\<lambda>c. c \<noteq> sep) s, drop 1 (dropWhile (\<lambda>c. c \<noteq> sep) s), sep \<in> set s)"

text \<open>\<open>strings.TrimSpace\<close> removes the UTF-8 encodings of Unicode's white space at both ends.\<close>

definition white_space :: "string list" where
  "white_space =
     [[CHR 0x09], [CHR 0x0A], [CHR 0x0B], [CHR 0x0C], [CHR 0x0D], [CHR 0x20],
      [CHR 0xC2, CHR 0x85], [CHR 0xC2, CHR 0xA0], [CHR 0xE1, CHR 0x9A, CHR 0x80],
      [CHR 0xE2, CHR 0x80, CHR 0x80], [CHR 0xE2, CHR 0x80, CHR 0x81],
      [CHR 0xE2, CHR 0x80, CHR 0x82], [CHR 0xE2, CHR 0x80, CHR 0x83],
      [CHR 0xE2, CHR 0x80, CHR 0x84], [CHR 0xE2, CHR 0x80, CHR 0x85],
      [CHR 0xE2, CHR 0x80, CHR 0x86], [CHR 0xE2, CHR 0x80, CHR 0x87],
      [CHR 0xE2, CHR 0x80, CHR 0x88], [CHR 0xE2, CHR 0x80, CHR 0x89],
      [CHR 0xE2, CHR 0x80, CHR 0x8A], [CHR 0xE2, CHR 0x80, CHR 0xA8],
      [CHR 0xE2, CHR 0x80, CHR 0xA9], [CHR 0xE2, CHR 0x80, CHR 0xAF],
      [CHR 0xE2, CHR 0x81, CHR 0x9F], [CHR 0xE3, CHR 0x80, CHR 0x80]]"

function trim_left :: "string list \<Rightarrow> string \<Rightarrow> string" where
  "trim_left ws s =
     (case find (\<lambda>w. w \<noteq> [] \<and> prefix w s) ws of
        None \<Rightarrow> s
      | Some w \<Rightarrow> trim_left ws (drop (length w) s))"
  by pat_completeness auto
termination
  by (relation "measure (\<lambda>(ws, s). length s)") (auto simp: find_Some_iff prefix_def)

declare trim_left.simps [simp del]

definition strings_TrimSpace :: "string \<Rightarrow> string" where
  "strings_TrimSpace s =
     rev (trim_left (map rev white_space) (rev (trim_left white_space s)))"

lemma strings_Contains_append:
  "strings_Contains s sub \<Longrightarrow> strings_Contains (p @ s) sub"
  by (simp add: strings_Contains_def sublist_appendI sublist_append)

lemma strings_TrimSuffix_append [simp]: "strings_TrimSuffix (s @ p) p = s"
  by (simp add: strings_TrimSuffix_def suffix_def)

lemma strings_TrimSuffix_other: "\<not> suffix p s \<Longrightarrow> strings_TrimSuffix s p = s"
  by (simp add: strings_TrimSuffix_def)

lemma strings_Split_nonempty [simp]: "strings_Split s sep \<noteq> []"
  by (cases s) (auto simp: Let_def)

lemma strings_Split_length: "length (strings_Split s sep) = Suc (count_list s sep)"
  by (induction s) (auto simp: Let_def)

lemma takeWhile_cut: "c \<in> set s \<Longrightarrow> takeWhile (\<lambda>x. x \<noteq> c) s @ c # drop 1 (dropWhile (\<lambda>x. x \<noteq> c) s) = s"
  by (induction s) auto

section \<open>Effects\<close>

text \<open>
  The state of a computation is the world outside the operator (the cluster, the network, the
  clock): an arbitrary type \<open>'w\<close>.  The do-notation of the library's state monad is used, so that
  a handler reads like its source.
\<close>

type_synonym ('w, 'a) io = "('w, 'a) state"

abbreviation ret :: "'a \<Rightarrow> ('w, 'a) io" where
  "ret \<equiv> State_Monad.return"

text \<open>\<open>wp m Q w\<close>: running \<open>m\<close> in the world \<open>w\<close> ends with a result and a world that satisfy
  \<open>Q\<close>.  Every computation ends, so this is total correctness.\<close>

definition wp :: "('w, 'a) io \<Rightarrow> ('a \<Rightarrow> 'w \<Rightarrow> bool) \<Rightarrow> 'w \<Rightarrow> bool" where
  "wp m Q w = (case run_state m w of (a, w') \<Rightarrow> Q a w')"

lemma wp_return [wp_simps]: "wp (ret a) Q w = Q a w"
  by (simp add: wp_def)

lemma wp_bind [wp_simps]: "wp (m \<bind> f) Q w = wp m (\<lambda>a. wp (f a) Q) w"
  by (simp add: wp_def split: prod.splits)

lemma wp_if [wp_simps]: "wp (if b then m else n) Q w = (if b then wp m Q w else wp n Q w)"
  by simp

lemma wp_sum [wp_simps]:
  "wp (case r of Inl e \<Rightarrow> m e | Inr x \<Rightarrow> n x) Q w =
     (case r of Inl e \<Rightarrow> wp (m e) Q w | Inr x \<Rightarrow> wp (n x) Q w)"
  by (cases r) simp_all

lemma wp_option [wp_simps]:
  "wp (case r of None \<Rightarrow> m | Some x \<Rightarrow> n x) Q w =
     (case r of None \<Rightarrow> wp m Q w | Some x \<Rightarrow> wp (n x) Q w)"
  by (cases r) simp_all

lemma wp_outcome [wp_simps]:
  "wp (case r of Panics \<Rightarrow> m | Returns x \<Rightarrow> n x) Q w =
     (case r of Panics \<Rightarrow> wp m Q w | Returns x \<Rightarrow> wp (n x) Q w)"
  by (cases r) simp_all

lemma wp_prod [wp_simps]:
  "wp (case r of (a, b) \<Rightarrow> m a b) Q w = (case r of (a, b) \<Rightarrow> wp (m a b) Q w)"
  by (cases r) simp

lemma wp_run: "wp m Q w \<Longrightarrow> run_state m w = (a, w') \<Longrightarrow> Q a w'"
  by (simp add: wp_def)

lemma wpI: "(\<And>a w'. run_state m w = (a, w') \<Longrightarrow> Q a w') \<Longrightarrow> wp m Q w"
  by (cases "run_state m w") (simp add: wp_def)

lemma wp_mono: "wp m Q w \<Longrightarrow> (\<And>a w'. Q a w' \<Longrightarrow> R a w') \<Longrightarrow> wp m R w"
  by (auto simp: wp_def split: prod.splits)

lemma wp_conj: "wp m Q w \<Longrightarrow> wp m R w \<Longrightarrow> wp m (\<lambda>a w'. Q a w' \<and> R a w') w"
  by (auto simp: wp_def split: prod.splits)

lemma wp_iff_run: "wp m Q w \<longleftrightarrow> Q (fst (run_state m w)) (snd (run_state m w))"
  by (simp add: wp_def split: prod.splits)

section \<open>Logs\<close>

text \<open>The world keeps a log of events, of any kind: \<open>m\<close> appends to the log some \<open>t\<close> such that \<open>P\<close> holds of its result and \<open>t\<close>.\<close>

definition traces :: "('w \<Rightarrow> 'e list) \<Rightarrow> ('a \<Rightarrow> 'e list \<Rightarrow> bool) \<Rightarrow> ('w, 'a) io \<Rightarrow> bool" where
  "traces log P m \<longleftrightarrow> (\<forall>w. wp m (\<lambda>a w'. \<exists>t. log w' = log w @ t \<and> P a t) w)"

lemma traces_return: "P a [] \<Longrightarrow> traces log P (ret a)"
  by (simp add: traces_def wp_return)

lemma traces_bind:
  assumes "traces log P m" and "\<And>a t. P a t \<Longrightarrow> traces log (\<lambda>b u. Q b (t @ u)) (f a)"
  shows "traces log Q (m \<bind> f)"
  unfolding traces_def wp_bind
proof
  fix w
  show "wp m (\<lambda>a. wp (f a) (\<lambda>b w'. \<exists>t. log w' = log w @ t \<and> Q b t)) w"
  proof (rule wp_mono [OF assms(1) [unfolded traces_def, rule_format]])
    fix a w1
    assume "\<exists>t. log w1 = log w @ t \<and> P a t"
    then obtain t where "log w1 = log w @ t" "P a t" by blast
    with assms(2) [of a t] show "wp (f a) (\<lambda>b w'. \<exists>t. log w' = log w @ t \<and> Q b t) w1"
      unfolding traces_def by (fastforce intro: wp_mono)
  qed
qed

lemma traces_mono: "traces log P m \<Longrightarrow> (\<And>a t. P a t \<Longrightarrow> Q a t) \<Longrightarrow> traces log Q m"
  unfolding traces_def by (blast intro: wp_mono)

lemma silent_bind:
  "traces log (\<lambda>_ t. t = []) m \<Longrightarrow> (\<And>a. traces log Q (f a)) \<Longrightarrow> traces log Q (m \<bind> f)"
  by (rule traces_bind [of log "\<lambda>_ t. t = []"]) auto

end
