(* ===== verification/Kube_Types.thy ===== *)
theory Kube_Types
  imports Go_Base "HOL-Library.Finite_Map"
begin

text \<open>
  The objects the operator reads and writes.  The first part is the data of api/v1alpha1; the
  second names, for each kind of the Kubernetes, OpenShift, HyperShift and Prometheus APIs, the
  fields the operator's code touches.  Every object is metadata, a spec and a status, so one
  polymorphic record \<open>kobj\<close> carries them all.  A Go string map is a finite map.
\<close>

type_synonym string_map = "(string, string) fmap"

text \<open>Reading a Go map at a missing key gives the zero value.\<close>

definition map_read :: "string_map \<Rightarrow> string \<Rightarrow> string" where
  "map_read m k = (case fmlookup m k of None \<Rightarrow> [] | Some v \<Rightarrow> v)"

lemma map_read_upd [simp]: "map_read (fmupd k v m) k' = (if k = k' then v else map_read m k')"
  by (simp add: map_read_def)

lemma map_read_empty [simp]: "map_read fmempty k = []"
  by (simp add: map_read_def)

section \<open>Metadata\<close>

record NamespacedName =
  nn_name :: string
  nn_namespace :: string

abbreviation nn_empty :: NamespacedName where
  "nn_empty \<equiv> \<lparr>nn_name = [], nn_namespace = []\<rparr>"

lemma nn_eta [simp]: "\<lparr>nn_name = nn_name t, nn_namespace = nn_namespace t\<rparr> = t"
  by (cases t) simp

record TypeMeta =
  tm_kind :: string
  tm_apiVersion :: string

record OwnerReference =
  or_apiVersion :: string
  or_kind :: string
  or_name :: string
  or_uid :: string
  or_controller :: bool
  or_blockOwnerDeletion :: bool

text \<open>Times are nanoseconds since the epoch.\<close>

record ObjectMeta =
  om_name :: string
  om_namespace :: string
  om_uid :: string
  om_resourceVersion :: string
  om_creationTimestamp :: int
  om_deletionTimestamp :: "int option"
  om_labels :: string_map
  om_annotations :: string_map
  om_ownerReferences :: "OwnerReference list"
  om_finalizers :: "string list"

definition empty_meta :: ObjectMeta where
  "empty_meta =
     \<lparr>om_name = [], om_namespace = [], om_uid = [], om_resourceVersion = [],
      om_creationTimestamp = 0, om_deletionTimestamp = None, om_labels = fmempty,
      om_annotations = fmempty, om_ownerReferences = [], om_finalizers = []\<rparr>"

record ('spec, 'status) kobj =
  obj_type :: TypeMeta
  obj_meta :: ObjectMeta
  obj_spec :: 'spec
  obj_status :: 'status

definition obj_key :: "('spec, 'status) kobj \<Rightarrow> NamespacedName" where
  "obj_key o' = \<lparr>nn_name = om_name (obj_meta o'), nn_namespace = om_namespace (obj_meta o')\<rparr>"

definition empty_type :: TypeMeta where
  "empty_type = \<lparr>tm_kind = [], tm_apiVersion = []\<rparr>"

section \<open>api/v1alpha1\<close>

record SloSpec =
  TargetAvailabilityPercent :: string

record RouteMonitorRouteSpec =
  rmrs_name :: string
  rmrs_namespace :: string
  rmrs_port :: int
  rmrs_suffix :: string

record RouteMonitorSpec =
  rms_route :: RouteMonitorRouteSpec
  rms_slo :: SloSpec
  rms_skipPrometheusRule :: bool
  rms_insecureSkipTLSVerify :: bool
  rms_serviceMonitorType :: string

record RouteMonitorStatus =
  rmst_routeURL :: string
  rmst_serviceMonitorRef :: NamespacedName
  rmst_prometheusRuleRef :: NamespacedName
  rmst_errorStatus :: string

type_synonym RouteMonitor = "(RouteMonitorSpec, RouteMonitorStatus) kobj"

definition ServiceMonitorTypeCoreOS :: string where
  "ServiceMonitorTypeCoreOS = ''monitoring.coreos.com''"

definition ServiceMonitorTypeRHOBS :: string where
  "ServiceMonitorTypeRHOBS = ''monitoring.rhobs''"

definition empty_RouteMonitor :: RouteMonitor where
  "empty_RouteMonitor =
     \<lparr>obj_type = empty_type, obj_meta = empty_meta,
      obj_spec = \<lparr>rms_route = \<lparr>rmrs_name = [], rmrs_namespace = [], rmrs_port = 0, rmrs_suffix = []\<rparr>,
                  rms_slo = \<lparr>TargetAvailabilityPercent = []\<rparr>, rms_skipPrometheusRule = False,
                  rms_insecureSkipTLSVerify = False, rms_serviceMonitorType = []\<rparr>,
      obj_status = \<lparr>rmst_routeURL = [], rmst_serviceMonitorRef = nn_empty,
                    rmst_prometheusRuleRef = nn_empty, rmst_errorStatus = []\<rparr>\<rparr>"

text \<open>\<open>ClusterDomainRef\<close> is a string type; the two values the source names.\<close>

definition ClusterDomainRefInfra :: string where
  "ClusterDomainRefInfra = ''infra''"

definition ClusterDomainRefHCP :: string where
  "ClusterDomainRefHCP = ''hcp''"

record ClusterUrlMonitorSpec =
  cums_prefix :: string
  cums_suffix :: string
  cums_port :: string
  cums_slo :: SloSpec
  cums_domainRef :: string
  cums_skipPrometheusRule :: bool

record ClusterUrlMonitorStatus =
  cumst_serviceMonitorRef :: NamespacedName
  cumst_prometheusRuleRef :: NamespacedName
  cumst_errorStatus :: string

type_synonym ClusterUrlMonitor = "(ClusterUrlMonitorSpec, ClusterUrlMonitorStatus) kobj"

definition empty_ClusterUrlMonitor :: ClusterUrlMonitor where
  "empty_ClusterUrlMonitor =
     \<lparr>obj_type = empty_type, obj_meta = empty_meta,
      obj_spec = \<lparr>cums_prefix = [], cums_suffix = [], cums_port = [],
                  cums_slo = \<lparr>TargetAvailabilityPercent = []\<rparr>, cums_domainRef = [],
                  cums_skipPrometheusRule = False\<rparr>,
      obj_status = \<lparr>cumst_serviceMonitorRef = nn_empty, cumst_prometheusRuleRef = nn_empty,
                    cumst_errorStatus = []\<rparr>\<rparr>"

section \<open>Objects of other API groups\<close>

text \<open>route.openshift.io/v1\<close>

record RouteSpec =
  rt_host :: string
  rt_tls :: "(string \<times> string) option"  \<comment> \<open>insecure edge termination policy, termination\<close>
  rt_to :: "string \<times> string \<times> int"  \<comment> \<open>kind, name, weight\<close>
  rt_wildcardPolicy :: string

type_synonym RouteIngress = "string list"  \<comment> \<open>the hosts of \<open>.Status.Ingress\<close>\<close>
type_synonym Route = "(RouteSpec, RouteIngress) kobj"

text \<open>monitoring.coreos.com/v1 and monitoring.rhobs/v1: the two Go types have the same fields.\<close>

record RelabelConfig =
  rc_replacement :: string
  rc_targetLabel :: string

record Endpoint =
  ep_port :: string
  ep_interval :: string
  ep_scrapeTimeout :: string
  ep_path :: string
  ep_scheme :: string
  ep_params :: "(string, string list) fmap"
  ep_metricRelabelConfigs :: "RelabelConfig list"

record ServiceMonitorSpec =
  sms_endpoints :: "Endpoint list"
  sms_selector :: string_map
  sms_namespaces :: "string list"

type_synonym ServiceMonitor = "(ServiceMonitorSpec, unit) kobj"

record Rule =
  ru_alert :: string
  ru_expr :: string
  ru_labels :: string_map
  ru_annotations :: string_map
  ru_for :: string

record RuleGroup =
  rg_name :: string
  rg_rules :: "Rule list"

type_synonym PrometheusRule = "(RuleGroup list, unit) kobj"

text \<open>apps/v1 and v1\<close>

record Toleration =
  tol_operator :: string
  tol_effect :: string
  tol_key :: string

record Container =
  ct_image :: string
  ct_name :: string
  ct_args :: "string list"
  ct_ports :: "(int \<times> string) list"
  ct_volumeMounts :: "(string \<times> bool \<times> string) list"

record DeploymentSpec =
  dep_replicas :: int
  dep_selector :: string_map
  dep_podLabels :: string_map
  dep_nodeAffinity :: "(string \<times> string \<times> int) list"  \<comment> \<open>key, operator, weight\<close>
  dep_tolerations :: "Toleration list"
  dep_serviceAccountName :: string
  dep_containers :: "Container list"
  dep_configMapVolumes :: "(string \<times> string) list"  \<comment> \<open>volume name, config map name\<close>

type_synonym Deployment = "(DeploymentSpec, unit) kobj"

record ServicePort =
  sp_targetPort :: string
  sp_port :: int
  sp_name :: string

record ServiceSpec =
  svc_selector :: string_map
  svc_ports :: "ServicePort list"

type_synonym Service = "(ServiceSpec, unit) kobj"
type_synonym ConfigMap = "(string_map, unit) kobj"
type_synonym Secret = "(string_map, unit) kobj"

text \<open>hypershift.openshift.io/v1beta1\<close>

record AWSPlatform =
  aws_region :: string
  aws_endpointAccess :: string

definition EndpointAccess_Public :: string where "EndpointAccess_Public = ''Public''"
definition EndpointAccess_PublicAndPrivate :: string where
  "EndpointAccess_PublicAndPrivate = ''PublicAndPrivate''"
definition EndpointAccess_Private :: string where "EndpointAccess_Private = ''Private''"

record ServicePublishing =
  spub_service :: string
  spub_type :: string
  spub_route :: "string option"  \<comment> \<open>the hostname of a non-nil route strategy\<close>

record Condition =
  cond_type :: string
  cond_status :: string
  cond_reason :: string

record HostedControlPlaneSpec =
  hcps_clusterID :: string
  hcps_aws :: "AWSPlatform option"
  hcps_services :: "ServicePublishing list"

record HostedControlPlaneStatus =
  hcpst_conditions :: "Condition list"
  hcpst_endpointHost :: string

type_synonym HostedControlPlane = "(HostedControlPlaneSpec, HostedControlPlaneStatus) kobj"
type_synonym HostedCluster = "(string, unit) kobj"  \<comment> \<open>\<open>.Spec.DNS.BaseDomain\<close>\<close>
type_synonym VpcEndpoint = "(unit, string) kobj"  \<comment> \<open>\<open>.Status.Status\<close>\<close>

text \<open>config.openshift.io/v1 and operator.openshift.io/v1\<close>

type_synonym ClusterVersion = "(string, string) kobj"  \<comment> \<open>cluster id, desired version\<close>

record InfrastructureStatus =
  inf_platformType :: "string option"  \<comment> \<open>the type of a non-nil platform status\<close>
  inf_apiServerURL :: string

type_synonym Infrastructure = "(unit, InfrastructureStatus) kobj"

record LoadBalancerStrategy =
  lb_scope :: string
  lb_provider :: "string option option"  \<comment> \<open>provider parameters, their AWS part, its type\<close>

type_synonym IngressController = "(unit, LoadBalancerStrategy option option) kobj"
  \<comment> \<open>endpoint publishing strategy, its load balancer\<close>

type_synonym CustomResourceDefinition = "(unit, unit) kobj"

end
