(* ===== verification/Kube_Client.thy ===== *)
theory Kube_Client
  imports Kube_Types "HOL-Library.Multiset"
begin

text \<open>
  The services the operator talks to through \<open>client.Client\<close>, and the third-party library
  functions it calls, are parameters: the fields of a record \<open>Env\<close> over the type \<open>'w\<close> of worlds.
  What the operator relies on of the API server is stated as \<open>api_laws\<close>: an abstraction \<open>snap\<close>
  reads the objects the server stores out of the world, one association list per kind, and each
  call either fails and stores nothing or has the documented effect on the list of its own kind.
  A theorem that needs the server's behaviour takes \<open>ok_world\<close> as a hypothesis; a call may always
  fail for a reason of its own unless \<open>api_reliable\<close> is assumed as well.
\<close>

section \<open>The client of one kind\<close>

record ('spec, 'status, 'w) kube =
  kube_Get :: "NamespacedName \<Rightarrow> ('w, go_error + ('spec, 'status) kobj) io"
  kube_List :: "string option \<Rightarrow> ('w, go_error + ('spec, 'status) kobj list) io"
  kube_Create :: "('spec, 'status) kobj \<Rightarrow> ('w, go_error + ('spec, 'status) kobj) io"
  kube_Update :: "('spec, 'status) kobj \<Rightarrow> ('w, go_error + ('spec, 'status) kobj) io"
  kube_StatusUpdate :: "('spec, 'status) kobj \<Rightarrow> ('w, go_error + ('spec, 'status) kobj) io"
  kube_Delete :: "('spec, 'status) kobj \<Rightarrow> ('w, go_error option) io"

text \<open>
  \<open>Create\<close>, \<open>Update\<close> and \<open>Status().Update\<close> write the server's answer into the object they are
  given, so on success they return it.  The error alone:
\<close>

definition err_of :: "go_error + 'a \<Rightarrow> go_error option" where
  "err_of r = (case r of Inl e \<Rightarrow> Some e | Inr _ \<Rightarrow> None)"

lemma err_of_simps [simp]: "err_of (Inl e) = Some e" "err_of (Inr x) = None"
  by (simp_all add: err_of_def)

section \<open>The objects a cluster stores\<close>

type_synonym 'o store = "(NamespacedName \<times> 'o) list"

record cluster =
  c_rm :: "RouteMonitor store"
  c_cum :: "ClusterUrlMonitor store"
  c_route :: "Route store"
  c_sm :: "ServiceMonitor store"
  c_rsm :: "ServiceMonitor store"
  c_pr :: "PrometheusRule store"
  c_dep :: "Deployment store"
  c_svc :: "Service store"
  c_cm :: "ConfigMap store"
  c_sec :: "Secret store"
  c_hcp :: "HostedControlPlane store"
  c_hc :: "HostedCluster store"
  c_vpce :: "VpcEndpoint store"
  c_cv :: "ClusterVersion store"
  c_inf :: "Infrastructure store"
  c_ic :: "IngressController store"
  c_crd :: "CustomResourceDefinition store"

text \<open>An object whose deletion was requested is gone once its last finalizer is, so every stored
  object is live or has a finalizer; it is stored under its own name.\<close>

definition live_or_held :: "('spec, 'status) kobj \<Rightarrow> bool" where
  "live_or_held x = (om_deletionTimestamp (obj_meta x) = None \<or> om_finalizers (obj_meta x) \<noteq> [])"

definition wf_store :: "('spec, 'status) kobj store \<Rightarrow> bool" where
  "wf_store s =
     (distinct (map fst s) \<and> (\<forall>(k, x) \<in> set s. obj_key x = k \<and> live_or_held x))"

definition wf_cluster :: "cluster \<Rightarrow> bool" where
  "wf_cluster c =
     (wf_store (c_rm c) \<and>
      wf_store (c_cum c) \<and>
      wf_store (c_route c) \<and>
      wf_store (c_sm c) \<and>
      wf_store (c_rsm c) \<and>
      wf_store (c_pr c) \<and>
      wf_store (c_dep c) \<and>
      wf_store (c_svc c) \<and>
      wf_store (c_cm c) \<and>
      wf_store (c_sec c) \<and>
      wf_store (c_hcp c) \<and>
      wf_store (c_hc c) \<and>
      wf_store (c_vpce c) \<and>
      wf_store (c_cv c) \<and>
      wf_store (c_inf c) \<and>
      wf_store (c_ic c) \<and>
      wf_store (c_crd c))"

definition in_namespace :: "string option \<Rightarrow> NamespacedName \<Rightarrow> bool" where
  "in_namespace ns k = (case ns of None \<Rightarrow> True | Some n \<Rightarrow> nn_namespace k = n)"

lemma wf_store_empty [simp]: "wf_store []"
  by (simp add: wf_store_def)

lemma wf_store_key: "wf_store s \<Longrightarrow> map_of s k = Some o' \<Longrightarrow> obj_key o' = k"
  by (auto simp: wf_store_def dest: map_of_SomeD)

lemma wf_store_live: "wf_store s \<Longrightarrow> map_of s k = Some x \<Longrightarrow> live_or_held x"
  by (auto simp: wf_store_def dest: map_of_SomeD)

section \<open>What the server promises\<close>

text \<open>
  The metadata a client sends on create and update, as opposed to the fields the server owns.
\<close>

definition same_sent_meta :: "ObjectMeta \<Rightarrow> ObjectMeta \<Rightarrow> bool" where
  "same_sent_meta a b =
     (om_name a = om_name b \<and> om_namespace a = om_namespace b \<and> om_labels a = om_labels b \<and>
      om_annotations a = om_annotations b \<and> om_ownerReferences a = om_ownerReferences b \<and>
      om_finalizers a = om_finalizers b)"

definition same_server_meta :: "ObjectMeta \<Rightarrow> ObjectMeta \<Rightarrow> bool" where
  "same_server_meta a b =
     (om_uid a = om_uid b \<and> om_creationTimestamp a = om_creationTimestamp b \<and>
      om_deletionTimestamp a = om_deletionTimestamp b)"

definition settle ::
    "NamespacedName \<Rightarrow> ('spec, 'status) kobj \<Rightarrow> ('spec, 'status) kobj store
       \<Rightarrow> ('spec, 'status) kobj store" where
  "settle k o' s =
     (if live_or_held o' then AList.update k o' s else AList.delete k s)"

definition get_law where
  "get_law snap fld K \<longleftrightarrow>
     (\<forall>k w. wf_cluster (snap w) \<longrightarrow>
        wp (kube_Get K k) (\<lambda>r w'. snap w' = snap w \<and>
          (case r of Inl e \<Rightarrow> IsNotFound e \<longrightarrow> map_of (fld (snap w)) k = None
                   | Inr o' \<Rightarrow> map_of (fld (snap w)) k = Some o')) w)"

definition list_law where
  "list_law snap fld K \<longleftrightarrow>
     (\<forall>ns w. wf_cluster (snap w) \<longrightarrow>
        wp (kube_List K ns) (\<lambda>r w'. snap w' = snap w \<and>
          (case r of Inl e \<Rightarrow> True
                   | Inr os \<Rightarrow> mset os = mset (map snd (filter (in_namespace ns \<circ> fst) (fld (snap w)))))) w)"

definition create_law where
  "create_law snap fld upd K \<longleftrightarrow>
     (\<forall>o' w. wf_cluster (snap w) \<longrightarrow>
        wp (kube_Create K o') (\<lambda>r w'. wf_cluster (snap w') \<and>
          (case r of
             Inl e \<Rightarrow> snap w' = snap w \<and> (IsAlreadyExists e \<longrightarrow> map_of (fld (snap w)) (obj_key o') \<noteq> None)
           | Inr n \<Rightarrow> map_of (fld (snap w)) (obj_key o') = None \<and>
               same_sent_meta (obj_meta n) (obj_meta o') \<and> obj_spec n = obj_spec o' \<and>
               om_deletionTimestamp (obj_meta n) = None \<and>
               snap w' = upd (AList.update (obj_key o') n) (snap w))) w)"

text \<open>An object that is being deleted may lose finalizers but not gain any: an update that adds one is
  refused as invalid.  The objects that the operator sends are valid otherwise.\<close>

definition adds_finalizer :: "('s, 't) kobj \<Rightarrow> ('s, 't) kobj \<Rightarrow> bool" where
  "adds_finalizer old x \<longleftrightarrow> om_deletionTimestamp (obj_meta old) \<noteq> None \<and>
     \<not> set (om_finalizers (obj_meta x)) \<subseteq> set (om_finalizers (obj_meta old))"

definition update_law where
  "update_law snap fld upd K \<longleftrightarrow>
     (\<forall>o' w. wf_cluster (snap w) \<longrightarrow>
        wp (kube_Update K o') (\<lambda>r w'. wf_cluster (snap w') \<and>
          (case r of
             Inl e \<Rightarrow> snap w' = snap w \<and> (IsNotFound e \<longrightarrow> map_of (fld (snap w)) (obj_key o') = None) \<and>
               (IsInvalid e \<longrightarrow> (\<exists>old. map_of (fld (snap w)) (obj_key o') = Some old \<and> adds_finalizer old o'))
           | Inr n \<Rightarrow> (\<exists>old. map_of (fld (snap w)) (obj_key o') = Some old \<and> \<not> adds_finalizer old o' \<and>
               same_sent_meta (obj_meta n) (obj_meta o') \<and>
               same_server_meta (obj_meta n) (obj_meta old) \<and> obj_type n = obj_type old \<and>
               obj_spec n = obj_spec o' \<and> obj_status n = obj_status old) \<and>
               snap w' = upd (settle (obj_key o') n) (snap w))) w)"

definition status_update_law where
  "status_update_law snap fld upd K \<longleftrightarrow>
     (\<forall>o' w. wf_cluster (snap w) \<longrightarrow>
        wp (kube_StatusUpdate K o') (\<lambda>r w'. wf_cluster (snap w') \<and>
          (case r of
             Inl e \<Rightarrow> snap w' = snap w \<and> (IsNotFound e \<longrightarrow> map_of (fld (snap w)) (obj_key o') = None)
           | Inr n \<Rightarrow> (\<exists>old. map_of (fld (snap w)) (obj_key o') = Some old \<and>
               same_sent_meta (obj_meta n) (obj_meta old) \<and>
               same_server_meta (obj_meta n) (obj_meta old) \<and> obj_type n = obj_type old \<and>
               obj_spec n = obj_spec old \<and> obj_status n = obj_status o') \<and>
               snap w' = upd (AList.update (obj_key o') n) (snap w))) w)"

text \<open>
  Delete removes an object that has no finalizers; an object that has some is marked, that is
  its deletion timestamp is set.
\<close>

definition delete_law where
  "delete_law snap fld upd K \<longleftrightarrow>
     (\<forall>o' w. wf_cluster (snap w) \<longrightarrow>
        wp (kube_Delete K o') (\<lambda>r w'. wf_cluster (snap w') \<and>
          (case r of
             Some e \<Rightarrow> snap w' = snap w \<and> (IsNotFound e \<longrightarrow> map_of (fld (snap w)) (obj_key o') = None)
           | None \<Rightarrow> (\<exists>old t. map_of (fld (snap w)) (obj_key o') = Some old \<and>
               snap w' = upd (settle (obj_key o')
                 (old\<lparr>obj_meta := (obj_meta old)\<lparr>om_deletionTimestamp := Some t\<rparr>\<rparr>)) (snap w)))) w)"

definition kube_laws where
  "kube_laws snap fld upd K \<longleftrightarrow>
     get_law snap fld K \<and> list_law snap fld K \<and> create_law snap fld upd K \<and>
     update_law snap fld upd K \<and> status_update_law snap fld upd K \<and> delete_law snap fld upd K"

text \<open>A server that answers every request: the only errors are the ones the stored objects
  call for.\<close>

definition kube_reliable where
  "kube_reliable K \<longleftrightarrow>
     (\<forall>k w. wp (kube_Get K k) (\<lambda>r w'. \<forall>e. r = Inl e \<longrightarrow> IsNotFound e) w) \<and>
     (\<forall>ns w. wp (kube_List K ns) (\<lambda>r w'. \<exists>os. r = Inr os) w) \<and>
     (\<forall>o' w. wp (kube_Create K o') (\<lambda>r w'. \<forall>e. r = Inl e \<longrightarrow> IsAlreadyExists e) w) \<and>
     (\<forall>o' w. wp (kube_Update K o') (\<lambda>r w'. \<forall>e. r = Inl e \<longrightarrow> IsNotFound e \<or> IsInvalid e) w) \<and>
     (\<forall>o' w. wp (kube_StatusUpdate K o') (\<lambda>r w'. \<forall>e. r = Inl e \<longrightarrow> IsNotFound e) w) \<and>
     (\<forall>o' w. wp (kube_Delete K o') (\<lambda>r w'. \<forall>e. r = Some e \<longrightarrow> IsNotFound e) w)"

section \<open>The environment of the operator\<close>

text \<open>
  Third-party library functions: the sorted contents of \<open>sets.String\<close>, \<open>metav1.NewControllerRef\<close>,
  \<open>meta.FindStatusCondition\<close>, the decimals of gopkg.in/inf.v0 (an unscaled value and a scale),
  hashicorp/go-version, and Prometheus' duration parser.
\<close>

record dec =
  dec_unscaled :: int
  dec_scale :: int

type_synonym version = "int list"

record Libs =
  sets_List :: "string set \<Rightarrow> string list"
  NewControllerRef :: "ObjectMeta \<Rightarrow> TypeMeta \<Rightarrow> OwnerReference"
  FindStatusCondition :: "Condition list \<Rightarrow> string \<Rightarrow> Condition option"
  dec_SetString :: "string \<Rightarrow> dec option"
  dec_NewDec :: "int \<Rightarrow> int \<Rightarrow> dec"
  dec_Cmp :: "dec \<Rightarrow> dec \<Rightarrow> int"
  dec_Mul :: "dec \<Rightarrow> dec \<Rightarrow> dec"
  dec_String :: "dec \<Rightarrow> string"
  NewVersion :: "string \<Rightarrow> version option"
  GreaterThanOrEqual :: "version \<Rightarrow> version \<Rightarrow> bool"
  prometheus_ParseDuration :: "string \<Rightarrow> int"

definition sets_ok :: "Libs \<Rightarrow> bool" where
  "sets_ok L \<longleftrightarrow> (\<forall>S. finite S \<longrightarrow> set (sets_List L S) = S \<and> distinct (sets_List L S))"

record 'w Env =
  libs :: Libs
  rm_api :: "(RouteMonitorSpec, RouteMonitorStatus, 'w) kube"
  cum_api :: "(ClusterUrlMonitorSpec, ClusterUrlMonitorStatus, 'w) kube"
  route_api :: "(RouteSpec, RouteIngress, 'w) kube"
  sm_api :: "(ServiceMonitorSpec, unit, 'w) kube"
  rsm_api :: "(ServiceMonitorSpec, unit, 'w) kube"
  pr_api :: "(RuleGroup list, unit, 'w) kube"
  dep_api :: "(DeploymentSpec, unit, 'w) kube"
  svc_api :: "(ServiceSpec, unit, 'w) kube"
  cm_api :: "(string_map, unit, 'w) kube"
  sec_api :: "(string_map, unit, 'w) kube"
  hcp_api :: "(HostedControlPlaneSpec, HostedControlPlaneStatus, 'w) kube"
  hc_api :: "(string, unit, 'w) kube"
  vpce_api :: "(unit, string, 'w) kube"
  cv_api :: "(string, string, 'w) kube"
  inf_api :: "(unit, InfrastructureStatus, 'w) kube"
  ic_api :: "(unit, LoadBalancerStrategy option option, 'w) kube"
  crd_api :: "(unit, unit, 'w) kube"

definition api_laws :: "'w Env \<Rightarrow> ('w \<Rightarrow> cluster) \<Rightarrow> bool" where
  "api_laws E snap \<longleftrightarrow>
     (kube_laws snap c_rm c_rm_update (rm_api E) \<and>
      kube_laws snap c_cum c_cum_update (cum_api E) \<and>
      kube_laws snap c_route c_route_update (route_api E) \<and>
      kube_laws snap c_sm c_sm_update (sm_api E) \<and>
      kube_laws snap c_rsm c_rsm_update (rsm_api E) \<and>
      kube_laws snap c_pr c_pr_update (pr_api E) \<and>
      kube_laws snap c_dep c_dep_update (dep_api E) \<and>
      kube_laws snap c_svc c_svc_update (svc_api E) \<and>
      kube_laws snap c_cm c_cm_update (cm_api E) \<and>
      kube_laws snap c_sec c_sec_update (sec_api E) \<and>
      kube_laws snap c_hcp c_hcp_update (hcp_api E) \<and>
      kube_laws snap c_hc c_hc_update (hc_api E) \<and>
      kube_laws snap c_vpce c_vpce_update (vpce_api E) \<and>
      kube_laws snap c_cv c_cv_update (cv_api E) \<and>
      kube_laws snap c_inf c_inf_update (inf_api E) \<and>
      kube_laws snap c_ic c_ic_update (ic_api E) \<and>
      kube_laws snap c_crd c_crd_update (crd_api E))"

definition api_reliable :: "'w Env \<Rightarrow> bool" where
  "api_reliable E \<longleftrightarrow>
     (kube_reliable (rm_api E) \<and>
      kube_reliable (cum_api E) \<and>
      kube_reliable (route_api E) \<and>
      kube_reliable (sm_api E) \<and>
      kube_reliable (rsm_api E) \<and>
      kube_reliable (pr_api E) \<and>
      kube_reliable (dep_api E) \<and>
      kube_reliable (svc_api E) \<and>
      kube_reliable (cm_api E) \<and>
      kube_reliable (sec_api E) \<and>
      kube_reliable (hcp_api E) \<and>
      kube_reliable (hc_api E) \<and>
      kube_reliable (vpce_api E) \<and>
      kube_reliable (cv_api E) \<and>
      kube_reliable (inf_api E) \<and>
      kube_reliable (ic_api E) \<and>
      kube_reliable (crd_api E))"

definition ok_world :: "'w Env \<Rightarrow> ('w \<Rightarrow> cluster) \<Rightarrow> 'w \<Rightarrow> bool" where
  "ok_world E snap w \<longleftrightarrow> api_laws E snap \<and> sets_ok (libs E) \<and> wf_cluster (snap w)"

section \<open>Proof rules for the calls\<close>

lemma wf_cluster_stores:
  "wf_cluster c \<Longrightarrow> wf_store (c_rm c)"
  "wf_cluster c \<Longrightarrow> wf_store (c_cum c)"
  "wf_cluster c \<Longrightarrow> wf_store (c_route c)"
  "wf_cluster c \<Longrightarrow> wf_store (c_sm c)"
  "wf_cluster c \<Longrightarrow> wf_store (c_rsm c)"
  "wf_cluster c \<Longrightarrow> wf_store (c_pr c)"
  "wf_cluster c \<Longrightarrow> wf_store (c_dep c)"
  "wf_cluster c \<Longrightarrow> wf_store (c_svc c)"
  "wf_cluster c \<Longrightarrow> wf_store (c_cm c)"
  "wf_cluster c \<Longrightarrow> wf_store (c_sec c)"
  "wf_cluster c \<Longrightarrow> wf_store (c_hcp c)"
  "wf_cluster c \<Longrightarrow> wf_store (c_hc c)"
  "wf_cluster c \<Longrightarrow> wf_store (c_vpce c)"
  "wf_cluster c \<Longrightarrow> wf_store (c_cv c)"
  "wf_cluster c \<Longrightarrow> wf_store (c_inf c)"
  "wf_cluster c \<Longrightarrow> wf_store (c_ic c)"
  "wf_cluster c \<Longrightarrow> wf_store (c_crd c)"
  by (simp_all add: wf_cluster_def)

lemma ok_world_laws:
  "ok_world E snap w \<Longrightarrow> kube_laws snap c_rm c_rm_update (rm_api E)"
  "ok_world E snap w \<Longrightarrow> kube_laws snap c_cum c_cum_update (cum_api E)"
  "ok_world E snap w \<Longrightarrow> kube_laws snap c_route c_route_update (route_api E)"
  "ok_world E snap w \<Longrightarrow> kube_laws snap c_sm c_sm_update (sm_api E)"
  "ok_world E snap w \<Longrightarrow> kube_laws snap c_rsm c_rsm_update (rsm_api E)"
  "ok_world E snap w \<Longrightarrow> kube_laws snap c_pr c_pr_update (pr_api E)"
  "ok_world E snap w \<Longrightarrow> kube_laws snap c_dep c_dep_update (dep_api E)"
  "ok_world E snap w \<Longrightarrow> kube_laws snap c_svc c_svc_update (svc_api E)"
  "ok_world E snap w \<Longrightarrow> kube_laws snap c_cm c_cm_update (cm_api E)"
  "ok_world E snap w \<Longrightarrow> kube_laws snap c_sec c_sec_update (sec_api E)"
  "ok_world E snap w \<Longrightarrow> kube_laws snap c_hcp c_hcp_update (hcp_api E)"
  "ok_world E snap w \<Longrightarrow> kube_laws snap c_hc c_hc_update (hc_api E)"
  "ok_world E snap w \<Longrightarrow> kube_laws snap c_vpce c_vpce_update (vpce_api E)"
  "ok_world E snap w \<Longrightarrow> kube_laws snap c_cv c_cv_update (cv_api E)"
  "ok_world E snap w \<Longrightarrow> kube_laws snap c_inf c_inf_update (inf_api E)"
  "ok_world E snap w \<Longrightarrow> kube_laws snap c_ic c_ic_update (ic_api E)"
  "ok_world E snap w \<Longrightarrow> kube_laws snap c_crd c_crd_update (crd_api E)"
  by (simp_all add: ok_world_def api_laws_def)

lemma api_reliable_kinds:
  "api_reliable E \<Longrightarrow> kube_reliable (rm_api E)"
  "api_reliable E \<Longrightarrow> kube_reliable (cum_api E)"
  "api_reliable E \<Longrightarrow> kube_reliable (route_api E)"
  "api_reliable E \<Longrightarrow> kube_reliable (sm_api E)"
  "api_reliable E \<Longrightarrow> kube_reliable (rsm_api E)"
  "api_reliable E \<Longrightarrow> kube_reliable (pr_api E)"
  "api_reliable E \<Longrightarrow> kube_reliable (dep_api E)"
  "api_reliable E \<Longrightarrow> kube_reliable (svc_api E)"
  "api_reliable E \<Longrightarrow> kube_reliable (cm_api E)"
  "api_reliable E \<Longrightarrow> kube_reliable (sec_api E)"
  "api_reliable E \<Longrightarrow> kube_reliable (hcp_api E)"
  "api_reliable E \<Longrightarrow> kube_reliable (hc_api E)"
  "api_reliable E \<Longrightarrow> kube_reliable (vpce_api E)"
  "api_reliable E \<Longrightarrow> kube_reliable (cv_api E)"
  "api_reliable E \<Longrightarrow> kube_reliable (inf_api E)"
  "api_reliable E \<Longrightarrow> kube_reliable (ic_api E)"
  "api_reliable E \<Longrightarrow> kube_reliable (crd_api E)"
  by (simp_all add: api_reliable_def)

lemma ok_world_wf: "ok_world E snap w \<Longrightarrow> wf_cluster (snap w)"
  by (simp add: ok_world_def)

lemma ok_world_cong: "ok_world E snap w \<Longrightarrow> snap w' = snap w \<Longrightarrow> ok_world E snap w'"
  by (simp add: ok_world_def)

text \<open>
  One rule per call: the goal after the call splits into what is known when it failed and what
  is known when it succeeded.
\<close>

lemma wp_Get:
  assumes ok: "ok_world E snap w" and laws: "kube_laws snap fld upd K"
    and err: "\<And>e w'. ok_world E snap w' \<Longrightarrow> snap w' = snap w \<Longrightarrow>
      (IsNotFound e \<Longrightarrow> map_of (fld (snap w)) k = None) \<Longrightarrow> Q (Inl e) w'"
    and found: "\<And>x w'. ok_world E snap w' \<Longrightarrow> snap w' = snap w \<Longrightarrow>
      map_of (fld (snap w)) k = Some x \<Longrightarrow> Q (Inr x) w'"
  shows "wp (kube_Get K k) Q w"
proof (rule wp_mono)
  show "wp (kube_Get K k) (\<lambda>r w'. snap w' = snap w \<and>
      (case r of Inl e \<Rightarrow> IsNotFound e \<longrightarrow> map_of (fld (snap w)) k = None
               | Inr x \<Rightarrow> map_of (fld (snap w)) k = Some x)) w"
    using laws ok_world_wf [OF ok] by (simp add: kube_laws_def get_law_def)
next
  fix r w'
  assume "snap w' = snap w \<and>
      (case r of Inl e \<Rightarrow> IsNotFound e \<longrightarrow> map_of (fld (snap w)) k = None
               | Inr x \<Rightarrow> map_of (fld (snap w)) k = Some x)"
  then show "Q r w'"
    using err found ok_world_cong [OF ok] by (cases r) auto
qed

lemma wp_List:
  assumes ok: "ok_world E snap w" and laws: "kube_laws snap fld upd K"
    and err: "\<And>e w'. ok_world E snap w' \<Longrightarrow> snap w' = snap w \<Longrightarrow> Q (Inl e) w'"
    and found: "\<And>os w'. ok_world E snap w' \<Longrightarrow> snap w' = snap w \<Longrightarrow>
      mset os = mset (map snd (filter (in_namespace ns \<circ> fst) (fld (snap w)))) \<Longrightarrow> Q (Inr os) w'"
  shows "wp (kube_List K ns) Q w"
proof (rule wp_mono)
  show "wp (kube_List K ns) (\<lambda>r w'. snap w' = snap w \<and>
      (case r of Inl e \<Rightarrow> True
         | Inr os \<Rightarrow> mset os = mset (map snd (filter (in_namespace ns \<circ> fst) (fld (snap w)))))) w"
    using laws ok_world_wf [OF ok] by (simp add: kube_laws_def list_law_def)
next
  fix r :: "go_error + _" and w'
  assume "snap w' = snap w \<and>
      (case r of Inl e \<Rightarrow> True
         | Inr os \<Rightarrow> mset os = mset (map snd (filter (in_namespace ns \<circ> fst) (fld (snap w)))))"
  then show "Q r w'"
    using err found ok_world_cong [OF ok] by (cases r) auto
qed

lemma wp_Create:
  assumes ok: "ok_world E snap w" and laws: "kube_laws snap fld upd K"
    and err: "\<And>e w'. ok_world E snap w' \<Longrightarrow> snap w' = snap w \<Longrightarrow>
      (IsAlreadyExists e \<Longrightarrow> map_of (fld (snap w)) (obj_key x) \<noteq> None) \<Longrightarrow> Q (Inl e) w'"
    and created: "\<And>n w'. ok_world E snap w' \<Longrightarrow> map_of (fld (snap w)) (obj_key x) = None \<Longrightarrow>
      same_sent_meta (obj_meta n) (obj_meta x) \<Longrightarrow> obj_spec n = obj_spec x \<Longrightarrow>
      om_deletionTimestamp (obj_meta n) = None \<Longrightarrow>
      snap w' = upd (AList.update (obj_key x) n) (snap w) \<Longrightarrow> Q (Inr n) w'"
  shows "wp (kube_Create K x) Q w"
proof (rule wp_mono)
  show "wp (kube_Create K x) (\<lambda>r w'. wf_cluster (snap w') \<and>
          (case r of
             Inl e \<Rightarrow> snap w' = snap w \<and> (IsAlreadyExists e \<longrightarrow> map_of (fld (snap w)) (obj_key x) \<noteq> None)
           | Inr n \<Rightarrow> map_of (fld (snap w)) (obj_key x) = None \<and>
               same_sent_meta (obj_meta n) (obj_meta x) \<and> obj_spec n = obj_spec x \<and>
               om_deletionTimestamp (obj_meta n) = None \<and>
               snap w' = upd (AList.update (obj_key x) n) (snap w))) w"
    using laws ok_world_wf [OF ok] by (simp add: kube_laws_def create_law_def)
next
  fix r w'
  assume *: "wf_cluster (snap w') \<and>
          (case r of
             Inl e \<Rightarrow> snap w' = snap w \<and> (IsAlreadyExists e \<longrightarrow> map_of (fld (snap w)) (obj_key x) \<noteq> None)
           | Inr n \<Rightarrow> map_of (fld (snap w)) (obj_key x) = None \<and>
               same_sent_meta (obj_meta n) (obj_meta x) \<and> obj_spec n = obj_spec x \<and>
               om_deletionTimestamp (obj_meta n) = None \<and>
               snap w' = upd (AList.update (obj_key x) n) (snap w))"
  then have "ok_world E snap w'" using ok by (simp add: ok_world_def)
  with * show "Q r w'" using err created by (cases r) auto
qed

lemma wp_Update:
  assumes ok: "ok_world E snap w" and laws: "kube_laws snap fld upd K"
    and err: "\<And>e w'. ok_world E snap w' \<Longrightarrow> snap w' = snap w \<Longrightarrow>
      (IsNotFound e \<Longrightarrow> map_of (fld (snap w)) (obj_key x) = None) \<Longrightarrow>
      (IsInvalid e \<Longrightarrow> \<exists>old. map_of (fld (snap w)) (obj_key x) = Some old \<and> adds_finalizer old x) \<Longrightarrow> Q (Inl e) w'"
    and updated: "\<And>n w' old. ok_world E snap w' \<Longrightarrow> map_of (fld (snap w)) (obj_key x) = Some old \<Longrightarrow>
      same_sent_meta (obj_meta n) (obj_meta x) \<Longrightarrow> same_server_meta (obj_meta n) (obj_meta old) \<Longrightarrow>
      obj_type n = obj_type old \<Longrightarrow> obj_spec n = obj_spec x \<Longrightarrow> obj_status n = obj_status old \<Longrightarrow>
      snap w' = upd (settle (obj_key x) n) (snap w) \<Longrightarrow> \<not> adds_finalizer old x \<Longrightarrow> Q (Inr n) w'"
  shows "wp (kube_Update K x) Q w"
proof -
  have "wp (kube_Update K x) (\<lambda>r w'. wf_cluster (snap w') \<and>
          (case r of
             Inl e \<Rightarrow> snap w' = snap w \<and> (IsNotFound e \<longrightarrow> map_of (fld (snap w)) (obj_key x) = None) \<and>
               (IsInvalid e \<longrightarrow> (\<exists>old. map_of (fld (snap w)) (obj_key x) = Some old \<and> adds_finalizer old x))
           | Inr n \<Rightarrow> (\<exists>old. map_of (fld (snap w)) (obj_key x) = Some old \<and> \<not> adds_finalizer old x \<and>
               same_sent_meta (obj_meta n) (obj_meta x) \<and>
               same_server_meta (obj_meta n) (obj_meta old) \<and> obj_type n = obj_type old \<and>
               obj_spec n = obj_spec x \<and> obj_status n = obj_status old) \<and>
               snap w' = upd (settle (obj_key x) n) (snap w))) w"
    using laws ok_world_wf [OF ok] by (simp add: kube_laws_def update_law_def)
  then show ?thesis
  proof (rule wp_mono, goal_cases)
    case (1 r w')
    then have "ok_world E snap w'" using ok by (simp add: ok_world_def)
    with 1 show ?case using err updated by (cases r) auto
  qed
qed

lemma wp_StatusUpdate:
  assumes ok: "ok_world E snap w" and laws: "kube_laws snap fld upd K"
    and err: "\<And>e w'. ok_world E snap w' \<Longrightarrow> snap w' = snap w \<Longrightarrow>
      (IsNotFound e \<Longrightarrow> map_of (fld (snap w)) (obj_key x) = None) \<Longrightarrow> Q (Inl e) w'"
    and updated: "\<And>n w' old. ok_world E snap w' \<Longrightarrow> map_of (fld (snap w)) (obj_key x) = Some old \<Longrightarrow>
      same_sent_meta (obj_meta n) (obj_meta old) \<Longrightarrow> same_server_meta (obj_meta n) (obj_meta old) \<Longrightarrow>
      obj_type n = obj_type old \<Longrightarrow> obj_spec n = obj_spec old \<Longrightarrow> obj_status n = obj_status x \<Longrightarrow>
      snap w' = upd (AList.update (obj_key x) n) (snap w) \<Longrightarrow> Q (Inr n) w'"
  shows "wp (kube_StatusUpdate K x) Q w"
proof (rule wp_mono)
  show "wp (kube_StatusUpdate K x) (\<lambda>r w'. wf_cluster (snap w') \<and>
          (case r of
             Inl e \<Rightarrow> snap w' = snap w \<and> (IsNotFound e \<longrightarrow> map_of (fld (snap w)) (obj_key x) = None)
           | Inr n \<Rightarrow> (\<exists>old. map_of (fld (snap w)) (obj_key x) = Some old \<and>
               same_sent_meta (obj_meta n) (obj_meta old) \<and>
               same_server_meta (obj_meta n) (obj_meta old) \<and> obj_type n = obj_type old \<and>
               obj_spec n = obj_spec old \<and> obj_status n = obj_status x) \<and>
               snap w' = upd (AList.update (obj_key x) n) (snap w))) w"
    using laws ok_world_wf [OF ok] by (simp add: kube_laws_def status_update_law_def)
next
  fix r w'
  assume *: "wf_cluster (snap w') \<and>
          (case r of
             Inl e \<Rightarrow> snap w' = snap w \<and> (IsNotFound e \<longrightarrow> map_of (fld (snap w)) (obj_key x) = None)
           | Inr n \<Rightarrow> (\<exists>old. map_of (fld (snap w)) (obj_key x) = Some old \<and>
               same_sent_meta (obj_meta n) (obj_meta old) \<and>
               same_server_meta (obj_meta n) (obj_meta old) \<and> obj_type n = obj_type old \<and>
               obj_spec n = obj_spec old \<and> obj_status n = obj_status x) \<and>
               snap w' = upd (AList.update (obj_key x) n) (snap w))"
  then have "ok_world E snap w'" using ok by (simp add: ok_world_def)
  with * show "Q r w'" using err updated by (cases r) auto
qed

lemma wp_Delete:
  assumes ok: "ok_world E snap w" and laws: "kube_laws snap fld upd K"
    and err: "\<And>e w'. ok_world E snap w' \<Longrightarrow> snap w' = snap w \<Longrightarrow>
      (IsNotFound e \<Longrightarrow> map_of (fld (snap w)) (obj_key x) = None) \<Longrightarrow> Q (Some e) w'"
    and deleted: "\<And>w' old t. ok_world E snap w' \<Longrightarrow> map_of (fld (snap w)) (obj_key x) = Some old \<Longrightarrow>
      snap w' = upd (settle (obj_key x)
        (old\<lparr>obj_meta := (obj_meta old)\<lparr>om_deletionTimestamp := Some t\<rparr>\<rparr>)) (snap w) \<Longrightarrow> Q None w'"
  shows "wp (kube_Delete K x) Q w"
proof (rule wp_mono)
  show "wp (kube_Delete K x) (\<lambda>r w'. wf_cluster (snap w') \<and>
          (case r of
             Some e \<Rightarrow> snap w' = snap w \<and> (IsNotFound e \<longrightarrow> map_of (fld (snap w)) (obj_key x) = None)
           | None \<Rightarrow> (\<exists>old t. map_of (fld (snap w)) (obj_key x) = Some old \<and>
               snap w' = upd (settle (obj_key x)
                 (old\<lparr>obj_meta := (obj_meta old)\<lparr>om_deletionTimestamp := Some t\<rparr>\<rparr>)) (snap w)))) w"
    using laws ok_world_wf [OF ok] by (simp add: kube_laws_def delete_law_def)
next
  fix r w'
  assume *: "wf_cluster (snap w') \<and>
          (case r of
             Some e \<Rightarrow> snap w' = snap w \<and> (IsNotFound e \<longrightarrow> map_of (fld (snap w)) (obj_key x) = None)
           | None \<Rightarrow> (\<exists>old t. map_of (fld (snap w)) (obj_key x) = Some old \<and>
               snap w' = upd (settle (obj_key x)
                 (old\<lparr>obj_meta := (obj_meta old)\<lparr>om_deletionTimestamp := Some t\<rparr>\<rparr>)) (snap w)))"
  then have "ok_world E snap w'" using ok by (simp add: ok_world_def)
  with * show "Q r w'" using err deleted by (cases r) auto
qed

text \<open>The same rules for a reliable server, whose errors are those the stored objects call for.\<close>

lemma wp_Get_reliable:
  assumes "ok_world E snap w" "kube_laws snap fld upd K" "kube_reliable K"
    and "\<And>e w'. ok_world E snap w' \<Longrightarrow> snap w' = snap w \<Longrightarrow> IsNotFound e \<Longrightarrow>
      map_of (fld (snap w)) k = None \<Longrightarrow> Q (Inl e) w'"
    and "\<And>x w'. ok_world E snap w' \<Longrightarrow> snap w' = snap w \<Longrightarrow>
      map_of (fld (snap w)) k = Some x \<Longrightarrow> Q (Inr x) w'"
  shows "wp (kube_Get K k) Q w"
proof (rule wp_mono [OF wp_conj])
  show "wp (kube_Get K k) (\<lambda>r w'. \<forall>e. r = Inl e \<longrightarrow> IsNotFound e) w"
    using assms(3) by (simp add: kube_reliable_def)
  show "wp (kube_Get K k) (\<lambda>r w'. ok_world E snap w' \<and> snap w' = snap w \<and>
     (case r of Inl e \<Rightarrow> IsNotFound e \<longrightarrow> map_of (fld (snap w)) k = None
              | Inr x \<Rightarrow> map_of (fld (snap w)) k = Some x)) w"
    by (rule wp_Get [OF assms(1,2)]) auto
next
  fix r w'
  assume "(\<forall>e. r = Inl e \<longrightarrow> IsNotFound e) \<and> ok_world E snap w' \<and> snap w' = snap w \<and>
     (case r of Inl e \<Rightarrow> IsNotFound e \<longrightarrow> map_of (fld (snap w)) k = None
              | Inr x \<Rightarrow> map_of (fld (snap w)) k = Some x)"
  then show "Q r w'" using assms(4,5) by (cases r) auto
qed

lemma wp_Update_reliable:
  assumes "ok_world E snap w" "kube_laws snap fld upd K" "kube_reliable K"
    and "map_of (fld (snap w)) (obj_key x) = Some old" "\<not> adds_finalizer old x"
  shows "wp (kube_Update K x) (\<lambda>r _. \<exists>n. r = Inr n) w"
proof (rule wp_mono [OF wp_conj])
  show "wp (kube_Update K x) (\<lambda>r w'. \<forall>e. r = Inl e \<longrightarrow> IsNotFound e \<or> IsInvalid e) w"
    using assms(3) by (simp add: kube_reliable_def)
  show "wp (kube_Update K x) (\<lambda>r w'. \<forall>e. r = Inl e \<longrightarrow> \<not> IsNotFound e \<and> \<not> IsInvalid e) w"
    by (rule wp_Update [OF assms(1,2)]) (use assms(4,5) in auto)
next
  fix r w'
  assume "(\<forall>e. r = Inl e \<longrightarrow> IsNotFound e \<or> IsInvalid e) \<and> (\<forall>e. r = Inl e \<longrightarrow> \<not> IsNotFound e \<and> \<not> IsInvalid e)"
  then show "\<exists>n. r = Inr n" by (cases r) auto
qed

end
