(* ===== verification/Kube_Patterns.thy ===== *)
theory Kube_Patterns
  imports Kube_Client
begin

text \<open>
  Two call patterns that recur in the operator, stated once for any kind: create an object or
  bring its spec in line with a template, and delete an object if it exists.  The components
  spell them out as their source does; each is shown equal to the pattern and takes over its rules.
\<close>

section \<open>Stores of one kind inside the cluster\<close>

definition lens :: "('c \<Rightarrow> 'a) \<Rightarrow> (('a \<Rightarrow> 'a) \<Rightarrow> 'c \<Rightarrow> 'c) \<Rightarrow> bool" where
  "lens fld upd \<longleftrightarrow>
     (\<forall>f c. fld (upd f c) = f (fld c)) \<and> (\<forall>f c. upd f c = upd (\<lambda>_. f (fld c)) c) \<and>
     (\<forall>x y c. upd (\<lambda>_. x) (upd (\<lambda>_. y) c) = upd (\<lambda>_. x) c) \<and> (\<forall>c. upd (\<lambda>_. fld c) c = c)"

lemma cluster_lenses:
  "lens c_rm c_rm_update" "lens c_cum c_cum_update" "lens c_route c_route_update"
  "lens c_sm c_sm_update" "lens c_rsm c_rsm_update" "lens c_pr c_pr_update"
  "lens c_dep c_dep_update" "lens c_svc c_svc_update" "lens c_cm c_cm_update"
  "lens c_hcp c_hcp_update"
  by (simp_all add: lens_def)

text \<open>\<open>changes_only fld upd k c d\<close>: the clusters \<open>c\<close> and \<open>d\<close> differ at most in the object \<open>k\<close> of
  one kind.\<close>

definition changes_only where
  "changes_only fld upd k c d \<longleftrightarrow>
     d = upd (\<lambda>_. fld d) c \<and> (\<forall>k'. k' \<noteq> k \<longrightarrow> map_of (fld d) k' = map_of (fld c) k')"

lemma changes_only_refl [simp]: "lens fld upd \<Longrightarrow> changes_only fld upd k c c"
  by (simp add: changes_only_def lens_def)

lemma map_of_update [simp]: "map_of (AList.update k x s) = (map_of s)(k \<mapsto> x)"
  by (rule update_conv')

lemma map_of_delete [simp]: "map_of (AList.delete k s) = (map_of s)(k := None)"
  by (rule delete_conv')

lemma map_of_settle:
  "map_of (settle k x s) = (map_of s)(k := (if live_or_held x then Some x else None))"
  by (simp add: settle_def)

lemma changes_only_upd:
  assumes "lens fld upd" and "\<And>k'. k' \<noteq> k \<Longrightarrow> map_of (f (fld c)) k' = map_of (fld c) k'"
  shows "changes_only fld upd k c (upd f c)"
  using assms unfolding changes_only_def lens_def by metis

lemma changes_only_trans:
  assumes "lens fld upd" "changes_only fld upd k c d" "changes_only fld upd k d e"
  shows "changes_only fld upd k c e"
  using assms unfolding changes_only_def lens_def by metis

lemma lens_get: "lens fld upd \<Longrightarrow> fld (upd f c) = f (fld c)"
  by (simp add: lens_def)

lemma wp_Get_ok:
  assumes "ok_world E snap w" "kube_laws snap fld upd K"
  shows "wp (kube_Get K k) (\<lambda>g w'. ok_world E snap w' \<and> snap w' = snap w \<and>
     (case g of Inl e \<Rightarrow> IsNotFound e \<longrightarrow> map_of (fld (snap w)) k = None
              | Inr x \<Rightarrow> map_of (fld (snap w)) k = Some x)) w"
  by (rule wp_Get [OF assms]) simp_all

text \<open>A stored object is read, unless the server fails.\<close>

lemma wp_Get_stored:
  assumes "ok_world E snap w" "kube_laws snap fld upd K" "map_of (fld (snap w)) k = Some x"
  shows "wp (kube_Get K k) (\<lambda>g w'. ok_world E snap w' \<and> snap w' = snap w \<and>
     (case g of Inl e \<Rightarrow> \<not> kube_reliable K \<and> \<not> IsNotFound e | Inr y \<Rightarrow> y = x)) w"
proof (cases "kube_reliable K")
  case True
  show ?thesis by (rule wp_Get_reliable [OF assms(1,2) True]) (use assms(3) in auto)
next
  case False
  then show ?thesis by (intro wp_Get [OF assms(1,2)]) (use assms(3) in auto)
qed

lemma wp_List_reads:
  assumes "ok_world E snap w" "kube_laws snap fld upd K"
  shows "wp (kube_List K ns) (\<lambda>g w'. ok_world E snap w' \<and> snap w' = snap w) w"
  by (rule wp_List [OF assms]) simp_all

section \<open>Create or update\<close>

text \<open>\<open>prep\<close> is what is done to the fetched object before it is sent, apart from setting its
  spec: nothing, or clearing its resource version.\<close>

definition sends_same :: "(('s, 't) kobj \<Rightarrow> ('s, 't) kobj) \<Rightarrow> bool" where
  "sends_same prep \<longleftrightarrow>
     (\<forall>x. same_sent_meta (obj_meta (prep x)) (obj_meta x) \<and> obj_spec (prep x) = obj_spec x)"

lemma sends_same_id [simp]: "sends_same (\<lambda>x. x)"
  by (simp add: sends_same_def same_sent_meta_def)

lemma sends_same_key: "sends_same prep \<Longrightarrow> obj_key (prep x) = obj_key x"
  by (simp add: sends_same_def same_sent_meta_def obj_key_def)

definition upsert ::
    "('s, 't, 'w) kube \<Rightarrow> (('s, 't) kobj \<Rightarrow> ('s, 't) kobj) \<Rightarrow> ('s, 't) kobj
       \<Rightarrow> ('w, go_error option) io" where
  "upsert K prep t =
     do { r \<leftarrow> kube_Get K (obj_key t);
          (case r of
             Inl err \<Rightarrow>
               if \<not> IsNotFound err then ret (Some err)
               else do { c \<leftarrow> kube_Create K t; ret (err_of c) }
           | Inr d \<Rightarrow>
               if obj_spec d \<noteq> obj_spec t
               then do { u \<leftarrow> kube_Update K (prep (d\<lparr>obj_spec := obj_spec t\<rparr>)); ret (err_of u) }
               else ret None) }"

definition upserted where
  "upserted fld upd t r c d \<longleftrightarrow>
     (case r of
        Some e \<Rightarrow> d = c
      | None \<Rightarrow> changes_only fld upd (obj_key t) c d \<and>
          (\<exists>x. map_of (fld d) (obj_key t) = Some x \<and> obj_spec x = obj_spec t) \<and>
          ((\<exists>x. map_of (fld c) (obj_key t) = Some x \<and> obj_spec x = obj_spec t) \<longrightarrow> d = c))"

lemma obj_key_spec [simp]: "obj_key (x\<lparr>obj_spec := s\<rparr>) = obj_key x"
  by (simp add: obj_key_def)

lemma live_or_held_same:
  assumes "live_or_held old" "om_finalizers (obj_meta n) = om_finalizers (obj_meta old)"
    and "om_deletionTimestamp (obj_meta n) = om_deletionTimestamp (obj_meta old)"
  shows "live_or_held n"
  using assms by (simp add: live_or_held_def)

lemma wp_upsert:
  assumes ok: "ok_world E snap w" and laws: "kube_laws snap fld upd K" and lens: "lens fld upd"
    and wf: "\<And>c. wf_cluster c \<Longrightarrow> wf_store (fld c)" and prep: "sends_same prep"
  shows "wp (upsert K prep t) (\<lambda>r w'. ok_world E snap w' \<and> upserted fld upd t r (snap w) (snap w')) w"
  unfolding upsert_def wp_simps
proof (rule wp_Get [OF ok laws])
  fix e w1
  assume w1: "ok_world E snap w1" "snap w1 = snap w"
    and nf: "IsNotFound e \<Longrightarrow> map_of (fld (snap w)) (obj_key t) = None"
  have "wp (kube_Create K t) (\<lambda>c w'. ok_world E snap w' \<and>
      upserted fld upd t (err_of c) (snap w) (snap w')) w1"
    by (rule wp_Create [OF w1(1) laws])
      (use w1 lens in \<open>auto simp: upserted_def lens_get intro!: changes_only_upd\<close>)
  then show "case Inl e of
      Inl e \<Rightarrow> if \<not> IsNotFound e
        then ok_world E snap w1 \<and> upserted fld upd t (Some e) (snap w) (snap w1)
        else wp (kube_Create K t) (\<lambda>c w'. ok_world E snap w' \<and>
               upserted fld upd t (err_of c) (snap w) (snap w')) w1
    | Inr d \<Rightarrow> if obj_spec d \<noteq> obj_spec t
        then wp (kube_Update K (prep (d\<lparr>obj_spec := obj_spec t\<rparr>))) (\<lambda>c w'. ok_world E snap w' \<and>
               upserted fld upd t (err_of c) (snap w) (snap w')) w1
        else ok_world E snap w1 \<and> upserted fld upd t None (snap w) (snap w1)"
    using w1 by (simp add: upserted_def)
next
  fix d w1
  assume w1: "ok_world E snap w1" "snap w1 = snap w"
    and d: "map_of (fld (snap w)) (obj_key t) = Some d"
  have wfs: "wf_store (fld (snap w))" using wf ok_world_wf [OF ok] .
  have key: "obj_key d = obj_key t" and held: "live_or_held d"
    using wf_store_key [OF wfs d] wf_store_live [OF wfs d] by simp_all
  have upd: "wp (kube_Update K (prep (d\<lparr>obj_spec := obj_spec t\<rparr>))) (\<lambda>c w'. ok_world E snap w' \<and>
      upserted fld upd t (err_of c) (snap w) (snap w')) w1" if ne: "obj_spec d \<noteq> obj_spec t"
  proof (rule wp_Update [OF w1(1) laws])
    fix n w' old
    assume w': "ok_world E snap w'"
      and old: "map_of (fld (snap w1)) (obj_key (prep (d\<lparr>obj_spec := obj_spec t\<rparr>))) = Some old"
      and meta: "same_sent_meta (obj_meta n) (obj_meta (prep (d\<lparr>obj_spec := obj_spec t\<rparr>)))"
        "same_server_meta (obj_meta n) (obj_meta old)"
      and spec: "obj_spec n = obj_spec (prep (d\<lparr>obj_spec := obj_spec t\<rparr>))"
      and snap': "snap w' = upd (settle (obj_key (prep (d\<lparr>obj_spec := obj_spec t\<rparr>))) n) (snap w1)"
    have "old = d" using old d key w1 by (simp add: sends_same_key [OF prep])
    then have "live_or_held n"
      using held meta prep
      by (simp add: live_or_held_def sends_same_def same_sent_meta_def same_server_meta_def)
    then show "ok_world E snap w' \<and> upserted fld upd t (err_of (Inr n)) (snap w) (snap w')"
      using w' snap' spec d key w1 lens ne prep
      by (auto simp: upserted_def lens_get map_of_settle sends_same_key sends_same_def
          intro!: changes_only_upd)
  qed (use w1 in \<open>simp add: upserted_def\<close>)
  show "case Inr d of
      Inl e \<Rightarrow> if \<not> IsNotFound e
        then ok_world E snap w1 \<and> upserted fld upd t (Some e) (snap w) (snap w1)
        else wp (kube_Create K t) (\<lambda>c w'. ok_world E snap w' \<and>
               upserted fld upd t (err_of c) (snap w) (snap w')) w1
    | Inr d \<Rightarrow> if obj_spec d \<noteq> obj_spec t
        then wp (kube_Update K (prep (d\<lparr>obj_spec := obj_spec t\<rparr>))) (\<lambda>c w'. ok_world E snap w' \<and>
               upserted fld upd t (err_of c) (snap w) (snap w')) w1
        else ok_world E snap w1 \<and> upserted fld upd t None (snap w) (snap w1)"
    using upd w1 d lens by (simp add: upserted_def)
qed

section \<open>Delete if present\<close>

definition ensure_absent :: "('s, 't, 'w) kube \<Rightarrow> NamespacedName \<Rightarrow> ('w, go_error option) io" where
  "ensure_absent K k =
     do { r \<leftarrow> kube_Get K k;
          (case r of
             Inl err \<Rightarrow> if \<not> IsNotFound err then ret (Some err) else ret None
           | Inr resource \<Rightarrow> kube_Delete K resource) }"

text \<open>Nothing is stored under the key, or what is stored there is being deleted.\<close>

definition gone where
  "gone fld k c \<longleftrightarrow>
     (\<forall>x. map_of (fld c) k = Some x \<longrightarrow> om_deletionTimestamp (obj_meta x) \<noteq> None)"

definition removed where
  "removed fld upd k r c d \<longleftrightarrow>
     (case r of
        Some e \<Rightarrow> d = c
      | None \<Rightarrow> changes_only fld upd k c d \<and> gone fld k d \<and>
          (map_of (fld c) k = None \<longrightarrow> d = c) \<and>
          (\<forall>x. map_of (fld c) k = Some x \<longrightarrow> om_finalizers (obj_meta x) = [] \<longrightarrow>
               map_of (fld d) k = None))"

lemma wp_ensure_absent:
  assumes ok: "ok_world E snap w" and laws: "kube_laws snap fld upd K" and lens: "lens fld upd"
    and wf: "\<And>c. wf_cluster c \<Longrightarrow> wf_store (fld c)"
  shows "wp (ensure_absent K k) (\<lambda>r w'. ok_world E snap w' \<and> removed fld upd k r (snap w) (snap w')) w"
  unfolding ensure_absent_def wp_simps
proof (rule wp_Get [OF ok laws])
  fix e w1
  assume w1: "ok_world E snap w1" "snap w1 = snap w"
    and nf: "IsNotFound e \<Longrightarrow> map_of (fld (snap w)) k = None"
  then show "case Inl e of
      Inl e \<Rightarrow> if \<not> IsNotFound e
        then ok_world E snap w1 \<and> removed fld upd k (Some e) (snap w) (snap w1)
        else ok_world E snap w1 \<and> removed fld upd k None (snap w) (snap w1)
    | Inr x \<Rightarrow> wp (kube_Delete K x) (\<lambda>r w'. ok_world E snap w' \<and>
               removed fld upd k r (snap w) (snap w')) w1"
    using lens by (simp add: removed_def gone_def)
next
  fix d w1
  assume w1: "ok_world E snap w1" "snap w1 = snap w" and d: "map_of (fld (snap w)) k = Some d"
  have key: "obj_key d = k" using wf_store_key [OF wf [OF ok_world_wf [OF ok]] d] .
  have "wp (kube_Delete K d) (\<lambda>r w'. ok_world E snap w' \<and>
               removed fld upd k r (snap w) (snap w')) w1"
    by (rule wp_Delete [OF w1(1) laws])
      (use w1 d key lens in
        \<open>auto simp: removed_def gone_def lens_get map_of_settle live_or_held_def
              intro!: changes_only_upd\<close>)
  then show "case Inr d of
      Inl e \<Rightarrow> if \<not> IsNotFound e
        then ok_world E snap w1 \<and> removed fld upd k (Some e) (snap w) (snap w1)
        else ok_world E snap w1 \<and> removed fld upd k None (snap w) (snap w1)
    | Inr x \<Rightarrow> wp (kube_Delete K x) (\<lambda>r w'. ok_world E snap w' \<and>
               removed fld upd k r (snap w) (snap w')) w1"
    by simp
qed

section \<open>Create if missing\<close>

definition ensure_exists :: "('s, 't, 'w) kube \<Rightarrow> ('s, 't) kobj \<Rightarrow> ('w, go_error option) io" where
  "ensure_exists K t =
     do { r \<leftarrow> kube_Get K (obj_key t);
          (case r of
             Inl err \<Rightarrow>
               if \<not> IsNotFound err then ret (Some err)
               else do { c \<leftarrow> kube_Create K t; ret (err_of c) }
           | Inr _ \<Rightarrow> ret None) }"

definition existing where
  "existing fld upd t r c d \<longleftrightarrow>
     (case r of
        Some e \<Rightarrow> d = c
      | None \<Rightarrow> changes_only fld upd (obj_key t) c d \<and>
          (\<exists>x. map_of (fld d) (obj_key t) = Some x \<and>
               (map_of (fld c) (obj_key t) = None \<longrightarrow> obj_spec x = obj_spec t)) \<and>
          (map_of (fld c) (obj_key t) \<noteq> None \<longrightarrow> d = c))"

lemma wp_ensure_exists:
  assumes ok: "ok_world E snap w" and laws: "kube_laws snap fld upd K" and lens: "lens fld upd"
  shows "wp (ensure_exists K t) (\<lambda>r w'. ok_world E snap w' \<and> existing fld upd t r (snap w) (snap w')) w"
  unfolding ensure_exists_def wp_simps
proof (rule wp_Get [OF ok laws])
  fix e w1
  assume w1: "ok_world E snap w1" "snap w1 = snap w"
    and nf: "IsNotFound e \<Longrightarrow> map_of (fld (snap w)) (obj_key t) = None"
  have "wp (kube_Create K t) (\<lambda>c w'. ok_world E snap w' \<and>
      existing fld upd t (err_of c) (snap w) (snap w')) w1"
    by (rule wp_Create [OF w1(1) laws])
      (use w1 lens in \<open>auto simp: existing_def lens_get intro!: changes_only_upd\<close>)
  then show "case Inl e of
      Inl e \<Rightarrow> if \<not> IsNotFound e
        then ok_world E snap w1 \<and> existing fld upd t (Some e) (snap w) (snap w1)
        else wp (kube_Create K t) (\<lambda>c w'. ok_world E snap w' \<and>
               existing fld upd t (err_of c) (snap w) (snap w')) w1
    | Inr d \<Rightarrow> ok_world E snap w1 \<and> existing fld upd t None (snap w) (snap w1)"
    using w1 by (simp add: existing_def)
qed (use lens in \<open>auto simp: existing_def\<close>)

section \<open>Reliable servers\<close>

lemma wp_upsert_reliable:
  assumes ok: "ok_world E snap w" and laws: "kube_laws snap fld upd K" and rel: "kube_reliable K"
    and wf: "\<And>c. wf_cluster c \<Longrightarrow> wf_store (fld c)" and prep: "sends_same prep"
  shows "wp (upsert K prep t) (\<lambda>r w'. r = None) w"
  unfolding upsert_def wp_simps
proof (rule wp_Get_reliable [OF ok laws rel])
  fix e w1
  assume w1: "ok_world E snap w1" "snap w1 = snap w" and "IsNotFound e"
    and none: "map_of (fld (snap w)) (obj_key t) = None"
  have "wp (kube_Create K t) (\<lambda>c w'. (\<forall>e. c = Inl e \<longrightarrow> IsAlreadyExists e) \<and>
      (\<forall>e. c = Inl e \<longrightarrow> \<not> IsAlreadyExists e)) w1"
    by (rule wp_conj, use rel in \<open>simp add: kube_reliable_def\<close>)
      (rule wp_Create [OF w1(1) laws], use w1 none in auto)
  then have "wp (kube_Create K t) (\<lambda>c w'. err_of c = None) w1"
    by (rule wp_mono) (auto simp: err_of_def split: sum.splits)
  then show "case Inl e of
      Inl e \<Rightarrow> if \<not> IsNotFound e then Some e = None
        else wp (kube_Create K t) (\<lambda>c w'. err_of c = None) w1
    | Inr d \<Rightarrow> if obj_spec d \<noteq> obj_spec t
        then wp (kube_Update K (prep (d\<lparr>obj_spec := obj_spec t\<rparr>))) (\<lambda>c w'. err_of c = None) w1
        else None = None"
    using \<open>IsNotFound e\<close> by simp
next
  fix d w1
  assume w1: "ok_world E snap w1" "snap w1 = snap w"
    and d: "map_of (fld (snap w)) (obj_key t) = Some d"
  have key: "obj_key d = obj_key t" using wf_store_key [OF wf [OF ok_world_wf [OF ok]] d] .
  have "\<not> adds_finalizer d (prep (d\<lparr>obj_spec := obj_spec t\<rparr>))"
    using prep by (simp add: sends_same_def same_sent_meta_def adds_finalizer_def)
  moreover have "map_of (fld (snap w1)) (obj_key (prep (d\<lparr>obj_spec := obj_spec t\<rparr>))) = Some d"
    using w1 d key by (simp add: sends_same_key [OF prep])
  ultimately have "wp (kube_Update K (prep (d\<lparr>obj_spec := obj_spec t\<rparr>))) (\<lambda>c w'. \<exists>n. c = Inr n) w1"
    by (intro wp_Update_reliable [OF w1(1) laws rel])
  then have "wp (kube_Update K (prep (d\<lparr>obj_spec := obj_spec t\<rparr>))) (\<lambda>c w'. err_of c = None) w1"
    by (rule wp_mono) (auto simp: err_of_def split: sum.splits)
  then show "case Inr d of
      Inl e \<Rightarrow> if \<not> IsNotFound e then Some e = None
        else wp (kube_Create K t) (\<lambda>c w'. err_of c = None) w1
    | Inr d \<Rightarrow> if obj_spec d \<noteq> obj_spec t
        then wp (kube_Update K (prep (d\<lparr>obj_spec := obj_spec t\<rparr>))) (\<lambda>c w'. err_of c = None) w1
        else None = None"
    by simp
qed

end
