(* ===== verification/Finalizers.thy ===== *)
theory Finalizers
  imports Kube_Client
begin

text \<open>
  pkg/util/finalizer and pkg/util/reconcile: the finalizer list of an object as a set with a
  sorted representation, and the two result types a reconcile step returns.
\<close>

section \<open>pkg/util/finalizer\<close>

fun Contains :: "string list \<Rightarrow> string \<Rightarrow> bool" where
  "Contains [] s = False"
| "Contains (v # vs) s = (if v = s then True else Contains vs s)"

definition Remove :: "Libs \<Rightarrow> ObjectMeta \<Rightarrow> string \<Rightarrow> ObjectMeta" where
  "Remove L o' finalizer =
     (let finalizers = set (om_finalizers o') - {finalizer}
      in o'\<lparr>om_finalizers := sets_List L finalizers\<rparr>)"

definition Add :: "Libs \<Rightarrow> ObjectMeta \<Rightarrow> string \<Rightarrow> ObjectMeta" where
  "Add L o' finalizer =
     (let finalizers = insert finalizer (set (om_finalizers o'))
      in o'\<lparr>om_finalizers := sets_List L finalizers\<rparr>)"

definition WasDeleteRequested :: "ObjectMeta \<Rightarrow> bool" where
  "WasDeleteRequested o' = (om_deletionTimestamp o' \<noteq> None)"

definition HasFinalizer :: "ObjectMeta \<Rightarrow> string \<Rightarrow> bool" where
  "HasFinalizer o' finalizerKey = Contains (om_finalizers o') finalizerKey"

lemma Contains_iff [simp]: "Contains xs s \<longleftrightarrow> s \<in> set xs"
  by (induction xs) auto

lemma HasFinalizer_iff: "HasFinalizer o' k \<longleftrightarrow> k \<in> set (om_finalizers o')"
  by (simp add: HasFinalizer_def)

lemma set_finalizers_Remove [simp]:
  "sets_ok L \<Longrightarrow> set (om_finalizers (Remove L o' k)) = set (om_finalizers o') - {k}"
  by (simp add: Remove_def sets_ok_def)

lemma set_finalizers_Add [simp]:
  "sets_ok L \<Longrightarrow> set (om_finalizers (Add L o' k)) = insert k (set (om_finalizers o'))"
  by (simp add: Add_def sets_ok_def)

lemma finalizers_frame [simp]:
  "om_name (Remove L o' k) = om_name o'" "om_namespace (Remove L o' k) = om_namespace o'"
  "om_name (Add L o' k) = om_name o'" "om_namespace (Add L o' k) = om_namespace o'"
  "om_deletionTimestamp (Add L o' k) = om_deletionTimestamp o'"
  "om_deletionTimestamp (Remove L o' k) = om_deletionTimestamp o'"
  "om_labels (Add L o' k) = om_labels o'" "om_labels (Remove L o' k) = om_labels o'"
  by (simp_all add: Remove_def Add_def Let_def)

text \<open>A finalizer that was added is there and one that was removed is not; the other finalizers
  of the object stay, none is listed twice, and the rest of the metadata is unchanged.\<close>

lemma finalizer_set_semantics:
  assumes "sets_ok L"
  shows "set (om_finalizers (Add L o' k)) = insert k (set (om_finalizers o')) \<and>
         set (om_finalizers (Remove L o' k)) = set (om_finalizers o') - {k} \<and>
         distinct (om_finalizers (Add L o' k)) \<and> distinct (om_finalizers (Remove L o' k)) \<and>
         (Add L o' k)\<lparr>om_finalizers := fs\<rparr> = o'\<lparr>om_finalizers := fs\<rparr> \<and>
         (Remove L o' k)\<lparr>om_finalizers := fs\<rparr> = o'\<lparr>om_finalizers := fs\<rparr>"
  using assms by (simp add: Add_def Remove_def sets_ok_def Let_def)

end
