(* ===== verification/Reconcile_Result.thy ===== *)
theory Reconcile_Result
  imports Go_Base
begin

text \<open>
  pkg/util/reconcile: the result of a reconcile step (\<open>Result\<close>), the result a controller hands
  to controller-runtime (\<open>CtrlResult\<close>), and the constructors of both.  Durations are nanoseconds.
\<close>

record Result =
  Requeue :: bool
  Continue :: bool
  RequeueAfter :: int

record CtrlResult =
  cr_Requeue :: bool
  cr_RequeueAfter :: int

definition RequeueOrStop :: "Result \<Rightarrow> bool" where
  "RequeueOrStop r = (Requeue r \<or> \<not> Continue r)"

definition ShouldStop :: "Result \<Rightarrow> bool" where
  "ShouldStop r = (\<not> Continue r)"

definition StopOperation :: Result where
  "StopOperation = \<lparr>Requeue = False, Continue = False, RequeueAfter = 0\<rparr>"

definition RequeueOperation :: Result where
  "RequeueOperation = \<lparr>Requeue = True, Continue = False, RequeueAfter = 0\<rparr>"

definition ContinueOperation :: Result where
  "ContinueOperation = \<lparr>Requeue = False, Continue = True, RequeueAfter = 0\<rparr>"

definition StopReconcile :: "Result \<times> go_error option" where
  "StopReconcile = (StopOperation, None)"

definition RequeueReconcile :: "Result \<times> go_error option" where
  "RequeueReconcile = (RequeueOperation, None)"

definition RequeueReconcileWith :: "go_error option \<Rightarrow> Result \<times> go_error option" where
  "RequeueReconcileWith errIn =
     (case errIn of
        Some e \<Rightarrow> (\<lparr>Requeue = True, Continue = False, RequeueAfter = 0\<rparr>, Some e)
      | None \<Rightarrow> (\<lparr>Requeue = False, Continue = False, RequeueAfter = 0\<rparr>, None))"

definition ContinueReconcile :: "Result \<times> go_error option" where
  "ContinueReconcile = (ContinueOperation, None)"

definition Convert :: "Result \<Rightarrow> CtrlResult" where
  "Convert r = \<lparr>cr_Requeue = Requeue r, cr_RequeueAfter = RequeueAfter r\<rparr>"

definition ReturnWith :: "Result \<Rightarrow> go_error option \<Rightarrow> CtrlResult \<times> go_error option" where
  "ReturnWith r err = (Convert r, err)"

definition Stop :: "CtrlResult \<times> go_error option" where
  "Stop = (\<lparr>cr_Requeue = False, cr_RequeueAfter = 0\<rparr>, None)"

definition RequeueWith :: "go_error option \<Rightarrow> CtrlResult \<times> go_error option" where
  "RequeueWith err = (\<lparr>cr_Requeue = False, cr_RequeueAfter = 0\<rparr>, err)"

definition Requeue_now :: "CtrlResult \<times> go_error option" where
  "Requeue_now = (\<lparr>cr_Requeue = True, cr_RequeueAfter = 0\<rparr>, None)"

definition Requeue_after :: "int \<Rightarrow> CtrlResult" where
  "Requeue_after d = \<lparr>cr_Requeue = False, cr_RequeueAfter = d\<rparr>"

lemma fst_snd_reconcile [simp]:
  "snd StopReconcile = None" "snd ContinueReconcile = None"
  "snd (RequeueReconcileWith e) = e"
  "\<not> ShouldStop (fst ContinueReconcile)" "ShouldStop (fst StopReconcile)"
  "ShouldStop (fst (RequeueReconcileWith e))"
  by (simp_all add: StopReconcile_def ContinueReconcile_def RequeueReconcileWith_def
      ShouldStop_def StopOperation_def ContinueOperation_def split: option.splits)

lemma ShouldStop_simps [simp]: "ShouldStop StopOperation" "\<not> ShouldStop ContinueOperation"
  by (simp_all add: ShouldStop_def StopOperation_def ContinueOperation_def)

lemma RequeueReconcileWith_None [simp]: "RequeueReconcileWith None = StopReconcile"
  by (simp add: RequeueReconcileWith_def StopReconcile_def StopOperation_def)

lemma RequeueReconcileWith_Some_neq [simp]:
  "RequeueReconcileWith (Some e) \<noteq> StopReconcile" "RequeueReconcileWith (Some e) \<noteq> ContinueReconcile"
  "StopReconcile \<noteq> ContinueReconcile"
  by (simp_all add: RequeueReconcileWith_def StopReconcile_def ContinueReconcile_def
      StopOperation_def ContinueOperation_def)

text \<open>Converting a step's result forgets only whether to continue.\<close>

lemma Convert_Stop: "ReturnWith StopOperation None = Stop"
  by (simp add: ReturnWith_def Convert_def StopOperation_def Stop_def)

lemma Convert_inject_modulo_Continue:
  "Convert r = Convert s \<longleftrightarrow> r\<lparr>Continue := c\<rparr> = s\<lparr>Continue := c\<rparr>"
  by (cases r; cases s) (simp add: Convert_def)

end
