(* ===== verification/Monitor_Common.thy ===== *)
theory Monitor_Common
  imports Go_Strconv Finalizers Reconcile_Result Complex_Main
begin

text \<open>
  pkg/reconcile/common.go, api/v1alpha1/common_types.go and pkg/util/errors: the steps that the
  RouteMonitor and the ClusterUrlMonitor controllers share.  A Go method that writes through a
  pointer returns the new value next to its results.
\<close>

section \<open>pkg/util/errors\<close>

definition ErrNoHost :: go_error where
  "ErrNoHost = errors_New ''no Host: extracted RouteURL is empty''"

definition ErrInvalidSLO :: go_error where
  "ErrInvalidSLO = errors_New (''invalid RawSlo: string cannot be parsed '' @
     ''or is not in correct range, or type is not supported'')"

definition ErrInvalidReferenceUpdate :: go_error where
  "ErrInvalidReferenceUpdate = errors_New
     (''invalid Reference Update: currently the reference cannot be changed in flight, '' @
      ''please delete the parent resource and create it in the new name'')"

section \<open>SloSpec.IsValid\<close>

definition IsValid :: "Libs \<Rightarrow> SloSpec \<Rightarrow> bool \<times> string" where
  "IsValid L s =
     (if TargetAvailabilityPercent s = [] then (False, [])
      else case dec_SetString L (TargetAvailabilityPercent s) of
             None \<Rightarrow> (False, [])
           | Some d \<Rightarrow>
               let ninety = dec_NewDec L 9 (- 1) in
               if dec_Cmp L d ninety \<le> 0 then (False, [])
               else let hundred = dec_NewDec L 1 (- 2) in
                 if dec_Cmp L d hundred \<ge> 0 then (False, [])
                 else let oneHundredth = dec_NewDec L 1 2 in
                   (True, dec_String L (dec_Mul L d oneHundredth)))"

text \<open>What inf.v0 documents: a decimal is its unscaled value times ten to minus its scale.\<close>

definition dec_value :: "dec \<Rightarrow> rat" where
  "dec_value d = of_int (dec_unscaled d) * 10 powi (- dec_scale d)"

definition dec_ok :: "Libs \<Rightarrow> bool" where
  "dec_ok L \<longleftrightarrow>
     (\<forall>u s. dec_value (dec_NewDec L u s) = of_int u * 10 powi (- s)) \<and>
     (\<forall>a b. (dec_Cmp L a b \<le> 0 \<longleftrightarrow> dec_value a \<le> dec_value b) \<and>
            (dec_Cmp L a b \<ge> 0 \<longleftrightarrow> dec_value a \<ge> dec_value b)) \<and>
     (\<forall>a b. dec_value (dec_Mul L a b) = dec_value a * dec_value b)"

lemma dec_ok_simps:
  assumes "dec_ok L"
  shows "dec_value (dec_NewDec L 9 (- 1)) = 90" "dec_value (dec_NewDec L 1 (- 2)) = 100"
    "dec_value (dec_NewDec L 1 2) = 1 / 100"
    "dec_Cmp L a b \<le> 0 \<longleftrightarrow> dec_value a \<le> dec_value b"
    "0 \<le> dec_Cmp L a b \<longleftrightarrow> dec_value b \<le> dec_value a"
    "dec_value (dec_Mul L a b) = dec_value a * dec_value b"
  using assms by (simp_all add: dec_ok_def power_int_minus inverse_eq_divide)

lemma IsValid_iff:
  assumes "dec_ok L"
  shows "fst (IsValid L s) \<longleftrightarrow>
    TargetAvailabilityPercent s \<noteq> [] \<and>
    (\<exists>d. dec_SetString L (TargetAvailabilityPercent s) = Some d \<and> 90 < dec_value d \<and> dec_value d < 100)"
  using dec_ok_simps [OF assms] by (auto simp: IsValid_def Let_def not_le split: option.splits)

lemma IsValid_value:
  assumes "dec_ok L" "IsValid L s = (True, p)"
  shows "\<exists>d q. dec_SetString L (TargetAvailabilityPercent s) = Some d \<and>
    p = dec_String L q \<and> dec_value q = dec_value d / 100"
  using assms(2) dec_ok_simps [OF assms(1)]
  by (auto simp: IsValid_def Let_def split: option.splits if_splits intro!: exI)

section \<open>SetErrorStatus\<close>

definition areErrorAndErrorStatusFull :: "string \<Rightarrow> go_error option \<Rightarrow> bool" where
  "areErrorAndErrorStatusFull errorStatus err = (errorStatus \<noteq> [] \<and> err \<noteq> None)"

definition needsErrorStatusToBeFlushed :: "string \<Rightarrow> go_error option \<Rightarrow> bool" where
  "needsErrorStatusToBeFlushed errorStatus err = (errorStatus \<noteq> [] \<and> err = None)"

definition needsErrorStatusToBeSet :: "string \<Rightarrow> go_error option \<Rightarrow> bool" where
  "needsErrorStatusToBeSet errorStatus err = (errorStatus = [] \<and> err \<noteq> None)"

definition SetErrorStatus :: "string \<Rightarrow> go_error option \<Rightarrow> bool \<times> string" where
  "SetErrorStatus errorStatus err =
     (if areErrorAndErrorStatusFull errorStatus err then (False, errorStatus)
      else if needsErrorStatusToBeFlushed errorStatus err then (True, [])
      else if needsErrorStatusToBeSet errorStatus err
           then (True, (case err of None \<Rightarrow> [] | Some e \<Rightarrow> Error e))
      else (False, errorStatus))"

lemmas SetErrorStatus_defs = SetErrorStatus_def areErrorAndErrorStatusFull_def
  needsErrorStatusToBeFlushed_def needsErrorStatusToBeSet_def

lemma SetErrorStatus_None:
  "SetErrorStatus st None = (st \<noteq> [], [])"
  by (simp add: SetErrorStatus_defs)

lemma SetErrorStatus_Some:
  "SetErrorStatus st (Some e) = (st = [], if st = [] then Error e else st)"
  by (simp add: SetErrorStatus_defs)

section \<open>SetResourceReference\<close>

definition SetResourceReference ::
    "NamespacedName \<Rightarrow> NamespacedName \<Rightarrow> (bool \<times> go_error option) \<times> NamespacedName" where
  "SetResourceReference reference targetNamespace =
     (let desiredRef = \<lparr>nn_name = nn_name targetNamespace, nn_namespace = nn_namespace targetNamespace\<rparr> in
      if reference = nn_empty \<or> desiredRef = nn_empty then ((True, None), desiredRef)
      else if reference \<noteq> desiredRef then ((False, Some ErrInvalidReferenceUpdate), reference)
      else ((False, None), reference))"

lemma SetResourceReference_simps [simp]:
  "SetResourceReference nn_empty t = ((True, None), t)"
  "SetResourceReference r nn_empty = ((True, None), nn_empty)"
  "r \<noteq> nn_empty \<Longrightarrow> SetResourceReference r r = ((False, None), r)"
  "r \<noteq> nn_empty \<Longrightarrow> t \<noteq> nn_empty \<Longrightarrow> r \<noteq> t \<Longrightarrow>
     SetResourceReference r t = ((False, Some ErrInvalidReferenceUpdate), r)"
  by (simp_all only: SetResourceReference_def nn_eta Let_def) auto

section \<open>ParseMonitorSLOSpecs\<close>

definition ParseMonitorSLOSpecs :: "Libs \<Rightarrow> string \<Rightarrow> SloSpec \<Rightarrow> string \<times> go_error option" where
  "ParseMonitorSLOSpecs L routeURL sloSpec =
     (if routeURL = [] then ([], Some ErrNoHost)
      else if sloSpec = \<lparr>TargetAvailabilityPercent = []\<rparr> then ([], None)
      else case IsValid L sloSpec of
             (isValid, parsedSlo) \<Rightarrow>
               if \<not> isValid then ([], Some ErrInvalidSLO) else (parsedSlo, None))"

section \<open>Finalizers of a monitor\<close>

definition DeleteFinalizer :: "Libs \<Rightarrow> ObjectMeta \<Rightarrow> string \<Rightarrow> bool \<times> ObjectMeta" where
  "DeleteFinalizer L o' finalizerKey =
     (if HasFinalizer o' finalizerKey then (True, Remove L o' finalizerKey) else (False, o'))"

definition SetFinalizer :: "Libs \<Rightarrow> ObjectMeta \<Rightarrow> string \<Rightarrow> bool \<times> ObjectMeta" where
  "SetFinalizer L o' finalizerKey =
     (if \<not> HasFinalizer o' finalizerKey then (True, Add L o' finalizerKey) else (False, o'))"

section \<open>Updates of a monitor\<close>

definition UpdateMonitorResource ::
    "('s, 't, 'w) kube \<Rightarrow> ('s, 't) kobj \<Rightarrow> ('w, Result \<times> go_error option) io" where
  "UpdateMonitorResource K cr =
     do { r \<leftarrow> kube_Update K cr;
          (case r of
             Inl err \<Rightarrow> ret (RequeueReconcileWith (Some err))
           | Inr _ \<Rightarrow> ret StopReconcile) }"

definition UpdateMonitorResourceStatus ::
    "('s, 't, 'w) kube \<Rightarrow> ('s, 't) kobj \<Rightarrow> ('w, Result \<times> go_error option) io" where
  "UpdateMonitorResourceStatus K cr =
     do { r \<leftarrow> kube_StatusUpdate K cr;
          (case r of
             Inl err \<Rightarrow> ret (RequeueReconcileWith (Some err))
           | Inr _ \<Rightarrow> ret StopReconcile) }"

section \<open>Cluster ids\<close>

definition GetOSDClusterID :: "'w Env \<Rightarrow> ('w, go_error + string) io" where
  "GetOSDClusterID E =
     do { r \<leftarrow> kube_Get (cv_api E) \<lparr>nn_name = ''version'', nn_namespace = []\<rparr>;
          (case r of
             Inl err \<Rightarrow> ret (Inl err)
           | Inr version \<Rightarrow> ret (Inr (obj_spec version))) }"

definition GetHCP :: "'w Env \<Rightarrow> string \<Rightarrow> ('w, go_error + HostedControlPlane) io" where
  "GetHCP E ns =
     do { r \<leftarrow> kube_List (hcp_api E) (Some ns);
          (case r of
             Inl err \<Rightarrow> ret (Inl err)
           | Inr items \<Rightarrow>
               if length items \<noteq> 1
               then ret (Inl (errors_New (''invalid number of HostedControlPlanes detected in namespace '' @
                      [CHR 0x27] @ ns @ [CHR 0x27] @ '': expected 1, got '' @ itoa (int (length items)))))
               else ret (Inr (hd items))) }"

definition GetHypershiftClusterID :: "'w Env \<Rightarrow> string \<Rightarrow> ('w, go_error + string) io" where
  "GetHypershiftClusterID E ns =
     do { r \<leftarrow> GetHCP E ns;
          (case r of
             Inl err \<Rightarrow> ret (Inl err)
           | Inr hcp \<Rightarrow> ret (Inr (hcps_clusterID (obj_spec hcp)))) }"

definition GetServiceMonitor :: "'w Env \<Rightarrow> NamespacedName \<Rightarrow> ('w, go_error + ServiceMonitor) io" where
  "GetServiceMonitor E namespacedName = kube_Get (sm_api E) namespacedName"

section \<open>Properties\<close>

text \<open>C28. SloSpec.IsValid accepts exactly the decimals strictly between 90 and 100, and the string
  it returns for one is the library's rendering of a hundredth of it.\<close>

theorem slo_valid_range:
  assumes "dec_ok L"
  shows "(fst (IsValid L s) \<longleftrightarrow> TargetAvailabilityPercent s \<noteq> [] \<and>
            (\<exists>d. dec_SetString L (TargetAvailabilityPercent s) = Some d \<and>
                 90 < dec_value d \<and> dec_value d < 100)) \<and>
         (\<forall>p. IsValid L s = (True, p) \<longrightarrow>
            (\<exists>d q. dec_SetString L (TargetAvailabilityPercent s) = Some d \<and>
               p = dec_String L q \<and> dec_value q = dec_value d / 100))"
  using IsValid_iff [OF assms] IsValid_value [OF assms] by blast

text \<open>After SetErrorStatus the status is empty exactly when there is no error, and it reports
  a change exactly when the status field changed, unless the new error has an empty text.\<close>

lemma SetErrorStatus_flags:
  assumes "\<forall>e. err = Some e \<longrightarrow> Error e \<noteq> []"
  shows "(snd (SetErrorStatus st err) = [] \<longleftrightarrow> err = None) \<and>
         (fst (SetErrorStatus st err) \<longleftrightarrow> snd (SetErrorStatus st err) \<noteq> st)"
  using assms by (cases err) (auto simp: SetErrorStatus_None SetErrorStatus_Some)

text \<open>SetResourceReference never overwrites a reference by a different one: with both set and
  different it returns an error and leaves the reference; in every other case the reference ends up
  as the target.  It reports an update whenever one of the two is empty, even when nothing changes.\<close>

lemma SetResourceReference_guards:
  "SetResourceReference r t =
     (if r \<noteq> nn_empty \<and> t \<noteq> nn_empty \<and> r \<noteq> t then ((False, Some ErrInvalidReferenceUpdate), r)
      else ((r = nn_empty \<or> t = nn_empty, None), t))"
  by (auto simp only: SetResourceReference_def nn_eta Let_def split: if_splits)

end
