(* ===== verification/Memory_Cluster.thy ===== *)
theory Memory_Cluster
  imports Kube_Patterns Monitor_Common "HOL-Library.List_Lexorder" "HOL-Library.Char_ord"
begin

text \<open>
  A server and libraries that satisfy the hypotheses of the development: an API server that keeps
  its objects in memory and answers every request, sorted sets, decimals as pairs, versions as
  lists of numbers.  The world is the cluster with any further state \<open>'x\<close> next to it.  It serves
  as the concrete instance at which the theorems about the operator are evaluated; nothing in the
  model of the operator depends on it.
\<close>

section \<open>Stores\<close>

lemma wf_store_update:
  assumes "wf_store s" "obj_key x = k" "live_or_held x"
  shows "wf_store (AList.update k x s)"
proof -
  have "set (AList.update k x s) \<subseteq> insert (k, x) (set s)"
    by (induction s) auto
  with assms show ?thesis
    by (auto simp: wf_store_def AList.distinct_update)
qed

lemma wf_store_delete:
  assumes "wf_store s"
  shows "wf_store (AList.delete k s)"
proof -
  have "set (AList.delete k s) \<subseteq> set s"
    by (simp add: AList.delete_eq)
  with assms distinct_delete [of s k] show ?thesis
    by (auto simp: wf_store_def)
qed

lemma wf_store_settle: "wf_store s \<Longrightarrow> obj_key x = k \<Longrightarrow> wf_store (settle k x s)"
  by (simp add: settle_def wf_store_update wf_store_delete)

section \<open>The server\<close>

definition not_found :: go_error where
  "not_found = GoError ReasonNotFound ''not found''"

definition already_exists :: go_error where
  "already_exists = GoError ReasonAlreadyExists ''already exists''"

definition invalid :: go_error where
  "invalid = GoError ReasonInvalid ''no new finalizers can be added if the object is being deleted''"

text \<open>A request that reads the store and replaces it.\<close>

definition request :: "('c \<Rightarrow> 's) \<Rightarrow> (('s \<Rightarrow> 's) \<Rightarrow> 'c \<Rightarrow> 'c) \<Rightarrow> ('s \<Rightarrow> 'a \<times> 's) \<Rightarrow> ('c \<times> 'x, 'a) io" where
  "request fld upd f =
     State (\<lambda>(c, x). case f (fld c) of (a, s) \<Rightarrow> (a, (upd (\<lambda>_. s) c, x)))"

definition mem_update :: "('s, 't) kobj \<Rightarrow> ('s, 't) kobj \<Rightarrow> ('s, 't) kobj" where
  "mem_update old x = old\<lparr>obj_meta := (obj_meta x)\<lparr>om_uid := om_uid (obj_meta old),
     om_creationTimestamp := om_creationTimestamp (obj_meta old),
     om_deletionTimestamp := om_deletionTimestamp (obj_meta old)\<rparr>, obj_spec := obj_spec x\<rparr>"

definition mem_create :: "('s, 't) kobj \<Rightarrow> ('s, 't) kobj" where
  "mem_create x = x\<lparr>obj_meta := (obj_meta x)\<lparr>om_deletionTimestamp := None\<rparr>\<rparr>"

definition mem_mark :: "('s, 't) kobj \<Rightarrow> ('s, 't) kobj" where
  "mem_mark x = x\<lparr>obj_meta := (obj_meta x)\<lparr>om_deletionTimestamp := Some 0\<rparr>\<rparr>"

definition mem_kube where
  "mem_kube fld upd =
     \<lparr>kube_Get = (\<lambda>k. request fld upd (\<lambda>s.
        (case map_of s k of None \<Rightarrow> Inl not_found | Some x \<Rightarrow> Inr x, s))),
      kube_List = (\<lambda>ns. request fld upd (\<lambda>s.
        (Inr (map snd (filter (in_namespace ns \<circ> fst) s)), s))),
      kube_Create = (\<lambda>x. request fld upd (\<lambda>s.
        (case map_of s (obj_key x) of
           None \<Rightarrow> (Inr (mem_create x), AList.update (obj_key x) (mem_create x) s)
         | Some old \<Rightarrow> (Inl already_exists, s)))),
      kube_Update = (\<lambda>x. request fld upd (\<lambda>s.
        (case map_of s (obj_key x) of
           None \<Rightarrow> (Inl not_found, s)
         | Some old \<Rightarrow> if adds_finalizer old x then (Inl invalid, s)
             else (Inr (mem_update old x), settle (obj_key x) (mem_update old x) s)))),
      kube_StatusUpdate = (\<lambda>x. request fld upd (\<lambda>s.
        (case map_of s (obj_key x) of
           None \<Rightarrow> (Inl not_found, s)
         | Some old \<Rightarrow> (Inr (old\<lparr>obj_status := obj_status x\<rparr>),
             AList.update (obj_key x) (old\<lparr>obj_status := obj_status x\<rparr>) s)))),
      kube_Delete = (\<lambda>x. request fld upd (\<lambda>s.
        (case map_of s (obj_key x) of
           None \<Rightarrow> (Some not_found, s)
         | Some old \<Rightarrow> (None, settle (obj_key x) (mem_mark old) s))))\<rparr>"

text \<open>A store of well-formed objects inside a well-formed cluster.\<close>

definition wf_lens where
  "wf_lens fld upd \<longleftrightarrow> lens fld upd \<and> (\<forall>c. wf_cluster c \<longrightarrow> wf_store (fld c)) \<and>
     (\<forall>c s. wf_cluster c \<longrightarrow> wf_store s \<longrightarrow> wf_cluster (upd (\<lambda>_. s) c))"

lemma wp_request:
  "wp (request fld upd f) Q w \<longleftrightarrow>
     (case f (fld (fst w)) of (a, s) \<Rightarrow> Q a (upd (\<lambda>_. s) (fst w), snd w))"
  by (cases w) (simp add: wp_def request_def split: prod.splits)

lemma lens_same: "lens fld upd \<Longrightarrow> upd (\<lambda>_. fld c) c = c"
  by (simp add: lens_def)

lemma lens_fun:
  assumes "lens fld upd"
  shows "upd (\<lambda>_. AList.update k x (fld c)) c = upd (AList.update k x) c"
    "upd (\<lambda>_. settle k x (fld c)) c = upd (settle k x) c"
  using assms unfolding lens_def by metis+

lemma same_meta_refl [simp]: "same_sent_meta m m" "same_server_meta m m"
  by (simp_all add: same_sent_meta_def same_server_meta_def)

lemma mem_objects [simp]:
  "obj_key (mem_create x) = obj_key x" "obj_key (mem_update old x) = obj_key x"
  "obj_key (mem_mark x) = obj_key x" "obj_key (x\<lparr>obj_status := st\<rparr>) = obj_key x"
  "obj_key (x\<lparr>obj_meta := (obj_meta x)\<lparr>om_deletionTimestamp := t\<rparr>\<rparr>) = obj_key x"
  "live_or_held (mem_create x)" "live_or_held (x\<lparr>obj_status := st\<rparr>) = live_or_held x"
  by (simp_all add: mem_create_def mem_update_def mem_mark_def obj_key_def live_or_held_def)

lemma mem_create_fields [simp]:
  "same_sent_meta (obj_meta (mem_create x)) (obj_meta x)" "obj_spec (mem_create x) = obj_spec x"
  "om_deletionTimestamp (obj_meta (mem_create x)) = None"
  by (simp_all add: mem_create_def same_sent_meta_def)

lemma mem_update_fields [simp]:
  "same_sent_meta (obj_meta (mem_update old x)) (obj_meta x)"
  "same_server_meta (obj_meta (mem_update old x)) (obj_meta old)"
  "obj_type (mem_update old x) = obj_type old" "obj_spec (mem_update old x) = obj_spec x"
  "obj_status (mem_update old x) = obj_status old"
  by (simp_all add: mem_update_def same_sent_meta_def same_server_meta_def)

lemma mem_kube_laws:
  assumes "wf_lens fld upd"
  shows "kube_laws fst fld upd (mem_kube fld upd)"
proof -
  have l: "lens fld upd" and wf: "\<And>c. wf_cluster c \<Longrightarrow> wf_store (fld c)"
    and wfu: "\<And>c s. wf_cluster c \<Longrightarrow> wf_store s \<Longrightarrow> wf_cluster (upd (\<lambda>_. s) c)"
    using assms by (auto simp: wf_lens_def)
  have wfu': "wf_cluster c \<Longrightarrow> wf_store (f (fld c)) \<Longrightarrow> wf_cluster (upd f c)" for f c
    using wfu [of c "f (fld c)"] l unfolding lens_def by metis
  note mem = mem_kube_def wp_request lens_same [OF l] lens_fun [OF l]
  have "get_law fst fld (mem_kube fld upd)"
    by (auto simp: get_law_def mem split: option.splits)
  moreover have "list_law fst fld (mem_kube fld upd)"
    by (auto simp: list_law_def mem)
  moreover have "create_law fst fld upd (mem_kube fld upd)"
    unfolding create_law_def
    by (auto simp: mem already_exists_def split: option.splits
        intro!: wfu' wf_store_update wf)
  moreover have "update_law fst fld upd (mem_kube fld upd)"
    unfolding update_law_def
    by (auto simp: mem not_found_def invalid_def IsInvalid_def split: option.splits intro!: wfu' wf_store_settle wf)
  moreover have "status_update_law fst fld upd (mem_kube fld upd)"
    unfolding status_update_law_def
    by (auto simp: mem not_found_def split: option.splits
        intro!: wfu' wf_store_update wf
        dest: wf_store_key [OF wf] wf_store_live [OF wf])
  moreover have "delete_law fst fld upd (mem_kube fld upd)"
    unfolding delete_law_def
    by (auto simp: mem not_found_def mem_mark_def split: option.splits
        intro!: wfu' wf_store_settle wf dest: wf_store_key [OF wf])
  ultimately show ?thesis by (simp add: kube_laws_def)
qed

lemma mem_kube_reliable: "kube_reliable (mem_kube fld upd)"
  by (auto simp: kube_reliable_def mem_kube_def wp_request not_found_def already_exists_def
      invalid_def IsInvalid_def split: option.splits)

section \<open>The libraries\<close>

definition mem_SetString :: "string \<Rightarrow> dec option" where
  "mem_SetString s =
     (case strings_Cut s CHR ''.'' of
        (whole, part, _) \<Rightarrow>
          (if list_all is_digit (whole @ part) \<and> whole @ part \<noteq> []
           then map_option (\<lambda>n. \<lparr>dec_unscaled = n, dec_scale = int (length part)\<rparr>)
                  (strconv_Atoi (whole @ part))
           else None))"

definition mem_dec_String :: "dec \<Rightarrow> string" where
  "mem_dec_String d =
     (let n = dec_unscaled d; p = nat (dec_scale d); k = 10 ^ p;
          frac = itoa (n mod k)
      in if dec_scale d \<le> 0 then itoa (n * 10 ^ nat (- dec_scale d))
         else itoa (n div k) @ ''.'' @ replicate (p - length frac) CHR ''0'' @ frac)"

definition mem_ParseDuration :: "string \<Rightarrow> int" where
  "mem_ParseDuration s =
     (let digits = takeWhile is_digit s;
          n = (case strconv_Atoi digits of None \<Rightarrow> 0 | Some n \<Rightarrow> n)
      in n * (if drop (length digits) s = ''s'' then 10 ^ 9
              else if drop (length digits) s = ''m'' then 60 * 10 ^ 9
              else if drop (length digits) s = ''h'' then 3600 * 10 ^ 9
              else if drop (length digits) s = ''d'' then 24 * 3600 * 10 ^ 9
              else 0))"

fun mem_version_ge :: "version \<Rightarrow> version \<Rightarrow> bool" where
  "mem_version_ge v [] = True"
| "mem_version_ge [] (n # ns) = (n \<le> 0 \<and> mem_version_ge [] ns)"
| "mem_version_ge (m # ms) (n # ns) = (n < m \<or> n = m \<and> mem_version_ge ms ns)"

definition mem_libs :: Libs where
  "mem_libs =
     \<lparr>sets_List = sorted_list_of_set,
      NewControllerRef = (\<lambda>m t. \<lparr>or_apiVersion = tm_apiVersion t, or_kind = tm_kind t,
        or_name = om_name m, or_uid = om_uid m, or_controller = True, or_blockOwnerDeletion = True\<rparr>),
      FindStatusCondition = (\<lambda>cs t. find (\<lambda>c. cond_type c = t) cs),
      dec_SetString = mem_SetString,
      dec_NewDec = (\<lambda>u s. \<lparr>dec_unscaled = u, dec_scale = s\<rparr>),
      dec_Cmp = (\<lambda>a b. if dec_value a < dec_value b then - 1 else if dec_value a = dec_value b then 0 else 1),
      dec_Mul = (\<lambda>a b. \<lparr>dec_unscaled = dec_unscaled a * dec_unscaled b,
                        dec_scale = dec_scale a + dec_scale b\<rparr>),
      dec_String = mem_dec_String,
      NewVersion = (\<lambda>s. those (map strconv_Atoi (strings_Split s CHR ''.''))),
      GreaterThanOrEqual = mem_version_ge,
      prometheus_ParseDuration = mem_ParseDuration\<rparr>"

lemma sets_ok_mem: "sets_ok mem_libs"
  by (simp add: sets_ok_def mem_libs_def)

lemma dec_ok_mem: "dec_ok mem_libs"
  by (simp add: dec_ok_def mem_libs_def dec_value_def power_int_diff power_int_minus divide_inverse)

section \<open>The environment\<close>

definition mem_env :: "(cluster \<times> 'x) Env" where
  "mem_env =
     \<lparr>libs = mem_libs,
      rm_api = mem_kube c_rm c_rm_update, cum_api = mem_kube c_cum c_cum_update,
      route_api = mem_kube c_route c_route_update, sm_api = mem_kube c_sm c_sm_update,
      rsm_api = mem_kube c_rsm c_rsm_update, pr_api = mem_kube c_pr c_pr_update,
      dep_api = mem_kube c_dep c_dep_update, svc_api = mem_kube c_svc c_svc_update,
      cm_api = mem_kube c_cm c_cm_update, sec_api = mem_kube c_sec c_sec_update,
      hcp_api = mem_kube c_hcp c_hcp_update, hc_api = mem_kube c_hc c_hc_update,
      vpce_api = mem_kube c_vpce c_vpce_update, cv_api = mem_kube c_cv c_cv_update,
      inf_api = mem_kube c_inf c_inf_update, ic_api = mem_kube c_ic c_ic_update,
      crd_api = mem_kube c_crd c_crd_update\<rparr>"

lemma wf_lenses:
  "wf_lens c_rm c_rm_update" "wf_lens c_cum c_cum_update" "wf_lens c_route c_route_update"
  "wf_lens c_sm c_sm_update" "wf_lens c_rsm c_rsm_update" "wf_lens c_pr c_pr_update"
  "wf_lens c_dep c_dep_update" "wf_lens c_svc c_svc_update" "wf_lens c_cm c_cm_update"
  "wf_lens c_sec c_sec_update" "wf_lens c_hcp c_hcp_update" "wf_lens c_hc c_hc_update"
  "wf_lens c_vpce c_vpce_update" "wf_lens c_cv c_cv_update" "wf_lens c_inf c_inf_update"
  "wf_lens c_ic c_ic_update" "wf_lens c_crd c_crd_update"
  by (simp_all add: wf_lens_def lens_def wf_cluster_def)

theorem mem_api_laws: "api_laws mem_env fst"
  by (simp add: api_laws_def mem_env_def mem_kube_laws wf_lenses)

theorem mem_api_reliable: "api_reliable mem_env"
  by (simp add: api_reliable_def mem_env_def mem_kube_reliable)

lemma libs_mem [simp]: "libs mem_env = mem_libs"
  by (simp add: mem_env_def)

lemma ok_world_mem: "wf_cluster c \<Longrightarrow> ok_world mem_env fst (c, x)"
  by (simp add: ok_world_def mem_api_laws sets_ok_mem)

definition empty_cluster :: cluster where
  "empty_cluster =
     \<lparr>c_rm = [], c_cum = [], c_route = [], c_sm = [], c_rsm = [], c_pr = [], c_dep = [], c_svc = [],
      c_cm = [], c_sec = [], c_hcp = [], c_hc = [], c_vpce = [], c_cv = [], c_inf = [], c_ic = [],
      c_crd = []\<rparr>"

lemma wf_empty_cluster [simp]: "wf_cluster empty_cluster"
  by (simp add: wf_cluster_def empty_cluster_def)

end
