(* ===== verification/Service_Monitor.thy ===== *)
theory Service_Monitor
  imports Kube_Patterns
begin

text \<open>
  pkg/servicemonitor and pkg/consts/blackboxexporter: the ServiceMonitor that makes Prometheus
  probe a URL through the blackbox exporter, in its monitoring.coreos.com and its
  monitoring.rhobs form.  The receiver's client is the environment \<open>E\<close>; its comparer is
  \<open>reflect.DeepEqual\<close>, which is equality of the modelled specs.
\<close>

section \<open>pkg/consts/blackboxexporter\<close>

definition BlackBoxExporterName :: string where
  "BlackBoxExporterName = ''blackbox-exporter''"

definition BlackBoxExporterPortName :: string where
  "BlackBoxExporterPortName = ''blackbox''"

definition BlackBoxExporterPortNumber :: int where
  "BlackBoxExporterPortNumber = 9115"

definition GenerateBlackBoxExporterLables :: string_map where
  "GenerateBlackBoxExporterLables = fmap_of_list [(''app'', BlackBoxExporterName)]"

section \<open>Templates\<close>

definition ServiceMonitorPeriod :: string where
  "ServiceMonitorPeriod = ''30s''"

definition UrlLabelName :: string where
  "UrlLabelName = ''probe_url''"

definition TemplateForServiceMonitorResource ::
    "string \<Rightarrow> string \<Rightarrow> (string, string list) fmap \<Rightarrow> NamespacedName \<Rightarrow> string \<Rightarrow> OwnerReference
       \<Rightarrow> ServiceMonitor" where
  "TemplateForServiceMonitorResource routeURL blackBoxExporterNamespace params namespacedName
       clusterID owner =
     \<lparr>obj_type = empty_type,
      obj_meta = empty_meta\<lparr>om_name := nn_name namespacedName,
                            om_namespace := nn_namespace namespacedName,
                            om_ownerReferences := [owner]\<rparr>,
      obj_spec =
        \<lparr>sms_endpoints =
           [\<lparr>ep_port = BlackBoxExporterPortName,
             ep_interval = ServiceMonitorPeriod,
             ep_scrapeTimeout = ''15s'',
             ep_path = ''/probe'',
             ep_scheme = ''http'',
             ep_params = params,
             ep_metricRelabelConfigs =
               [\<lparr>rc_replacement = routeURL, rc_targetLabel = UrlLabelName\<rparr>,
                \<lparr>rc_replacement = clusterID, rc_targetLabel = ''_id''\<rparr>]\<rparr>],
         sms_selector = GenerateBlackBoxExporterLables,
         sms_namespaces = [blackBoxExporterNamespace]\<rparr>,
      obj_status = ()\<rparr>"

definition HyperShiftTemplateForServiceMonitorResource ::
    "string \<Rightarrow> string \<Rightarrow> (string, string list) fmap \<Rightarrow> NamespacedName \<Rightarrow> string \<Rightarrow> OwnerReference
       \<Rightarrow> ServiceMonitor" where
  "HyperShiftTemplateForServiceMonitorResource routeURL blackBoxExporterNamespace params
       namespacedName clusterID owner =
     \<lparr>obj_type = empty_type,
      obj_meta = empty_meta\<lparr>om_name := nn_name namespacedName,
                            om_namespace := nn_namespace namespacedName,
                            om_ownerReferences := [owner]\<rparr>,
      obj_spec =
        \<lparr>sms_endpoints =
           [\<lparr>ep_port = BlackBoxExporterPortName,
             ep_interval = ServiceMonitorPeriod,
             ep_scrapeTimeout = ''15s'',
             ep_path = ''/probe'',
             ep_scheme = ''http'',
             ep_params = params,
             ep_metricRelabelConfigs =
               [\<lparr>rc_replacement = routeURL, rc_targetLabel = UrlLabelName\<rparr>,
                \<lparr>rc_replacement = clusterID, rc_targetLabel = ''_id''\<rparr>]\<rparr>],
         sms_selector = GenerateBlackBoxExporterLables,
         sms_namespaces = [blackBoxExporterNamespace]\<rparr>,
      obj_status = ()\<rparr>"

section \<open>Create, update and delete\<close>

definition UpdateServiceMonitorDeployment ::
    "'w Env \<Rightarrow> ServiceMonitor \<Rightarrow> ('w, go_error option) io" where
  "UpdateServiceMonitorDeployment E tmpl =
     do { r \<leftarrow> kube_Get (sm_api E) \<lparr>nn_name = om_name (obj_meta tmpl),
                                    nn_namespace = om_namespace (obj_meta tmpl)\<rparr>;
          (case r of
             Inl err \<Rightarrow>
               if \<not> IsNotFound err then ret (Some err)
               else do { c \<leftarrow> kube_Create (sm_api E) tmpl; ret (err_of c) }
           | Inr deployedServiceMonitor \<Rightarrow>
               if obj_spec deployedServiceMonitor \<noteq> obj_spec tmpl
               then do { u \<leftarrow> kube_Update (sm_api E)
                               (deployedServiceMonitor\<lparr>obj_spec := obj_spec tmpl\<rparr>);
                         ret (err_of u) }
               else ret None) }"

definition HypershiftUpdateServiceMonitorDeployment ::
    "'w Env \<Rightarrow> ServiceMonitor \<Rightarrow> ('w, go_error option) io" where
  "HypershiftUpdateServiceMonitorDeployment E tmpl =
     do { r \<leftarrow> kube_Get (rsm_api E) \<lparr>nn_name = om_name (obj_meta tmpl),
                                     nn_namespace = om_namespace (obj_meta tmpl)\<rparr>;
          (case r of
             Inl err \<Rightarrow>
               if \<not> IsNotFound err then ret (Some err)
               else do { c \<leftarrow> kube_Create (rsm_api E) tmpl; ret (err_of c) }
           | Inr deployedServiceMonitor \<Rightarrow>
               if obj_spec deployedServiceMonitor \<noteq> obj_spec tmpl
               then do { u \<leftarrow> kube_Update (rsm_api E)
                               (deployedServiceMonitor\<lparr>obj_spec := obj_spec tmpl\<rparr>);
                         ret (err_of u) }
               else ret None) }"

definition TemplateAndUpdateServiceMonitorDeployment ::
    "'w Env \<Rightarrow> string \<Rightarrow> string \<Rightarrow> NamespacedName \<Rightarrow> string \<Rightarrow> bool \<Rightarrow> bool \<Rightarrow> OwnerReference
       \<Rightarrow> ('w, go_error option) io" where
  "TemplateAndUpdateServiceMonitorDeployment E routeURL blackBoxExporterNamespace namespacedName
       clusterID isHCPMonitor useInsecure owner =
     (let module = (if useInsecure then ''insecure_http_2xx'' else ''http_2xx'');
          params = fmap_of_list [(''module'', [module]), (''target'', [routeURL])]
      in if isHCPMonitor
         then HypershiftUpdateServiceMonitorDeployment E
                (HyperShiftTemplateForServiceMonitorResource routeURL blackBoxExporterNamespace
                   params namespacedName clusterID owner)
         else UpdateServiceMonitorDeployment E
                (TemplateForServiceMonitorResource routeURL blackBoxExporterNamespace
                   params namespacedName clusterID owner))"

definition DeleteServiceMonitorDeployment ::
    "'w Env \<Rightarrow> NamespacedName \<Rightarrow> bool \<Rightarrow> ('w, go_error option) io" where
  "DeleteServiceMonitorDeployment E serviceMonitorRef isHCPMonitor =
     (if serviceMonitorRef = nn_empty then ret None
      else
        let namespacedName = \<lparr>nn_name = nn_name serviceMonitorRef,
                              nn_namespace = nn_namespace serviceMonitorRef\<rparr> in
        if isHCPMonitor
        then do { r \<leftarrow> kube_Get (rsm_api E) namespacedName;
                  (case r of
                     Inl err \<Rightarrow> if \<not> IsNotFound err then ret (Some err) else ret None
                   | Inr resource \<Rightarrow> kube_Delete (rsm_api E) resource) }
        else do { r \<leftarrow> kube_Get (sm_api E) namespacedName;
                  (case r of
                     Inl err \<Rightarrow> if \<not> IsNotFound err then ret (Some err) else ret None
                   | Inr resource \<Rightarrow> kube_Delete (sm_api E) resource) })"

section \<open>The operations as instances of the call patterns\<close>

lemma UpdateServiceMonitorDeployment_upsert:
  "UpdateServiceMonitorDeployment E t = upsert (sm_api E) (\<lambda>x. x) t"
  by (simp add: UpdateServiceMonitorDeployment_def upsert_def obj_key_def)

lemma HypershiftUpdateServiceMonitorDeployment_upsert:
  "HypershiftUpdateServiceMonitorDeployment E t = upsert (rsm_api E) (\<lambda>x. x) t"
  by (simp add: HypershiftUpdateServiceMonitorDeployment_def upsert_def obj_key_def)

lemma DeleteServiceMonitorDeployment_absent:
  "DeleteServiceMonitorDeployment E ref hcp =
     (if ref = nn_empty then ret None
      else if hcp then ensure_absent (rsm_api E) ref else ensure_absent (sm_api E) ref)"
  by (simp add: DeleteServiceMonitorDeployment_def ensure_absent_def Let_def)

text \<open>The template of the ServiceMonitor that probes a URL; both API groups get the same one.\<close>

definition probe_template ::
    "string \<Rightarrow> string \<Rightarrow> NamespacedName \<Rightarrow> string \<Rightarrow> bool \<Rightarrow> OwnerReference \<Rightarrow> ServiceMonitor" where
  "probe_template url ns n cid insecure owner =
     TemplateForServiceMonitorResource url ns
       (fmap_of_list [(''module'', [if insecure then ''insecure_http_2xx'' else ''http_2xx'']),
                      (''target'', [url])]) n cid owner"

lemma probe_template_key [simp]: "obj_key (probe_template url ns n cid insecure owner) = n"
  by (simp add: probe_template_def TemplateForServiceMonitorResource_def obj_key_def)

lemma HyperShift_template_eq:
  "HyperShiftTemplateForServiceMonitorResource = TemplateForServiceMonitorResource"
  by (intro ext) (simp add: HyperShiftTemplateForServiceMonitorResource_def
      TemplateForServiceMonitorResource_def)

lemma TemplateAndUpdate_upsert:
  "TemplateAndUpdateServiceMonitorDeployment E url ns n cid hcp insecure owner =
     upsert (if hcp then rsm_api E else sm_api E) (\<lambda>x. x) (probe_template url ns n cid insecure owner)"
  by (simp add: TemplateAndUpdateServiceMonitorDeployment_def Let_def probe_template_def
      UpdateServiceMonitorDeployment_upsert HypershiftUpdateServiceMonitorDeployment_upsert
      HyperShift_template_eq)

section \<open>Properties\<close>

lemma wp_ServiceMonitor_upsert:
  assumes "ok_world E snap w"
  shows "wp (TemplateAndUpdateServiceMonitorDeployment E url ns n cid hcp insecure owner)
    (\<lambda>r w'. ok_world E snap w' \<and>
       (if hcp then upserted c_rsm c_rsm_update (probe_template url ns n cid insecure owner) r (snap w) (snap w')
        else upserted c_sm c_sm_update (probe_template url ns n cid insecure owner) r (snap w) (snap w'))) w"
  using wp_upsert [OF assms ok_world_laws(4) [OF assms] cluster_lenses(4) wf_cluster_stores(4) sends_same_id]
    wp_upsert [OF assms ok_world_laws(5) [OF assms] cluster_lenses(5) wf_cluster_stores(5) sends_same_id]
  by (auto simp: TemplateAndUpdate_upsert)

lemma wp_ServiceMonitor_delete:
  assumes "ok_world E snap w"
  shows "wp (DeleteServiceMonitorDeployment E ref hcp)
    (\<lambda>r w'. ok_world E snap w' \<and>
       (if ref = nn_empty then r = None \<and> snap w' = snap w
        else if hcp then removed c_rsm c_rsm_update ref r (snap w) (snap w')
        else removed c_sm c_sm_update ref r (snap w) (snap w'))) w"
  using wp_ensure_absent [OF assms ok_world_laws(4) [OF assms] cluster_lenses(4) wf_cluster_stores(4)]
    wp_ensure_absent [OF assms ok_world_laws(5) [OF assms] cluster_lenses(5) wf_cluster_stores(5)]
    assms
  by (auto simp: DeleteServiceMonitorDeployment_absent wp_simps)

text \<open>C24. When TemplateAndUpdateServiceMonitorDeployment returns no error the ServiceMonitor of the
  chosen API group has the template's spec and no other object changed; when it returns an error
  nothing changed; and a ServiceMonitor that already had the spec is not written.\<close>

theorem servicemonitor_upsert_correct:
  assumes "ok_world E snap w"
  shows "wp (TemplateAndUpdateServiceMonitorDeployment E url ns n cid hcp insecure owner)
    (\<lambda>r w'. ok_world E snap w' \<and>
       (if hcp then upserted c_rsm c_rsm_update (probe_template url ns n cid insecure owner) r (snap w) (snap w')
        else upserted c_sm c_sm_update (probe_template url ns n cid insecure owner) r (snap w) (snap w'))) w"
  using assms by (rule wp_ServiceMonitor_upsert)

text \<open>C26. When DeleteServiceMonitorDeployment returns no error for a reference, the ServiceMonitor it
  names is gone (or waits for a finalizer of its own), and no other object of the cluster changed;
  the empty reference deletes nothing.\<close>

theorem servicemonitor_delete_correct:
  assumes "ok_world E snap w"
  shows "wp (DeleteServiceMonitorDeployment E ref hcp)
    (\<lambda>r w'. ok_world E snap w' \<and>
       (if ref = nn_empty then r = None \<and> snap w' = snap w
        else if hcp then removed c_rsm c_rsm_update ref r (snap w) (snap w')
        else removed c_sm c_sm_update ref r (snap w) (snap w'))) w"
  using assms by (rule wp_ServiceMonitor_delete)

end
