(* ===== verification/Alert_Rule.thy ===== *)
theory Alert_Rule
  imports Service_Monitor Go_Strconv Complex_Main
begin

text \<open>
  pkg/alert: the PrometheusRule with the four multi-window, multi-burn-rate alerts of a URL.
  Prometheus' duration parser is a library parameter returning nanoseconds.  The number of probes
  a window must hold is computed by the source in float64; the windows are whole minutes and the
  period is half a minute, so every intermediate value is exact and the model computes it in
  rationals.
\<close>

section \<open>The rule of one window pair\<close>

record multiWindowMultiBurnAlertRule =
  ar_duration :: string
  ar_severity :: string
  ar_longWindow :: string
  ar_shortWindow :: string
  ar_burnRate :: string

definition alertThreshold :: "string \<Rightarrow> string \<Rightarrow> string \<Rightarrow> string \<Rightarrow> string" where
  "alertThreshold windowSize percent label burnRate =
     ''1-(sum(sum_over_time(probe_success{'' @ label @ ''}['' @ windowSize @ '']))'' @
     ''/ sum(count_over_time(probe_success{'' @ label @ ''}['' @ windowSize @ ''])))'' @
     ''> ('' @ burnRate @ ''*(1-'' @ percent @ ''))''"

definition minutes :: "int \<Rightarrow> rat" where
  "minutes d = of_int d / of_int 60000000000"

definition necessaryProbesInWindow :: "Libs \<Rightarrow> string \<Rightarrow> int" where
  "necessaryProbesInWindow L windowSize =
     (let window = prometheus_ParseDuration L windowSize;
          mPeriod = prometheus_ParseDuration L ServiceMonitorPeriod
      in \<lfloor>minutes window / minutes mPeriod * (1 / 2)\<rfloor>)"

definition sufficientProbes :: "Libs \<Rightarrow> string \<Rightarrow> string \<Rightarrow> string" where
  "sufficientProbes L windowSize label =
     ''sum(count_over_time(probe_success{'' @ label @ ''}['' @ windowSize @ '']))'' @
     '' > '' @ itoa (necessaryProbesInWindow L windowSize)"

definition renderLabels ::
    "multiWindowMultiBurnAlertRule \<Rightarrow> string \<Rightarrow> string \<Rightarrow> string_map" where
  "renderLabels r url namespace =
     fmap_of_list
       [(UrlLabelName, url), (''namespace'', namespace), (''severity'', ar_severity r),
        (''long_window'', ar_longWindow r), (''short_window'', ar_shortWindow r)]"

definition quote :: "string \<Rightarrow> string" where
  "quote s = CHR 0x22 # s @ [CHR 0x22]"

definition newline_and :: string where
  "newline_and = CHR 0x0A # ''and'' @ [CHR 0x0A]"

definition render ::
    "Libs \<Rightarrow> multiWindowMultiBurnAlertRule \<Rightarrow> string \<Rightarrow> string \<Rightarrow> NamespacedName \<Rightarrow> Rule" where
  "render L r url percent namespacedName =
     (let labelSelector = UrlLabelName @ ''='' @ quote url;
          alertString =
            alertThreshold (ar_shortWindow r) percent labelSelector (ar_burnRate r) @
            '' and '' @
            sufficientProbes L (ar_shortWindow r) labelSelector @
            newline_and @
            alertThreshold (ar_longWindow r) percent labelSelector (ar_burnRate r) @
            '' and '' @
            sufficientProbes L (ar_longWindow r) labelSelector;
          alertString' =
            (if nn_name namespacedName = ''console''
             then let defaultConsoleURL = strings_TrimSuffix url ''/health'';
                      defaultConsoleIndicator =
                        ''count(console_url{url='' @ quote defaultConsoleURL @ ''} == 1) > 0''
                  in alertString @ newline_and @ defaultConsoleIndicator
             else alertString)
      in \<lparr>ru_alert = nn_name namespacedName @ ''-ErrorBudgetBurn'',
          ru_expr = alertString',
          ru_labels = renderLabels r url (nn_namespace namespacedName),
          ru_annotations = fmap_of_list
            [(''message'', ''High error budget burn for '' @ url @ '' (current value: {{ $value }})'')],
          ru_for = ar_duration r\<rparr>)"

section \<open>The PrometheusRule\<close>

definition alertRules :: "multiWindowMultiBurnAlertRule list" where
  "alertRules =
     [\<lparr>ar_duration = ''2m'', ar_severity = ''critical'', ar_longWindow = ''1h'',
       ar_shortWindow = ''5m'', ar_burnRate = ''14.40''\<rparr>,
      \<lparr>ar_duration = ''15m'', ar_severity = ''critical'', ar_longWindow = ''6h'',
       ar_shortWindow = ''30m'', ar_burnRate = ''6''\<rparr>,
      \<lparr>ar_duration = ''1h'', ar_severity = ''warning'', ar_longWindow = ''1d'',
       ar_shortWindow = ''2h'', ar_burnRate = ''3''\<rparr>,
      \<lparr>ar_duration = ''3h'', ar_severity = ''warning'', ar_longWindow = ''3d'',
       ar_shortWindow = ''6h'', ar_burnRate = ''1''\<rparr>]"

definition TemplateForPrometheusRuleResource ::
    "Libs \<Rightarrow> string \<Rightarrow> string \<Rightarrow> NamespacedName \<Rightarrow> PrometheusRule" where
  "TemplateForPrometheusRuleResource L url percent namespacedName =
     (let rules = map (\<lambda>alertrule. render L alertrule url percent namespacedName) alertRules
      in \<lparr>obj_type = empty_type,
          obj_meta = empty_meta\<lparr>om_name := nn_name namespacedName,
                                om_namespace := nn_namespace namespacedName\<rparr>,
          obj_spec = [\<lparr>rg_name = ''SLOs-probe'', rg_rules = rules\<rparr>],
          obj_status = ()\<rparr>)"

definition UpdatePrometheusRuleDeployment ::
    "'w Env \<Rightarrow> PrometheusRule \<Rightarrow> ('w, go_error option) io" where
  "UpdatePrometheusRuleDeployment E tmpl =
     do { r \<leftarrow> kube_Get (pr_api E) \<lparr>nn_name = om_name (obj_meta tmpl),
                                    nn_namespace = om_namespace (obj_meta tmpl)\<rparr>;
          (case r of
             Inl err \<Rightarrow>
               if \<not> IsNotFound err then ret (Some err)
               else do { c \<leftarrow> kube_Create (pr_api E) tmpl; ret (err_of c) }
           | Inr deployedPrometheusRule \<Rightarrow>
               if obj_spec tmpl \<noteq> obj_spec deployedPrometheusRule
               then do { u \<leftarrow> kube_Update (pr_api E)
                               (deployedPrometheusRule\<lparr>obj_spec := obj_spec tmpl\<rparr>);
                         ret (err_of u) }
               else ret None) }"

definition DeletePrometheusRuleDeployment ::
    "'w Env \<Rightarrow> NamespacedName \<Rightarrow> ('w, go_error option) io" where
  "DeletePrometheusRuleDeployment E prometheusRuleRef =
     (if prometheusRuleRef = nn_empty then ret None
      else do { r \<leftarrow> kube_Get (pr_api E) \<lparr>nn_name = nn_name prometheusRuleRef,
                                          nn_namespace = nn_namespace prometheusRuleRef\<rparr>;
                (case r of
                   Inl err \<Rightarrow> if \<not> IsNotFound err then ret (Some err) else ret None
                 | Inr resource \<Rightarrow> kube_Delete (pr_api E) resource) })"

section \<open>Lemmas\<close>

lemma UpdatePrometheusRuleDeployment_upsert:
  "UpdatePrometheusRuleDeployment E t = upsert (pr_api E) (\<lambda>x. x) t"
  unfolding UpdatePrometheusRuleDeployment_def upsert_def obj_key_def
  by (rule arg_cong [where f = "State_Monad.bind _"]) (auto intro!: ext split: sum.split)

lemma DeletePrometheusRuleDeployment_absent:
  "DeletePrometheusRuleDeployment E ref =
     (if ref = nn_empty then ret None else ensure_absent (pr_api E) ref)"
  by (simp add: DeletePrometheusRuleDeployment_def ensure_absent_def)

lemma rule_template_key [simp]: "obj_key (TemplateForPrometheusRuleResource L url p n) = n"
  by (simp add: TemplateForPrometheusRuleResource_def obj_key_def Let_def)

lemma wp_PrometheusRule_upsert:
  assumes "ok_world E snap w"
  shows "wp (UpdatePrometheusRuleDeployment E t)
    (\<lambda>r w'. ok_world E snap w' \<and> upserted c_pr c_pr_update t r (snap w) (snap w')) w"
  using wp_upsert [OF assms ok_world_laws(6) [OF assms] cluster_lenses(6) wf_cluster_stores(6) sends_same_id]
  by (simp add: UpdatePrometheusRuleDeployment_upsert)

lemma wp_PrometheusRule_delete:
  assumes "ok_world E snap w"
  shows "wp (DeletePrometheusRuleDeployment E ref)
    (\<lambda>r w'. ok_world E snap w' \<and>
       (if ref = nn_empty then r = None \<and> snap w' = snap w
        else removed c_pr c_pr_update ref r (snap w) (snap w'))) w"
  using wp_ensure_absent [OF assms ok_world_laws(6) [OF assms] cluster_lenses(6) wf_cluster_stores(6)]
    assms
  by (auto simp: DeletePrometheusRuleDeployment_absent wp_simps)

section \<open>Properties\<close>

text \<open>The four alerts of a PrometheusRule share their name and are told apart by their labels:
  no two rules of the template have the same label set.\<close>

lemma alert_rules_distinct:
  "distinct (map ru_labels (concat (map rg_rules
     (obj_spec (TemplateForPrometheusRuleResource L url percent n)))))"
proof -
  let ?rules = "concat (map rg_rules (obj_spec (TemplateForPrometheusRuleResource L url percent n)))"
  let ?window = "\<lambda>ls. fmlookup ls ''short_window''"
  have "?window (renderLabels r url ns) = Some (ar_shortWindow r)" for r ns
    by (simp add: renderLabels_def fmlookup_of_list UrlLabelName_def)
  then have "map ?window (map ru_labels ?rules) = map (Some \<circ> ar_shortWindow) alertRules"
    by (simp add: TemplateForPrometheusRuleResource_def Let_def render_def)
  also have "distinct \<dots>"
    by (simp add: alertRules_def)
  finally show ?thesis
    by (rule conjunct1 [OF iffD1 [OF distinct_map]])
qed

text \<open>C27. When UpdatePrometheusRuleDeployment returns no error the rule of the template is stored and
  nothing else changed; an error changes nothing; an up-to-date rule is not written.\<close>

theorem prometheusrule_upsert_correct:
  assumes "ok_world E snap w"
  shows "wp (UpdatePrometheusRuleDeployment E t)
    (\<lambda>r w'. ok_world E snap w' \<and> upserted c_pr c_pr_update t r (snap w) (snap w')) w"
  using assms by (rule wp_PrometheusRule_upsert)

end
