(* ===== verification/Cluster_Util.thy ===== *)
theory Cluster_Util
  imports Kube_Client Go_Strconv
begin

text \<open>
  pkg/util/util.go: what the blackbox exporter's placement depends on, the version of the cluster
  and whether its ingress is a private AWS network load balancer.  The version library is a
  parameter; the regular expression \<open>([0-9]+).([0-9]+)([0-9]?)\<close> is matched by \<open>FindString\<close>.
\<close>

definition GetClusterVersion :: "'w Env \<Rightarrow> ('w, go_error + string) io" where
  "GetClusterVersion E =
     do { r \<leftarrow> kube_Get (cv_api E) \<lparr>nn_name = ''version'', nn_namespace = []\<rparr>;
          (case r of
             Inl err \<Rightarrow> ret (Inl err)
           | Inr cv \<Rightarrow> ret (Inr (obj_status cv))) }"

text \<open>The length of the UTF-8 encoding at the head of a string; an invalid byte counts as one.\<close>

definition byte_in :: "nat \<Rightarrow> nat \<Rightarrow> string \<Rightarrow> nat \<Rightarrow> bool" where
  "byte_in lo hi s i = (i < length s \<and> lo \<le> of_char (s ! i) \<and> of_char (s ! i) \<le> hi)"

definition rune_len :: "string \<Rightarrow> nat" where
  "rune_len s =
     (if byte_in 0xC2 0xDF s 0 \<and> byte_in 0x80 0xBF s 1 then 2
      else if (byte_in 0xE0 0xE0 s 0 \<and> byte_in 0xA0 0xBF s 1 \<or>
               byte_in 0xE1 0xEC s 0 \<and> byte_in 0x80 0xBF s 1 \<or>
               byte_in 0xED 0xED s 0 \<and> byte_in 0x80 0x9F s 1 \<or>
               byte_in 0xEE 0xEF s 0 \<and> byte_in 0x80 0xBF s 1) \<and> byte_in 0x80 0xBF s 2 then 3
      else if (byte_in 0xF0 0xF0 s 0 \<and> byte_in 0x90 0xBF s 1 \<or>
               byte_in 0xF1 0xF3 s 0 \<and> byte_in 0x80 0xBF s 1 \<or>
               byte_in 0xF4 0xF4 s 0 \<and> byte_in 0x80 0x8F s 1) \<and>
              byte_in 0x80 0xBF s 2 \<and> byte_in 0x80 0xBF s 3 then 4
      else 1)"

text \<open>The match at the head of a string: the first group takes as many digits as still allow a
  character other than a newline and at least one digit to follow; the second group takes all
  digits that follow, and the optional third is then empty.\<close>

definition match_after :: "string \<Rightarrow> nat \<Rightarrow> string option" where
  "match_after s k =
     (let t = drop k s in
      if t = [] \<or> hd t = CHR 0x0A then None
      else let r = rune_len t; m = length (takeWhile is_digit (drop r t))
           in if m = 0 then None else Some (take (k + r + m) s))"

fun match_here :: "string \<Rightarrow> nat \<Rightarrow> string option" where
  "match_here s 0 = None"
| "match_here s (Suc k) =
     (case match_after s (Suc k) of Some m \<Rightarrow> Some m | None \<Rightarrow> match_here s k)"

fun FindString :: "string \<Rightarrow> string" where
  "FindString [] = []"
| "FindString (c # cs) =
     (case match_here (c # cs) (length (takeWhile is_digit (c # cs))) of
        Some m \<Rightarrow> m
      | None \<Rightarrow> FindString cs)"

definition IsClusterVersionHigherOrEqualThan :: "'w Env \<Rightarrow> string \<Rightarrow> ('w, bool) io" where
  "IsClusterVersionHigherOrEqualThan E givenVersionStr =
     do { r \<leftarrow> GetClusterVersion E;
          (case r of
             Inl err \<Rightarrow> ret False
           | Inr currentVersionStr \<Rightarrow>
               let shortVersion = FindString currentVersionStr in
               case NewVersion (libs E) shortVersion of
                 None \<Rightarrow> ret False
               | Some currentVersion \<Rightarrow>
                   (case NewVersion (libs E) givenVersionStr of
                      None \<Rightarrow> ret False
                    | Some givenVersion \<Rightarrow>
                        ret (GreaterThanOrEqual (libs E) currentVersion givenVersion))) }"

definition ic_undefined :: "string \<Rightarrow> go_error" where
  "ic_undefined field = errors_New (''failed to determine if cluster has private NLB: '' @
     [CHR 0x27] @ ''openshift-ingress-operator/default'' @ [CHR 0x27] @
     '' has undefined .Status.EndpointPublishingStrategy'' @ field)"

definition ClusterHasPrivateNLB :: "'w Env \<Rightarrow> ('w, go_error + bool) io" where
  "ClusterHasPrivateNLB E =
     do { r \<leftarrow> kube_Get (inf_api E) \<lparr>nn_name = ''cluster'', nn_namespace = []\<rparr>;
          (case r of
             Inl err \<Rightarrow> ret (Inl (wrap_w (''failed to GET '' @ [CHR 0x27] @ ''cluster'' @ [CHR 0x27] @
                                      '' infrastructure'') err))
           | Inr infra \<Rightarrow>
               if inf_platformType (obj_status infra) \<noteq> Some ''AWS'' then ret (Inr False)
               else do { i \<leftarrow> kube_Get (ic_api E) \<lparr>nn_name = ''default'',
                                     nn_namespace = ''openshift-ingress-operator''\<rparr>;
                 (case i of
                    Inl err \<Rightarrow> ret (Inl (wrap_w (''failed to GET '' @ [CHR 0x27] @
                        ''openshift-ingress-operator/default'' @ [CHR 0x27] @ '' ingresscontroller'') err))
                  | Inr ic \<Rightarrow>
                      (case obj_status ic of
                         None \<Rightarrow> ret (Inl (ic_undefined []))
                       | Some None \<Rightarrow> ret (Inl (ic_undefined ''.LoadBalancer''))
                       | Some (Some lb) \<Rightarrow>
                           (case lb_provider lb of
                              None \<Rightarrow> ret (Inl (ic_undefined ''.LoadBalancer.ProviderParameters''))
                            | Some None \<Rightarrow> ret (Inl (ic_undefined
                                ''.LoadBalancer.ProviderParameters.AWS is undefined''))
                            | Some (Some awsType) \<Rightarrow>
                                ret (Inr (lb_scope lb = ''Internal'' \<and> awsType = ''NLB''))))) }) }"

section \<open>Lemmas\<close>

lemma wp_reads_only_GetClusterVersion:
  assumes "ok_world E snap w"
  shows "wp (GetClusterVersion E) (\<lambda>r w'. ok_world E snap w' \<and> snap w' = snap w) w"
  unfolding GetClusterVersion_def wp_simps
  by (rule wp_Get [OF assms ok_world_laws(14) [OF assms]]) (auto simp: wp_simps)

lemma wp_reads_only_IsClusterVersion:
  assumes "ok_world E snap w"
  shows "wp (IsClusterVersionHigherOrEqualThan E v) (\<lambda>r w'. ok_world E snap w' \<and> snap w' = snap w) w"
  unfolding IsClusterVersionHigherOrEqualThan_def wp_simps
  by (rule wp_mono [OF wp_reads_only_GetClusterVersion [OF assms]])
    (auto simp: wp_simps Let_def split: sum.splits option.splits)

lemma wp_reads_only_PrivateNLB:
  assumes "ok_world E snap w"
  shows "wp (ClusterHasPrivateNLB E) (\<lambda>r w'. ok_world E snap w' \<and> snap w' = snap w) w"
  unfolding ClusterHasPrivateNLB_def wp_simps
proof (rule wp_Get [OF assms ok_world_laws(15) [OF assms]], goal_cases)
  case (2 infra w1)
  note ic = wp_Get [OF 2(1) ok_world_laws(16) [OF 2(1)]]
  show ?case
  proof (cases "inf_platformType (obj_status infra) = Some ''AWS''")
    case True
    then show ?thesis
      unfolding sum.case wp_simps
      apply (simp only: not_True_eq_False if_False simp_thms)
      apply (rule ic)
      subgoal using 2 by (simp add: wp_simps)
      subgoal for ic1 w2 using 2 by (simp add: wp_simps split: option.split)
      done
  next
    case False
    then show ?thesis using 2 by (simp add: wp_simps)
  qed
qed (auto simp: wp_simps)

end
