(* ===== verification/Blackbox_Exporter.thy ===== *)
theory Blackbox_Exporter
  imports Service_Monitor Finalizers Cluster_Util
begin

text \<open>
  pkg/blackboxexporter: the one blackbox exporter all monitors share, its config map, deployment
  and service, when it is created and when it may go.  The receiver's image and name are the
  record \<open>BlackBoxExporter\<close>; its client is the environment \<open>E\<close>.
\<close>

record BlackBoxExporter =
  bb_Image :: string
  bb_NamespacedName :: NamespacedName

definition New :: "string \<Rightarrow> string \<Rightarrow> BlackBoxExporter" where
  "New blackBoxImage blackBoxExporterNamespace =
     \<lparr>bb_Image = blackBoxImage,
      bb_NamespacedName = \<lparr>nn_name = BlackBoxExporterName, nn_namespace = blackBoxExporterNamespace\<rparr>\<rparr>"

definition GetBlackBoxExporterNamespace :: "BlackBoxExporter \<Rightarrow> string" where
  "GetBlackBoxExporterNamespace b = nn_namespace (bb_NamespacedName b)"

definition KeepBlackBoxExporter :: bool where "KeepBlackBoxExporter = False"
definition DeleteBlackBoxExporter :: bool where "DeleteBlackBoxExporter = True"

definition ShouldDeleteBlackBoxExporterResources ::
    "'w Env \<Rightarrow> BlackBoxExporter \<Rightarrow> ('w, go_error + bool) io" where
  "ShouldDeleteBlackBoxExporterResources E b =
     do { r \<leftarrow> kube_List (rm_api E) None;
          (case r of
             Inl err \<Rightarrow> ret (Inl err)
           | Inr routeMonitors \<Rightarrow>
               do { c \<leftarrow> kube_List (cum_api E) None;
                    (case c of
                       Inl err \<Rightarrow> ret (Inl err)
                     | Inr clusterUrlMonitors \<Rightarrow>
                         let objectsDependingOnExporter =
                               map obj_meta routeMonitors @ map obj_meta clusterUrlMonitors
                         in if length objectsDependingOnExporter = 1 \<and>
                               WasDeleteRequested (objectsDependingOnExporter ! 0)
                            then ret (Inr DeleteBlackBoxExporter)
                            else ret (Inr KeepBlackBoxExporter)) }) }"

section \<open>Templates\<close>

definition templateForBlackBoxExporterDeployment ::
    "'w Env \<Rightarrow> string \<Rightarrow> NamespacedName \<Rightarrow> ('w, go_error + Deployment) io" where
  "templateForBlackBoxExporterDeployment E blackBoxImage blackBoxNamespacedName =
     do { p \<leftarrow> ClusterHasPrivateNLB E;
          (case p of
             Inl err \<Rightarrow> ret (Inl (wrap_w
               ''failed to determine if cluster has private network LoadBalancer'' err))
           | Inr privateNLB \<Rightarrow>
               do { newer \<leftarrow> IsClusterVersionHigherOrEqualThan E ''4.13'';
                    let nodeLabel = (if newer \<and> privateNLB then ''node-role.kubernetes.io/master''
                                     else ''node-role.kubernetes.io/infra'');
                        labels = GenerateBlackBoxExporterLables
                    in ret (Inr
                      \<lparr>obj_type = empty_type,
                       obj_meta = empty_meta\<lparr>om_name := nn_name blackBoxNamespacedName,
                                             om_namespace := nn_namespace blackBoxNamespacedName,
                                             om_labels := labels\<rparr>,
                       obj_spec =
                         \<lparr>dep_replicas = 1,
                          dep_selector = labels,
                          dep_podLabels = labels,
                          dep_nodeAffinity = [(nodeLabel, ''Exists'', 1)],
                          dep_tolerations =
                            [\<lparr>tol_operator = ''Exists'', tol_effect = ''NoSchedule'', tol_key = nodeLabel\<rparr>],
                          dep_serviceAccountName = ''route-monitor-operator-system'',
                          dep_containers =
                            [\<lparr>ct_image = blackBoxImage, ct_name = ''blackbox-exporter'',
                              ct_args = [''--config.file=/config/blackbox.yaml''],
                              ct_ports = [(BlackBoxExporterPortNumber, BlackBoxExporterPortName)],
                              ct_volumeMounts = [(''blackbox-config'', True, ''/config'')]\<rparr>],
                          dep_configMapVolumes = [(''blackbox-config'', nn_name blackBoxNamespacedName)]\<rparr>,
                       obj_status = ()\<rparr>) }) }"

definition templateForBlackBoxExporterService :: "NamespacedName \<Rightarrow> Service" where
  "templateForBlackBoxExporterService blackboxNamespacedName =
     (let labels = GenerateBlackBoxExporterLables in
      \<lparr>obj_type = empty_type,
       obj_meta = empty_meta\<lparr>om_name := nn_name blackboxNamespacedName,
                             om_namespace := nn_namespace blackboxNamespacedName,
                             om_labels := labels\<rparr>,
       obj_spec = \<lparr>svc_selector = labels,
                   svc_ports = [\<lparr>sp_targetPort = BlackBoxExporterPortName,
                                 sp_port = BlackBoxExporterPortNumber,
                                 sp_name = BlackBoxExporterPortName\<rparr>]\<rparr>,
       obj_status = ()\<rparr>)"

definition blackbox_yaml :: string where
  "blackbox_yaml =
     ''modules:'' @ [CHR 0x0A] @
     ''  http_2xx:'' @ [CHR 0x0A] @
     ''    prober: http'' @ [CHR 0x0A] @
     ''    timeout: 15s'' @ [CHR 0x0A] @
     ''  insecure_http_2xx:'' @ [CHR 0x0A] @
     ''    prober: http'' @ [CHR 0x0A] @
     ''    timeout: 15s'' @ [CHR 0x0A] @
     ''    http:'' @ [CHR 0x0A] @
     ''      tls_config:'' @ [CHR 0x0A] @
     ''        insecure_skip_verify: true''"

definition templateForBlackBoxExporterConfigMap :: "NamespacedName \<Rightarrow> ConfigMap" where
  "templateForBlackBoxExporterConfigMap blackboxNamespacedName =
     (let labels = GenerateBlackBoxExporterLables in
      \<lparr>obj_type = empty_type,
       obj_meta = empty_meta\<lparr>om_name := nn_name blackboxNamespacedName,
                             om_namespace := nn_namespace blackboxNamespacedName,
                             om_labels := labels\<rparr>,
       obj_spec = fmap_of_list [(''blackbox.yaml'', blackbox_yaml)],
       obj_status = ()\<rparr>)"

section \<open>Creation\<close>

definition EnsureBlackBoxExporterDeploymentExists ::
    "'w Env \<Rightarrow> BlackBoxExporter \<Rightarrow> ('w, go_error option) io" where
  "EnsureBlackBoxExporterDeploymentExists E b =
     do { t \<leftarrow> templateForBlackBoxExporterDeployment E (bb_Image b) (bb_NamespacedName b);
          (case t of
             Inl err \<Rightarrow> ret (Some (wrap_w ''failed to create blackboxexporter template'' err))
           | Inr tmpl \<Rightarrow>
               do { r \<leftarrow> kube_Get (dep_api E) (bb_NamespacedName b);
                    (case r of
                       Inl err \<Rightarrow>
                         if \<not> IsNotFound err then ret (Some err)
                         else do { c \<leftarrow> kube_Create (dep_api E) tmpl; ret (err_of c) }
                     | Inr resource \<Rightarrow>
                         if obj_spec resource \<noteq> obj_spec tmpl
                         then do { u \<leftarrow> kube_Update (dep_api E)
                                     (resource\<lparr>obj_meta := (obj_meta resource)\<lparr>om_resourceVersion := []\<rparr>,
                                               obj_spec := obj_spec tmpl\<rparr>);
                                   ret (err_of u) }
                         else ret None) }) }"

definition EnsureBlackBoxExporterServiceExists ::
    "'w Env \<Rightarrow> BlackBoxExporter \<Rightarrow> ('w, go_error option) io" where
  "EnsureBlackBoxExporterServiceExists E b =
     do { r \<leftarrow> kube_Get (svc_api E) (bb_NamespacedName b);
          (case r of
             Inl err \<Rightarrow>
               if \<not> IsNotFound err then ret (Some err)
               else do { c \<leftarrow> kube_Create (svc_api E)
                               (templateForBlackBoxExporterService (bb_NamespacedName b));
                         ret (err_of c) }
           | Inr resource \<Rightarrow> ret None) }"

definition EnsureBlackBoxExporterConfigMapExists ::
    "'w Env \<Rightarrow> BlackBoxExporter \<Rightarrow> ('w, go_error option) io" where
  "EnsureBlackBoxExporterConfigMapExists E b =
     do { r \<leftarrow> kube_Get (cm_api E) (bb_NamespacedName b);
          (case r of
             Inl err \<Rightarrow>
               if \<not> IsNotFound err then ret (Some err)
               else do { c \<leftarrow> kube_Create (cm_api E)
                               (templateForBlackBoxExporterConfigMap (bb_NamespacedName b));
                         ret (err_of c) }
           | Inr resource \<Rightarrow> ret None) }"

definition EnsureBlackBoxExporterResourcesExist ::
    "'w Env \<Rightarrow> BlackBoxExporter \<Rightarrow> ('w, go_error option) io" where
  "EnsureBlackBoxExporterResourcesExist E b =
     do { c \<leftarrow> EnsureBlackBoxExporterConfigMapExists E b;
          (case c of
             Some err \<Rightarrow> ret (Some err)
           | None \<Rightarrow>
               do { d \<leftarrow> EnsureBlackBoxExporterDeploymentExists E b;
                    (case d of
                       Some err \<Rightarrow> ret (Some err)
                     | None \<Rightarrow> EnsureBlackBoxExporterServiceExists E b) }) }"

section \<open>Removal\<close>

definition EnsureBlackBoxExporterDeploymentAbsent ::
    "'w Env \<Rightarrow> BlackBoxExporter \<Rightarrow> ('w, go_error option) io" where
  "EnsureBlackBoxExporterDeploymentAbsent E b =
     do { r \<leftarrow> kube_Get (dep_api E) (bb_NamespacedName b);
          (case r of
             Inl err \<Rightarrow> if \<not> IsNotFound err then ret (Some err) else ret None
           | Inr resource \<Rightarrow> kube_Delete (dep_api E) resource) }"

definition EnsureBlackBoxExporterServiceAbsent ::
    "'w Env \<Rightarrow> BlackBoxExporter \<Rightarrow> ('w, go_error option) io" where
  "EnsureBlackBoxExporterServiceAbsent E b =
     do { r \<leftarrow> kube_Get (svc_api E) (bb_NamespacedName b);
          (case r of
             Inl err \<Rightarrow> if \<not> IsNotFound err then ret (Some err) else ret None
           | Inr resource \<Rightarrow> kube_Delete (svc_api E) resource) }"

definition EnsureBlackBoxExporterConfigMapAbsent ::
    "'w Env \<Rightarrow> BlackBoxExporter \<Rightarrow> ('w, go_error option) io" where
  "EnsureBlackBoxExporterConfigMapAbsent E b =
     do { r \<leftarrow> kube_Get (cm_api E) (bb_NamespacedName b);
          (case r of
             Inl err \<Rightarrow> if \<not> IsNotFound err then ret (Some err) else ret None
           | Inr resource \<Rightarrow> kube_Delete (cm_api E) resource) }"

definition EnsureBlackBoxExporterResourcesAbsent ::
    "'w Env \<Rightarrow> BlackBoxExporter \<Rightarrow> ('w, go_error option) io" where
  "EnsureBlackBoxExporterResourcesAbsent E b =
     do { s \<leftarrow> EnsureBlackBoxExporterServiceAbsent E b;
          (case s of
             Some err \<Rightarrow> ret (Some err)
           | None \<Rightarrow>
               do { d \<leftarrow> EnsureBlackBoxExporterDeploymentAbsent E b;
                    (case d of
                       Some err \<Rightarrow> ret (Some err)
                     | None \<Rightarrow> EnsureBlackBoxExporterConfigMapAbsent E b) }) }"

section \<open>Lemmas\<close>

lemma blackbox_absent:
  "EnsureBlackBoxExporterDeploymentAbsent E b = ensure_absent (dep_api E) (bb_NamespacedName b)"
  "EnsureBlackBoxExporterServiceAbsent E b = ensure_absent (svc_api E) (bb_NamespacedName b)"
  "EnsureBlackBoxExporterConfigMapAbsent E b = ensure_absent (cm_api E) (bb_NamespacedName b)"
  by (simp_all add: EnsureBlackBoxExporterDeploymentAbsent_def EnsureBlackBoxExporterServiceAbsent_def
      EnsureBlackBoxExporterConfigMapAbsent_def ensure_absent_def)

lemma blackbox_template_keys [simp]:
  "obj_key (templateForBlackBoxExporterService n) = n"
  "obj_key (templateForBlackBoxExporterConfigMap n) = n"
  by (simp_all add: templateForBlackBoxExporterService_def templateForBlackBoxExporterConfigMap_def
      obj_key_def Let_def)

lemma blackbox_exists:
  "EnsureBlackBoxExporterServiceExists E b =
     ensure_exists (svc_api E) (templateForBlackBoxExporterService (bb_NamespacedName b))"
  "EnsureBlackBoxExporterConfigMapExists E b =
     ensure_exists (cm_api E) (templateForBlackBoxExporterConfigMap (bb_NamespacedName b))"
  by (simp_all add: EnsureBlackBoxExporterServiceExists_def EnsureBlackBoxExporterConfigMapExists_def
      ensure_exists_def)

definition clear_version :: "('s, 't) kobj \<Rightarrow> ('s, 't) kobj" where
  "clear_version x = x\<lparr>obj_meta := (obj_meta x)\<lparr>om_resourceVersion := []\<rparr>\<rparr>"

lemma sends_same_clear_version [simp]: "sends_same clear_version"
  by (simp add: sends_same_def clear_version_def same_sent_meta_def)

lemma clear_version_spec:
  "clear_version (d\<lparr>obj_spec := s\<rparr>) =
     d\<lparr>obj_meta := (obj_meta d)\<lparr>om_resourceVersion := []\<rparr>, obj_spec := s\<rparr>"
  by (cases d) (simp add: clear_version_def)

text \<open>The node label chosen by the template, and the template built from it.\<close>

definition blackbox_deployment :: "string \<Rightarrow> NamespacedName \<Rightarrow> string \<Rightarrow> DeploymentSpec" where
  "blackbox_deployment img n nodeLabel =
     \<lparr>dep_replicas = 1, dep_selector = GenerateBlackBoxExporterLables,
      dep_podLabels = GenerateBlackBoxExporterLables,
      dep_nodeAffinity = [(nodeLabel, ''Exists'', 1)],
      dep_tolerations = [\<lparr>tol_operator = ''Exists'', tol_effect = ''NoSchedule'', tol_key = nodeLabel\<rparr>],
      dep_serviceAccountName = ''route-monitor-operator-system'',
      dep_containers =
        [\<lparr>ct_image = img, ct_name = ''blackbox-exporter'',
          ct_args = [''--config.file=/config/blackbox.yaml''],
          ct_ports = [(BlackBoxExporterPortNumber, BlackBoxExporterPortName)],
          ct_volumeMounts = [(''blackbox-config'', True, ''/config'')]\<rparr>],
      dep_configMapVolumes = [(''blackbox-config'', nn_name n)]\<rparr>"

definition node_labels :: "string list" where
  "node_labels = [''node-role.kubernetes.io/master'', ''node-role.kubernetes.io/infra'']"

lemma wp_template_deployment:
  assumes "ok_world E snap w"
  shows "wp (templateForBlackBoxExporterDeployment E img n) (\<lambda>r w'. ok_world E snap w' \<and>
     snap w' = snap w \<and> (\<forall>t. r = Inr t \<longrightarrow> obj_key t = n \<and>
       (\<exists>l \<in> set node_labels. obj_spec t = blackbox_deployment img n l))) w"
  unfolding templateForBlackBoxExporterDeployment_def wp_simps
proof (rule wp_mono [OF wp_reads_only_PrivateNLB [OF assms]], goal_cases)
  case (1 p w1)
  then have "ok_world E snap w1" by simp
  then show ?case using 1
    by (cases p) (auto simp: wp_simps Let_def obj_key_def blackbox_deployment_def node_labels_def
        intro!: wp_mono [OF wp_reads_only_IsClusterVersion [of E snap w1]])
qed

lemma wp_deployment_exists:
  assumes ok: "ok_world E snap w"
  shows "wp (EnsureBlackBoxExporterDeploymentExists E b) (\<lambda>r w'. ok_world E snap w' \<and>
     (case r of Some e \<Rightarrow> snap w' = snap w
      | None \<Rightarrow> changes_only c_dep c_dep_update (bb_NamespacedName b) (snap w) (snap w') \<and>
          (\<exists>d l. map_of (c_dep (snap w')) (bb_NamespacedName b) = Some d \<and> l \<in> set node_labels \<and>
             obj_spec d = blackbox_deployment (bb_Image b) (bb_NamespacedName b) l))) w"
  unfolding EnsureBlackBoxExporterDeploymentExists_def wp_bind
proof (rule wp_mono [OF wp_template_deployment [OF ok]], goal_cases)
  case (1 t w1)
  show ?case
  proof (cases t)
    case (Inl e)
    then show ?thesis using 1 by (simp add: wp_simps)
  next
    case (Inr tmpl)
    with 1 have w1: "ok_world E snap w1" "snap w1 = snap w" and key: "obj_key tmpl = bb_NamespacedName b"
      and spec: "\<exists>l \<in> set node_labels. obj_spec tmpl = blackbox_deployment (bb_Image b) (bb_NamespacedName b) l"
      by auto
    have eq: "do { r \<leftarrow> kube_Get (dep_api E) (bb_NamespacedName b);
        (case r of
           Inl err \<Rightarrow> if \<not> IsNotFound err then ret (Some err)
             else do { c \<leftarrow> kube_Create (dep_api E) tmpl; ret (err_of c) }
         | Inr resource \<Rightarrow>
             if obj_spec resource \<noteq> obj_spec tmpl
             then do { u \<leftarrow> kube_Update (dep_api E)
                         (resource\<lparr>obj_meta := (obj_meta resource)\<lparr>om_resourceVersion := []\<rparr>,
                                   obj_spec := obj_spec tmpl\<rparr>);
                       ret (err_of u) }
             else ret None) } = upsert (dep_api E) clear_version tmpl"
      unfolding upsert_def key clear_version_spec ..
    show ?thesis
      using wp_upsert [OF w1(1) ok_world_laws(7) [OF w1(1)] cluster_lenses(7) wf_cluster_stores(7)
          sends_same_clear_version, of tmpl] w1 spec key
      by (auto simp: Inr eq upserted_def elim!: wp_mono split: option.splits)
  qed
qed

text \<open>One object of each of the three kinds: what the steps on the shared exporter may change.\<close>

definition blackbox_only :: "NamespacedName \<Rightarrow> cluster \<Rightarrow> cluster \<Rightarrow> bool" where
  "blackbox_only k c d \<longleftrightarrow>
     d = c\<lparr>c_cm := c_cm d, c_dep := c_dep d, c_svc := c_svc d\<rparr> \<and>
     (\<forall>k'. k' \<noteq> k \<longrightarrow> map_of (c_cm d) k' = map_of (c_cm c) k' \<and>
        map_of (c_dep d) k' = map_of (c_dep c) k' \<and> map_of (c_svc d) k' = map_of (c_svc c) k')"

lemma blackbox_only_refl [simp]: "blackbox_only k c c"
  by (simp add: blackbox_only_def)

lemma blackbox_only_trans: "blackbox_only k c d \<Longrightarrow> blackbox_only k d e \<Longrightarrow> blackbox_only k c e"
  by (cases c; cases d; cases e) (simp add: blackbox_only_def)

lemma blackbox_only_changes:
  "changes_only c_cm c_cm_update k c d \<Longrightarrow> blackbox_only k c d"
  "changes_only c_dep c_dep_update k c d \<Longrightarrow> blackbox_only k c d"
  "changes_only c_svc c_svc_update k c d \<Longrightarrow> blackbox_only k c d"
  by (cases c; cases d; simp add: changes_only_def blackbox_only_def)+

lemma changes_only_dep_cm: "changes_only c_dep c_dep_update k c d \<Longrightarrow> c_cm d = c_cm c"
  by (cases c; cases d) (simp add: changes_only_def)

lemma changes_only_svc_others:
  "changes_only c_svc c_svc_update k c d \<Longrightarrow> blackbox_only k c d \<and> c_cm d = c_cm c \<and>
     c_dep d = c_dep c"
  by (cases c; cases d) (simp add: changes_only_def blackbox_only_def)

lemma changes_only_dep_svc: "changes_only c_dep c_dep_update k c d \<Longrightarrow> c_svc d = c_svc c"
  by (cases c; cases d) (simp add: changes_only_def)

lemma changes_only_cm_others:
  "changes_only c_cm c_cm_update k c d \<Longrightarrow> blackbox_only k c d \<and> c_svc d = c_svc c \<and>
     c_dep d = c_dep c"
  by (cases c; cases d) (simp add: changes_only_def blackbox_only_def)

lemma in_namespace_None [simp]: "filter (in_namespace None \<circ> fst) s = s"
  by (simp add: in_namespace_def comp_def)

text \<open>The metadata of the monitors of a cluster.\<close>

definition monitor_metas :: "cluster \<Rightarrow> ObjectMeta list" where
  "monitor_metas c = map (obj_meta \<circ> snd) (c_rm c) @ map (obj_meta \<circ> snd) (c_cum c)"

definition last_monitor :: "cluster \<Rightarrow> bool" where
  "last_monitor c \<longleftrightarrow> (\<exists>m. monitor_metas c = [m] \<and> om_deletionTimestamp m \<noteq> None)"

lemma sole_mset:
  assumes "mset xs = mset ys"
  shows "length xs = 1 \<and> P (xs ! 0) \<longleftrightarrow> (\<exists>m. ys = [m] \<and> P m)"
proof -
  have "length xs = length ys" using assms by (rule mset_eq_length)
  moreover have "xs = ys" if "length ys = 1"
    using that assms calculation by (auto simp: length_Suc_conv)
  ultimately show ?thesis by (auto simp: length_Suc_conv)
qed

lemma wp_blackbox_decision:
  assumes ok: "ok_world E snap w"
  shows "wp (ShouldDeleteBlackBoxExporterResources E b) (\<lambda>r w'. ok_world E snap w' \<and>
    snap w' = snap w \<and> (\<forall>del. r = Inr del \<longrightarrow> (del \<longleftrightarrow> last_monitor (snap w)))) w"
  unfolding ShouldDeleteBlackBoxExporterResources_def wp_bind
proof (rule wp_List [OF ok ok_world_laws(1) [OF ok]], goal_cases)
  case (2 rms w1)
  show ?case
    unfolding sum.case wp_bind
  proof (rule wp_List [OF 2(1) ok_world_laws(2) [OF 2(1)]], goal_cases)
    case (2 cums w2)
    have "mset (map obj_meta rms @ map obj_meta cums) = mset (monitor_metas (snap w))"
      using 2 \<open>mset rms = _\<close> \<open>snap w1 = snap w\<close>
      by (simp add: monitor_metas_def in_namespace_def multiset.map_comp comp_def)
    from sole_mset [OF this, of WasDeleteRequested] show ?case
      using 2 \<open>snap w1 = snap w\<close>
      by (simp add: wp_simps Let_def last_monitor_def WasDeleteRequested_def
          DeleteBlackBoxExporter_def KeepBlackBoxExporter_def)
  qed (use 2 in \<open>simp add: wp_simps\<close>)
qed (simp add: wp_simps)

lemma wp_configmap_exists:
  assumes "ok_world E snap w"
  shows "wp (EnsureBlackBoxExporterConfigMapExists E b) (\<lambda>r w'. ok_world E snap w' \<and>
     existing c_cm c_cm_update (templateForBlackBoxExporterConfigMap (bb_NamespacedName b)) r
       (snap w) (snap w')) w"
  unfolding blackbox_exists
  by (rule wp_ensure_exists [OF assms ok_world_laws(9) [OF assms] cluster_lenses(9)])

lemma wp_service_exists:
  assumes "ok_world E snap w"
  shows "wp (EnsureBlackBoxExporterServiceExists E b) (\<lambda>r w'. ok_world E snap w' \<and>
     existing c_svc c_svc_update (templateForBlackBoxExporterService (bb_NamespacedName b)) r
       (snap w) (snap w')) w"
  unfolding blackbox_exists
  by (rule wp_ensure_exists [OF assms ok_world_laws(8) [OF assms] cluster_lenses(8)])

text \<open>The exporter is up: the three objects are stored, the deployment with a template's spec.\<close>

definition blackbox_up :: "BlackBoxExporter \<Rightarrow> cluster \<Rightarrow> bool" where
  "blackbox_up b c \<longleftrightarrow>
     map_of (c_cm c) (bb_NamespacedName b) \<noteq> None \<and> map_of (c_svc c) (bb_NamespacedName b) \<noteq> None \<and>
     (\<exists>d l. map_of (c_dep c) (bb_NamespacedName b) = Some d \<and> l \<in> set node_labels \<and>
        obj_spec d = blackbox_deployment (bb_Image b) (bb_NamespacedName b) l)"

lemma blackbox_up_cong:
  "blackbox_up b c \<Longrightarrow> c_cm d = c_cm c \<Longrightarrow> c_dep d = c_dep c \<Longrightarrow> c_svc d = c_svc c \<Longrightarrow> blackbox_up b d"
  by (simp add: blackbox_up_def)

lemma wp_blackbox_exist:
  assumes ok: "ok_world E snap w"
  shows "wp (EnsureBlackBoxExporterResourcesExist E b) (\<lambda>r w'. ok_world E snap w' \<and>
     blackbox_only (bb_NamespacedName b) (snap w) (snap w') \<and>
     (r = None \<longrightarrow> blackbox_up b (snap w'))) w"
  unfolding EnsureBlackBoxExporterResourcesExist_def wp_bind
proof (rule wp_mono [OF wp_configmap_exists [OF ok]], goal_cases)
  case (1 r1 w1)
  then have ok1: "ok_world E snap w1" by simp
  show ?case
  proof (cases r1)
    case (Some e)
    then show ?thesis using 1 by (simp add: wp_simps existing_def)
  next
    case None
    with 1 have cm: "blackbox_only (bb_NamespacedName b) (snap w) (snap w1)"
      "map_of (c_cm (snap w1)) (bb_NamespacedName b) \<noteq> None"
      by (auto simp: existing_def blackbox_only_changes)
    show ?thesis
      unfolding None option.case wp_bind
    proof (rule wp_mono [OF wp_deployment_exists [OF ok1]], goal_cases)
      case (1 r2 w2)
      then have ok2: "ok_world E snap w2" by simp
      show ?case
      proof (cases r2)
        case (Some e)
        then show ?thesis using 1 cm by (simp add: wp_simps)
      next
        case None
        with 1 have ch: "changes_only c_dep c_dep_update (bb_NamespacedName b) (snap w1) (snap w2)"
          and dep: "\<exists>d l. map_of (c_dep (snap w2)) (bb_NamespacedName b) = Some d \<and>
             l \<in> set node_labels \<and>
             obj_spec d = blackbox_deployment (bb_Image b) (bb_NamespacedName b) l"
          by auto
        have cm2: "c_cm (snap w2) = c_cm (snap w1)"
          using ch by (rule changes_only_dep_cm)
        note only = blackbox_only_trans [OF cm(1) blackbox_only_changes(2) [OF ch]]
        show ?thesis
          unfolding None option.case
          by (rule wp_mono [OF wp_service_exists [OF ok2]])
            (use only dep cm cm2 in \<open>auto simp: existing_def blackbox_up_def
                 dest!: changes_only_svc_others
                 intro: blackbox_only_trans split: option.splits\<close>)
      qed
    qed
  qed
qed

lemma wp_blackbox_absent:
  assumes ok: "ok_world E snap w"
  shows "wp (EnsureBlackBoxExporterResourcesAbsent E b) (\<lambda>r w'. ok_world E snap w' \<and>
     blackbox_only (bb_NamespacedName b) (snap w) (snap w') \<and>
     (r = None \<longrightarrow> gone c_cm (bb_NamespacedName b) (snap w') \<and>
        gone c_dep (bb_NamespacedName b) (snap w') \<and> gone c_svc (bb_NamespacedName b) (snap w'))) w"
  unfolding EnsureBlackBoxExporterResourcesAbsent_def wp_bind blackbox_absent
proof (rule wp_mono [OF wp_ensure_absent [OF ok ok_world_laws(8) [OF ok] cluster_lenses(8)
      wf_cluster_stores(8)]], assumption, goal_cases)
  case (1 r1 w1)
  then have ok1: "ok_world E snap w1" by simp
  show ?case
  proof (cases r1)
    case (Some e)
    then show ?thesis using 1 by (simp add: wp_simps removed_def)
  next
    case None
    with 1 have svc: "blackbox_only (bb_NamespacedName b) (snap w) (snap w1)"
      "gone c_svc (bb_NamespacedName b) (snap w1)"
      by (auto simp: removed_def blackbox_only_changes)
    show ?thesis
      unfolding None option.case wp_bind
    proof (rule wp_mono [OF wp_ensure_absent [OF ok1 ok_world_laws(7) [OF ok1] cluster_lenses(7)
          wf_cluster_stores(7)]], assumption, goal_cases)
      case (1 r2 w2)
      then have ok2: "ok_world E snap w2" by simp
      show ?case
      proof (cases r2)
        case (Some e)
        then show ?thesis using 1 svc by (simp add: wp_simps removed_def)
      next
        case None
        with 1 have dep: "changes_only c_dep c_dep_update (bb_NamespacedName b) (snap w1) (snap w2)"
          "gone c_dep (bb_NamespacedName b) (snap w2)"
          by (auto simp: removed_def)
        note only = blackbox_only_trans [OF svc(1) blackbox_only_changes(2) [OF dep(1)]]
        show ?thesis
          unfolding None option.case
          by (rule wp_mono [OF wp_ensure_absent [OF ok2 ok_world_laws(9) [OF ok2] cluster_lenses(9)
                wf_cluster_stores(9)]], assumption)
            (use only dep svc changes_only_dep_svc [OF dep(1)] in
              \<open>auto simp: removed_def gone_def dest!: changes_only_cm_others
                 intro: blackbox_only_trans split: option.splits\<close>)
      qed
    qed
  qed
qed

section \<open>Properties\<close>

text \<open>C25. After EnsureBlackBoxExporterResourcesExist without an error the config map, the service and
  the deployment of the exporter are stored, the deployment with the configured image and one of
  the two node labels; whatever the outcome, only these three objects may have changed.\<close>

theorem blackbox_resources_exist:
  assumes "ok_world E snap w"
  shows "wp (EnsureBlackBoxExporterResourcesExist E b) (\<lambda>r w'.
     blackbox_only (bb_NamespacedName b) (snap w) (snap w') \<and>
     (r = None \<longrightarrow> blackbox_up b (snap w'))) w"
  by (rule wp_mono [OF wp_blackbox_exist [OF assms]]) simp

end
