(* ===== verification/Interfaces.thy ===== *)
theory Interfaces
  imports Monitor_Common Service_Monitor Alert_Rule Blackbox_Exporter
begin

text \<open>
  controllers/interfaces.go: the four interfaces through which the two monitor controllers use the
  packages below pkg/.  A Go interface value is a record of its methods; the records built by
  \<open>NewMonitorResourceCommon\<close>, \<open>NewServiceMonitor\<close>, \<open>NewPrometheusRule\<close> and \<open>New\<close> hold the
  definitions of the packages.  What the controllers rely on of each interface is a locale, which
  each package's record is shown to satisfy here.
\<close>

section \<open>The interfaces\<close>

text \<open>The controllers hand objects of one kind to \<open>Update\<close>, so the record is typed by that kind.\<close>

record ('s, 't, 'w) MonitorResourceHandler =
  mh_SetErrorStatus :: "string \<Rightarrow> go_error option \<Rightarrow> bool \<times> string"
  mh_ParseMonitorSLOSpecs :: "string \<Rightarrow> SloSpec \<Rightarrow> string \<times> go_error option"
  mh_SetResourceReference ::
    "NamespacedName \<Rightarrow> NamespacedName \<Rightarrow> (bool \<times> go_error option) \<times> NamespacedName"
  mh_UpdateMonitorResource :: "('s, 't) kobj \<Rightarrow> ('w, Result \<times> go_error option) io"
  mh_UpdateMonitorResourceStatus :: "('s, 't) kobj \<Rightarrow> ('w, Result \<times> go_error option) io"
  mh_SetFinalizer :: "ObjectMeta \<Rightarrow> string \<Rightarrow> bool \<times> ObjectMeta"
  mh_DeleteFinalizer :: "ObjectMeta \<Rightarrow> string \<Rightarrow> bool \<times> ObjectMeta"
  mh_GetOSDClusterID :: "('w, go_error + string) io"
  mh_GetHypershiftClusterID :: "string \<Rightarrow> ('w, go_error + string) io"
  mh_GetHCP :: "string \<Rightarrow> ('w, go_error + HostedControlPlane) io"

record 'w ServiceMonitorHandler =
  sh_UpdateServiceMonitorDeployment :: "ServiceMonitor \<Rightarrow> ('w, go_error option) io"
  sh_TemplateAndUpdateServiceMonitorDeployment ::
    "string \<Rightarrow> string \<Rightarrow> NamespacedName \<Rightarrow> string \<Rightarrow> bool \<Rightarrow> bool \<Rightarrow> OwnerReference
       \<Rightarrow> ('w, go_error option) io"
  sh_DeleteServiceMonitorDeployment :: "NamespacedName \<Rightarrow> bool \<Rightarrow> ('w, go_error option) io"
  sh_HypershiftUpdateServiceMonitorDeployment :: "ServiceMonitor \<Rightarrow> ('w, go_error option) io"

record 'w PrometheusRuleHandler =
  ph_UpdatePrometheusRuleDeployment :: "PrometheusRule \<Rightarrow> ('w, go_error option) io"
  ph_DeletePrometheusRuleDeployment :: "NamespacedName \<Rightarrow> ('w, go_error option) io"

record 'w BlackBoxExporterHandler =
  bh_EnsureBlackBoxExporterResourcesExist :: "('w, go_error option) io"
  bh_EnsureBlackBoxExporterResourcesAbsent :: "('w, go_error option) io"
  bh_ShouldDeleteBlackBoxExporterResources :: "('w, go_error + bool) io"
  bh_GetBlackBoxExporterNamespace :: string

section \<open>Their implementations\<close>

definition NewMonitorResourceCommon ::
    "'w Env \<Rightarrow> ('s, 't, 'w) kube \<Rightarrow> ('s, 't, 'w) MonitorResourceHandler" where
  "NewMonitorResourceCommon E K =
     \<lparr>mh_SetErrorStatus = SetErrorStatus,
      mh_ParseMonitorSLOSpecs = ParseMonitorSLOSpecs (libs E),
      mh_SetResourceReference = SetResourceReference,
      mh_UpdateMonitorResource = UpdateMonitorResource K,
      mh_UpdateMonitorResourceStatus = UpdateMonitorResourceStatus K,
      mh_SetFinalizer = SetFinalizer (libs E),
      mh_DeleteFinalizer = DeleteFinalizer (libs E),
      mh_GetOSDClusterID = GetOSDClusterID E,
      mh_GetHypershiftClusterID = GetHypershiftClusterID E,
      mh_GetHCP = GetHCP E\<rparr>"

definition NewServiceMonitor :: "'w Env \<Rightarrow> 'w ServiceMonitorHandler" where
  "NewServiceMonitor E =
     \<lparr>sh_UpdateServiceMonitorDeployment = UpdateServiceMonitorDeployment E,
      sh_TemplateAndUpdateServiceMonitorDeployment = TemplateAndUpdateServiceMonitorDeployment E,
      sh_DeleteServiceMonitorDeployment = DeleteServiceMonitorDeployment E,
      sh_HypershiftUpdateServiceMonitorDeployment = HypershiftUpdateServiceMonitorDeployment E\<rparr>"

definition NewPrometheusRule :: "'w Env \<Rightarrow> 'w PrometheusRuleHandler" where
  "NewPrometheusRule E =
     \<lparr>ph_UpdatePrometheusRuleDeployment = UpdatePrometheusRuleDeployment E,
      ph_DeletePrometheusRuleDeployment = DeletePrometheusRuleDeployment E\<rparr>"

definition BlackBoxExporter_methods :: "'w Env \<Rightarrow> BlackBoxExporter \<Rightarrow> 'w BlackBoxExporterHandler" where
  "BlackBoxExporter_methods E b =
     \<lparr>bh_EnsureBlackBoxExporterResourcesExist = EnsureBlackBoxExporterResourcesExist E b,
      bh_EnsureBlackBoxExporterResourcesAbsent = EnsureBlackBoxExporterResourcesAbsent E b,
      bh_ShouldDeleteBlackBoxExporterResources = ShouldDeleteBlackBoxExporterResources E b,
      bh_GetBlackBoxExporterNamespace = GetBlackBoxExporterNamespace b\<rparr>"

section \<open>What the controllers rely on\<close>

lemma changes_only_other_fields:
  "changes_only c_sm c_sm_update s c d \<Longrightarrow> c_rm d = c_rm c \<and> c_cum d = c_cum c \<and> c_rsm d = c_rsm c \<and> c_pr d = c_pr c"
  "changes_only c_pr c_pr_update s c d \<Longrightarrow> c_rm d = c_rm c \<and> c_cum d = c_cum c \<and> c_rsm d = c_rsm c \<and> c_sm d = c_sm c"
  "changes_only c_rm c_rm_update s c d \<Longrightarrow> c_sm d = c_sm c \<and> c_rsm d = c_rsm c \<and> c_pr d = c_pr c"
  "changes_only c_rsm c_rsm_update s c d \<Longrightarrow> c_rm d = c_rm c \<and> c_cum d = c_cum c \<and> c_sm d = c_sm c \<and> c_pr d = c_pr c"
  "changes_only c_cum c_cum_update s c d \<Longrightarrow>
     c_rm d = c_rm c \<and> c_sm d = c_sm c \<and> c_rsm d = c_rsm c \<and> c_pr d = c_pr c"
  "blackbox_only b c d \<Longrightarrow> c_rm d = c_rm c \<and> c_cum d = c_cum c \<and> c_sm d = c_sm c \<and> c_rsm d = c_rsm c \<and> c_pr d = c_pr c"
  by (cases c; cases d; simp add: changes_only_def blackbox_only_def)+

text \<open>The exporter follows the monitors of \<open>c\<close>: its three objects stay as they are unless a single monitor is
  left, which is being deleted; and then they are gone when it is \<open>done\<close>.\<close>

definition exporter_follows :: "NamespacedName \<Rightarrow> cluster \<Rightarrow> bool \<Rightarrow> cluster \<Rightarrow> bool" where
  "exporter_follows b c finished d \<longleftrightarrow>
     (if last_monitor c then finished \<longrightarrow> gone c_cm b d \<and> gone c_dep b d \<and> gone c_svc b d
      else c_cm d = c_cm c \<and> c_dep d = c_dep c \<and> c_svc d = c_svc c)"

definition exporter_same :: "cluster \<Rightarrow> cluster \<Rightarrow> bool" where
  "exporter_same c d \<longleftrightarrow> c_cm d = c_cm c \<and> c_dep d = c_dep c \<and> c_svc d = c_svc c"

lemma exporter_same_intros [simp]:
  "exporter_same c c"
  "changes_only c_sm c_sm_update s c d \<Longrightarrow> exporter_same c d"
  "changes_only c_pr c_pr_update s c d \<Longrightarrow> exporter_same c d"
  "changes_only c_rm c_rm_update s c d \<Longrightarrow> exporter_same c d"
  "changes_only c_rsm c_rsm_update s c d \<Longrightarrow> exporter_same c d"
  "changes_only c_cum c_cum_update s c d \<Longrightarrow> exporter_same c d"
  by (cases c; cases d; simp add: changes_only_def exporter_same_def)+

lemma exporter_follows_cong:
  "exporter_follows b c finished d \<Longrightarrow> exporter_same d e \<Longrightarrow> exporter_follows b c finished e"
  by (auto simp: exporter_follows_def exporter_same_def gone_def split: if_splits)

lemma exporter_follows_unfinished: "exporter_follows b c True d \<Longrightarrow> exporter_follows b c x d"
  by (auto simp: exporter_follows_def split: if_splits)

lemma exporter_follows_start: "\<not> last_monitor c \<or> \<not> x \<Longrightarrow> exporter_same c d \<Longrightarrow> exporter_follows b c x d"
  by (auto simp: exporter_follows_def exporter_same_def)

text \<open>An update or status update of the object \<open>x\<close> of one kind: what the server then stores.\<close>

definition spec_updated ::
    "(cluster \<Rightarrow> ('s, 't) kobj store) \<Rightarrow> ((('s, 't) kobj store \<Rightarrow> ('s, 't) kobj store) \<Rightarrow> cluster \<Rightarrow> cluster)
       \<Rightarrow> ('s, 't) kobj \<Rightarrow> cluster \<Rightarrow> cluster \<Rightarrow> bool" where
  "spec_updated fld upd x c d \<longleftrightarrow>
     (\<exists>old n. map_of (fld c) (obj_key x) = Some old \<and> \<not> adds_finalizer old x \<and>
        same_sent_meta (obj_meta n) (obj_meta x) \<and> same_server_meta (obj_meta n) (obj_meta old) \<and>
        obj_type n = obj_type old \<and> obj_spec n = obj_spec x \<and> obj_status n = obj_status old \<and>
        d = upd (settle (obj_key x) n) c)"

definition status_updated ::
    "(cluster \<Rightarrow> ('s, 't) kobj store) \<Rightarrow> ((('s, 't) kobj store \<Rightarrow> ('s, 't) kobj store) \<Rightarrow> cluster \<Rightarrow> cluster)
       \<Rightarrow> ('s, 't) kobj \<Rightarrow> cluster \<Rightarrow> cluster \<Rightarrow> bool" where
  "status_updated fld upd x c d \<longleftrightarrow>
     (\<exists>old n. map_of (fld c) (obj_key x) = Some old \<and>
        same_sent_meta (obj_meta n) (obj_meta old) \<and> same_server_meta (obj_meta n) (obj_meta old) \<and>
        obj_type n = obj_type old \<and> obj_spec n = obj_spec old \<and> obj_status n = obj_status x \<and>
        d = upd (AList.update (obj_key x) n) c)"

lemma updated_changes:
  assumes "lens fld upd"
  shows "spec_updated fld upd x c d \<Longrightarrow> changes_only fld upd (obj_key x) c d"
    "status_updated fld upd x c d \<Longrightarrow> changes_only fld upd (obj_key x) c d"
  using assms by (auto simp: spec_updated_def status_updated_def map_of_settle intro!: changes_only_upd)

text \<open>The hosted control planes of a namespace, and the id the cluster itself has.\<close>

definition hcps_in :: "string \<Rightarrow> cluster \<Rightarrow> HostedControlPlane list" where
  "hcps_in ns c = map snd (filter (in_namespace (Some ns) \<circ> fst) (c_hcp c))"

definition own_clusterID :: "cluster \<Rightarrow> string option" where
  "own_clusterID c = map_option obj_spec (map_of (c_cv c) \<lparr>nn_name = ''version'', nn_namespace = []\<rparr>)"

text \<open>A method that writes nothing.\<close>

definition reads where
  "reads invar snap m \<longleftrightarrow> (\<forall>w. invar w \<longrightarrow> wp m (\<lambda>r w'. invar w' \<and> snap w' = snap w) w)"

lemma reads_ret: "reads invar snap (ret a)"
  by (simp add: reads_def wp_return)

lemma reads_bind:
  assumes "reads invar snap m" and f: "\<And>a. reads invar snap (f a)"
  shows "reads invar snap (m \<bind> f)"
  unfolding reads_def wp_bind
proof (intro allI impI)
  fix w
  assume "invar w"
  then have "wp m (\<lambda>_ w'. invar w' \<and> snap w' = snap w) w" using assms(1) by (simp add: reads_def)
  then show "wp m (\<lambda>a. wp (f a) (\<lambda>_ w'. invar w' \<and> snap w' = snap w)) w"
  proof (rule wp_mono, goal_cases)
    case (1 a w')
    then show ?case using f [of a, unfolded reads_def, rule_format, of w'] by simp
  qed
qed

lemma reads_if: "reads invar snap m \<Longrightarrow> reads invar snap n \<Longrightarrow> reads invar snap (if b then m else n)"
  by simp

lemma reads_sum:
  "(\<And>e. reads invar snap (g e)) \<Longrightarrow> (\<And>x. reads invar snap (h x)) \<Longrightarrow>
     reads invar snap (case s of Inl e \<Rightarrow> g e | Inr x \<Rightarrow> h x)"
  by (cases s) simp_all

lemmas reads_rules = reads_ret reads_bind reads_if reads_sum

lemma wp_reads:
  assumes "reads invar snap m" "invar w"
  shows "wp m (\<lambda>_ w'. invar w' \<and> snap w' = snap w) w"
  using assms by (simp add: reads_def)

locale monitor_resource_handler =
  fixes invar :: "'w \<Rightarrow> bool" and snap :: "'w \<Rightarrow> cluster"
    and fld :: "cluster \<Rightarrow> ('s, 't) kobj store"
    and upd :: "(('s, 't) kobj store \<Rightarrow> ('s, 't) kobj store) \<Rightarrow> cluster \<Rightarrow> cluster"
    and common :: "('s, 't, 'w) MonitorResourceHandler"
  assumes error_status:
      "mh_SetErrorStatus common st err =
         (case err of None \<Rightarrow> (st \<noteq> [], [])
          | Some e \<Rightarrow> (st = [], if st = [] then Error e else st))"
    and reference:
      "mh_SetResourceReference common ref t =
         (if ref \<noteq> nn_empty \<and> t \<noteq> nn_empty \<and> ref \<noteq> t then ((False, Some ErrInvalidReferenceUpdate), ref)
          else ((ref = nn_empty \<or> t = nn_empty, None), t))"
    and parse_slo: "mh_ParseMonitorSLOSpecs common url slo = (p, Some e) \<Longrightarrow> p = [] \<and> Error e \<noteq> []"
    and set_finalizer:
      "mh_SetFinalizer common m k = (k \<notin> set (om_finalizers m),
         if k \<in> set (om_finalizers m) then m
         else m\<lparr>om_finalizers := om_finalizers (snd (mh_SetFinalizer common m k))\<rparr>)"
    and delete_finalizer:
      "mh_DeleteFinalizer common m k = (k \<in> set (om_finalizers m),
         if k \<in> set (om_finalizers m)
         then m\<lparr>om_finalizers := om_finalizers (snd (mh_DeleteFinalizer common m k))\<rparr> else m)"
    and finalizer_sets:
      "invar w \<Longrightarrow> set (om_finalizers (snd (mh_SetFinalizer common m k))) = insert k (set (om_finalizers m)) \<and>
         set (om_finalizers (snd (mh_DeleteFinalizer common m k))) = set (om_finalizers m) - {k}"
    and update:
      "invar w \<Longrightarrow> wp (mh_UpdateMonitorResource common x) (\<lambda>(res, err) w'. invar w' \<and> ShouldStop res \<and>
         (case err of Some e \<Rightarrow> snap w' = snap w
          | None \<Rightarrow> res = StopOperation \<and> spec_updated fld upd x (snap w) (snap w'))) w"
    and status_update:
      "invar w \<Longrightarrow> wp (mh_UpdateMonitorResourceStatus common x) (\<lambda>(res, err) w'. invar w' \<and>
         ShouldStop res \<and>
         (case err of Some e \<Rightarrow> snap w' = snap w
          | None \<Rightarrow> res = StopOperation \<and> status_updated fld upd x (snap w) (snap w'))) w"
    and osd_id:
      "invar w \<Longrightarrow> wp (mh_GetOSDClusterID common) (\<lambda>r w'. invar w' \<and> snap w' = snap w \<and>
         (\<forall>i. r = Inr i \<longrightarrow> own_clusterID (snap w) = Some i)) w"
    and hypershift_id:
      "invar w \<Longrightarrow> wp (mh_GetHypershiftClusterID common ns) (\<lambda>r w'. invar w' \<and> snap w' = snap w \<and>
         (\<forall>i. r = Inr i \<longrightarrow> (\<exists>h. hcps_in ns (snap w) = [h] \<and> i = hcps_clusterID (obj_spec h)))) w"
    and hcp:
      "invar w \<Longrightarrow> wp (mh_GetHCP common ns) (\<lambda>r w'. invar w' \<and> snap w' = snap w \<and>
         (\<forall>h. r = Inr h \<longrightarrow> hcps_in ns (snap w) = [h])) w"

text \<open>The last step of a deletion, shared by the two controllers: the finalizer and its predecessor
  come off, if the finalizer was there.\<close>

definition finalizers_dropped ::
    "(cluster \<Rightarrow> ('s, 't) kobj store) \<Rightarrow> ((('s, 't) kobj store \<Rightarrow> ('s, 't) kobj store) \<Rightarrow> cluster \<Rightarrow> cluster)
       \<Rightarrow> string \<Rightarrow> string \<Rightarrow> ('s, 't) kobj \<Rightarrow> cluster \<Rightarrow> cluster \<Rightarrow> bool" where
  "finalizers_dropped fld upd key prev x c d \<longleftrightarrow>
     (if key \<in> set (om_finalizers (obj_meta x))
      then \<exists>m. set (om_finalizers m) = set (om_finalizers (obj_meta x)) - {key, prev} \<and>
             m\<lparr>om_finalizers := []\<rparr> = (obj_meta x)\<lparr>om_finalizers := []\<rparr> \<and>
             spec_updated fld upd (x\<lparr>obj_meta := m\<rparr>) c d
      else d = c)"

lemma obj_key_finalizers:
  "m\<lparr>om_finalizers := []\<rparr> = (obj_meta x)\<lparr>om_finalizers := []\<rparr> \<Longrightarrow> obj_key (x\<lparr>obj_meta := m\<rparr>) = obj_key x"
  by (cases m; cases "obj_meta x") (simp add: obj_key_def)

lemma finalizers_dropped_changes:
  assumes "lens fld upd" "finalizers_dropped fld upd key prev x c d"
  shows "changes_only fld upd (obj_key x) c d"
proof (cases "key \<in> set (om_finalizers (obj_meta x))")
  case True
  then obtain m where m: "m\<lparr>om_finalizers := []\<rparr> = (obj_meta x)\<lparr>om_finalizers := []\<rparr>"
    and sp: "spec_updated fld upd (x\<lparr>obj_meta := m\<rparr>) c d"
    using assms(2) unfolding finalizers_dropped_def if_P [OF True] by (elim exE conjE) (rule that)
  show ?thesis using updated_changes(1) [OF assms(1) sp] unfolding obj_key_finalizers [OF m] .
qed (use assms in \<open>simp add: finalizers_dropped_def\<close>)

lemma finalizers_dropped_gone:
  assumes "lens fld upd" "finalizers_dropped fld upd key prev x c d"
    and "map_of (fld c) (obj_key x) = Some x" and "map_of (fld d) (obj_key x) = Some y"
  shows "key \<notin> set (om_finalizers (obj_meta y))"
proof (cases "key \<in> set (om_finalizers (obj_meta x))")
  case True
  then obtain m where m: "set (om_finalizers m) = set (om_finalizers (obj_meta x)) - {key, prev}"
    "m\<lparr>om_finalizers := []\<rparr> = (obj_meta x)\<lparr>om_finalizers := []\<rparr>"
    and sp: "spec_updated fld upd (x\<lparr>obj_meta := m\<rparr>) c d"
    using assms(2) unfolding finalizers_dropped_def if_P [OF True] by (elim exE conjE) (rule that)
  from sp obtain n where n: "om_finalizers (obj_meta n) = om_finalizers m"
    "d = upd (settle (obj_key x) n) c"
    by (auto simp: spec_updated_def same_sent_meta_def obj_key_finalizers [OF m(2)])
  then have "y = n"
    using assms(4) by (simp add: map_of_settle lens_get [OF assms(1)] split: if_splits)
  then show ?thesis using n(1) m(1) by simp
qed (use assms in \<open>auto simp: finalizers_dropped_def\<close>)

context monitor_resource_handler
begin

lemma wp_drop_finalizers:
  assumes inv: "invar w"
  shows "wp (case mh_DeleteFinalizer common (obj_meta x) key of
        (deleted, m) \<Rightarrow> if deleted
          then mh_UpdateMonitorResource common
                 (x\<lparr>obj_meta := snd (mh_DeleteFinalizer common m prev)\<rparr>)
          else ret (z, None))
      (\<lambda>(res, err) w'. invar w' \<and>
        (key \<in> set (om_finalizers (obj_meta x)) \<longrightarrow> ShouldStop res) \<and>
        (key \<notin> set (om_finalizers (obj_meta x)) \<longrightarrow> res = z \<and> err = None) \<and>
        (case err of Some e \<Rightarrow> snap w' = snap w
         | None \<Rightarrow> finalizers_dropped fld upd key prev x (snap w) (snap w'))) w"
proof (cases "key \<in> set (om_finalizers (obj_meta x))")
  case False
  then have eq: "mh_DeleteFinalizer common (obj_meta x) key = (False, obj_meta x)"
    by (subst delete_finalizer) simp
  show ?thesis
    unfolding eq prod.case if_False wp_simps using False inv by (simp add: finalizers_dropped_def)
next
  case True
  define m1 where "m1 = snd (mh_DeleteFinalizer common (obj_meta x) key)"
  define m2 where "m2 = snd (mh_DeleteFinalizer common m1 prev)"
  have eq: "mh_DeleteFinalizer common (obj_meta x) key = (True, m1)"
    using True unfolding m1_def by (subst delete_finalizer) (subst (2) delete_finalizer, simp)
  have m: "set (om_finalizers m2) = set (om_finalizers (obj_meta x)) - {key, prev}"
    using finalizer_sets [OF inv] unfolding m1_def m2_def by auto
  have "m1\<lparr>om_finalizers := []\<rparr> = (obj_meta x)\<lparr>om_finalizers := []\<rparr>"
    unfolding m1_def by (subst delete_finalizer) simp
  moreover have "m2\<lparr>om_finalizers := []\<rparr> = m1\<lparr>om_finalizers := []\<rparr>"
    unfolding m2_def by (subst delete_finalizer) simp
  ultimately have m': "m2\<lparr>om_finalizers := []\<rparr> = (obj_meta x)\<lparr>om_finalizers := []\<rparr>" by simp
  show ?thesis
    unfolding eq prod.case if_True m2_def [symmetric]
  proof (rule wp_mono [OF update [OF inv]], goal_cases)
    case (1 a w')
    obtain res err where a: "a = (res, err)" by (cases a)
    have "finalizers_dropped fld upd key prev x (snap w) (snap w')"
      if "spec_updated fld upd (x\<lparr>obj_meta := m2\<rparr>) (snap w) (snap w')"
      unfolding finalizers_dropped_def if_P [OF True] by (intro exI conjI) (rule m m' that)+
    with 1 a True show ?case by (cases err) simp_all
  qed
qed

text \<open>Setting the finalizer: an object that lacks it is written back with it.\<close>

lemma wp_add_finalizer:
  assumes inv: "invar w" and lens: "lens fld upd" and x: "map_of (fld (snap w)) (obj_key x) = Some x"
    and pk: "prev \<noteq> key"
  shows "wp (case mh_SetFinalizer common (obj_meta x) key of
        (added, m) \<Rightarrow> if added
          then mh_UpdateMonitorResource common
                 (x\<lparr>obj_meta := snd (mh_DeleteFinalizer common m prev)\<rparr>)
          else ret ContinueReconcile)
      (\<lambda>(res, err) w'. invar w' \<and>
        (if key \<in> set (om_finalizers (obj_meta x))
         then res = ContinueOperation \<and> err = None \<and> snap w' = snap w
         else ShouldStop res \<and>
           (case err of Some e \<Rightarrow> snap w' = snap w
            | None \<Rightarrow> changes_only fld upd (obj_key x) (snap w) (snap w') \<and>
                (\<exists>y. map_of (fld (snap w')) (obj_key x) = Some y \<and>
                   set (om_finalizers (obj_meta y)) = insert key (set (om_finalizers (obj_meta x))) - {prev} \<and>
                   om_deletionTimestamp (obj_meta x) = None \<and> om_deletionTimestamp (obj_meta y) = None \<and>
                   om_name (obj_meta y) = om_name (obj_meta x) \<and>
                   om_namespace (obj_meta y) = om_namespace (obj_meta x) \<and>
                   obj_type y = obj_type x \<and> obj_spec y = obj_spec x \<and> obj_status y = obj_status x)))) w"
proof (cases "key \<in> set (om_finalizers (obj_meta x))")
  case True
  then have eq: "mh_SetFinalizer common (obj_meta x) key = (False, obj_meta x)"
    by (subst set_finalizer) simp
  show ?thesis
    unfolding eq prod.case if_False wp_simps using True inv by (simp add: ContinueReconcile_def)
next
  case False
  define m1 where "m1 = snd (mh_SetFinalizer common (obj_meta x) key)"
  define m2 where "m2 = snd (mh_DeleteFinalizer common m1 prev)"
  have eq: "mh_SetFinalizer common (obj_meta x) key = (True, m1)"
    using False unfolding m1_def by (subst set_finalizer) (subst (2) set_finalizer, simp)
  have m: "set (om_finalizers m2) = insert key (set (om_finalizers (obj_meta x))) - {prev}"
    using finalizer_sets [OF inv] unfolding m1_def m2_def by auto
  have "m1\<lparr>om_finalizers := []\<rparr> = (obj_meta x)\<lparr>om_finalizers := []\<rparr>"
    unfolding m1_def by (subst set_finalizer) simp
  moreover have "m2\<lparr>om_finalizers := []\<rparr> = m1\<lparr>om_finalizers := []\<rparr>"
    unfolding m2_def by (subst delete_finalizer) simp
  ultimately have m': "m2\<lparr>om_finalizers := []\<rparr> = (obj_meta x)\<lparr>om_finalizers := []\<rparr>" by simp
  note k = obj_key_finalizers [OF m']
  show ?thesis
    unfolding eq prod.case if_True m2_def [symmetric]
  proof (rule wp_mono [OF update [OF inv]], goal_cases)
    case (1 a w')
    obtain res err where a: "a = (res, err)" by (cases a)
    show ?case
    proof (cases err)
      case None
      with 1 a have sp: "spec_updated fld upd (x\<lparr>obj_meta := m2\<rparr>) (snap w) (snap w')" by simp
      then obtain n where n: "same_sent_meta (obj_meta n) m2" "same_server_meta (obj_meta n) (obj_meta x)"
        "obj_type n = obj_type x" "obj_spec n = obj_spec x" "obj_status n = obj_status x"
        "snap w' = upd (settle (obj_key x) n) (snap w)" "\<not> adds_finalizer x (x\<lparr>obj_meta := m2\<rparr>)"
        using x by (auto simp: spec_updated_def k)
      have "om_deletionTimestamp (obj_meta x) = None"
        using n(7) m False pk by (auto simp: adds_finalizer_def)
      moreover have "key \<in> set (om_finalizers (obj_meta n))" using n(1) m pk by (simp add: same_sent_meta_def)
      moreover from this have "live_or_held n" by (auto simp: live_or_held_def)
      moreover have "om_name m2 = om_name (obj_meta x)" "om_namespace m2 = om_namespace (obj_meta x)"
        using m' by (cases m2; cases "obj_meta x"; simp)+
      ultimately show ?thesis
        using 1 a None False n m updated_changes(1) [OF lens sp]
        by (simp add: k same_sent_meta_def same_server_meta_def lens_get [OF lens] map_of_settle)
    qed (use 1 a False in simp)
  qed
qed

end

locale service_monitor_handler =
  fixes invar :: "'w \<Rightarrow> bool" and snap :: "'w \<Rightarrow> cluster" and sm :: "'w ServiceMonitorHandler"
  assumes sm_update:
      "invar w \<Longrightarrow> wp (sh_TemplateAndUpdateServiceMonitorDeployment sm url ns n cid hcp insecure owner)
         (\<lambda>r w'. invar w' \<and>
            (if hcp
             then upserted c_rsm c_rsm_update (probe_template url ns n cid insecure owner) r (snap w) (snap w')
             else upserted c_sm c_sm_update (probe_template url ns n cid insecure owner) r (snap w) (snap w'))) w"
    and sm_delete:
      "invar w \<Longrightarrow> wp (sh_DeleteServiceMonitorDeployment sm ref hcp) (\<lambda>r w'. invar w' \<and>
         (if ref = nn_empty then r = None \<and> snap w' = snap w
          else if hcp then removed c_rsm c_rsm_update ref r (snap w) (snap w')
          else removed c_sm c_sm_update ref r (snap w) (snap w'))) w"

locale prometheus_rule_handler =
  fixes invar :: "'w \<Rightarrow> bool" and snap :: "'w \<Rightarrow> cluster" and prom :: "'w PrometheusRuleHandler"
  assumes rule_update:
      "invar w \<Longrightarrow> wp (ph_UpdatePrometheusRuleDeployment prom t) (\<lambda>r w'. invar w' \<and>
         upserted c_pr c_pr_update t r (snap w) (snap w')) w"
    and rule_delete:
      "invar w \<Longrightarrow> wp (ph_DeletePrometheusRuleDeployment prom ref) (\<lambda>r w'. invar w' \<and>
         (if ref = nn_empty then r = None \<and> snap w' = snap w
          else removed c_pr c_pr_update ref r (snap w) (snap w'))) w"

locale blackbox_handler =
  fixes invar :: "'w \<Rightarrow> bool" and snap :: "'w \<Rightarrow> cluster" and bbx :: "'w BlackBoxExporterHandler"
    and bb_key :: NamespacedName and up :: "cluster \<Rightarrow> bool"
  assumes bb_exist:
      "invar w \<Longrightarrow> wp (bh_EnsureBlackBoxExporterResourcesExist bbx) (\<lambda>r w'. invar w' \<and>
         blackbox_only bb_key (snap w) (snap w') \<and> (r = None \<longrightarrow> up (snap w'))) w"
    and bb_absent:
      "invar w \<Longrightarrow> wp (bh_EnsureBlackBoxExporterResourcesAbsent bbx) (\<lambda>r w'. invar w' \<and>
         blackbox_only bb_key (snap w) (snap w') \<and>
         (r = None \<longrightarrow> gone c_cm bb_key (snap w') \<and> gone c_dep bb_key (snap w') \<and>
            gone c_svc bb_key (snap w'))) w"
    and bb_decide:
      "invar w \<Longrightarrow> wp (bh_ShouldDeleteBlackBoxExporterResources bbx) (\<lambda>r w'. invar w' \<and>
         snap w' = snap w \<and> (\<forall>del. r = Inr del \<longrightarrow> (del \<longleftrightarrow> last_monitor (snap w)))) w"
    and up_of: "up c \<Longrightarrow> c_cm d = c_cm c \<Longrightarrow> c_dep d = c_dep c \<Longrightarrow> c_svc d = c_svc c \<Longrightarrow> up d"

text \<open>What both controllers are built from.\<close>

locale monitor_handlers =
  monitor_resource_handler invar snap fld upd common + service_monitor_handler invar snap sm +
  prometheus_rule_handler invar snap prom + blackbox_handler invar snap bbx bb_key up
  for invar :: "'w \<Rightarrow> bool" and snap :: "'w \<Rightarrow> cluster"
    and fld :: "cluster \<Rightarrow> ('s, 't) kobj store"
    and upd :: "(('s, 't) kobj store \<Rightarrow> ('s, 't) kobj store) \<Rightarrow> cluster \<Rightarrow> cluster"
    and common :: "('s, 't, 'w) MonitorResourceHandler" and sm :: "'w ServiceMonitorHandler"
    and prom :: "'w PrometheusRuleHandler" and bbx :: "'w BlackBoxExporterHandler"
    and bb_key :: NamespacedName and up :: "cluster \<Rightarrow> bool" +
  assumes store_lens: "lens fld upd"
    and invar_wf: "invar w \<Longrightarrow> wf_store (fld (snap w))"

section \<open>The packages provide it\<close>

lemma ok_world_sets: "ok_world E snap w \<Longrightarrow> sets_ok (libs E)"
  by (simp add: ok_world_def)

lemma finalizer_steps:
  "SetFinalizer L m k = (k \<notin> set (om_finalizers m),
     if k \<in> set (om_finalizers m) then m
     else m\<lparr>om_finalizers := om_finalizers (snd (SetFinalizer L m k))\<rparr>)"
  "DeleteFinalizer L m k = (k \<in> set (om_finalizers m),
     if k \<in> set (om_finalizers m)
     then m\<lparr>om_finalizers := om_finalizers (snd (DeleteFinalizer L m k))\<rparr> else m)"
  by (simp_all add: SetFinalizer_def DeleteFinalizer_def HasFinalizer_iff Add_def Remove_def Let_def)

lemma finalizer_step_sets:
  assumes "sets_ok L"
  shows "set (om_finalizers (snd (SetFinalizer L m k))) = insert k (set (om_finalizers m)) \<and>
    set (om_finalizers (snd (DeleteFinalizer L m k))) = set (om_finalizers m) - {k}"
  using assms by (auto simp: SetFinalizer_def DeleteFinalizer_def HasFinalizer_iff)

lemma wp_UpdateMonitorResource:
  assumes ok: "ok_world E snap w" and laws: "kube_laws snap fld upd K"
  shows "wp (UpdateMonitorResource K x) (\<lambda>(res, err) w'. ok_world E snap w' \<and> ShouldStop res \<and>
     (case err of Some e \<Rightarrow> snap w' = snap w
      | None \<Rightarrow> res = StopOperation \<and> spec_updated fld upd x (snap w) (snap w'))) w"
  unfolding UpdateMonitorResource_def wp_simps
  by (rule wp_Update [OF ok laws])
    (auto simp: wp_simps spec_updated_def RequeueReconcileWith_def StopReconcile_def ShouldStop_def
      StopOperation_def)

lemma wp_UpdateMonitorResourceStatus:
  assumes ok: "ok_world E snap w" and laws: "kube_laws snap fld upd K"
  shows "wp (UpdateMonitorResourceStatus K x) (\<lambda>(res, err) w'. ok_world E snap w' \<and> ShouldStop res \<and>
     (case err of Some e \<Rightarrow> snap w' = snap w
      | None \<Rightarrow> res = StopOperation \<and> status_updated fld upd x (snap w) (snap w'))) w"
  unfolding UpdateMonitorResourceStatus_def wp_simps
  by (rule wp_StatusUpdate [OF ok laws])
    (auto simp: wp_simps status_updated_def RequeueReconcileWith_def StopReconcile_def ShouldStop_def
      StopOperation_def)

lemma wp_GetOSDClusterID:
  assumes ok: "ok_world E snap w"
  shows "wp (GetOSDClusterID E) (\<lambda>r w'. ok_world E snap w' \<and> snap w' = snap w \<and>
     (\<forall>i. r = Inr i \<longrightarrow> own_clusterID (snap w) = Some i)) w"
  unfolding GetOSDClusterID_def wp_simps
  by (rule wp_Get [OF ok ok_world_laws(14) [OF ok]]) (auto simp: wp_simps own_clusterID_def)

lemma wp_GetHCP:
  assumes ok: "ok_world E snap w"
  shows "wp (GetHCP E ns) (\<lambda>r w'. ok_world E snap w' \<and> snap w' = snap w \<and>
     (\<forall>h. r = Inr h \<longrightarrow> hcps_in ns (snap w) = [h])) w"
  unfolding GetHCP_def wp_simps
proof (rule wp_List [OF ok ok_world_laws(11) [OF ok]], goal_cases)
  case (2 os w')
  then have "mset (hcps_in ns (snap w)) = mset os" unfolding hcps_in_def by (simp only:)
  then have "hcps_in ns (snap w) = [h]" if "os = [h]" for h
    using that by simp
  then show ?case using 2 by (cases os) (auto simp: wp_simps)
qed (simp add: wp_simps)

lemma wp_GetHypershiftClusterID:
  assumes ok: "ok_world E snap w"
  shows "wp (GetHypershiftClusterID E ns) (\<lambda>r w'. ok_world E snap w' \<and> snap w' = snap w \<and>
     (\<forall>i. r = Inr i \<longrightarrow> (\<exists>h. hcps_in ns (snap w) = [h] \<and> i = hcps_clusterID (obj_spec h)))) w"
  unfolding GetHypershiftClusterID_def wp_simps
  by (rule wp_mono [OF wp_GetHCP [OF ok]]) (auto simp: wp_simps split: sum.splits)

lemma common_methods:
  "mh_SetErrorStatus (NewMonitorResourceCommon E K) = SetErrorStatus"
  "mh_ParseMonitorSLOSpecs (NewMonitorResourceCommon E K) = ParseMonitorSLOSpecs (libs E)"
  "mh_SetResourceReference (NewMonitorResourceCommon E K) = SetResourceReference"
  "mh_UpdateMonitorResource (NewMonitorResourceCommon E K) = UpdateMonitorResource K"
  "mh_UpdateMonitorResourceStatus (NewMonitorResourceCommon E K) = UpdateMonitorResourceStatus K"
  "mh_SetFinalizer (NewMonitorResourceCommon E K) = SetFinalizer (libs E)"
  "mh_DeleteFinalizer (NewMonitorResourceCommon E K) = DeleteFinalizer (libs E)"
  "mh_GetOSDClusterID (NewMonitorResourceCommon E K) = GetOSDClusterID E"
  "mh_GetHypershiftClusterID (NewMonitorResourceCommon E K) = GetHypershiftClusterID E"
  "mh_GetHCP (NewMonitorResourceCommon E K) = GetHCP E"
  by (simp_all add: NewMonitorResourceCommon_def)

lemma common_handler:
  assumes "\<And>w. ok_world E snap w \<Longrightarrow> kube_laws snap fld upd K"
  shows "monitor_resource_handler (ok_world E snap) snap fld upd (NewMonitorResourceCommon E K)"
proof (unfold_locales, unfold common_methods, goal_cases)
  case (1 st err)
  show ?case by (simp add: SetErrorStatus_None SetErrorStatus_Some split: option.split)
next
  case (2 ref t)
  show ?case by (simp only: SetResourceReference_def nn_eta Let_def) auto
next
  case (3 url slo p e)
  then show ?case by (auto simp: ParseMonitorSLOSpecs_def ErrNoHost_def ErrInvalidSLO_def split: if_splits prod.splits)
next
  case (4 m k)
  show ?case by (rule finalizer_steps)
next
  case (5 m k)
  show ?case by (rule finalizer_steps)
next
  case (6 w m k)
  then show ?case by (rule finalizer_step_sets [OF ok_world_sets])
next
  case (7 w x)
  show ?case by (rule wp_UpdateMonitorResource [OF 7 assms [OF 7]])
next
  case (8 w x)
  show ?case by (rule wp_UpdateMonitorResourceStatus [OF 8 assms [OF 8]])
qed (rule wp_GetOSDClusterID wp_GetHypershiftClusterID wp_GetHCP, assumption)+

interpretation rm_common: monitor_resource_handler "ok_world E snap" snap c_rm c_rm_update
  "NewMonitorResourceCommon E (rm_api E)" for E snap
  by (rule common_handler) (rule ok_world_laws(1))

interpretation cum_common: monitor_resource_handler "ok_world E snap" snap c_cum c_cum_update
  "NewMonitorResourceCommon E (cum_api E)" for E snap
  by (rule common_handler) (rule ok_world_laws(2))

interpretation smh: service_monitor_handler "ok_world E snap" snap "NewServiceMonitor E" for E snap
  by unfold_locales
    (simp_all add: NewServiceMonitor_def wp_ServiceMonitor_upsert wp_ServiceMonitor_delete)

interpretation prh: prometheus_rule_handler "ok_world E snap" snap "NewPrometheusRule E" for E snap
  by unfold_locales
    (simp_all add: NewPrometheusRule_def wp_PrometheusRule_upsert wp_PrometheusRule_delete)

interpretation bbh: blackbox_handler "ok_world E snap" snap "BlackBoxExporter_methods E b"
  "bb_NamespacedName b" "blackbox_up b" for E snap b
  by unfold_locales
    (simp_all add: BlackBoxExporter_methods_def wp_blackbox_exist wp_blackbox_absent wp_blackbox_decision,
     rule blackbox_up_cong)

interpretation rm_handlers: monitor_handlers "ok_world E snap" snap c_rm c_rm_update
  "NewMonitorResourceCommon E (rm_api E)" "NewServiceMonitor E" "NewPrometheusRule E"
  "BlackBoxExporter_methods E b" "bb_NamespacedName b" "blackbox_up b" for E snap b
  by unfold_locales (simp_all add: cluster_lenses ok_world_wf wf_cluster_stores)

interpretation cum_handlers: monitor_handlers "ok_world E snap" snap c_cum c_cum_update
  "NewMonitorResourceCommon E (cum_api E)" "NewServiceMonitor E" "NewPrometheusRule E"
  "BlackBoxExporter_methods E b" "bb_NamespacedName b" "blackbox_up b" for E snap b
  by unfold_locales (simp_all add: cluster_lenses ok_world_wf wf_cluster_stores)

end
