(* ===== verification/Route_Monitor.thy ===== *)
theory Route_Monitor
  imports Interfaces
begin

text \<open>
  controllers/routemonitor: the RouteMonitor controller.  One call of \<open>Reconcile\<close> performs the
  first step that is due (finalizer, route URL, ServiceMonitor, PrometheusRule) and stops after
  writing the monitor, so the controller converges over several calls.
\<close>

section \<open>pkg/consts\<close>

definition FinalizerKey :: string where
  "FinalizerKey = ''routemonitor.routemonitoroperator.monitoring.openshift.io/finalizer''"

definition PrevFinalizerKey :: string where
  "PrevFinalizerKey = ''finalizer.routemonitor.openshift.io''"

definition FinalizerList :: "string list" where
  "FinalizerList = [FinalizerKey]"

section \<open>The reconciler\<close>

record 'w RouteMonitorReconciler =
  rmr_Client :: "'w Env"
  rmr_BlackBoxExporter :: "'w BlackBoxExporterHandler"
  rmr_ServiceMonitor :: "'w ServiceMonitorHandler"
  rmr_Prom :: "'w PrometheusRuleHandler"
  rmr_Common :: "(RouteMonitorSpec, RouteMonitorStatus, 'w) MonitorResourceHandler"

definition NewReconciler ::
    "'w Env \<Rightarrow> string \<Rightarrow> string \<Rightarrow> bool \<Rightarrow> string \<Rightarrow> 'w RouteMonitorReconciler" where
  "NewReconciler E blackboxExporterImage blackboxExporterNamespace enablehypershift probeAPIURL =
     \<lparr>rmr_Client = E,
      rmr_BlackBoxExporter =
        BlackBoxExporter_methods E (New blackboxExporterImage blackboxExporterNamespace),
      rmr_ServiceMonitor = NewServiceMonitor E,
      rmr_Prom = NewPrometheusRule E,
      rmr_Common = NewMonitorResourceCommon E (rm_api E)\<rparr>"

section \<open>The steps\<close>

definition EnsurePrometheusRuleExists ::
    "'w RouteMonitorReconciler \<Rightarrow> RouteMonitor \<Rightarrow> ('w, Result \<times> go_error option) io" where
  "EnsurePrometheusRuleExists r routeMonitor =
     (let setRef = (\<lambda>rm ref. rm\<lparr>obj_status := (obj_status rm)\<lparr>rmst_prometheusRuleRef := ref\<rparr>\<rparr>) in
      if rms_skipPrometheusRule (obj_spec routeMonitor)
      then do { d \<leftarrow> ph_DeletePrometheusRuleDeployment (rmr_Prom r)
                      (rmst_prometheusRuleRef (obj_status routeMonitor));
                (case d of
                   Some err \<Rightarrow> ret (RequeueReconcileWith (Some err))
                 | None \<Rightarrow>
                     (case mh_SetResourceReference (rmr_Common r)
                             (rmst_prometheusRuleRef (obj_status routeMonitor)) nn_empty of
                        ((updated, _), ref) \<Rightarrow>
                          if updated
                          then mh_UpdateMonitorResourceStatus (rmr_Common r) (setRef routeMonitor ref)
                          else ret ContinueReconcile)) }
      else
        (case mh_ParseMonitorSLOSpecs (rmr_Common r) (rmst_routeURL (obj_status routeMonitor))
                (rms_slo (obj_spec routeMonitor)) of
           (parsedSlo, err) \<Rightarrow>
             (case mh_SetErrorStatus (rmr_Common r) (rmst_errorStatus (obj_status routeMonitor)) err of
                (changed, errorStatus) \<Rightarrow>
                  (let routeMonitor' = routeMonitor\<lparr>obj_status :=
                         (obj_status routeMonitor)\<lparr>rmst_errorStatus := errorStatus\<rparr>\<rparr> in
                   if changed then mh_UpdateMonitorResourceStatus (rmr_Common r) routeMonitor'
                   else if parsedSlo = []
                   then do { d \<leftarrow> ph_DeletePrometheusRuleDeployment (rmr_Prom r)
                                   (rmst_prometheusRuleRef (obj_status routeMonitor'));
                             (case d of
                                Some err \<Rightarrow> ret (RequeueReconcileWith (Some err))
                              | None \<Rightarrow>
                                  (case mh_SetResourceReference (rmr_Common r)
                                          (rmst_prometheusRuleRef (obj_status routeMonitor')) nn_empty of
                                     ((updated, _), ref) \<Rightarrow>
                                       if updated
                                       then mh_UpdateMonitorResourceStatus (rmr_Common r)
                                              (setRef routeMonitor' ref)
                                       else ret StopReconcile)) }
                   else
                     (let namespacedName = \<lparr>nn_name = om_name (obj_meta routeMonitor'),
                                            nn_namespace = om_namespace (obj_meta routeMonitor')\<rparr>;
                          tmpl = TemplateForPrometheusRuleResource (libs (rmr_Client r))
                                   (rmst_routeURL (obj_status routeMonitor')) parsedSlo namespacedName
                      in do { u \<leftarrow> ph_UpdatePrometheusRuleDeployment (rmr_Prom r) tmpl;
                              (case u of
                                 Some err \<Rightarrow> ret (RequeueReconcileWith (Some err))
                               | None \<Rightarrow>
                                   (case mh_SetResourceReference (rmr_Common r)
                                           (rmst_prometheusRuleRef (obj_status routeMonitor'))
                                           namespacedName of
                                      ((updated, _), ref) \<Rightarrow>
                                        if updated
                                        then mh_UpdateMonitorResourceStatus (rmr_Common r)
                                               (setRef routeMonitor' ref)
                                        else ret ContinueReconcile)) })))))"

definition getHostedControlPlane ::
    "'w RouteMonitorReconciler \<Rightarrow> string \<Rightarrow> ('w, go_error + HostedControlPlane) io" where
  "getHostedControlPlane r namespace =
     do { l \<leftarrow> kube_List (hcp_api (rmr_Client r)) (Some namespace);
          (case l of
             Inl err \<Rightarrow> ret (Inl (wrap_w (''failed to retrieve HostedControlPlanes in namespace '' @
                          [CHR 0x27] @ namespace @ [CHR 0x27]) err))
           | Inr items \<Rightarrow>
               if length items \<noteq> 1
               then ret (Inl (errors_New (''unexpected number of HostedControlPlane objects in namespace '' @
                      [CHR 0x27] @ namespace @ [CHR 0x27] @ '': expected 1, got '' @
                      itoa (int (length items)))))
               else ret (Inr (hd items))) }"

definition EnsureServiceMonitorExists ::
    "'w RouteMonitorReconciler \<Rightarrow> RouteMonitor \<Rightarrow> ('w, Result \<times> go_error option) io" where
  "EnsureServiceMonitorExists r routeMonitor =
     (if rmst_routeURL (obj_status routeMonitor) = []
      then ret (RequeueReconcileWith (Some ErrNoHost))
      else
        let useRHOBS = (rms_serviceMonitorType (obj_spec routeMonitor) = ServiceMonitorTypeRHOBS) in
        do { i \<leftarrow> (if useRHOBS
                  then do { h \<leftarrow> getHostedControlPlane r (om_namespace (obj_meta routeMonitor));
                            ret (map_sum id (\<lambda>hcp. hcps_clusterID (obj_spec hcp)) h) }
                  else mh_GetOSDClusterID (rmr_Common r));
             (case i of
                Inl err \<Rightarrow> ret (RequeueReconcileWith (Some err))
              | Inr id' \<Rightarrow>
                  let namespacedName = \<lparr>nn_name = om_name (obj_meta routeMonitor),
                                        nn_namespace = om_namespace (obj_meta routeMonitor)\<rparr>;
                      owner = NewControllerRef (libs (rmr_Client r)) (obj_meta routeMonitor)
                                (obj_type routeMonitor) in
                  do { e \<leftarrow> sh_TemplateAndUpdateServiceMonitorDeployment (rmr_ServiceMonitor r)
                             (rmst_routeURL (obj_status routeMonitor))
                             (bh_GetBlackBoxExporterNamespace (rmr_BlackBoxExporter r))
                             namespacedName id' useRHOBS
                             (rms_insecureSkipTLSVerify (obj_spec routeMonitor)) owner;
                       (case e of
                          Some err \<Rightarrow> ret (RequeueReconcileWith (Some err))
                        | None \<Rightarrow>
                            (case mh_SetResourceReference (rmr_Common r)
                                    (rmst_serviceMonitorRef (obj_status routeMonitor)) namespacedName of
                               ((updated, err), ref) \<Rightarrow>
                                 (case err of
                                    Some err \<Rightarrow> ret (RequeueReconcileWith (Some err))
                                  | None \<Rightarrow>
                                      if updated
                                      then mh_UpdateMonitorResourceStatus (rmr_Common r)
                                             (routeMonitor\<lparr>obj_status := (obj_status routeMonitor)
                                                \<lparr>rmst_serviceMonitorRef := ref\<rparr>\<rparr>)
                                      else ret ContinueReconcile))) }) })"

definition EnsureMonitorAndDependenciesAbsent ::
    "'w RouteMonitorReconciler \<Rightarrow> RouteMonitor \<Rightarrow> ('w, Result \<times> go_error option) io" where
  "EnsureMonitorAndDependenciesAbsent r routeMonitor =
     do { s \<leftarrow> bh_ShouldDeleteBlackBoxExporterResources (rmr_BlackBoxExporter r);
          (case s of
             Inl err \<Rightarrow> ret (RequeueReconcileWith (Some err))
           | Inr shouldDeleteBlackBoxResources \<Rightarrow>
               do { b \<leftarrow> (if shouldDeleteBlackBoxResources
                          then bh_EnsureBlackBoxExporterResourcesAbsent (rmr_BlackBoxExporter r)
                          else ret None);
                    (case b of
                       Some err \<Rightarrow> ret (RequeueReconcileWith (Some err))
                     | None \<Rightarrow>
                         let isHCP = False in
                         do { d \<leftarrow> sh_DeleteServiceMonitorDeployment (rmr_ServiceMonitor r)
                                    (rmst_serviceMonitorRef (obj_status routeMonitor)) isHCP;
                              (case d of
                                 Some err \<Rightarrow> ret (RequeueReconcileWith (Some err))
                               | None \<Rightarrow>
                                   do { p \<leftarrow> ph_DeletePrometheusRuleDeployment (rmr_Prom r)
                                              (rmst_prometheusRuleRef (obj_status routeMonitor));
                                        (case p of
                                           Some err \<Rightarrow> ret (RequeueReconcileWith (Some err))
                                         | None \<Rightarrow>
                                             (case mh_DeleteFinalizer (rmr_Common r)
                                                     (obj_meta routeMonitor) FinalizerKey of
                                                (deleted, m) \<Rightarrow>
                                                  if deleted
                                                  then mh_UpdateMonitorResource (rmr_Common r)
                                                         (routeMonitor\<lparr>obj_meta :=
                                                            snd (mh_DeleteFinalizer (rmr_Common r) m
                                                                   PrevFinalizerKey)\<rparr>)
                                                  else ret StopReconcile)) }) }) }) }"

definition EnsureFinalizerSet ::
    "'w RouteMonitorReconciler \<Rightarrow> RouteMonitor \<Rightarrow> ('w, Result \<times> go_error option) io" where
  "EnsureFinalizerSet r routeMonitor =
     (case mh_SetFinalizer (rmr_Common r) (obj_meta routeMonitor) FinalizerKey of
        (added, m) \<Rightarrow>
          if added
          then mh_UpdateMonitorResource (rmr_Common r)
                 (routeMonitor\<lparr>obj_meta := snd (mh_DeleteFinalizer (rmr_Common r) m PrevFinalizerKey)\<rparr>)
          else ret ContinueReconcile)"

definition GetRouteMonitor ::
    "'w RouteMonitorReconciler \<Rightarrow> NamespacedName
       \<Rightarrow> ('w, RouteMonitor \<times> Result \<times> go_error option) io" where
  "GetRouteMonitor r req =
     do { g \<leftarrow> kube_Get (rm_api (rmr_Client r)) req;
          (case g of
             Inl err \<Rightarrow>
               if \<not> IsNotFound err then ret (empty_RouteMonitor, RequeueReconcileWith (Some err))
               else ret (empty_RouteMonitor, StopOperation, None)
           | Inr routeMonitor \<Rightarrow>
               if routeMonitor = empty_RouteMonitor then ret (empty_RouteMonitor, StopOperation, None)
               else ret (routeMonitor, ContinueOperation, None)) }"

definition GetRoute ::
    "'w RouteMonitorReconciler \<Rightarrow> RouteMonitor \<Rightarrow> ('w, go_error + Route) io" where
  "GetRoute r routeMonitor =
     (let nsName = \<lparr>nn_name = rmrs_name (rms_route (obj_spec routeMonitor)),
                    nn_namespace = rmrs_namespace (rms_route (obj_spec routeMonitor))\<rparr> in
      if nn_name nsName = [] \<or> nn_namespace nsName = []
      then ret (Inl (errors_New ''invalid CR: Cannot retrieve route if one of the fields is empty''))
      else kube_Get (route_api (rmr_Client r)) nsName)"

text \<open>The URL that is probed: host, port, suffix, and the scheme when the route terminates TLS.\<close>

definition extractedRouteURL :: "Route \<Rightarrow> RouteMonitor \<Rightarrow> string" where
  "extractedRouteURL route routeMonitor =
     (let url = hd (obj_status route);
          spec = rms_route (obj_spec routeMonitor);
          url = (if rmrs_port spec \<noteq> 0 then url @ '':'' @ itoa (rmrs_port spec) else url);
          url = (if rmrs_suffix spec \<noteq> [] then url @ rmrs_suffix spec else url)
      in if rt_tls (obj_spec route) \<noteq> None then ''https://'' @ url else url)"

definition EnsureRouteURLExists ::
    "'w RouteMonitorReconciler \<Rightarrow> Route \<Rightarrow> RouteMonitor \<Rightarrow> ('w, Result \<times> go_error option) io" where
  "EnsureRouteURLExists r route routeMonitor =
     (if obj_status route = []
      then ret (RequeueReconcileWith (Some (errors_New
             ''no Ingress: cannot extract route url from the Route resource'')))
      else if hd (obj_status route) = [] then ret (RequeueReconcileWith (Some ErrNoHost))
      else if rmst_routeURL (obj_status routeMonitor) = extractedRouteURL route routeMonitor
      then ret ContinueReconcile
      else mh_UpdateMonitorResourceStatus (rmr_Common r)
             (routeMonitor\<lparr>obj_status := (obj_status routeMonitor)
                \<lparr>rmst_routeURL := extractedRouteURL route routeMonitor\<rparr>\<rparr>))"

section \<open>Reconcile\<close>

definition Reconcile ::
    "'w RouteMonitorReconciler \<Rightarrow> NamespacedName \<Rightarrow> ('w, CtrlResult \<times> go_error option) io" where
  "Reconcile r req =
     do { g \<leftarrow> GetRouteMonitor r req;
          (case g of (routeMonitor, res, err) \<Rightarrow>
           if err \<noteq> None then ret (RequeueWith err)
           else if ShouldStop res then ret Stop
           else if WasDeleteRequested (obj_meta routeMonitor)
           then do { d \<leftarrow> EnsureMonitorAndDependenciesAbsent r routeMonitor;
                     (case d of (_, err) \<Rightarrow> if err \<noteq> None then ret (RequeueWith err) else ret Stop) }
           else do { f \<leftarrow> EnsureFinalizerSet r routeMonitor;
             (case f of (res, err) \<Rightarrow>
              if err \<noteq> None then ret (RequeueWith err)
              else if ShouldStop res then ret Stop
              else do { b \<leftarrow> bh_EnsureBlackBoxExporterResourcesExist (rmr_BlackBoxExporter r);
                (case b of
                   Some err \<Rightarrow> ret (RequeueWith (Some err))
                 | None \<Rightarrow>
                     do { g \<leftarrow> GetRoute r routeMonitor;
                       (case g of
                          Inl err \<Rightarrow> ret (RequeueWith (Some err))
                        | Inr route \<Rightarrow>
                            do { u \<leftarrow> EnsureRouteURLExists r route routeMonitor;
                              (case u of (res, err) \<Rightarrow>
                               if err \<noteq> None then ret (RequeueWith err)
                               else if ShouldStop res then ret Stop
                               else do { s \<leftarrow> EnsureServiceMonitorExists r routeMonitor;
                                 (case s of (res, err) \<Rightarrow>
                                  if err \<noteq> None then ret (RequeueWith err)
                                  else if ShouldStop res then ret Stop
                                  else do { p \<leftarrow> EnsurePrometheusRuleExists r routeMonitor;
                                    (case p of (res, err) \<Rightarrow>
                                     if err \<noteq> None then ret (RequeueWith err)
                                     else ret Stop) }) }) }) }) }) }) }"

section \<open>What a monitor may touch\<close>

text \<open>The clusters \<open>c\<close> and \<open>d\<close> differ at most in the RouteMonitor \<open>k\<close>, the ServiceMonitors and
  PrometheusRules named in \<open>S\<close> and \<open>P\<close>, and the three objects of the blackbox exporter \<open>b\<close>.\<close>

definition rm_frame ::
    "NamespacedName \<Rightarrow> NamespacedName set \<Rightarrow> NamespacedName set \<Rightarrow> NamespacedName
       \<Rightarrow> cluster \<Rightarrow> cluster \<Rightarrow> bool" where
  "rm_frame k S P b c d \<longleftrightarrow>
     d = c\<lparr>c_rm := c_rm d, c_sm := c_sm d, c_rsm := c_rsm d, c_pr := c_pr d,
           c_cm := c_cm d, c_dep := c_dep d, c_svc := c_svc d\<rparr> \<and>
     (\<forall>k'. (k' \<noteq> k \<longrightarrow> map_of (c_rm d) k' = map_of (c_rm c) k') \<and>
       (k' \<notin> S \<longrightarrow> map_of (c_sm d) k' = map_of (c_sm c) k' \<and> map_of (c_rsm d) k' = map_of (c_rsm c) k') \<and>
       (k' \<notin> P \<longrightarrow> map_of (c_pr d) k' = map_of (c_pr c) k') \<and>
       (k' \<noteq> b \<longrightarrow> map_of (c_cm d) k' = map_of (c_cm c) k' \<and>
          map_of (c_dep d) k' = map_of (c_dep c) k' \<and> map_of (c_svc d) k' = map_of (c_svc c) k'))"

lemma rm_frame_refl [simp]: "rm_frame k S P b c c"
  by (simp add: rm_frame_def)

lemma rm_frame_trans: "rm_frame k S P b c d \<Longrightarrow> rm_frame k S P b d e \<Longrightarrow> rm_frame k S P b c e"
  by (cases c; cases d; cases e) (simp add: rm_frame_def)

lemma rm_frame_intros:
  "changes_only c_rm c_rm_update k c d \<Longrightarrow> rm_frame k S P b c d"
  "changes_only c_sm c_sm_update s c d \<Longrightarrow> s \<in> S \<Longrightarrow> rm_frame k S P b c d"
  "changes_only c_rsm c_rsm_update s c d \<Longrightarrow> s \<in> S \<Longrightarrow> rm_frame k S P b c d"
  "changes_only c_pr c_pr_update p c d \<Longrightarrow> p \<in> P \<Longrightarrow> rm_frame k S P b c d"
  "blackbox_only b c d \<Longrightarrow> rm_frame k S P b c d"
  by (cases c; cases d; auto simp: changes_only_def rm_frame_def blackbox_only_def)+

abbreviation rm_dropped :: "RouteMonitor \<Rightarrow> cluster \<Rightarrow> cluster \<Rightarrow> bool" where
  "rm_dropped \<equiv> finalizers_dropped c_rm c_rm_update FinalizerKey PrevFinalizerKey"

section \<open>The reconciler over its interfaces\<close>

locale route_monitor_reconciler =
  monitor_handlers invar snap c_rm c_rm_update "rmr_Common r" "rmr_ServiceMonitor r" "rmr_Prom r"
    "rmr_BlackBoxExporter r" bb_key up
  for invar :: "'w \<Rightarrow> bool" and snap and r :: "'w RouteMonitorReconciler" and bb_key and up +
  assumes get_rm:
      "invar w \<Longrightarrow> wp (kube_Get (rm_api (rmr_Client r)) k) (\<lambda>g w'. invar w' \<and> snap w' = snap w \<and>
         (case g of Inl e \<Rightarrow> IsNotFound e \<longrightarrow> map_of (c_rm (snap w)) k = None
                  | Inr x \<Rightarrow> map_of (c_rm (snap w)) k = Some x)) w"
    and get_route:
      "invar w \<Longrightarrow> wp (kube_Get (route_api (rmr_Client r)) k) (\<lambda>g w'. invar w' \<and> snap w' = snap w \<and>
         (case g of Inl e \<Rightarrow> IsNotFound e \<longrightarrow> map_of (c_route (snap w)) k = None
                  | Inr x \<Rightarrow> map_of (c_route (snap w)) k = Some x)) w"
    and list_hcp: "reads invar snap (kube_List (hcp_api (rmr_Client r)) ns)"
begin

text \<open>The step that deletes a monitor and its dependencies takes the finalizer off last.\<close>

lemma wp_delete_monitor:
  fixes rm :: RouteMonitor
  assumes inv: "invar w"
  defines "s \<equiv> rmst_serviceMonitorRef (obj_status rm)" and "p \<equiv> rmst_prometheusRuleRef (obj_status rm)"
  shows "wp (EnsureMonitorAndDependenciesAbsent r rm) (\<lambda>(res, err) w'. invar w' \<and>
    rm_frame (obj_key rm) {s} {p} bb_key (snap w) (snap w') \<and> c_rsm (snap w') = c_rsm (snap w) \<and>
    exporter_follows bb_key (snap w) (err = None) (snap w') \<and>
    (\<exists>c. c_rm c = c_rm (snap w) \<and>
      (case err of Some e \<Rightarrow> snap w' = c
       | None \<Rightarrow> (s \<noteq> nn_empty \<longrightarrow> gone c_sm s c) \<and> (p \<noteq> nn_empty \<longrightarrow> gone c_pr p c) \<and>
           rm_dropped rm c (snap w')))) w"
    (is "wp _ (\<lambda>(res, err) w'. ?Q err w') w")
proof -
  text \<open>the last step\<close>
  have fin: "wp (case mh_DeleteFinalizer (rmr_Common r) (obj_meta rm) FinalizerKey of
        (deleted, m) \<Rightarrow> if deleted
          then mh_UpdateMonitorResource (rmr_Common r)
                 (rm\<lparr>obj_meta := snd (mh_DeleteFinalizer (rmr_Common r) m PrevFinalizerKey)\<rparr>)
          else ret StopReconcile) (\<lambda>(res, err) w'. ?Q err w') w3"
    if w3: "invar w3" and fr: "rm_frame (obj_key rm) {s} {p} bb_key (snap w) (snap w3)"
      "c_rsm (snap w3) = c_rsm (snap w)" "c_rm (snap w3) = c_rm (snap w)"
      "exporter_follows bb_key (snap w) True (snap w3)"
      and g: "s \<noteq> nn_empty \<longrightarrow> gone c_sm s (snap w3)" "p \<noteq> nn_empty \<longrightarrow> gone c_pr p (snap w3)" for w3
    unfolding StopReconcile_def
  proof (rule wp_mono [OF wp_drop_finalizers [OF w3]], goal_cases)
    case (1 a w')
    obtain res err where a: "a = (res, err)" by (cases a)
    show ?case
    proof (cases err)
      case None
      with 1 a have d: "rm_dropped rm (snap w3) (snap w')" by simp
      note ch = finalizers_dropped_changes [OF store_lens d]
      show ?thesis
        using 1 a None d ch that changes_only_other_fields(3) [OF ch]
        by (auto intro: rm_frame_trans [OF _ rm_frame_intros(1)] exporter_follows_cong intro!: exI [of _ "snap w3"])
    qed (use 1 a that in \<open>auto intro: exporter_follows_unfinished\<close>)
  qed
  text \<open>the PrometheusRule\<close>
  have rule: "wp (ph_DeletePrometheusRuleDeployment (rmr_Prom r) p) (\<lambda>d. wp (case d of
        Some err \<Rightarrow> ret (RequeueReconcileWith (Some err))
      | None \<Rightarrow> (case mh_DeleteFinalizer (rmr_Common r) (obj_meta rm) FinalizerKey of
        (deleted, m) \<Rightarrow> if deleted
          then mh_UpdateMonitorResource (rmr_Common r)
                 (rm\<lparr>obj_meta := snd (mh_DeleteFinalizer (rmr_Common r) m PrevFinalizerKey)\<rparr>)
          else ret StopReconcile)) (\<lambda>(res, err) w'. ?Q err w')) w2"
    if w2: "invar w2" and fr: "rm_frame (obj_key rm) {s} {p} bb_key (snap w) (snap w2)"
      "c_rsm (snap w2) = c_rsm (snap w)" "c_rm (snap w2) = c_rm (snap w)"
      "exporter_follows bb_key (snap w) True (snap w2)"
      and g: "s \<noteq> nn_empty \<longrightarrow> gone c_sm s (snap w2)" for w2
  proof (rule wp_mono [OF rule_delete [OF w2]], goal_cases)
    case (1 d w3)
    show ?case
    proof (cases d)
      case (Some e)
      with 1 that show ?thesis
        by (auto simp: wp_simps removed_def RequeueReconcileWith_def intro: exporter_follows_unfinished split: if_splits)
    next
      case None
      show ?thesis
      proof (cases "p = nn_empty")
        case True
        show ?thesis
          unfolding None option.case by (rule fin) (use True None 1 that in simp_all)
      next
        case False
        with None 1 have ch: "changes_only c_pr c_pr_update p (snap w2) (snap w3)" "gone c_pr p (snap w3)"
          by (simp_all add: removed_def)
        show ?thesis
          unfolding None option.case
          by (rule fin) (use 1 that ch changes_only_other_fields(2) [OF ch(1)] in
              \<open>auto intro: rm_frame_trans [OF _ rm_frame_intros(4)] exporter_follows_cong simp: gone_def\<close>)
      qed
    qed
  qed
  text \<open>the ServiceMonitor\<close>
  have service: "wp (sh_DeleteServiceMonitorDeployment (rmr_ServiceMonitor r) s False) (\<lambda>d. wp (case d of
        Some err \<Rightarrow> ret (RequeueReconcileWith (Some err))
      | None \<Rightarrow> do { d \<leftarrow> ph_DeletePrometheusRuleDeployment (rmr_Prom r) p;
          (case d of
        Some err \<Rightarrow> ret (RequeueReconcileWith (Some err))
      | None \<Rightarrow> (case mh_DeleteFinalizer (rmr_Common r) (obj_meta rm) FinalizerKey of
        (deleted, m) \<Rightarrow> if deleted
          then mh_UpdateMonitorResource (rmr_Common r)
                 (rm\<lparr>obj_meta := snd (mh_DeleteFinalizer (rmr_Common r) m PrevFinalizerKey)\<rparr>)
          else ret StopReconcile)) }) (\<lambda>(res, err) w'. ?Q err w')) w1"
    if w1: "invar w1" and fr: "rm_frame (obj_key rm) {s} {p} bb_key (snap w) (snap w1)"
      "c_rsm (snap w1) = c_rsm (snap w)" "c_rm (snap w1) = c_rm (snap w)"
      "exporter_follows bb_key (snap w) True (snap w1)" for w1
  proof (rule wp_mono [OF sm_delete [OF w1]], goal_cases)
    case (1 d w2)
    show ?case
    proof (cases d)
      case (Some e)
      with 1 that show ?thesis
        by (auto simp: wp_simps removed_def RequeueReconcileWith_def intro: exporter_follows_unfinished split: if_splits)
    next
      case None
      show ?thesis
      proof (cases "s = nn_empty")
        case True
        show ?thesis
          unfolding None option.case wp_bind by (rule rule) (use True None 1 that in simp_all)
      next
        case False
        with None 1 have ch: "changes_only c_sm c_sm_update s (snap w1) (snap w2)" "gone c_sm s (snap w2)"
          by (simp_all add: removed_def)
        show ?thesis
          unfolding None option.case wp_bind
          by (rule rule) (use 1 that ch changes_only_other_fields(1) [OF ch(1)] in
              \<open>auto intro: rm_frame_trans [OF _ rm_frame_intros(2)] exporter_follows_cong\<close>)
      qed
    qed
  qed
  show ?thesis
    unfolding EnsureMonitorAndDependenciesAbsent_def wp_bind Let_def s_def [symmetric] p_def [symmetric]
  proof (rule wp_mono [OF bb_decide [OF inv]], goal_cases)
    case (1 del w1)
    show ?case
    proof (cases del)
      case (Inl e)
      with 1 show ?thesis by (auto simp: wp_simps RequeueReconcileWith_def exporter_follows_start)
    next
      case (Inr b)
      note w1 = 1
      show ?thesis
      proof (cases b)
        case False
        then have "\<not> last_monitor (snap w)" using Inr w1 by auto
        then have "exporter_follows bb_key (snap w) True (snap w1)" using w1 by (simp add: exporter_follows_start)
        with Inr False w1 show ?thesis by (simp add: wp_bind wp_return service)
      next
        case True
        show ?thesis
          unfolding Inr sum.case if_P [OF True] wp_bind
        proof (rule wp_mono [OF bb_absent], goal_cases)
          case (2 d w2)
          show ?case
          proof (cases d)
            case None
            show ?thesis
              unfolding None option.case wp_bind
              by (rule service) (use 2 w1 changes_only_other_fields(6) [of bb_key "snap w1" "snap w2"] in
                  \<open>auto simp: exporter_follows_def Inr True None intro: rm_frame_intros(5)\<close>)
          next
            case (Some e)
            with 2 w1 changes_only_other_fields(6) [of bb_key "snap w1" "snap w2"] show ?thesis
              by (auto simp: wp_simps RequeueReconcileWith_def rm_frame_intros(5) exporter_follows_def Inr True)
          qed
        qed (use w1 in simp)
      qed
    qed
  qed
qed

lemma wp_GetRouteMonitor:
  assumes "invar w"
  shows "wp (GetRouteMonitor r k) (\<lambda>(rm, res, err) w'. invar w' \<and> snap w' = snap w \<and>
     (err = None \<longrightarrow> (if ShouldStop res
        then map_of (c_rm (snap w)) k = None \<or> map_of (c_rm (snap w)) k = Some empty_RouteMonitor
        else map_of (c_rm (snap w)) k = Some rm \<and> rm \<noteq> empty_RouteMonitor))) w"
  unfolding GetRouteMonitor_def wp_bind
  by (rule wp_mono [OF get_rm [OF assms]])
    (auto simp: wp_simps RequeueReconcileWith_def split: sum.splits)

text \<open>A RouteMonitor that is being deleted keeps its finalizer until its ServiceMonitor and its
  PrometheusRule are gone.\<close>

lemma wp_Reconcile_deleted:
  fixes rm :: RouteMonitor
  assumes inv: "invar w" and rm: "map_of (c_rm (snap w)) k = Some rm"
    and del: "WasDeleteRequested (obj_meta rm)"
  defines "s \<equiv> rmst_serviceMonitorRef (obj_status rm)" and "p \<equiv> rmst_prometheusRuleRef (obj_status rm)"
  shows "wp (Reconcile r k) (\<lambda>(res, err) w'. invar w' \<and>
    rm_frame k {s} {p} bb_key (snap w) (snap w') \<and> c_rsm (snap w') = c_rsm (snap w) \<and>
    exporter_follows bb_key (snap w) (err = None) (snap w') \<and>
    (case err of Some e \<Rightarrow> c_rm (snap w') = c_rm (snap w)
     | None \<Rightarrow> (s \<noteq> nn_empty \<longrightarrow> gone c_sm s (snap w')) \<and> (p \<noteq> nn_empty \<longrightarrow> gone c_pr p (snap w')) \<and>
         (\<forall>rm'. map_of (c_rm (snap w')) k = Some rm' \<longrightarrow>
            FinalizerKey \<notin> set (om_finalizers (obj_meta rm'))))) w"
proof -
  have wfs: "wf_store (c_rm (snap w))" using invar_wf [OF inv] .
  have key: "obj_key rm = k" using wf_store_key [OF wfs rm] .
  have ne: "rm \<noteq> empty_RouteMonitor"
    using del by (auto simp: WasDeleteRequested_def empty_RouteMonitor_def empty_meta_def)
  have dropped: "(\<forall>rm'. map_of (c_rm d) k = Some rm' \<longrightarrow> FinalizerKey \<notin> set (om_finalizers (obj_meta rm'))) \<and>
      (\<forall>q. gone c_sm q c \<longrightarrow> gone c_sm q d) \<and> (\<forall>q. gone c_pr q c \<longrightarrow> gone c_pr q d)"
    if c: "c_rm c = c_rm (snap w)" and d: "rm_dropped rm c d" for c d
    using finalizers_dropped_gone [OF store_lens d] c rm key
      changes_only_other_fields(3) [OF finalizers_dropped_changes [OF store_lens d]]
    by (auto simp: gone_def)
  show ?thesis
    unfolding Reconcile_def wp_bind
  proof (rule wp_mono [OF wp_GetRouteMonitor [OF inv, of k]], goal_cases)
    case (1 g w1)
    obtain rm1 res1 err1 where g: "g = (rm1, res1, err1)" by (cases g)
    have w1: "invar w1" "snap w1 = snap w" using 1 g by auto
    show ?case
    proof (cases err1)
      case (Some e)
      then show ?thesis using g w1 by (simp add: wp_simps RequeueWith_def exporter_follows_start)
    next
      case None
      then have go: "\<not> ShouldStop res1" "rm1 = rm" using 1 g rm ne by (auto split: if_splits)
      have "wp (EnsureMonitorAndDependenciesAbsent r rm) (\<lambda>(res, err) w'. invar w' \<and>
        rm_frame k {s} {p} bb_key (snap w) (snap w') \<and> c_rsm (snap w') = c_rsm (snap w) \<and>
        exporter_follows bb_key (snap w) (err = None) (snap w') \<and>
        (case err of Some e \<Rightarrow> c_rm (snap w') = c_rm (snap w)
         | None \<Rightarrow> (s \<noteq> nn_empty \<longrightarrow> gone c_sm s (snap w')) \<and> (p \<noteq> nn_empty \<longrightarrow> gone c_pr p (snap w')) \<and>
             (\<forall>rm'. map_of (c_rm (snap w')) k = Some rm' \<longrightarrow>
                FinalizerKey \<notin> set (om_finalizers (obj_meta rm'))))) w1"
      proof (rule wp_mono [OF wp_delete_monitor [OF w1(1), of rm]], goal_cases)
        case (1 a w')
        obtain res err where a: "a = (res, err)" by (cases a)
        from 1 obtain c where c: "c_rm c = c_rm (snap w)"
          and e: "case err of Some e \<Rightarrow> snap w' = c
             | None \<Rightarrow> (s \<noteq> nn_empty \<longrightarrow> gone c_sm s c) \<and> (p \<noteq> nn_empty \<longrightarrow> gone c_pr p c) \<and>
                 rm_dropped rm c (snap w')"
          unfolding a s_def p_def prod.case w1(2) by blast
        from c e dropped [OF c] have "case err of Some e \<Rightarrow> c_rm (snap w') = c_rm (snap w)
             | None \<Rightarrow> (s \<noteq> nn_empty \<longrightarrow> gone c_sm s (snap w')) \<and> (p \<noteq> nn_empty \<longrightarrow> gone c_pr p (snap w')) \<and>
                 (\<forall>rm'. map_of (c_rm (snap w')) k = Some rm' \<longrightarrow>
                    FinalizerKey \<notin> set (om_finalizers (obj_meta rm')))"
          by (cases err) auto
        with 1 w1 key show ?case unfolding a s_def p_def by simp
      qed
      then show ?thesis
        using go del None
        by (auto simp: g wp_simps RequeueWith_def Stop_def elim!: wp_mono split: prod.splits)
    qed
  qed
qed

end

lemma NewReconciler_fields:
  "rmr_Client (NewReconciler E img bbns hypershift url) = E"
  "rmr_Common (NewReconciler E img bbns hypershift url) = NewMonitorResourceCommon E (rm_api E)"
  "rmr_ServiceMonitor (NewReconciler E img bbns hypershift url) = NewServiceMonitor E"
  "rmr_Prom (NewReconciler E img bbns hypershift url) = NewPrometheusRule E"
  "rmr_BlackBoxExporter (NewReconciler E img bbns hypershift url) =
     BlackBoxExporter_methods E (New img bbns)"
  by (simp_all add: NewReconciler_def)

interpretation rmr: route_monitor_reconciler "ok_world E snap" snap
  "NewReconciler E img bbns hypershift url" "bb_NamespacedName (New img bbns)" "blackbox_up (New img bbns)"
  for E snap img bbns hypershift url
  by (rule route_monitor_reconciler.intro, unfold NewReconciler_fields,
      rule rm_handlers.monitor_handlers_axioms,
      unfold route_monitor_reconciler_axioms_def NewReconciler_fields reads_def)
    (blast intro: wp_Get_ok wp_List_reads ok_world_laws(1,3,11))

section \<open>Properties\<close>

text \<open>C1. A RouteMonitor that is being deleted keeps its finalizer until the monitoring.coreos.com
  ServiceMonitor and the PrometheusRule its status refers to are gone, which may mean marked for deletion:
  when Reconcile returns no error, both are and the finalizer is off (or the monitor is no longer
  stored); when it returns an error the stored RouteMonitors are exactly those before, so the finalizer is
  still there and Reconcile runs again.  Nothing changes but that monitor, the ServiceMonitors and the
  PrometheusRule of these names and the three objects of the shared exporter.\<close>

theorem routemonitor_deletion_safe:
  assumes "ok_world E snap w" and "map_of (c_rm (snap w)) k = Some rm"
    and "WasDeleteRequested (obj_meta rm)"
  shows "wp (Reconcile (NewReconciler E img bbns hypershift url) k) (\<lambda>(res, err) w'.
    rm_frame k {rmst_serviceMonitorRef (obj_status rm)} {rmst_prometheusRuleRef (obj_status rm)}
      (bb_NamespacedName (New img bbns)) (snap w) (snap w') \<and>
    (case err of
       Some e \<Rightarrow> c_rm (snap w') = c_rm (snap w)
     | None \<Rightarrow>
         (rmst_serviceMonitorRef (obj_status rm) \<noteq> nn_empty \<longrightarrow>
            gone c_sm (rmst_serviceMonitorRef (obj_status rm)) (snap w')) \<and>
         (rmst_prometheusRuleRef (obj_status rm) \<noteq> nn_empty \<longrightarrow>
            gone c_pr (rmst_prometheusRuleRef (obj_status rm)) (snap w')) \<and>
         (\<forall>rm'. map_of (c_rm (snap w')) k = Some rm' \<longrightarrow>
            FinalizerKey \<notin> set (om_finalizers (obj_meta rm'))))) w"
  by (rule wp_mono [OF rmr.wp_Reconcile_deleted [OF assms]]) auto

text \<open>C29. The deletion of a RouteMonitor, whatever its type, never touches any ServiceMonitor of the
  monitoring.rhobs API: not even the one that the controller created for a monitor of that type, which is
  left behind.\<close>

theorem routemonitor_deletion_keeps_rhobs:
  assumes "ok_world E snap w" and "map_of (c_rm (snap w)) k = Some rm"
    and "WasDeleteRequested (obj_meta rm)"
  shows "wp (Reconcile (NewReconciler E img bbns hypershift url) k) (\<lambda>_ w'.
    c_rsm (snap w') = c_rsm (snap w)) w"
  by (rule wp_mono [OF rmr.wp_Reconcile_deleted [OF assms]]) (auto split: prod.splits)

end
