(* ===== verification/Witnesses.thy ===== *)
theory Witnesses
  imports Memory_Cluster Route_Monitor
begin

text \<open>
  The properties at concrete inputs: the in-memory server of \<open>Memory_Cluster\<close> with a small cluster
  discharges the hypotheses about the API server and the libraries.
\<close>

section \<open>A cluster\<close>

definition mon_key :: NamespacedName where
  "mon_key = \<lparr>nn_name = ''m'', nn_namespace = ''ns''\<rparr>"

definition mon_meta :: ObjectMeta where
  "mon_meta = empty_meta\<lparr>om_name := ''m'', om_namespace := ''ns''\<rparr>"

text \<open>A RouteMonitor that is being deleted, with the ServiceMonitor it refers to.\<close>

definition deleted_rm :: RouteMonitor where
  "deleted_rm = empty_RouteMonitor
     \<lparr>obj_meta := mon_meta\<lparr>om_deletionTimestamp := Some 1, om_finalizers := [FinalizerKey]\<rparr>,
      obj_spec := (obj_spec empty_RouteMonitor)\<lparr>rms_serviceMonitorType := ServiceMonitorTypeRHOBS\<rparr>,
      obj_status := (obj_status empty_RouteMonitor)\<lparr>rmst_serviceMonitorRef := mon_key\<rparr>\<rparr>"

definition a_servicemonitor :: ServiceMonitor where
  "a_servicemonitor =
     \<lparr>obj_type = empty_type, obj_meta = mon_meta,
      obj_spec = \<lparr>sms_endpoints = [], sms_selector = fmempty, sms_namespaces = []\<rparr>, obj_status = ()\<rparr>"

definition deleting_cluster :: cluster where
  "deleting_cluster = empty_cluster\<lparr>c_rm := [(mon_key, deleted_rm)],
     c_sm := [(mon_key, a_servicemonitor)], c_rsm := [(mon_key, a_servicemonitor)]\<rparr>"

lemma wf_deleting_cluster: "wf_cluster deleting_cluster"
  by (simp add: wf_cluster_def deleting_cluster_def empty_cluster_def wf_store_def deleted_rm_def
      mon_key_def mon_meta_def empty_meta_def live_or_held_def obj_key_def a_servicemonitor_def
      empty_RouteMonitor_def)

abbreviation mem_world :: "cluster \<times> unit" where
  "mem_world \<equiv> (deleting_cluster, ())"

lemma ok_mem_world: "ok_world mem_env fst mem_world"
  by (rule ok_world_mem [OF wf_deleting_cluster])

lemma deleting_cluster_facts:
  "map_of (c_rm (fst mem_world)) mon_key = Some deleted_rm"
  "WasDeleteRequested (obj_meta deleted_rm)"
  "rmst_serviceMonitorRef (obj_status deleted_rm) = mon_key"
  "rmst_prometheusRuleRef (obj_status deleted_rm) = nn_empty"
  by (simp_all add: deleting_cluster_def deleted_rm_def WasDeleteRequested_def mon_meta_def
      empty_RouteMonitor_def)

section \<open>Witnesses\<close>

theorem slo_valid_range_witness:
  "\<not> fst (IsValid mem_libs \<lparr>TargetAvailabilityPercent = []\<rparr>)"
  using slo_valid_range [OF dec_ok_mem, of "\<lparr>TargetAvailabilityPercent = []\<rparr>"] by simp

definition mem_owner :: OwnerReference where
  "mem_owner = NewControllerRef mem_libs mon_meta empty_type"

theorem servicemonitor_upsert_correct_witness:
  "wp (TemplateAndUpdateServiceMonitorDeployment mem_env ''u'' ''b'' mon_key ''id'' False False mem_owner)
     (\<lambda>r w'. upserted c_sm c_sm_update (probe_template ''u'' ''b'' mon_key ''id'' False mem_owner) r
        deleting_cluster (fst w')) mem_world"
  by (rule wp_mono [OF servicemonitor_upsert_correct [OF ok_mem_world]]) simp

theorem servicemonitor_delete_correct_witness:
  "wp (DeleteServiceMonitorDeployment mem_env mon_key False)
     (\<lambda>r w'. removed c_sm c_sm_update mon_key r deleting_cluster (fst w')) mem_world"
  by (rule wp_mono [OF servicemonitor_delete_correct [OF ok_mem_world]]) (simp add: mon_key_def)

theorem prometheusrule_upsert_correct_witness:
  "wp (UpdatePrometheusRuleDeployment mem_env (TemplateForPrometheusRuleResource mem_libs ''u'' ''0.99'' mon_key))
     (\<lambda>r w'. upserted c_pr c_pr_update (TemplateForPrometheusRuleResource mem_libs ''u'' ''0.99'' mon_key) r
        deleting_cluster (fst w')) mem_world"
  by (rule wp_mono [OF prometheusrule_upsert_correct [OF ok_mem_world]]) simp

theorem blackbox_resources_exist_witness:
  "wp (EnsureBlackBoxExporterResourcesExist mem_env (New ''img'' ''ns''))
     (\<lambda>r w'. r = None \<longrightarrow> blackbox_up (New ''img'' ''ns'') (fst w')) mem_world"
  by (rule wp_mono [OF blackbox_resources_exist [OF ok_mem_world]]) simp

theorem routemonitor_deletion_safe_witness:
  "wp (Reconcile (NewReconciler mem_env ''img'' ''ns'' False ''u'') mon_key) (\<lambda>(res, err) w'.
     err = None \<longrightarrow> gone c_sm mon_key (fst w')) mem_world"
  by (rule wp_mono [OF routemonitor_deletion_safe [OF ok_mem_world deleting_cluster_facts(1,2)]])
    (auto simp: deleting_cluster_facts mon_key_def)

theorem routemonitor_deletion_keeps_rhobs_witness:
  "wp (Reconcile (NewReconciler mem_env ''img'' ''ns'' False ''u'') mon_key) (\<lambda>_ w'.
     map_of (c_rsm (fst w')) mon_key = Some a_servicemonitor) mem_world"
  by (rule wp_mono [OF routemonitor_deletion_keeps_rhobs [OF ok_mem_world deleting_cluster_facts(1,2)]])
    (simp add: deleting_cluster_facts deleting_cluster_def)

end
