(* ===== verification/Go_Url.thy ===== *)
theory Go_Url
  imports Go_Strconv "HOL-Library.List_Lexorder" "HOL-Library.Char_ord"
begin

text \<open>
  What the operator uses of package net/url: \<open>Parse\<close> with the scheme and host of its result,
  \<open>Hostname\<close>, and the encoding of query values.  The cases follow Go's \<open>parse\<close>,
  \<open>parseAuthority\<close>, \<open>parseHost\<close> and \<open>unescape\<close>; of an error only the fact matters to the
  operator, its text is abbreviated.
\<close>

section \<open>Characters\<close>

definition between :: "char \<Rightarrow> nat \<Rightarrow> nat \<Rightarrow> bool" where
  "between c lo hi = (lo \<le> of_char c \<and> of_char c \<le> hi)"

definition is_letter :: "char \<Rightarrow> bool" where
  "is_letter c = (between c 65 90 \<or> between c 97 122)"

definition is_hex :: "char \<Rightarrow> bool" where
  "is_hex c = (is_digit c \<or> between c 65 70 \<or> between c 97 102)"

definition unhex :: "char \<Rightarrow> nat" where
  "unhex c = (if is_digit c then of_char c - 48
              else if between c 97 102 then of_char c - 87
              else if between c 65 70 then of_char c - 55 else 0)"

datatype encoding = encodePath | encodeUserPassword | encodeHost | encodeZone | encodeFragment

text \<open>\<open>shouldEscape\<close> for the two modes in which \<open>unescape\<close> asks: hosts and zones.\<close>

definition host_char :: "char \<Rightarrow> bool" where
  "host_char c = (is_letter c \<or> is_digit c \<or> c \<in> set ''!$&()*+,;=:[]<>-_.~'' \<or>
     c = CHR 0x27 \<or> c = CHR 0x22)"

fun unescape :: "encoding \<Rightarrow> string \<Rightarrow> string option" where
  "unescape mode [] = Some []"
| "unescape mode (c # cs) =
     (if c = CHR ''%'' then
        (case cs of
           a # b # rest \<Rightarrow>
             let v = unhex a * 16 + unhex b in
             if \<not> is_hex a \<or> \<not> is_hex b then None
             else if mode = encodeHost \<and> unhex a < 8 \<and> \<not> (a = CHR ''2'' \<and> b = CHR ''5'') then None
             else if mode = encodeZone \<and> \<not> (a = CHR ''2'' \<and> b = CHR ''5'') \<and> v \<noteq> 32 \<and>
                     \<not> host_char (char_of v) then None
             else map_option (\<lambda>t. char_of v # t) (unescape mode rest)
         | _ \<Rightarrow> None)
      else if (mode = encodeHost \<or> mode = encodeZone) \<and> (of_char c :: nat) < 128 \<and> \<not> host_char c
      then None
      else map_option (\<lambda>t. c # t) (unescape mode cs))"

section \<open>Hosts\<close>

definition validOptionalPort :: "string \<Rightarrow> bool" where
  "validOptionalPort port =
     (case port of [] \<Rightarrow> True | c # cs \<Rightarrow> c = CHR '':'' \<and> list_all is_digit cs)"

text \<open>The parts of a string before and after the last occurrence of a byte.\<close>

definition split_last :: "char \<Rightarrow> string \<Rightarrow> (string \<times> string) option" where
  "split_last c s =
     (if c \<in> set s
      then Some (rev (drop 1 (dropWhile (\<lambda>x. x \<noteq> c) (rev s))), rev (takeWhile (\<lambda>x. x \<noteq> c) (rev s)))
      else None)"

definition ipv4_octet :: "string \<Rightarrow> bool" where
  "ipv4_octet s = (s \<noteq> [] \<and> length s \<le> 3 \<and> list_all is_digit s \<and> (length s > 1 \<longrightarrow> hd s \<noteq> CHR ''0'') \<and>
     (case strconv_Atoi s of Some n \<Rightarrow> n \<le> 255 | None \<Rightarrow> False))"

definition ipv4 :: "string \<Rightarrow> bool" where
  "ipv4 s = (length (strings_Split s CHR ''.'') = 4 \<and> list_all ipv4_octet (strings_Split s CHR ''.''))"

text \<open>The 16-bit fields of a colon-separated part of an IPv6 address, if it is well formed; the last
  group may be an IPv4 address, which counts as two.\<close>

definition ipv6_fields :: "bool \<Rightarrow> string \<Rightarrow> nat option" where
  "ipv6_fields final s =
     (if s = [] then Some 0
      else let gs = strings_Split s CHR '':'';
               hex = (\<lambda>g. g \<noteq> [] \<and> length g \<le> 4 \<and> list_all is_hex g)
           in if list_all hex gs then Some (length gs)
              else if final \<and> list_all hex (butlast gs) \<and> ipv4 (last gs) then Some (length gs + 1)
              else None)"

definition double_colon :: "string \<Rightarrow> (string \<times> string) option" where
  "double_colon s =
     (case find (\<lambda>i. take 2 (drop i s) = ''::'') [0..<length s] of
        None \<Rightarrow> None
      | Some i \<Rightarrow> Some (take i s, drop (i + 2) s))"

definition ipv6 :: "string \<Rightarrow> bool" where
  "ipv6 s =
     (case strings_Cut s CHR ''%'' of
        (addr, zone, has_zone) \<Rightarrow>
          (has_zone \<longrightarrow> zone \<noteq> []) \<and>
          (case double_colon addr of
             None \<Rightarrow> ipv6_fields True addr = Some 8
           | Some (l, r) \<Rightarrow>
               (case (ipv6_fields False l, ipv6_fields True r) of
                  (Some m, Some n) \<Rightarrow> m + n \<le> 7
                | _ \<Rightarrow> False)))"

text \<open>The part of a string before and from the first \<open>%25\<close>.\<close>

fun cut_zone :: "string \<Rightarrow> string \<times> string" where
  "cut_zone [] = ([], [])"
| "cut_zone (c # cs) =
     (if take 3 (c # cs) = ''%25'' then ([], c # cs)
      else case cut_zone cs of (a, b) \<Rightarrow> (c # a, b))"

definition parseHost :: "string \<Rightarrow> string option" where
  "parseHost host =
     (if CHR ''['' \<in> set host then
        (case (split_last CHR ''['' host, split_last CHR '']'' host) of
           (Some ([], _), Some (inner, colonPort)) \<Rightarrow>
             if \<not> validOptionalPort colonPort then None
             else
               (case cut_zone (drop 1 inner) of
                  (addr, zone) \<Rightarrow>
                    (case (unescape encodeHost addr, unescape encodeZone zone, unescape encodeHost colonPort) of
                       (Some a, Some z, Some p) \<Rightarrow>
                         if ipv6 (a @ z) then Some (''['' @ a @ z @ '']'' @ p) else None
                     | _ \<Rightarrow> None))
         | _ \<Rightarrow> None)
      else
        (case split_last CHR '':'' host of
           Some (_, port) \<Rightarrow>
             if list_all is_digit port then unescape encodeHost host else None
         | None \<Rightarrow> unescape encodeHost host))"

definition validUserinfo :: "string \<Rightarrow> bool" where
  "validUserinfo s =
     list_all (\<lambda>c. is_letter c \<or> is_digit c \<or> c \<in> set ''-._:~!$&()*+,;=%@'' \<or> c = CHR 0x27) s"

definition parseAuthority :: "string \<Rightarrow> string option" where
  "parseAuthority authority =
     (case split_last CHR ''@'' authority of
        None \<Rightarrow> parseHost authority
      | Some (userinfo, h) \<Rightarrow>
          (case parseHost h of
             None \<Rightarrow> None
           | Some host \<Rightarrow>
               if \<not> validUserinfo userinfo then None
               else case strings_Cut userinfo CHR '':'' of
                 (username, password, _) \<Rightarrow>
                   if unescape encodeUserPassword username = None \<or>
                      unescape encodeUserPassword password = None then None
                   else Some host))"

section \<open>Parse\<close>

record URL =
  url_Scheme :: string
  url_Host :: string

text \<open>\<open>getScheme\<close>: no result when the scheme is missing before a colon.\<close>

fun getScheme :: "string \<Rightarrow> string \<Rightarrow> (string \<times> string) option" where
  "getScheme seen [] = Some ([], rev seen)"
| "getScheme seen (c # cs) =
     (if is_letter c then getScheme (c # seen) cs
      else if is_digit c \<or> c \<in> set ''+-.''
      then if seen = [] then Some ([], c # cs) else getScheme (c # seen) cs
      else if c = CHR '':''
      then if seen = [] then None else Some (rev seen, cs)
      else Some ([], rev seen @ c # cs))"

definition to_lower :: "char \<Rightarrow> char" where
  "to_lower c = (if between c 65 90 then char_of ((of_char c :: nat) + 32) else c)"

definition parse :: "string \<Rightarrow> URL option" where
  "parse rawURL =
     (if \<not> list_all (\<lambda>c. 32 \<le> (of_char c :: nat) \<and> (of_char c :: nat) \<noteq> 127) rawURL then None
      else if rawURL = ''*'' then Some \<lparr>url_Scheme = [], url_Host = []\<rparr>
      else
        (case getScheme [] rawURL of
           None \<Rightarrow> None
         | Some (scheme, after) \<Rightarrow>
             let scheme = map to_lower scheme;
                 rest = takeWhile (\<lambda>c. c \<noteq> CHR ''?'') after;
                 done = Some \<lparr>url_Scheme = scheme, url_Host = []\<rparr>
             in if \<not> prefix ''/'' rest \<and> scheme \<noteq> [] then done
                else if \<not> prefix ''/'' rest \<and> CHR '':'' \<in> set (takeWhile (\<lambda>c. c \<noteq> CHR ''/'') rest)
                then None
                else if (scheme \<noteq> [] \<or> \<not> prefix ''///'' rest) \<and> prefix ''//'' rest
                then
                  (let authority = takeWhile (\<lambda>c. c \<noteq> CHR ''/'') (drop 2 rest);
                       path = dropWhile (\<lambda>c. c \<noteq> CHR ''/'') (drop 2 rest)
                   in case parseAuthority authority of
                        None \<Rightarrow> None
                      | Some host \<Rightarrow>
                          if unescape encodePath path = None then None
                          else Some \<lparr>url_Scheme = scheme, url_Host = host\<rparr>)
                else if unescape encodePath rest = None then None
                else done))"

definition url_Parse :: "string \<Rightarrow> go_error + URL" where
  "url_Parse rawURL =
     (case strings_Cut rawURL CHR ''#'' of
        (u, frag, _) \<Rightarrow>
          (case parse u of
             None \<Rightarrow> Inl (errors_New (''parse: '' @ u))
           | Some r \<Rightarrow>
               if unescape encodeFragment frag = None then Inl (errors_New (''parse: '' @ rawURL))
               else Inr r))"

definition Hostname :: "URL \<Rightarrow> string" where
  "Hostname u =
     (let host = (case split_last CHR '':'' (url_Host u) of
                    Some (h, port) \<Rightarrow> if list_all is_digit port then h else url_Host u
                  | None \<Rightarrow> url_Host u)
      in if prefix ''['' host \<and> suffix '']'' host then butlast (tl host) else host)"

text \<open>pkg/util: a probe API URL is usable when it is an http or https URL with a host.\<close>

definition ValidURL :: "string \<Rightarrow> bool" where
  "ValidURL raw =
     (if raw = [] then False
      else case url_Parse raw of
             Inl err \<Rightarrow> False
           | Inr parsed \<Rightarrow>
               if url_Scheme parsed \<noteq> ''http'' \<and> url_Scheme parsed \<noteq> ''https'' then False
               else url_Host parsed \<noteq> [])"

section \<open>Query values\<close>

definition hex_digit :: "nat \<Rightarrow> char" where
  "hex_digit n = ''0123456789ABCDEF'' ! n"

definition QueryEscape :: "string \<Rightarrow> string" where
  "QueryEscape s = concat (map (\<lambda>c.
     if is_letter c \<or> is_digit c \<or> c \<in> set ''-_.~'' then [c]
     else if c = CHR '' '' then ''+''
     else CHR ''%'' # [hex_digit (of_char c div 16), hex_digit (of_char c mod 16)]) s)"

text \<open>\<open>Values.Encode\<close> for a list of single values already in the order of their keys.\<close>

definition Encode :: "(string \<times> string) list \<Rightarrow> string" where
  "Encode kvs = concat (map (\<lambda>(i, k, v).
     (if i = 0 then [] else ''&'') @ QueryEscape k @ ''='' @ QueryEscape v)
     (zip [0..<length kvs] kvs))"

text \<open>\<open>Encode\<close> of any list of values: sorted by key, the values of a key in their order.\<close>

definition Encode_sorted :: "(string \<times> string) list \<Rightarrow> string" where
  "Encode_sorted kvs = Encode (sort_key fst kvs)"

fun QueryUnescape :: "string \<Rightarrow> string option" where
  "QueryUnescape [] = Some []"
| "QueryUnescape (c # cs) =
     (if c = CHR ''%'' then
        (case cs of
           a # b # rest \<Rightarrow>
             if is_hex a \<and> is_hex b
             then map_option (\<lambda>t. char_of (unhex a * 16 + unhex b) # t) (QueryUnescape rest)
             else None
         | _ \<Rightarrow> None)
      else map_option (\<lambda>t. (if c = CHR ''+'' then CHR '' '' else c) # t) (QueryUnescape cs))"

text \<open>\<open>URL.Query\<close>: the values of the query of a URL that parses; malformed pairs are dropped.\<close>

definition url_Query :: "string \<Rightarrow> (string \<times> string) list" where
  "url_Query rawURL =
     (let query = fst (snd (strings_Cut (fst (strings_Cut rawURL CHR ''#'')) CHR ''?''));
          pairs = filter (\<lambda>p. p \<noteq> [] \<and> CHR '';'' \<notin> set p) (strings_Split query CHR ''&'')
      in concat (map (\<lambda>p. case strings_Cut p CHR ''='' of
           (k, v, _) \<Rightarrow> (case (QueryUnescape k, QueryUnescape v) of
             (Some k', Some v') \<Rightarrow> [(k', v')] | _ \<Rightarrow> [])) pairs))"

section \<open>Plain hosts\<close>

text \<open>Hosts of letters, digits, dots and dashes, the only ones a cluster's domain has.\<close>

definition plain_char :: "char \<Rightarrow> bool" where
  "plain_char c = (is_letter c \<or> is_digit c \<or> c = CHR ''-'' \<or> c = CHR ''.'')"

definition plain_host :: "string \<Rightarrow> bool" where
  "plain_host h = list_all plain_char h"

lemma plain_char_props:
  assumes "plain_char c"
  shows "c \<noteq> CHR ''%'' \<and> c \<noteq> CHR ''?'' \<and> c \<noteq> CHR ''/'' \<and> c \<noteq> CHR ''@'' \<and> c \<noteq> CHR ''['' \<and> c \<noteq> CHR '']'' \<and>
    c \<noteq> CHR '':'' \<and> c \<noteq> CHR ''#'' \<and> host_char c \<and> 32 \<le> (of_char c :: nat) \<and> (of_char c :: nat) \<noteq> 127"
  using assms by (auto simp: plain_char_def host_char_def is_letter_def is_digit_def between_def)

lemma digit_plain: "is_digit c \<Longrightarrow> plain_char c"
  by (simp add: plain_char_def)

lemma unescape_host: "\<forall>c \<in> set s. c \<noteq> CHR ''%'' \<and> host_char c \<Longrightarrow> unescape encodeHost s = Some s"
  by (induction s) auto

lemma split_last_absent: "c \<notin> set s \<Longrightarrow> split_last c s = None"
  by (simp add: split_last_def)

lemma split_last_append: "c \<notin> set t \<Longrightarrow> split_last c (s @ c # t) = Some (s, t)"
  by (simp add: split_last_def takeWhile_append dropWhile_append)

text \<open>A host with an optional port.\<close>

definition host_port :: "string \<Rightarrow> string \<Rightarrow> bool" where
  "host_port h s \<longleftrightarrow> plain_host h \<and> (s = h \<or> (\<exists>port. list_all is_digit port \<and> s = h @ '':'' @ port))"

lemma host_port_chars:
  assumes "host_port h s"
  shows "\<forall>c \<in> set s. c = CHR '':'' \<or> plain_char c"
  using assms digit_plain by (auto simp: host_port_def plain_host_def list_all_iff)

lemma host_port_clean:
  assumes "host_port h s"
  shows "CHR ''?'' \<notin> set s" "CHR ''/'' \<notin> set s" "CHR ''@'' \<notin> set s" "CHR ''['' \<notin> set s"
    "CHR ''#'' \<notin> set s" "unescape encodeHost s = Some s"
    "list_all (\<lambda>c. 32 \<le> (of_char c :: nat) \<and> (of_char c :: nat) \<noteq> 127) s"
proof -
  have c: "c = CHR '':'' \<or> plain_char c" if "c \<in> set s" for c
    using host_port_chars [OF assms] that by blast
  show "CHR ''?'' \<notin> set s" "CHR ''/'' \<notin> set s" "CHR ''@'' \<notin> set s" "CHR ''['' \<notin> set s" "CHR ''#'' \<notin> set s"
    using c plain_char_props by blast+
  have "host_char CHR '':''" by (simp add: host_char_def)
  then show "unescape encodeHost s = Some s"
    using c plain_char_props by (intro unescape_host) blast
  show "list_all (\<lambda>c. 32 \<le> (of_char c :: nat) \<and> (of_char c :: nat) \<noteq> 127) s"
    unfolding list_all_iff using c plain_char_props by fastforce
qed

lemma parseAuthority_plain:
  assumes "host_port h s"
  shows "parseAuthority s = Some s"
proof -
  have nocolon: "CHR '':'' \<notin> set h"
    using assms plain_char_props by (auto simp: host_port_def plain_host_def list_all_iff)
  have "parseHost s = Some s"
  proof (cases "s = h")
    case True
    then show ?thesis
      using host_port_clean [OF assms] nocolon by (simp add: parseHost_def split_last_absent)
  next
    case False
    then obtain port where port: "list_all is_digit port" "s = h @ CHR '':'' # port"
      using assms by (auto simp: host_port_def)
    then have "CHR '':'' \<notin> set port" by (auto simp: list_all_iff is_digit_def)
    then show ?thesis
      using host_port_clean [OF assms] port by (simp add: parseHost_def split_last_append)
  qed
  then show ?thesis
    using host_port_clean [OF assms] by (simp add: parseAuthority_def split_last_absent)
qed

lemma takeWhile_absent: "c \<notin> set s \<Longrightarrow> takeWhile (\<lambda>x. x \<noteq> c) s = s"
  by (auto simp: takeWhile_eq_all_conv)

lemma dropWhile_absent: "c \<notin> set s \<Longrightarrow> dropWhile (\<lambda>x. x \<noteq> c) s = []"
  by (auto simp: dropWhile_eq_Nil_conv)

lemma url_Parse_plain:
  assumes s: "host_port h s" and scheme: "scheme = ''http'' \<or> scheme = ''https''"
  shows "url_Parse (scheme @ ''://'' @ s) = Inr \<lparr>url_Scheme = scheme, url_Host = s\<rparr>"
proof -
  note clean = host_port_clean [OF s]
  let ?url = "scheme @ ''://'' @ s"
  have frag: "CHR ''#'' \<notin> set ?url" using clean scheme by auto
  have ctl: "list_all (\<lambda>c. 32 \<le> (of_char c :: nat) \<and> (of_char c :: nat) \<noteq> 127) ?url"
    using clean scheme by auto
  have getScheme: "getScheme [] ?url = Some (scheme, ''//'' @ s)"
    using scheme by (auto simp: is_letter_def between_def is_digit_def)
  have lower: "map to_lower scheme = scheme"
    using scheme by (auto simp: to_lower_def between_def)
  have rest: "takeWhile (\<lambda>c. c \<noteq> CHR ''?'') (''//'' @ s) = ''//'' @ s"
    using clean by (simp add: takeWhile_absent)
  have ne: "?url \<noteq> ''*''" "scheme \<noteq> []" using scheme by auto
  have "parse ?url = Some \<lparr>url_Scheme = scheme, url_Host = s\<rparr>"
    unfolding parse_def getScheme Let_def option.case prod.case lower rest if_not_P [OF not_not [THEN iffD2, OF ctl]]
    using ne clean(2) by (simp add: takeWhile_absent dropWhile_absent parseAuthority_plain [OF s])
  then show ?thesis
    using frag by (simp add: url_Parse_def strings_Cut_def takeWhile_absent dropWhile_absent)
qed

lemma Hostname_plain:
  assumes "host_port h s"
  shows "Hostname \<lparr>url_Scheme = scheme, url_Host = s\<rparr> = h"
proof -
  have plain: "\<forall>c \<in> set h. plain_char c"
    using assms by (auto simp: host_port_def plain_host_def list_all_iff)
  have nocolon: "CHR '':'' \<notin> set h" and "CHR ''['' \<notin> set h"
    using plain plain_char_props by blast+
  then have nobr: "\<not> prefix ''['' h" by (cases h) auto
  show ?thesis
  proof (cases "s = h")
    case True
    then show ?thesis using nocolon nobr by (simp add: Hostname_def split_last_absent)
  next
    case False
    then obtain port where port: "list_all is_digit port" "s = h @ CHR '':'' # port"
      using assms by (auto simp: host_port_def)
    then have "CHR '':'' \<notin> set port" by (auto simp: list_all_iff is_digit_def)
    then show ?thesis using port nobr by (simp add: Hostname_def split_last_append)
  qed
qed

end
