(* ===== verification/Cluster_Url_Monitor.thy ===== *)
theory Cluster_Url_Monitor
  imports Interfaces Go_Url
begin

text \<open>
  controllers/clusterurlmonitor: the ClusterUrlMonitor controller, which probes a URL built from
  the cluster's base domain: the API server's on a classic cluster, the hosted cluster's on
  HyperShift.  Names that the RouteMonitor controller has too carry the prefix \<open>CUM_\<close>.
\<close>

definition CUM_FinalizerKey :: string where
  "CUM_FinalizerKey = ''clusterurlmonitor.routemonitoroperator.monitoring.openshift.io/finalizer''"

definition CUM_PrevFinalizerKey :: string where
  "CUM_PrevFinalizerKey = ''clusterurlmonitor.monitoring.openshift.io/clusterurlmonitorcontroller''"

definition hcpClusterAnnotation :: string where
  "hcpClusterAnnotation = ''hypershift.openshift.io/cluster''"

record 'w ClusterUrlMonitorReconciler =
  cumr_Client :: "'w Env"
  cumr_BlackBoxExporter :: "'w BlackBoxExporterHandler"
  cumr_ServiceMonitor :: "'w ServiceMonitorHandler"
  cumr_Prom :: "'w PrometheusRuleHandler"
  cumr_Common :: "(ClusterUrlMonitorSpec, ClusterUrlMonitorStatus, 'w) MonitorResourceHandler"

definition CUM_NewReconciler ::
    "'w Env \<Rightarrow> string \<Rightarrow> string \<Rightarrow> bool \<Rightarrow> string \<Rightarrow> 'w ClusterUrlMonitorReconciler" where
  "CUM_NewReconciler E blackboxExporterImage blackboxExporterNamespace enablehypershift probeAPIURL =
     \<lparr>cumr_Client = E,
      cumr_BlackBoxExporter =
        BlackBoxExporter_methods E (New blackboxExporterImage blackboxExporterNamespace),
      cumr_ServiceMonitor = NewServiceMonitor E,
      cumr_Prom = NewPrometheusRule E,
      cumr_Common = NewMonitorResourceCommon E (cum_api E)\<rparr>"

section \<open>The cluster's domain\<close>

definition removeSubdomain :: "string \<Rightarrow> string \<Rightarrow> go_error + string" where
  "removeSubdomain subdomain clusterURL =
     (let clusterURL =
            (if \<not> strings_HasPrefix clusterURL ''https://'' \<and> \<not> strings_HasPrefix clusterURL ''http://''
             then ''https://'' @ clusterURL else clusterURL)
      in case url_Parse clusterURL of
           Inl err \<Rightarrow> Inl err
         | Inr u \<Rightarrow>
             (case strings_Cut (Hostname u) CHR ''.'' of
                (before, baseName, _) \<Rightarrow>
                  if before \<noteq> subdomain then Inr (before @ ''.'' @ baseName) else Inr baseName))"

definition getInfraClusterDomain ::
    "'w ClusterUrlMonitorReconciler \<Rightarrow> ('w, go_error + string) io" where
  "getInfraClusterDomain s =
     do { i \<leftarrow> kube_Get (inf_api (cumr_Client s)) \<lparr>nn_name = ''cluster'', nn_namespace = []\<rparr>;
          (case i of
             Inl err \<Rightarrow> ret (Inl err)
           | Inr clusterInfra \<Rightarrow> ret (removeSubdomain ''api'' (inf_apiServerURL (obj_status clusterInfra)))) }"

definition getHypershiftClusterDomain ::
    "'w ClusterUrlMonitorReconciler \<Rightarrow> ClusterUrlMonitor \<Rightarrow> ('w, go_error + string) io" where
  "getHypershiftClusterDomain s monitor =
     do { h \<leftarrow> mh_GetHCP (cumr_Common s) (om_namespace (obj_meta monitor));
          (case h of
             Inl err \<Rightarrow> ret (Inl (wrap_w ''failed to retrieve HostedControlPlane for hosted cluster'' err))
           | Inr clusterHCP \<Rightarrow>
               let clusterAnnotation = map_read (om_annotations (obj_meta clusterHCP)) hcpClusterAnnotation;
                   annotationTokens = strings_Split clusterAnnotation CHR ''/'' in
               if length annotationTokens \<noteq> 2
               then ret (Inl (errors_New (''invalid annotation for HostedControlPlane '' @ [CHR 0x27] @
                      om_name (obj_meta clusterHCP) @ [CHR 0x27] @
                      '': expected <namespace>/<hostedcluster name>, got '' @ clusterAnnotation)))
               else do { c \<leftarrow> kube_Get (hc_api (cumr_Client s))
                               \<lparr>nn_name = annotationTokens ! 1, nn_namespace = annotationTokens ! 0\<rparr>;
                         (case c of
                            Inl err \<Rightarrow> ret (Inl err)
                          | Inr hostedCluster \<Rightarrow> ret (removeSubdomain ''rosa'' (obj_spec hostedCluster))) }) }"

definition GetClusterDomain ::
    "'w ClusterUrlMonitorReconciler \<Rightarrow> ClusterUrlMonitor \<Rightarrow> ('w, go_error + string) io" where
  "GetClusterDomain s monitor =
     (if cums_domainRef (obj_spec monitor) = ClusterDomainRefHCP
      then getHypershiftClusterDomain s monitor
      else getInfraClusterDomain s)"

text \<open>The URL both the ServiceMonitor and the PrometheusRule are made for.\<close>

definition clusterUrl :: "ClusterUrlMonitorSpec \<Rightarrow> string \<Rightarrow> string" where
  "clusterUrl spec clusterDomain =
     cums_prefix spec @ clusterDomain @ '':'' @ cums_port spec @ cums_suffix spec"

section \<open>The steps\<close>

definition CUM_EnsurePrometheusRuleExists ::
    "'w ClusterUrlMonitorReconciler \<Rightarrow> ClusterUrlMonitor \<Rightarrow> ('w, Result \<times> go_error option) io" where
  "CUM_EnsurePrometheusRuleExists s clusterUrlMonitor =
     (let setRef = (\<lambda>m ref. m\<lparr>obj_status := (obj_status m)\<lparr>cumst_prometheusRuleRef := ref\<rparr>\<rparr>) in
      if cums_skipPrometheusRule (obj_spec clusterUrlMonitor)
      then do { d \<leftarrow> ph_DeletePrometheusRuleDeployment (cumr_Prom s)
                      (cumst_prometheusRuleRef (obj_status clusterUrlMonitor));
                (case d of
                   Some err \<Rightarrow> ret (RequeueReconcileWith (Some err))
                 | None \<Rightarrow>
                     (case mh_SetResourceReference (cumr_Common s)
                             (cumst_prometheusRuleRef (obj_status clusterUrlMonitor)) nn_empty of
                        ((updated, _), ref) \<Rightarrow>
                          if updated
                          then mh_UpdateMonitorResourceStatus (cumr_Common s) (setRef clusterUrlMonitor ref)
                          else ret ContinueReconcile)) }
      else if cums_domainRef (obj_spec clusterUrlMonitor) = ClusterDomainRefHCP
      then ret ContinueReconcile
      else
        do { c \<leftarrow> GetClusterDomain s clusterUrlMonitor;
             (case c of
                Inl err \<Rightarrow> ret (RequeueReconcileWith (Some err))
              | Inr clusterDomain \<Rightarrow>
                  let url = clusterUrl (obj_spec clusterUrlMonitor) clusterDomain in
                  (case mh_ParseMonitorSLOSpecs (cumr_Common s) url (cums_slo (obj_spec clusterUrlMonitor)) of
                     (parsedSlo, err) \<Rightarrow>
                       (case mh_SetErrorStatus (cumr_Common s) (cumst_errorStatus (obj_status clusterUrlMonitor)) err of
                          (changed, errorStatus) \<Rightarrow>
                            (let m = clusterUrlMonitor\<lparr>obj_status :=
                                   (obj_status clusterUrlMonitor)\<lparr>cumst_errorStatus := errorStatus\<rparr>\<rparr> in
                             if changed then mh_UpdateMonitorResourceStatus (cumr_Common s) m
                             else if parsedSlo = []
                             then do { d \<leftarrow> ph_DeletePrometheusRuleDeployment (cumr_Prom s)
                                             (cumst_prometheusRuleRef (obj_status m));
                                       (case d of
                                          Some err \<Rightarrow> ret (RequeueReconcileWith (Some err))
                                        | None \<Rightarrow>
                                            (case mh_SetResourceReference (cumr_Common s)
                                                    (cumst_prometheusRuleRef (obj_status m)) nn_empty of
                                               ((updated, _), ref) \<Rightarrow>
                                                 if updated
                                                 then mh_UpdateMonitorResourceStatus (cumr_Common s) (setRef m ref)
                                                 else ret StopReconcile)) }
                             else
                               (let namespacedName = \<lparr>nn_name = om_name (obj_meta m),
                                                      nn_namespace = om_namespace (obj_meta m)\<rparr>;
                                    tmpl = TemplateForPrometheusRuleResource (libs (cumr_Client s))
                                             url parsedSlo namespacedName
                                in do { u \<leftarrow> ph_UpdatePrometheusRuleDeployment (cumr_Prom s) tmpl;
                                        (case u of
                                           Some err \<Rightarrow> ret (RequeueReconcileWith (Some err))
                                         | None \<Rightarrow>
                                             (case mh_SetResourceReference (cumr_Common s)
                                                     (cumst_prometheusRuleRef (obj_status m)) namespacedName of
                                                ((updated, _), ref) \<Rightarrow>
                                                  if updated
                                                  then mh_UpdateMonitorResourceStatus (cumr_Common s) (setRef m ref)
                                                  else ret ContinueReconcile)) }))))) })"

definition isClusterVersionAvailable :: "Libs \<Rightarrow> HostedControlPlane \<Rightarrow> go_error option" where
  "isClusterVersionAvailable L hcp =
     (case FindStatusCondition L (hcpst_conditions (obj_status hcp)) ''ClusterVersionAvailable'' of
        None \<Rightarrow> Some (errors_New ''cluster API is not yet available'')
      | Some condition \<Rightarrow>
          if cond_status condition \<noteq> ''True''
          then Some (errors_New ''cluster API is not yet available'') else None)"

definition CUM_EnsureServiceMonitorExists ::
    "'w ClusterUrlMonitorReconciler \<Rightarrow> ClusterUrlMonitor \<Rightarrow> ('w, Result \<times> go_error option) io" where
  "CUM_EnsureServiceMonitorExists s clusterUrlMonitor =
     do { c \<leftarrow> GetClusterDomain s clusterUrlMonitor;
          (case c of
             Inl err \<Rightarrow> ret (RequeueReconcileWith (Some err))
           | Inr clusterDomain \<Rightarrow>
               let m = obj_meta clusterUrlMonitor;
                   namespacedName = \<lparr>nn_name = om_name m, nn_namespace = om_namespace m\<rparr>;
                   url = clusterUrl (obj_spec clusterUrlMonitor) clusterDomain;
                   isHCP = (cums_domainRef (obj_spec clusterUrlMonitor) = ClusterDomainRefHCP) in
               do { i \<leftarrow> (if isHCP
                         then do { h \<leftarrow> mh_GetHypershiftClusterID (cumr_Common s) (om_namespace m);
                                   (case h of
                                      Inl err \<Rightarrow> ret (Inl err)
                                    | Inr id' \<Rightarrow>
                                        do { g \<leftarrow> mh_GetHCP (cumr_Common s) (om_namespace m);
                                             (case g of
                                                Inl err \<Rightarrow> ret (Inl err)
                                              | Inr hcp \<Rightarrow>
                                                  (case isClusterVersionAvailable (libs (cumr_Client s)) hcp of
                                                     Some err \<Rightarrow> ret (Inl err)
                                                   | None \<Rightarrow> ret (Inr id'))) }) }
                         else mh_GetOSDClusterID (cumr_Common s));
                    (case i of
                       Inl err \<Rightarrow> ret (RequeueReconcileWith (Some err))
                     | Inr id' \<Rightarrow>
                         let owner = NewControllerRef (libs (cumr_Client s)) m (obj_type clusterUrlMonitor) in
                         do { e \<leftarrow> sh_TemplateAndUpdateServiceMonitorDeployment (cumr_ServiceMonitor s) url
                                    (bh_GetBlackBoxExporterNamespace (cumr_BlackBoxExporter s))
                                    namespacedName id' isHCP False owner;
                              (case e of
                                 Some err \<Rightarrow> ret (RequeueReconcileWith (Some err))
                               | None \<Rightarrow>
                                   (case mh_SetResourceReference (cumr_Common s)
                                           (cumst_serviceMonitorRef (obj_status clusterUrlMonitor)) namespacedName of
                                      ((updated, err), ref) \<Rightarrow>
                                        (case err of
                                           Some err \<Rightarrow> ret (RequeueReconcileWith (Some err))
                                         | None \<Rightarrow>
                                             if updated
                                             then mh_UpdateMonitorResourceStatus (cumr_Common s)
                                                    (clusterUrlMonitor\<lparr>obj_status := (obj_status clusterUrlMonitor)
                                                       \<lparr>cumst_serviceMonitorRef := ref\<rparr>\<rparr>)
                                             else ret ContinueReconcile))) }) }) }"

definition CUM_EnsureMonitorAndDependenciesAbsent ::
    "'w ClusterUrlMonitorReconciler \<Rightarrow> ClusterUrlMonitor \<Rightarrow> ('w, Result \<times> go_error option) io" where
  "CUM_EnsureMonitorAndDependenciesAbsent s clusterUrlMonitor =
     (if om_deletionTimestamp (obj_meta clusterUrlMonitor) = None then ret ContinueReconcile
      else
        let isHCP = (cums_domainRef (obj_spec clusterUrlMonitor) = ClusterDomainRefHCP) in
        do { d \<leftarrow> sh_DeleteServiceMonitorDeployment (cumr_ServiceMonitor s)
                   (cumst_serviceMonitorRef (obj_status clusterUrlMonitor)) isHCP;
             (case d of
                Some err \<Rightarrow> ret (RequeueReconcileWith (Some err))
              | None \<Rightarrow>
                  do { b \<leftarrow> bh_ShouldDeleteBlackBoxExporterResources (cumr_BlackBoxExporter s);
                       (case b of
                          Inl err \<Rightarrow> ret (RequeueReconcileWith (Some err))
                        | Inr shouldDelete \<Rightarrow>
                            do { a \<leftarrow> (if shouldDelete = DeleteBlackBoxExporter
                                      then bh_EnsureBlackBoxExporterResourcesAbsent (cumr_BlackBoxExporter s)
                                      else ret None);
                                 (case a of
                                    Some err \<Rightarrow> ret (RequeueReconcileWith (Some err))
                                  | None \<Rightarrow>
                                      do { p \<leftarrow> ph_DeletePrometheusRuleDeployment (cumr_Prom s)
                                                 (cumst_prometheusRuleRef (obj_status clusterUrlMonitor));
                                           (case p of
                                              Some err \<Rightarrow> ret (RequeueReconcileWith (Some err))
                                            | None \<Rightarrow>
                                                (case mh_DeleteFinalizer (cumr_Common s)
                                                        (obj_meta clusterUrlMonitor) CUM_FinalizerKey of
                                                   (deleted, m) \<Rightarrow>
                                                     if deleted
                                                     then mh_UpdateMonitorResource (cumr_Common s)
                                                            (clusterUrlMonitor\<lparr>obj_meta :=
                                                               snd (mh_DeleteFinalizer (cumr_Common s) m
                                                                      CUM_PrevFinalizerKey)\<rparr>)
                                                     else ret ContinueReconcile)) }) }) }) })"

definition CUM_EnsureFinalizerSet ::
    "'w ClusterUrlMonitorReconciler \<Rightarrow> ClusterUrlMonitor \<Rightarrow> ('w, Result \<times> go_error option) io" where
  "CUM_EnsureFinalizerSet s clusterUrlMonitor =
     (case mh_SetFinalizer (cumr_Common s) (obj_meta clusterUrlMonitor) CUM_FinalizerKey of
        (added, m) \<Rightarrow>
          if added
          then mh_UpdateMonitorResource (cumr_Common s)
                 (clusterUrlMonitor\<lparr>obj_meta :=
                    snd (mh_DeleteFinalizer (cumr_Common s) m CUM_PrevFinalizerKey)\<rparr>)
          else ret ContinueReconcile)"

definition GetClusterUrlMonitor ::
    "'w ClusterUrlMonitorReconciler \<Rightarrow> NamespacedName
       \<Rightarrow> ('w, ClusterUrlMonitor \<times> Result \<times> go_error option) io" where
  "GetClusterUrlMonitor s req =
     do { g \<leftarrow> kube_Get (cum_api (cumr_Client s)) req;
          (case g of
             Inl err \<Rightarrow>
               if \<not> IsNotFound err then ret (empty_ClusterUrlMonitor, RequeueReconcileWith (Some err))
               else ret (empty_ClusterUrlMonitor, StopOperation, None)
           | Inr m \<Rightarrow>
               if m = empty_ClusterUrlMonitor then ret (empty_ClusterUrlMonitor, StopOperation, None)
               else ret (m, ContinueOperation, None)) }"

section \<open>Reconcile\<close>

definition CUM_Reconcile ::
    "'w ClusterUrlMonitorReconciler \<Rightarrow> NamespacedName \<Rightarrow> ('w, CtrlResult \<times> go_error option) io" where
  "CUM_Reconcile s req =
     do { g \<leftarrow> GetClusterUrlMonitor s req;
          (case g of (clusterUrlMonitor, res, err) \<Rightarrow>
           if err \<noteq> None then ret (RequeueWith err)
           else if ShouldStop res then ret Stop
           else do { d \<leftarrow> CUM_EnsureMonitorAndDependenciesAbsent s clusterUrlMonitor;
             (case d of (res, err) \<Rightarrow>
              if err \<noteq> None then ret (RequeueWith err)
              else if ShouldStop res then ret Stop
              else do { f \<leftarrow> CUM_EnsureFinalizerSet s clusterUrlMonitor;
                (case f of (res, err) \<Rightarrow>
                 if err \<noteq> None then ret (RequeueWith err)
                 else if ShouldStop res then ret Stop
                 else do { b \<leftarrow> bh_EnsureBlackBoxExporterResourcesExist (cumr_BlackBoxExporter s);
                   (case b of
                      Some err \<Rightarrow> ret (RequeueWith (Some err))
                    | None \<Rightarrow>
                        do { m \<leftarrow> CUM_EnsureServiceMonitorExists s clusterUrlMonitor;
                          (case m of (res, err) \<Rightarrow>
                           if err \<noteq> None then ret (RequeueWith err)
                           else if ShouldStop res then ret Stop
                           else do { p \<leftarrow> CUM_EnsurePrometheusRuleExists s clusterUrlMonitor;
                             (case p of (res, err) \<Rightarrow>
                              if err \<noteq> None then ret (RequeueWith err)
                              else ret Stop) }) }) }) }) }) }"

section \<open>The reconciler over its interfaces\<close>

lemma CUM_keys_differ [simp]: "CUM_PrevFinalizerKey \<noteq> CUM_FinalizerKey"
  by (simp add: CUM_PrevFinalizerKey_def CUM_FinalizerKey_def)

abbreviation cum_dropped :: "ClusterUrlMonitor \<Rightarrow> cluster \<Rightarrow> cluster \<Rightarrow> bool" where
  "cum_dropped \<equiv> finalizers_dropped c_cum c_cum_update CUM_FinalizerKey CUM_PrevFinalizerKey"

text \<open>The ServiceMonitor a ClusterUrlMonitor refers to is gone from the API group it was made in.\<close>

definition cum_sm_gone :: "ClusterUrlMonitor \<Rightarrow> cluster \<Rightarrow> bool" where
  "cum_sm_gone m c \<longleftrightarrow>
     (let ref = cumst_serviceMonitorRef (obj_status m) in
      ref \<noteq> nn_empty \<longrightarrow>
        (if cums_domainRef (obj_spec m) = ClusterDomainRefHCP then gone c_rsm ref c else gone c_sm ref c))"

definition cum_pr_gone :: "ClusterUrlMonitor \<Rightarrow> cluster \<Rightarrow> bool" where
  "cum_pr_gone m c \<longleftrightarrow>
     (let ref = cumst_prometheusRuleRef (obj_status m) in ref \<noteq> nn_empty \<longrightarrow> gone c_pr ref c)"

text \<open>What the deletion of a ClusterUrlMonitor may touch: the monitor, the ServiceMonitor it refers to in the
  API group it was made in, the PrometheusRule it refers to, and the three objects of the exporter \<open>b\<close>.\<close>

definition cum_frame :: "ClusterUrlMonitor \<Rightarrow> NamespacedName \<Rightarrow> cluster \<Rightarrow> cluster \<Rightarrow> bool" where
  "cum_frame m b c d \<longleftrightarrow>
     (let hcp = (cums_domainRef (obj_spec m) = ClusterDomainRefHCP) in
      d = c\<lparr>c_cum := c_cum d, c_sm := c_sm d, c_rsm := c_rsm d, c_pr := c_pr d,
            c_cm := c_cm d, c_dep := c_dep d, c_svc := c_svc d\<rparr> \<and>
      (\<forall>k. (k \<noteq> obj_key m \<longrightarrow> map_of (c_cum d) k = map_of (c_cum c) k) \<and>
        (hcp \<or> k \<noteq> cumst_serviceMonitorRef (obj_status m) \<longrightarrow> map_of (c_sm d) k = map_of (c_sm c) k) \<and>
        (\<not> hcp \<or> k \<noteq> cumst_serviceMonitorRef (obj_status m) \<longrightarrow> map_of (c_rsm d) k = map_of (c_rsm c) k) \<and>
        (k \<noteq> cumst_prometheusRuleRef (obj_status m) \<longrightarrow> map_of (c_pr d) k = map_of (c_pr c) k) \<and>
        (k \<noteq> b \<longrightarrow> map_of (c_cm d) k = map_of (c_cm c) k \<and>
           map_of (c_dep d) k = map_of (c_dep c) k \<and> map_of (c_svc d) k = map_of (c_svc c) k)))"

lemma cum_frame_refl [simp]: "cum_frame m b c c"
  by (simp add: cum_frame_def Let_def)

lemma cum_frame_trans: "cum_frame m b c d \<Longrightarrow> cum_frame m b d e \<Longrightarrow> cum_frame m b c e"
  by (cases c; cases d; cases e) (simp add: cum_frame_def Let_def)

lemma cum_frame_intros:
  "changes_only c_cum c_cum_update (obj_key m) c d \<Longrightarrow> cum_frame m b c d"
  "changes_only c_sm c_sm_update (cumst_serviceMonitorRef (obj_status m)) c d \<Longrightarrow>
     cums_domainRef (obj_spec m) \<noteq> ClusterDomainRefHCP \<Longrightarrow> cum_frame m b c d"
  "changes_only c_rsm c_rsm_update (cumst_serviceMonitorRef (obj_status m)) c d \<Longrightarrow>
     cums_domainRef (obj_spec m) = ClusterDomainRefHCP \<Longrightarrow> cum_frame m b c d"
  "changes_only c_pr c_pr_update (cumst_prometheusRuleRef (obj_status m)) c d \<Longrightarrow> cum_frame m b c d"
  "blackbox_only b c d \<Longrightarrow> cum_frame m b c d"
  by (cases c; cases d; auto simp: changes_only_def cum_frame_def blackbox_only_def Let_def)+

locale cluster_url_monitor_reconciler =
  monitor_handlers invar snap c_cum c_cum_update "cumr_Common s" "cumr_ServiceMonitor s" "cumr_Prom s"
    "cumr_BlackBoxExporter s" bb_key up
  for invar :: "'w \<Rightarrow> bool" and snap and s :: "'w ClusterUrlMonitorReconciler" and bb_key and up +
  assumes get_cum:
      "invar w \<Longrightarrow> wp (kube_Get (cum_api (cumr_Client s)) k) (\<lambda>g w'. invar w' \<and> snap w' = snap w \<and>
         (case g of Inl e \<Rightarrow> IsNotFound e \<longrightarrow> map_of (c_cum (snap w)) k = None
                  | Inr x \<Rightarrow> map_of (c_cum (snap w)) k = Some x)) w"
    and get_infrastructure:
      "invar w \<Longrightarrow> wp (kube_Get (inf_api (cumr_Client s)) k) (\<lambda>g w'. invar w' \<and> snap w' = snap w \<and>
         (case g of Inl e \<Rightarrow> IsNotFound e \<longrightarrow> map_of (c_inf (snap w)) k = None
                  | Inr x \<Rightarrow> map_of (c_inf (snap w)) k = Some x)) w"
    and get_hosted_cluster:
      "invar w \<Longrightarrow> wp (kube_Get (hc_api (cumr_Client s)) k) (\<lambda>g w'. invar w' \<and> snap w' = snap w \<and>
         (case g of Inl e \<Rightarrow> IsNotFound e \<longrightarrow> map_of (c_hc (snap w)) k = None
                  | Inr x \<Rightarrow> map_of (c_hc (snap w)) k = Some x)) w"
begin

text \<open>The cluster \<open>c\<close> before the last step, which takes the finalizer off.\<close>

definition cleaned :: "ClusterUrlMonitor \<Rightarrow> cluster \<Rightarrow> bool \<Rightarrow> cluster \<Rightarrow> bool" where
  "cleaned m c0 finished c \<longleftrightarrow> c_cum c = c_cum c0 \<and> cum_frame m bb_key c0 c \<and> exporter_follows bb_key c0 finished c"

lemma cleaned_step:
  assumes "cleaned m c0 x c" and "c_cum d = c_cum c" and "cum_frame m bb_key c d" and "exporter_same c d"
  shows "cleaned m c0 x d"
  using assms cum_frame_trans exporter_follows_cong unfolding cleaned_def by metis

lemma cleaned_start: "cleaned m c False c" "\<not> last_monitor c \<Longrightarrow> cleaned m c x c"
  by (simp_all add: cleaned_def exporter_follows_start)

lemma cleaned_unfinished: "cleaned m c0 True c \<Longrightarrow> cleaned m c0 False c"
  by (simp add: cleaned_def exporter_follows_unfinished)

definition deletion_post :: "ClusterUrlMonitor \<Rightarrow> cluster \<Rightarrow> Result \<times> go_error option \<Rightarrow> 'w \<Rightarrow> bool" where
  "deletion_post m c0 r w' \<longleftrightarrow> (case r of (res, err) \<Rightarrow> invar w' \<and>
     (\<exists>c. cleaned m c0 (err = None) c \<and>
       (case err of Some e \<Rightarrow> snap w' = c
        | None \<Rightarrow> cum_sm_gone m c \<and> cum_pr_gone m c \<and> cum_dropped m c (snap w') \<and>
            (ShouldStop res \<longleftrightarrow> CUM_FinalizerKey \<in> set (om_finalizers (obj_meta m))))))"

lemma deletion_post_error:
  "invar w' \<Longrightarrow> cleaned m c0 False (snap w') \<Longrightarrow> deletion_post m c0 (RequeueReconcileWith (Some e)) w'"
  by (auto simp: deletion_post_def RequeueReconcileWith_def)

text \<open>Deleting the rule and the ServiceMonitor are such steps.\<close>

lemma cleaned_deletes:
  "changes_only c_pr c_pr_update (cumst_prometheusRuleRef (obj_status m)) c d \<Longrightarrow> cleaned m c0 x c \<Longrightarrow> cleaned m c0 x d"
  "changes_only c_sm c_sm_update (cumst_serviceMonitorRef (obj_status m)) c d \<Longrightarrow>
     cums_domainRef (obj_spec m) \<noteq> ClusterDomainRefHCP \<Longrightarrow> cleaned m c0 x c \<Longrightarrow> cleaned m c0 x d"
  "changes_only c_rsm c_rsm_update (cumst_serviceMonitorRef (obj_status m)) c d \<Longrightarrow>
     cums_domainRef (obj_spec m) = ClusterDomainRefHCP \<Longrightarrow> cleaned m c0 x c \<Longrightarrow> cleaned m c0 x d"
  by (erule cleaned_step; simp add: cum_frame_intros changes_only_other_fields)+

lemma wp_CUM_rule_and_finalizer:
  assumes inv: "invar w" and c0: "cleaned m c0 True (snap w)"
    and g: "cum_sm_gone m (snap w)"
  shows "wp (do { p \<leftarrow> ph_DeletePrometheusRuleDeployment (cumr_Prom s) (cumst_prometheusRuleRef (obj_status m));
      (case p of
         Some err \<Rightarrow> ret (RequeueReconcileWith (Some err))
       | None \<Rightarrow>
           (case mh_DeleteFinalizer (cumr_Common s) (obj_meta m) CUM_FinalizerKey of
              (deleted, meta) \<Rightarrow>
                if deleted
                then mh_UpdateMonitorResource (cumr_Common s)
                       (m\<lparr>obj_meta := snd (mh_DeleteFinalizer (cumr_Common s) meta CUM_PrevFinalizerKey)\<rparr>)
                else ret ContinueReconcile)) }) (deletion_post m c0) w"
  unfolding wp_bind
proof (rule wp_mono [OF rule_delete [OF inv]], goal_cases)
  case (1 p w1)
  show ?case
  proof (cases p)
    case (Some e)
    with 1 c0 show ?thesis
      by (auto simp: wp_return removed_def cleaned_unfinished split: if_splits intro!: deletion_post_error)
  next
    case None
    have ch: "cleaned m c0 True (snap w1)" "cum_sm_gone m (snap w1)" "cum_pr_gone m (snap w1)"
      using 1 None c0 g changes_only_other_fields(2) [of _ "snap w" "snap w1"] cleaned_deletes(1) [of m "snap w" "snap w1"]
      by (auto simp: removed_def cum_sm_gone_def cum_pr_gone_def Let_def gone_def split: if_splits)
    show ?thesis
      unfolding None option.case ContinueReconcile_def
    proof (rule wp_mono [OF wp_drop_finalizers], goal_cases)
      case (2 a w2)
      then show ?case
        using ch cleaned_unfinished unfolding deletion_post_def by (cases a) (auto split: option.splits)
    qed (use 1 in simp)
  qed
qed

lemma wp_CUM_delete:
  assumes inv: "invar w" and del: "om_deletionTimestamp (obj_meta m) \<noteq> None"
  shows "wp (CUM_EnsureMonitorAndDependenciesAbsent s m) (deletion_post m (snap w)) w"
  unfolding CUM_EnsureMonitorAndDependenciesAbsent_def if_not_P [OF del] Let_def wp_bind
proof (rule wp_mono [OF sm_delete [OF inv]], goal_cases)
  case (1 d w1)
  show ?case
  proof (cases d)
    case (Some e)
    with 1 show ?thesis
      by (auto simp: wp_return removed_def cleaned_start split: if_splits intro!: deletion_post_error)
  next
    case None
    have w1: "invar w1" "c_rm (snap w1) = c_rm (snap w)" "c_cum (snap w1) = c_cum (snap w)" "cum_sm_gone m (snap w1)"
      "cum_frame m bb_key (snap w) (snap w1)" "exporter_same (snap w) (snap w1)"
      using 1 None changes_only_other_fields(1) [of _ "snap w" "snap w1"]
        changes_only_other_fields(4) [of _ "snap w" "snap w1"]
      by (auto simp: removed_def cum_sm_gone_def Let_def cum_frame_intros split: if_splits)
    have last: "last_monitor (snap w1) = last_monitor (snap w)"
      using w1(2,3) by (simp add: last_monitor_def monitor_metas_def)
    have begun: "cleaned m (snap w) x (snap w1)" if "\<not> last_monitor (snap w) \<or> \<not> x" for x
      using that w1 by (simp add: cleaned_def exporter_follows_start)
    show ?thesis
      unfolding None option.case wp_bind
    proof (rule wp_mono [OF bb_decide [OF w1(1)]], goal_cases)
      case (1 b w2)
      show ?case
      proof (cases b)
        case (Inl e)
        with 1 w1 begun show ?thesis by (auto simp: wp_return intro!: deletion_post_error)
      next
        case (Inr should)
        have w2: "invar w2" "snap w2 = snap w1" "cum_sm_gone m (snap w2)" "should \<longleftrightarrow> last_monitor (snap w)"
          using 1 w1 last Inr by auto
        show ?thesis
        proof (cases "should = DeleteBlackBoxExporter")
          case False
          then have "cleaned m (snap w) True (snap w2)" using begun w2 by (simp add: DeleteBlackBoxExporter_def)
          then show ?thesis
            unfolding Inr sum.case wp_bind if_not_P [OF False] wp_return option.case
            by (intro wp_CUM_rule_and_finalizer [unfolded wp_bind] w2)
        next
          case True
          show ?thesis
            unfolding Inr sum.case wp_bind if_P [OF True]
          proof (rule wp_mono [OF bb_absent [OF w2(1)]], goal_cases)
            case (1 a w3)
            then have w3: "invar w3" "cum_sm_gone m (snap w3)"
              using w2 changes_only_other_fields(6) [of bb_key "snap w2" "snap w3"]
              by (auto simp: cum_sm_gone_def gone_def Let_def)
            have frame: "c_cum (snap w3) = c_cum (snap w)" "cum_frame m bb_key (snap w) (snap w3)"
              using 1 w1(3,5) w2(2) changes_only_other_fields(6) [of bb_key "snap w2" "snap w3"]
              by (auto intro: cum_frame_trans cum_frame_intros(5))
            have follows: "cleaned m (snap w) (a = None) (snap w3)"
              using frame 1 True w2(4) by (simp add: cleaned_def exporter_follows_def DeleteBlackBoxExporter_def)
            show ?case
            proof (cases a)
              case None
              show ?thesis
                unfolding None option.case wp_bind
                by (intro wp_CUM_rule_and_finalizer [unfolded wp_bind] w3) (use follows None in simp)
            next
              case (Some e)
              with w3 follows show ?thesis by (auto simp: wp_return intro!: deletion_post_error)
            qed
          qed
        qed
      qed
    qed
  qed
qed

lemma wp_GetClusterUrlMonitor:
  assumes "invar w"
  shows "wp (GetClusterUrlMonitor s k) (\<lambda>(m, res, err) w'. invar w' \<and> snap w' = snap w \<and>
     (err = None \<longrightarrow> (if ShouldStop res
        then map_of (c_cum (snap w)) k = None \<or> map_of (c_cum (snap w)) k = Some empty_ClusterUrlMonitor
        else map_of (c_cum (snap w)) k = Some m \<and> m \<noteq> empty_ClusterUrlMonitor))) w"
  unfolding GetClusterUrlMonitor_def wp_bind
  by (rule wp_mono [OF get_cum [OF assms]])
    (auto simp: wp_simps RequeueReconcileWith_def split: sum.splits)

text \<open>The rest of Reconcile once the monitor is fetched and its deletion was requested.\<close>

lemma wp_CUM_Reconcile_deleted:
  assumes inv: "invar w" and m: "map_of (c_cum (snap w)) k = Some m"
    and del: "om_deletionTimestamp (obj_meta m) \<noteq> None"
    and fin: "\<And>res e w1. deletion_post m (snap w) (res, Some e) w1 \<Longrightarrow> Q (RequeueWith (Some e)) w1"
    and stop: "\<And>res w1. deletion_post m (snap w) (res, None) w1 \<Longrightarrow> ShouldStop res \<Longrightarrow> Q Stop w1"
    and go: "\<And>res w1. deletion_post m (snap w) (res, None) w1 \<Longrightarrow>
      CUM_FinalizerKey \<notin> set (om_finalizers (obj_meta m)) \<Longrightarrow>
      wp (CUM_EnsureFinalizerSet s m) (\<lambda>(res, err) w2. ShouldStop res \<and>
         Q (if err \<noteq> None then RequeueWith err else Stop) w2) w1"
  shows "wp (CUM_Reconcile s k) Q w"
  unfolding CUM_Reconcile_def wp_bind
proof (rule wp_mono [OF wp_GetClusterUrlMonitor [OF inv, of k]], goal_cases)
  case (1 g w1)
  obtain m1 res1 err1 where g: "g = (m1, res1, err1)" by (cases g)
  have ne: "m \<noteq> empty_ClusterUrlMonitor"
    using del by (auto simp: empty_ClusterUrlMonitor_def empty_meta_def)
  have w1: "invar w1" "snap w1 = snap w" using 1 g by auto
  show ?case
  proof (cases err1)
    case (Some e)
    have "deletion_post m (snap w) (StopOperation, Some e) w1"
      using w1 by (auto simp: deletion_post_def cleaned_start)
    then show ?thesis using Some g fin by (auto simp: wp_return)
  next
    case None
    then have go1: "\<not> ShouldStop res1" "m1 = m" using 1 g m ne by (auto split: if_splits)
    have "wp (CUM_EnsureMonitorAndDependenciesAbsent s m) (deletion_post m (snap w)) w1"
      using wp_CUM_delete [OF w1(1) del] w1(2) by simp
    then show ?thesis
      unfolding g prod.case None go1(2) if_not_P [OF go1(1)] simp_thms if_False wp_bind
    proof (rule wp_mono, goal_cases)
      case (1 a w2)
      obtain res err where a: "a = (res, err)" by (cases a)
      show ?case
      proof (cases err)
        case (Some e)
        then show ?thesis using fin 1 a by (simp add: wp_return)
      next
        case None
        show ?thesis
        proof (cases "ShouldStop res")
          case True
          then show ?thesis using stop 1 a None by (simp add: wp_return)
        next
          case False
          have post: "deletion_post m (snap w) (res, None) w2" using 1 a None by simp
          then have "CUM_FinalizerKey \<notin> set (om_finalizers (obj_meta m))"
            using False by (auto simp: deletion_post_def)
          from go [OF post this] show ?thesis
            unfolding a None using False
            by (simp add: wp_bind) (erule wp_mono, auto simp: wp_return)
        qed
      qed
    qed
  qed
qed

text \<open>With the controller's finalizer in place, deletion is as safe as a RouteMonitor's.\<close>

lemma wp_CUM_deleted_held:
  assumes inv: "invar w" and m: "map_of (c_cum (snap w)) k = Some m"
    and del: "om_deletionTimestamp (obj_meta m) \<noteq> None"
    and held: "CUM_FinalizerKey \<in> set (om_finalizers (obj_meta m))"
  shows "wp (CUM_Reconcile s k) (\<lambda>(res, err) w'. cum_frame m bb_key (snap w) (snap w') \<and>
    exporter_follows bb_key (snap w) (err = None) (snap w') \<and>
    (case err of Some e \<Rightarrow> c_cum (snap w') = c_cum (snap w)
     | None \<Rightarrow> cum_sm_gone m (snap w') \<and> cum_pr_gone m (snap w') \<and>
         (\<forall>m'. map_of (c_cum (snap w')) k = Some m' \<longrightarrow>
            CUM_FinalizerKey \<notin> set (om_finalizers (obj_meta m'))))) w"
proof (rule wp_CUM_Reconcile_deleted [OF inv m del], goal_cases)
  case (1 res e w1)
  then show ?case by (auto simp: deletion_post_def cleaned_def RequeueWith_def)
next
  case (2 res w1)
  then obtain c where c: "cleaned m (snap w) True c" "cum_sm_gone m c" "cum_pr_gone m c" "cum_dropped m c (snap w1)"
    by (auto simp: deletion_post_def)
  have key: "obj_key m = k" using wf_store_key [OF invar_wf [OF inv] m] .
  note dropped = finalizers_dropped_changes [OF store_lens c(4)]
  note ch = changes_only_other_fields(5) [OF dropped]
  have "cum_frame m bb_key (snap w) (snap w1)" "exporter_follows bb_key (snap w) True (snap w1)"
    using c(1) cum_frame_trans [OF _ cum_frame_intros(1) [OF dropped]] exporter_follows_cong dropped
    by (auto simp: cleaned_def)
  then show ?case
    using c ch m key finalizers_dropped_gone [OF store_lens c(4)]
    by (auto simp: Stop_def cleaned_def cum_sm_gone_def cum_pr_gone_def gone_def Let_def split: if_splits)
qed (use held in simp)

text \<open>Without it, Reconcile goes on and tries to put the finalizer back, which the server refuses.\<close>

lemma wp_CUM_deleted_unheld:
  assumes inv: "invar w" and m: "map_of (c_cum (snap w)) k = Some m"
    and del: "om_deletionTimestamp (obj_meta m) \<noteq> None"
    and held: "CUM_FinalizerKey \<notin> set (om_finalizers (obj_meta m))"
  shows "wp (CUM_Reconcile s k) (\<lambda>(res, err) w'. err \<noteq> None \<and> c_cum (snap w') = c_cum (snap w) \<and>
    exporter_follows bb_key (snap w) False (snap w')) w"
proof (rule wp_CUM_Reconcile_deleted [OF inv m del], goal_cases)
  case (1 res e w1)
  then show ?case by (auto simp: RequeueWith_def deletion_post_def cleaned_def)
next
  case (2 res w1)
  then show ?case using held by (auto simp: deletion_post_def)
next
  case (3 res w1)
  have key: "obj_key m = k" using wf_store_key [OF invar_wf [OF inv] m] .
  have w1: "invar w1" "c_cum (snap w1) = c_cum (snap w)" "map_of (c_cum (snap w1)) (obj_key m) = Some m"
    "exporter_follows bb_key (snap w) False (snap w1)"
    using 3 held m key
    by (auto simp: deletion_post_def cleaned_def finalizers_dropped_def exporter_follows_unfinished)
  have pk: "CUM_PrevFinalizerKey \<noteq> CUM_FinalizerKey" by simp
  show ?case
    unfolding CUM_EnsureFinalizerSet_def
    by (rule wp_mono [OF wp_add_finalizer [OF w1(1) store_lens w1(3) pk]])
      (use held del key w1(2,4) in \<open>auto simp: Stop_def RequeueWith_def CUM_keys_differ [symmetric] split: option.splits\<close>)
qed

end

lemma CUM_NewReconciler_fields:
  "cumr_Client (CUM_NewReconciler E img bbns hypershift url) = E"
  "cumr_Common (CUM_NewReconciler E img bbns hypershift url) = NewMonitorResourceCommon E (cum_api E)"
  "cumr_ServiceMonitor (CUM_NewReconciler E img bbns hypershift url) = NewServiceMonitor E"
  "cumr_Prom (CUM_NewReconciler E img bbns hypershift url) = NewPrometheusRule E"
  "cumr_BlackBoxExporter (CUM_NewReconciler E img bbns hypershift url) =
     BlackBoxExporter_methods E (New img bbns)"
  by (simp_all add: CUM_NewReconciler_def)

interpretation cumr: cluster_url_monitor_reconciler "ok_world E snap" snap
  "CUM_NewReconciler E img bbns hypershift url" "bb_NamespacedName (New img bbns)" "blackbox_up (New img bbns)"
  for E snap img bbns hypershift url
  by (rule cluster_url_monitor_reconciler.intro, unfold CUM_NewReconciler_fields,
      rule cum_handlers.monitor_handlers_axioms,
      unfold cluster_url_monitor_reconciler_axioms_def CUM_NewReconciler_fields)
    (blast intro: wp_Get_ok ok_world_laws(2,12,15))

section \<open>Properties\<close>


text \<open>C38. A ClusterUrlMonitor that is being deleted and no longer has the controller's finalizer, because some
  other finalizer keeps it stored, cannot be reconciled: the controller tries to put its finalizer back,
  which the API server refuses for an object that is being deleted, so that every reconcile ends with an
  error and is retried, and the stored ClusterUrlMonitors stay as they are.\<close>

theorem cum_deletion_unheld_fails:
  assumes "ok_world E snap w" and "map_of (c_cum (snap w)) k = Some m"
    and "om_deletionTimestamp (obj_meta m) \<noteq> None"
    and "CUM_FinalizerKey \<notin> set (om_finalizers (obj_meta m))"
  shows "wp (CUM_Reconcile (CUM_NewReconciler E img bbns hypershift url) k) (\<lambda>(res, err) w'.
    err \<noteq> None \<and> c_cum (snap w') = c_cum (snap w)) w"
  by (rule wp_mono [OF cumr.wp_CUM_deleted_unheld [OF assms]]) auto

text \<open>C39. The base domain of a cluster is the host of its URL without the given first label: for a host of
  letters, digits, dots and dashes whose first label is the subdomain, the rest after the dot; for
  any other such host with a dot, the whole host.  It makes no difference whether the URL has an
  http or https scheme or none, or a port.\<close>

theorem removeSubdomain_plain:
  assumes "host_port h s" and "CHR ''.'' \<in> set h" and "url = s \<or> url = ''https://'' @ s \<or> url = ''http://'' @ s"
  shows "removeSubdomain sub url =
     Inr (if takeWhile (\<lambda>c. c \<noteq> CHR ''.'') h = sub
          then drop 1 (dropWhile (\<lambda>c. c \<noteq> CHR ''.'') h) else h)"
proof -
  have noslash: "CHR ''/'' \<notin> set s" using host_port_clean [OF assms(1)] by blast
  then have pre: "\<not> prefix (''https://'') s" "\<not> prefix (''http://'') s"
    by (auto simp: prefix_def)
  obtain scheme where scheme: "scheme = ''http'' \<or> scheme = ''https''"
    and url: "(if \<not> strings_HasPrefix url ''https://'' \<and> \<not> strings_HasPrefix url ''http://''
               then ''https://'' @ url else url) = scheme @ ''://'' @ s"
  proof (cases "url = ''http://'' @ s")
    case True
    then show ?thesis using that [of "''http''"] by (simp add: strings_HasPrefix_def)
  next
    case False
    then show ?thesis using that [of "''https''"] assms(3) pre by (auto simp: strings_HasPrefix_def)
  qed
  have cut: "takeWhile (\<lambda>c. c \<noteq> CHR ''.'') h @ CHR ''.'' # drop 1 (dropWhile (\<lambda>c. c \<noteq> CHR ''.'') h) = h"
    by (rule takeWhile_cut [OF assms(2)])
  show ?thesis
    unfolding removeSubdomain_def Let_def url url_Parse_plain [OF assms(1) scheme]
    using cut by (simp add: Hostname_plain [OF assms(1)] strings_Cut_def)
qed

end
