(* ===== verification/Exporter_Sharing.thy ===== *)
theory Exporter_Sharing
  imports Route_Monitor Cluster_Url_Monitor
begin

text \<open>
  The exporter that the RouteMonitors and the ClusterUrlMonitors of a cluster share: which deletions
  remove it.
\<close>

text \<open>C22. The exporter is removed with the last monitor and not before.  While a RouteMonitor or a
  ClusterUrlMonitor that is being deleted is reconciled, its config map, its deployment and its service
  stay as they are, unless that monitor is the only one of either kind in the whole cluster; then they are
  gone (which may mean marked for deletion) when the reconcile ends without an error.\<close>

theorem exporter_removed_with_last_monitor:
  assumes ok: "ok_world E snap w"
  shows "(\<forall>rm. map_of (c_rm (snap w)) k = Some rm \<and> WasDeleteRequested (obj_meta rm) \<longrightarrow>
      wp (Reconcile (NewReconciler E img bbns hypershift url) k)
        (\<lambda>(res, err) w'. exporter_follows (bb_NamespacedName (New img bbns)) (snap w) (err = None) (snap w')) w) \<and>
    (\<forall>m. map_of (c_cum (snap w)) k = Some m \<and> WasDeleteRequested (obj_meta m) \<longrightarrow>
      wp (CUM_Reconcile (CUM_NewReconciler E img bbns hypershift url) k)
        (\<lambda>(res, err) w'. exporter_follows (bb_NamespacedName (New img bbns)) (snap w) (err = None) (snap w')) w)"
proof (intro conjI allI impI; elim conjE)
  fix rm
  assume rm: "map_of (c_rm (snap w)) k = Some rm" "WasDeleteRequested (obj_meta rm)"
  show "wp (Reconcile (NewReconciler E img bbns hypershift url) k)
      (\<lambda>(res, err) w'. exporter_follows (bb_NamespacedName (New img bbns)) (snap w) (err = None) (snap w')) w"
    by (rule wp_mono [OF rmr.wp_Reconcile_deleted [OF ok rm]]) auto
next
  fix m
  assume m: "map_of (c_cum (snap w)) k = Some m" "WasDeleteRequested (obj_meta m)"
  then have del: "om_deletionTimestamp (obj_meta m) \<noteq> None" by (simp add: WasDeleteRequested_def)
  show "wp (CUM_Reconcile (CUM_NewReconciler E img bbns hypershift url) k)
      (\<lambda>(res, err) w'. exporter_follows (bb_NamespacedName (New img bbns)) (snap w) (err = None) (snap w')) w"
  proof (cases "CUM_FinalizerKey \<in> set (om_finalizers (obj_meta m))")
    case True
    show "wp (CUM_Reconcile (CUM_NewReconciler E img bbns hypershift url) k) (\<lambda>(res, err) w'.
        exporter_follows (bb_NamespacedName (New img bbns)) (snap w) (err = None) (snap w')) w"
      by (rule wp_mono [OF cumr.wp_CUM_deleted_held [OF ok m(1) del True]]) auto
  next
    case False
    show "wp (CUM_Reconcile (CUM_NewReconciler E img bbns hypershift url) k) (\<lambda>(res, err) w'.
        exporter_follows (bb_NamespacedName (New img bbns)) (snap w) (err = None) (snap w')) w"
      by (rule wp_mono [OF cumr.wp_CUM_deleted_unheld [OF ok m(1) del False]]) auto
  qed
qed

end
