(* ===== verification/Go_Time.thy ===== *)
theory Go_Time
  imports Go_Strconv
begin

text \<open>
  What the operator uses of package time: durations, the layout in which it stamps probes, and
  \<open>ParseDuration\<close>.  Instants are nanoseconds since 1970 UTC, durations are nanoseconds.
\<close>

section \<open>Durations\<close>

definition Second :: int where "Second = 10 ^ 9"
definition Minute :: int where "Minute = 60 * Second"
definition Hour :: int where "Hour = 60 * Minute"

lemma durations [simp]: "0 < Second" "0 < Minute" "0 < Hour"
  by (simp_all add: Second_def Minute_def Hour_def)

section \<open>Formatting\<close>

definition pad :: "nat \<Rightarrow> int \<Rightarrow> string" where
  "pad k n = replicate (k - length (itoa n)) CHR ''0'' @ itoa n"

text \<open>Year, month and day of the proleptic Gregorian calendar from the days since 1970-01-01.\<close>

definition civil :: "int \<Rightarrow> int \<times> int \<times> int" where
  "civil days =
     (let z = days + 719468;
          era = z div 146097;
          doe = z mod 146097;
          yoe = (doe - doe div 1460 + doe div 36524 - doe div 146096) div 365;
          doy = doe - (365 * yoe + yoe div 4 - yoe div 100);
          mp = (5 * doy + 2) div 153;
          d = doy - (153 * mp + 2) div 5 + 1;
          m = (if mp < 10 then mp + 3 else mp - 9);
          y = yoe + era * 400 + (if m \<le> 2 then 1 else 0)
      in (y, m, d))"

text \<open>The layout \<open>20060102T150405Z\<close>.\<close>

definition format_stamp :: "int \<Rightarrow> string" where
  "format_stamp t =
     (let secs = t div Second; day = secs mod 86400
      in case civil (secs div 86400) of (y, m, d) \<Rightarrow>
           pad 4 y @ pad 2 m @ pad 2 d @ ''T'' @
           pad 2 (day div 3600) @ pad 2 (day div 60 mod 60) @ pad 2 (day mod 60) @ ''Z'')"

section \<open>ParseDuration\<close>

fun leadingInt :: "int \<Rightarrow> string \<Rightarrow> (int \<times> string) option" where
  "leadingInt x [] = Some (x, [])"
| "leadingInt x (c # cs) =
     (if \<not> is_digit c then Some (x, c # cs)
      else if x > 2 ^ 63 div 10 then None
      else let x' = x * 10 + int (digit_val c) in
        if x' > 2 ^ 63 then None else leadingInt x' cs)"

text \<open>The digits after the point as a numerator and a power of ten; digits that no longer fit are
  skipped.\<close>

fun leadingFraction :: "int \<Rightarrow> int \<Rightarrow> bool \<Rightarrow> string \<Rightarrow> int \<times> int \<times> string" where
  "leadingFraction x scale overflow [] = (x, scale, [])"
| "leadingFraction x scale overflow (c # cs) =
     (if \<not> is_digit c then (x, scale, c # cs)
      else if overflow \<or> x > (2 ^ 63 - 1) div 10 then leadingFraction x scale True cs
      else let y = x * 10 + int (digit_val c) in
        if y > 2 ^ 63 then leadingFraction x scale True cs
        else leadingFraction y (scale * 10) False cs)"

definition unitMap :: "(string \<times> int) list" where
  "unitMap = [(''ns'', 1), (''us'', 1000), ([CHR 0xC2, CHR 0xB5, CHR ''s''], 1000),
     ([CHR 0xCE, CHR 0xBC, CHR ''s''], 1000), (''ms'', 1000000), (''s'', Second), (''m'', Minute),
     (''h'', Hour)]"

text \<open>One number with its unit.  Go adds the fraction in float64; here it is exact, rounded down.\<close>

definition parse_term :: "string \<Rightarrow> (int \<times> string) option" where
  "parse_term s =
     (case leadingInt 0 s of
        None \<Rightarrow> None
      | Some (v, s1) \<Rightarrow>
          let pre = (length s1 \<noteq> length s);
              point = prefix ''.'' s1;
              (f, scale, s2) = (if point then leadingFraction 0 1 False (drop 1 s1) else (0, 1, s1));
              post = (point \<and> length s2 \<noteq> length (drop 1 s1));
              u = takeWhile (\<lambda>c. c \<noteq> CHR ''.'' \<and> \<not> is_digit c) s2
          in if \<not> pre \<and> \<not> post then None
             else if u = [] then None
             else case map_of unitMap u of
               None \<Rightarrow> None
             | Some unit' \<Rightarrow>
                 if v > 2 ^ 63 div unit' then None
                 else let v' = v * unit' + f * unit' div scale in
                   if v' > 2 ^ 63 then None else Some (v', drop (length u) s2))"

lemma leadingInt_shorter: "leadingInt x s = Some (v, r) \<Longrightarrow> length r \<le> length s"
  by (induction x s rule: leadingInt.induct) (auto simp: Let_def split: if_splits)

lemma leadingFraction_shorter: "leadingFraction x c b s = (v, d, r) \<Longrightarrow> length r \<le> length s"
  by (induction x c b s rule: leadingFraction.induct) (auto simp: Let_def split: if_splits)

lemma parse_term_shorter:
  assumes "parse_term s = Some (v, r)"
  shows "length r < length s"
proof -
  obtain v1 s1 where s1: "leadingInt 0 s = Some (v1, s1)"
    using assms by (auto simp: parse_term_def split: option.splits)
  define p where "p = (if prefix ''.'' s1 then leadingFraction 0 1 False (drop 1 s1) else (0, 1, s1))"
  obtain f sc s2 where p: "p = (f, sc, s2)" by (cases p)
  let ?u = "takeWhile (\<lambda>c. c \<noteq> CHR ''.'' \<and> \<not> is_digit c) s2"
  have u: "?u \<noteq> []" "r = drop (length ?u) s2"
    using assms unfolding parse_term_def s1 option.case prod.case Let_def p_def [symmetric] p
    by (auto split: if_splits option.splits)
  have "length s2 \<le> length s1"
    using p leadingFraction_shorter [of 0 1 False "drop 1 s1" f sc s2] by (auto simp: p_def split: if_splits)
  moreover have "length s1 \<le> length s" by (rule leadingInt_shorter [OF s1])
  moreover have "0 < length ?u" "length ?u \<le> length s2" using u(1) length_takeWhile_le by auto
  ultimately show ?thesis unfolding u(2) length_drop by linarith
qed

function parse_terms :: "int \<Rightarrow> string \<Rightarrow> int option" where
  "parse_terms d s =
     (if s = [] then Some d
      else if \<not> (hd s = CHR ''.'' \<or> is_digit (hd s)) then None
      else case parse_term s of
        None \<Rightarrow> None
      | Some (v, r) \<Rightarrow> if d + v > 2 ^ 63 then None else parse_terms (d + v) r)"
  by pat_completeness auto
termination by (relation "measure (\<lambda>(d, s). length s)") (auto dest: parse_term_shorter)

declare parse_terms.simps [simp del]

definition ParseDuration :: "string \<Rightarrow> int option" where
  "ParseDuration s =
     (let neg = prefix ''-'' s;
          s1 = (if neg \<or> prefix ''+'' s then drop 1 s else s)
      in if s1 = ''0'' then Some 0
         else if s1 = [] then None
         else case parse_terms 0 s1 of
           None \<Rightarrow> None
         | Some d \<Rightarrow> if neg then Some (- d) else if d > 2 ^ 63 - 1 then None else Some d)"

end
