(* ===== verification/Go_Net.thy ===== *)
theory Go_Net
  imports Kube_Client Go_Url Go_Time
begin

text \<open>
  The services outside the cluster as the operator sees them: HTTP and TLS connections, the clock,
  and the metrics registry, the fields of a record \<open>Net\<close> over the type of worlds.  None of them
  writes to the cluster's API server, which is what \<open>net_frame\<close> states.
\<close>

section \<open>HTTP\<close>

text \<open>A request: the URL it was made for, the query that replaces the URL's if one was set, its
  headers in the order in which they were set, and its body.\<close>

record http_request =
  hr_method :: string
  hr_url :: string
  hr_query :: "string option"
  hr_headers :: "(string \<times> string) list"
  hr_body :: string

text \<open>A response: the status code and line, and the body, which may fail to be read.\<close>

record http_response =
  resp_StatusCode :: int
  resp_Status :: string
  resp_Body :: "go_error + string"

text \<open>\<open>http.NewRequestWithContext\<close> with one of the standard methods fails exactly when the URL does
  not parse.\<close>

definition NewRequest :: "string \<Rightarrow> string \<Rightarrow> string \<Rightarrow> go_error + http_request" where
  "NewRequest method url body =
     (case url_Parse url of
        Inl err \<Rightarrow> Inl err
      | Inr _ \<Rightarrow> Inr \<lparr>hr_method = method, hr_url = url, hr_query = None, hr_headers = [], hr_body = body\<rparr>)"

definition Header_Set :: "string \<Rightarrow> string \<Rightarrow> http_request \<Rightarrow> http_request" where
  "Header_Set k v r = r\<lparr>hr_headers := filter (\<lambda>h. fst h \<noteq> k) (hr_headers r) @ [(k, v)]\<rparr>"

record 'w Net =
  now :: "('w, int) io"
  http_Do :: "bool \<Rightarrow> http_request \<Rightarrow> ('w, go_error + http_response) io"
    \<comment> \<open>the flag says whether the server's certificate is verified\<close>
  tls_Dial :: "string \<Rightarrow> ('w, go_error option) io"
  metric_Inc :: "string \<Rightarrow> string list \<Rightarrow> ('w, unit) io"
  metric_Observe :: "string \<Rightarrow> string list \<Rightarrow> int \<Rightarrow> ('w, unit) io"
  metric_Set :: "string \<Rightarrow> string list \<Rightarrow> int \<Rightarrow> ('w, unit) io"

definition net_frame :: "'w Net \<Rightarrow> ('w \<Rightarrow> cluster) \<Rightarrow> bool" where
  "net_frame N snap \<longleftrightarrow>
     (\<forall>w. wp (now N) (\<lambda>_ w'. snap w' = snap w) w) \<and>
     (\<forall>v r w. wp (http_Do N v r) (\<lambda>_ w'. snap w' = snap w) w) \<and>
     (\<forall>a w. wp (tls_Dial N a) (\<lambda>_ w'. snap w' = snap w) w) \<and>
     (\<forall>m ls w. wp (metric_Inc N m ls) (\<lambda>_ w'. snap w' = snap w) w) \<and>
     (\<forall>m ls v w. wp (metric_Observe N m ls v) (\<lambda>_ w'. snap w' = snap w) w) \<and>
     (\<forall>m ls v w. wp (metric_Set N m ls v) (\<lambda>_ w'. snap w' = snap w) w)"

text \<open>A computation that leaves a part of the world alone, such as one that talks to services outside the
  cluster only.\<close>

definition outside :: "('w \<Rightarrow> 's) \<Rightarrow> ('w, 'a) io \<Rightarrow> bool" where
  "outside snap m \<longleftrightarrow> (\<forall>w. wp m (\<lambda>_ w'. snap w' = snap w) w)"

named_theorems outside_intros

lemma outside_return [outside_intros]: "outside snap (ret a)"
  by (simp add: outside_def wp_return)

lemma outside_bind [outside_intros]:
  assumes "outside snap m" and "\<And>a. outside snap (f a)"
  shows "outside snap (m \<bind> f)"
  unfolding outside_def wp_bind
proof
  fix w
  show "wp m (\<lambda>a. wp (f a) (\<lambda>_ w'. snap w' = snap w)) w"
  proof (rule wp_mono [OF assms(1) [unfolded outside_def, rule_format]])
    fix a w1
    assume "snap w1 = snap w"
    then show "wp (f a) (\<lambda>_ w'. snap w' = snap w) w1"
      using assms(2) [unfolded outside_def, THEN spec, of a w1] by simp
  qed
qed

lemma outside_if [outside_intros]:
  "(b \<Longrightarrow> outside snap m) \<Longrightarrow> (\<not> b \<Longrightarrow> outside snap n) \<Longrightarrow> outside snap (if b then m else n)"
  by simp

lemma outside_sum [outside_intros]:
  "(\<And>e. outside snap (m e)) \<Longrightarrow> (\<And>x. outside snap (n x)) \<Longrightarrow>
     outside snap (case r of Inl e \<Rightarrow> m e | Inr x \<Rightarrow> n x)"
  by (cases r) simp_all

lemma outside_option [outside_intros]:
  "outside snap m \<Longrightarrow> (\<And>x. outside snap (n x)) \<Longrightarrow>
     outside snap (case r of None \<Rightarrow> m | Some x \<Rightarrow> n x)"
  by (cases r) simp_all

lemma outside_outcome [outside_intros]:
  "outside snap m \<Longrightarrow> (\<And>x. outside snap (n x)) \<Longrightarrow>
     outside snap (case r of Panics \<Rightarrow> m | Returns x \<Rightarrow> n x)"
  by (cases r) simp_all

lemma outside_prod [outside_intros]:
  "(\<And>a b. outside snap (m a b)) \<Longrightarrow> outside snap (case r of (a, b) \<Rightarrow> m a b)"
  by (cases r) simp

lemma outside_let [outside_intros]: "outside snap (f x) \<Longrightarrow> outside snap (let y = x in f y)"
  by simp

lemma outside_Net:
  assumes "net_frame N snap"
  shows "outside snap (now N)" "outside snap (http_Do N v r)" "outside snap (tls_Dial N a)"
    "outside snap (metric_Inc N m ls)" "outside snap (metric_Observe N m ls v')"
    "outside snap (metric_Set N m ls v')"
  using assms by (auto simp: net_frame_def outside_def)

lemma wp_outside: "outside snap m \<Longrightarrow> (\<And>a w'. snap w' = snap w \<Longrightarrow> Q a w') \<Longrightarrow> wp m Q w"
  unfolding outside_def by (drule spec, erule wp_mono)

section \<open>Results\<close>

text \<open>A computation whose result satisfies \<open>P\<close> in every world.\<close>

definition yields :: "('a \<Rightarrow> bool) \<Rightarrow> ('w, 'a) io \<Rightarrow> bool" where
  "yields P m \<longleftrightarrow> (\<forall>w. wp m (\<lambda>a _. P a) w)"

lemma yields_return: "P a \<Longrightarrow> yields P (ret a)"
  by (simp add: yields_def wp_return)

lemma yields_bind:
  assumes "yields P m" and "\<And>a. P a \<Longrightarrow> yields Q (f a)"
  shows "yields Q (m \<bind> f)"
  unfolding yields_def wp_bind
proof
  fix w
  show "wp m (\<lambda>a. wp (f a) (\<lambda>a _. Q a)) w"
    by (rule wp_mono [OF assms(1) [unfolded yields_def, rule_format]])
      (use assms(2) in \<open>simp add: yields_def\<close>)
qed

lemma yields_any: "yields (\<lambda>_. True) m"
  by (simp add: yields_def wp_def split: prod.split)

lemma yields_mono: "yields P m \<Longrightarrow> (\<And>a. P a \<Longrightarrow> Q a) \<Longrightarrow> yields Q m"
  unfolding yields_def by (blast intro: wp_mono)

lemmas yields_after = yields_bind [OF yields_any]

lemma wp_yields: "yields P m \<Longrightarrow> wp m Q w \<Longrightarrow> wp m (\<lambda>a w'. P a \<and> Q a w') w"
  unfolding yields_def by (rule wp_conj) simp_all

section \<open>Computations that only read the cluster\<close>

text \<open>A computation that leaves the objects of the cluster alone: it talks to the outside or reads.\<close>

definition keeps :: "'w Env \<Rightarrow> ('w \<Rightarrow> cluster) \<Rightarrow> ('w, 'a) io \<Rightarrow> bool" where
  "keeps E snap m \<longleftrightarrow> (\<forall>w. ok_world E snap w \<longrightarrow> wp m (\<lambda>_ w'. snap w' = snap w) w)"

named_theorems keeps_intros

lemma keeps_outside: "outside snap m \<Longrightarrow> keeps E snap m"
  by (simp add: keeps_def outside_def)

lemma keeps_return [keeps_intros]: "keeps E snap (ret a)"
  by (simp add: keeps_def wp_return)

lemma keeps_Get: "kube_laws snap fld upd K \<Longrightarrow> keeps E snap (kube_Get K k)"
  unfolding keeps_def by (auto intro: wp_Get)

lemma keeps_List: "kube_laws snap fld upd K \<Longrightarrow> keeps E snap (kube_List K ns)"
  unfolding keeps_def by (auto intro: wp_List)

lemma keeps_bind [keeps_intros]:
  assumes "keeps E snap m" and "\<And>a. keeps E snap (f a)"
  shows "keeps E snap (m \<bind> f)"
  unfolding keeps_def wp_bind
proof (intro allI impI)
  fix w
  assume w: "ok_world E snap w"
  show "wp m (\<lambda>a. wp (f a) (\<lambda>_ w'. snap w' = snap w)) w"
  proof (rule wp_mono [OF assms(1) [unfolded keeps_def, rule_format, OF w]])
    fix a w1
    assume eq: "snap w1 = snap w"
    have "wp (f a) (\<lambda>_ w'. snap w' = snap w1) w1"
      using assms(2) [of a] ok_world_cong [OF w eq] by (simp add: keeps_def)
    then show "wp (f a) (\<lambda>_ w'. snap w' = snap w) w1" unfolding eq .
  qed
qed

lemma keeps_if [keeps_intros]:
  "(b \<Longrightarrow> keeps E snap m) \<Longrightarrow> (\<not> b \<Longrightarrow> keeps E snap n) \<Longrightarrow> keeps E snap (if b then m else n)"
  by simp

lemma keeps_let [keeps_intros]: "keeps E snap (f x) \<Longrightarrow> keeps E snap (let y = x in f y)"
  by simp

lemma keeps_sum [keeps_intros]:
  "(\<And>e. keeps E snap (m e)) \<Longrightarrow> (\<And>x. keeps E snap (n x)) \<Longrightarrow>
     keeps E snap (case r of Inl e \<Rightarrow> m e | Inr x \<Rightarrow> n x)"
  by (cases r) simp_all

lemma keeps_option [keeps_intros]:
  "keeps E snap m \<Longrightarrow> (\<And>x. keeps E snap (n x)) \<Longrightarrow>
     keeps E snap (case r of None \<Rightarrow> m | Some x \<Rightarrow> n x)"
  by (cases r) simp_all

lemma keeps_list [keeps_intros]:
  "keeps E snap m \<Longrightarrow> (\<And>x xs. keeps E snap (n x xs)) \<Longrightarrow>
     keeps E snap (case r of [] \<Rightarrow> m | x # xs \<Rightarrow> n x xs)"
  by (cases r) simp_all

lemma keeps_outcome [keeps_intros]:
  "keeps E snap m \<Longrightarrow> (\<And>x. keeps E snap (n x)) \<Longrightarrow>
     keeps E snap (case r of Panics \<Rightarrow> m | Returns x \<Rightarrow> n x)"
  by (cases r) simp_all

lemma keeps_prod [keeps_intros]:
  "(\<And>a b. keeps E snap (m a b)) \<Longrightarrow> keeps E snap (case r of (a, b) \<Rightarrow> m a b)"
  by (cases r) simp

lemma wp_keeps:
  "ok_world E snap w \<Longrightarrow> keeps E snap m \<Longrightarrow>
     (\<And>a w'. ok_world E snap w' \<Longrightarrow> snap w' = snap w \<Longrightarrow> Q a w') \<Longrightarrow> wp m Q w"
  by (rule wp_mono [of m "\<lambda>_ w'. snap w' = snap w"]) (auto simp: keeps_def intro: ok_world_cong)

end
