(* ===== verification/Hcp_Healthcheck.thy ===== *)
theory Hcp_Healthcheck
  imports Go_Net Kube_Patterns
begin

text \<open>
  controllers/hostedcontrolplane/healthcheck.go: whether a hosted control plane is ready to be
  monitored.  A new one is ready once its kube-apiserver answered five health checks in a row; the
  count is kept in the annotation of a config map in its namespace.
\<close>

section \<open>Configuration\<close>

record RHOBSConfig =
  ProbeAPIURL :: string
  Tenant :: string
  OIDCClientID :: string
  OIDCClientSecret :: string
  OIDCIssuerURL :: string
  OnlyPublicClusters :: bool
  SkipInfrastructureHealthCheck :: bool
  ReconcileInterval :: int

record DynatraceConfig =
  dt_Enabled :: bool

definition healthcheckAnnotation :: string where
  "healthcheckAnnotation = ''routemonitor.managed.openshift.io/successful-healthchecks''"

definition consecutiveSuccessfulHealthchecks :: int where
  "consecutiveSuccessfulHealthchecks = 5"

definition healthcheckIntervalSeconds :: int where
  "healthcheckIntervalSeconds = 30"

definition hcpHealthCheckSkipAge :: int where
  "hcpHealthCheckSkipAge = 3 * Hour"

section \<open>The history of a control plane\<close>

definition buildOwnerReferences :: "Libs \<Rightarrow> HostedControlPlane \<Rightarrow> OwnerReference list" where
  "buildOwnerReferences L hostedcontrolplane =
     [NewControllerRef L (obj_meta hostedcontrolplane) (obj_type hostedcontrolplane)]"

definition buildHealthCheckConfigMap :: "Libs \<Rightarrow> HostedControlPlane \<Rightarrow> ConfigMap" where
  "buildHealthCheckConfigMap L hostedcontrolplane =
     \<lparr>obj_type = empty_type,
      obj_meta = empty_meta\<lparr>om_name := om_name (obj_meta hostedcontrolplane) @
                                          ''-kube-apiserver-rmo-healthcheck'',
                            om_namespace := om_namespace (obj_meta hostedcontrolplane),
                            om_ownerReferences := buildOwnerReferences L hostedcontrolplane\<rparr>,
      obj_spec = fmempty, obj_status = ()\<rparr>"

definition getHealthCheckConfigMap ::
    "'w Env \<Rightarrow> HostedControlPlane \<Rightarrow> ('w, go_error + ConfigMap) io" where
  "getHealthCheckConfigMap E hostedcontrolplane =
     kube_Get (cm_api E) (obj_key (buildHealthCheckConfigMap (libs E) hostedcontrolplane))"

definition createHealthcheckConfigMap ::
    "'w Env \<Rightarrow> HostedControlPlane \<Rightarrow> ('w, go_error + ConfigMap) io" where
  "createHealthcheckConfigMap E hostedcontrolplane =
     kube_Create (cm_api E) (buildHealthCheckConfigMap (libs E) hostedcontrolplane)"

definition healthcheckConfigMapSuccesses :: "ConfigMap \<Rightarrow> int" where
  "healthcheckConfigMapSuccesses configmap =
     (case fmlookup (om_annotations (obj_meta configmap)) healthcheckAnnotation of
        None \<Rightarrow> 0
      | Some value \<Rightarrow> (case strconv_Atoi value of None \<Rightarrow> 0 | Some successes \<Rightarrow> successes))"

definition resetHealthCheckSuccesses ::
    "'w Env \<Rightarrow> ConfigMap \<Rightarrow> ('w, go_error + ConfigMap) io" where
  "resetHealthCheckSuccesses E configmap =
     kube_Update (cm_api E) (configmap\<lparr>obj_meta := (obj_meta configmap)
       \<lparr>om_annotations := fmdrop healthcheckAnnotation (om_annotations (obj_meta configmap))\<rparr>\<rparr>)"

definition addHealthCheckSuccess ::
    "'w Env \<Rightarrow> ConfigMap \<Rightarrow> ('w, go_error + ConfigMap) io" where
  "addHealthCheckSuccess E configmap =
     (let successes = healthcheckConfigMapSuccesses configmap + 1
      in kube_Update (cm_api E) (configmap\<lparr>obj_meta := (obj_meta configmap)
           \<lparr>om_annotations := fmupd healthcheckAnnotation (itoa successes)
              (om_annotations (obj_meta configmap))\<rparr>\<rparr>))"

section \<open>The check\<close>

definition endpointOK :: "'w Net \<Rightarrow> string \<Rightarrow> bool \<Rightarrow> ('w, go_error option) io" where
  "endpointOK N endpoint secure =
     (case NewRequest ''GET'' endpoint [] of
        Inl err \<Rightarrow> ret (Some (wrap_w ''failed to GET endpoint'' err))
      | Inr req \<Rightarrow>
          do { r \<leftarrow> http_Do N secure req;
               (case r of
                  Inl err \<Rightarrow> ret (Some (wrap_w ''failed to GET endpoint'' err))
                | Inr resp \<Rightarrow>
                    if resp_StatusCode resp \<noteq> 200
                    then ret (Some (errors_New (''non 200 HTTP status returned: '' @ resp_Status resp)))
                    else ret None) })"

definition isPrivateHCP :: "HostedControlPlane \<Rightarrow> bool" where
  "isPrivateHCP hostedcontrolplane =
     (case hcps_aws (obj_spec hostedcontrolplane) of
        None \<Rightarrow> False
      | Some aws \<Rightarrow> aws_endpointAccess aws = EndpointAccess_Private)"

definition healthcheckHostedControlPlane ::
    "'w Net \<Rightarrow> HostedControlPlane \<Rightarrow> ('w, go_error option) io" where
  "healthcheckHostedControlPlane N hostedcontrolplane =
     (let controlplaneEndpoint = hcpst_endpointHost (obj_status hostedcontrolplane) in
      if controlplaneEndpoint = []
      then ret (Some (errors_New ''missing .Status.ControlPlaneEndpoint.Host''))
      else if isPrivateHCP hostedcontrolplane
      then endpointOK N (''https://kube-apiserver.'' @ om_namespace (obj_meta hostedcontrolplane) @
                         ''.svc.cluster.local:6443/livez'') False
      else endpointOK N (''https://'' @ controlplaneEndpoint @ ''/livez'') True)"

definition olderThan :: "'w Net \<Rightarrow> ObjectMeta \<Rightarrow> int \<Rightarrow> ('w, bool) io" where
  "olderThan N obj age =
     do { t \<leftarrow> now N;
          let minCreationTime = t + (- 1 * age) in ret (om_creationTimestamp obj < minCreationTime) }"

definition hcpReady ::
    "'w Env \<Rightarrow> 'w Net \<Rightarrow> HostedControlPlane \<Rightarrow> RHOBSConfig \<Rightarrow> ('w, go_error + bool) io" where
  "hcpReady E N hostedcontrolplane cfg =
     (if SkipInfrastructureHealthCheck cfg then ret (Inr True)
      else do { old \<leftarrow> olderThan N (obj_meta hostedcontrolplane) hcpHealthCheckSkipAge;
        if old then ret (Inr True)
        else do { g \<leftarrow> getHealthCheckConfigMap E hostedcontrolplane;
          m \<leftarrow> (case g of
                 Inr configmap \<Rightarrow> ret (Inr configmap)
               | Inl err \<Rightarrow>
                   if \<not> IsNotFound err
                   then ret (Inl (wrap_w ''failed to retrieve healthcheck configmap'' err))
                   else do { c \<leftarrow> createHealthcheckConfigMap E hostedcontrolplane;
                             (case c of
                                Inl err \<Rightarrow> ret (Inl (wrap_w ''failed to create new healthcheck configmap'' err))
                              | Inr configmap \<Rightarrow> ret (Inr configmap)) });
          (case m of
             Inl err \<Rightarrow> ret (Inl err)
           | Inr healthcheckConfigMap \<Rightarrow>
               if healthcheckConfigMapSuccesses healthcheckConfigMap \<ge> consecutiveSuccessfulHealthchecks
               then ret (Inr True)
               else do { h \<leftarrow> healthcheckHostedControlPlane N hostedcontrolplane;
                 (case h of
                    Some err \<Rightarrow>
                      do { r \<leftarrow> resetHealthCheckSuccesses E healthcheckConfigMap;
                           (case err_of r of
                              Some resetErr \<Rightarrow>
                                (case errors_Join (Some err) (Some resetErr) of
                                   Some e \<Rightarrow> ret (Inl (wrap_w (''failed to update configmap healthcheck count '' @
                                                ''following healthchecking failure. Errors'') e))
                                 | None \<Rightarrow> ret (Inr False))
                            | None \<Rightarrow> ret (Inr False)) }
                  | None \<Rightarrow>
                      do { a \<leftarrow> addHealthCheckSuccess E healthcheckConfigMap;
                           (case a of
                              Inl err \<Rightarrow> ret (Inl (wrap_w ''failed to increment healthcheck success count'' err))
                            | Inr configmap \<Rightarrow>
                                ret (Inr (healthcheckConfigMapSuccesses configmap \<ge>
                                          consecutiveSuccessfulHealthchecks))) }) }) } })"

section \<open>Reachability and the VPC endpoint\<close>

definition isKubeAPIServerReachable ::
    "'w Net \<Rightarrow> HostedControlPlane \<Rightarrow> int \<Rightarrow> ('w, go_error option) io" where
  "isKubeAPIServerReachable N hostedcontrolplane port =
     do { d \<leftarrow> tls_Dial N (''kube-apiserver.'' @ om_namespace (obj_meta hostedcontrolplane) @
                           ''.svc.cluster.local:'' @ itoa port);
          (case d of
             Some err \<Rightarrow> ret (Some (wrap_w ''TLS dial to kube-apiserver failed'' err))
           | None \<Rightarrow> ret None) }"

definition isVpcEndpointReady ::
    "'w Env \<Rightarrow> HostedControlPlane \<Rightarrow> RHOBSConfig \<Rightarrow> ('w, go_error + bool) io" where
  "isVpcEndpointReady E hostedcontrolplane cfg =
     (if SkipInfrastructureHealthCheck cfg then ret (Inr True)
      else
        let vpcEndpointName = ''private-hcp'';
            vpcEndpointNamespace = om_namespace (obj_meta hostedcontrolplane) in
        do { r \<leftarrow> kube_Get (vpce_api E) \<lparr>nn_name = vpcEndpointName, nn_namespace = vpcEndpointNamespace\<rparr>;
             (case r of
                Inl err \<Rightarrow> ret (Inl err)
              | Inr vpcEndpoint \<Rightarrow>
                  let status = obj_status vpcEndpoint in
                  if status = ''available'' then ret (Inr True)
                  else if status \<in> {''pendingAcceptance'', ''pending'', ''deleting''} then ret (Inr False)
                  else if status \<in> {''rejected'', ''failed'', ''deleted''}
                  then ret (Inl (errors_New (''VPC Endpoint '' @ vpcEndpointNamespace @ ''/'' @ vpcEndpointName @
                              '' is in a bad state: '' @ status)))
                  else ret (Inl (errors_New (''VPC Endpoint '' @ vpcEndpointNamespace @ ''/'' @ vpcEndpointName @
                              '' is in an unknown state: '' @ status)))) })"

section \<open>The counter as an abstract machine\<close>

text \<open>One health check moves the count of consecutive successes and says whether the control plane is
  ready; once five were counted, no further check is made.\<close>

definition check_step :: "int \<Rightarrow> bool \<Rightarrow> int \<times> bool" where
  "check_step n ok =
     (if n \<ge> consecutiveSuccessfulHealthchecks then (n, True)
      else if ok then (n + 1, n + 1 \<ge> consecutiveSuccessfulHealthchecks)
      else (0, False))"

fun check_run :: "int \<Rightarrow> bool list \<Rightarrow> int" where
  "check_run n [] = n"
| "check_run n (ok # oks) = check_run (fst (check_step n ok)) oks"

lemma check_run_append: "check_run n (xs @ ys) = check_run (check_run n xs) ys"
  by (induction n xs rule: check_run.induct) auto

lemma check_run_bounds: "0 \<le> n \<Longrightarrow> n \<le> 5 \<Longrightarrow> 0 \<le> check_run n oks \<and> check_run n oks \<le> 5"
  by (induction n oks rule: check_run.induct)
    (auto simp: check_step_def consecutiveSuccessfulHealthchecks_def)

text \<open>The count of an unready control plane is the number of successes since the last failure.\<close>

lemma check_run_trailing:
  "check_run 0 oks < 5 \<Longrightarrow> check_run 0 oks = int (length (takeWhile id (rev oks)))"
proof (induction oks rule: rev_induct)
  case (snoc ok oks)
  let ?n = "check_run 0 oks"
  have "?n < 5" using snoc.prems
    by (auto simp: check_run_append check_step_def consecutiveSuccessfulHealthchecks_def split: if_splits)
  then show ?case using snoc
    by (auto simp: check_run_append check_step_def consecutiveSuccessfulHealthchecks_def)
qed simp

lemma takeWhile_id_replicate: "takeWhile id bs = replicate (length (takeWhile id bs)) True"
  by (induction bs) auto

lemma check_run_ready:
  assumes "check_run 0 oks \<ge> 5"
  shows "\<exists>xs ys. oks = xs @ replicate 5 True @ ys"
  using assms
proof (induction oks rule: rev_induct)
  case (snoc ok oks)
  show ?case
  proof (cases "check_run 0 oks \<ge> 5")
    case True
    then obtain xs ys where "oks = xs @ replicate 5 True @ ys" using snoc.IH by blast
    then have "oks @ [ok] = xs @ replicate 5 True @ (ys @ [ok])" by simp
    then show ?thesis by blast
  next
    case False
    then have n: "check_run 0 oks = 4" "ok"
      using snoc.prems check_run_bounds [of 0 oks]
      by (auto simp: check_run_append check_step_def consecutiveSuccessfulHealthchecks_def split: if_splits)
    then have len: "length (takeWhile id (rev oks)) = 4" using check_run_trailing [of oks] by simp
    have "rev oks = takeWhile id (rev oks) @ dropWhile id (rev oks)" by simp
    also have "takeWhile id (rev oks) = replicate 4 True"
      using takeWhile_id_replicate [of "rev oks"] len by simp
    finally have "rev (rev oks) = rev (dropWhile id (rev oks)) @ replicate 4 True"
      by (metis rev_append rev_replicate)
    then have "oks @ [ok] = rev (dropWhile id (rev oks)) @ replicate 4 True @ [True]"
      using n(2) by simp
    also have "replicate 4 True @ [True] = replicate 5 True @ []" by (simp add: numeral_eq_Suc)
    finally show ?thesis by blast
  qed
qed simp

section \<open>hcpReady refines it\<close>

text \<open>The count a cluster stores for a control plane.\<close>

definition stored_count :: "Libs \<Rightarrow> HostedControlPlane \<Rightarrow> cluster \<Rightarrow> int" where
  "stored_count L hcp c =
     (case map_of (c_cm c) (obj_key (buildHealthCheckConfigMap L hcp)) of
        None \<Rightarrow> 0 | Some m \<Rightarrow> healthcheckConfigMapSuccesses m)"

lemma successes_annotated:
  "- (2 ^ 63) \<le> n \<Longrightarrow> n < 2 ^ 63 \<Longrightarrow> om_annotations (obj_meta m) = fmupd healthcheckAnnotation (itoa n) a \<Longrightarrow>
     healthcheckConfigMapSuccesses m = n"
  by (simp add: healthcheckConfigMapSuccesses_def Atoi_itoa)

lemma successes_dropped [simp]:
  "om_annotations (obj_meta m) = fmdrop healthcheckAnnotation a \<Longrightarrow> healthcheckConfigMapSuccesses m = 0"
  by (simp add: healthcheckConfigMapSuccesses_def)

lemma successes_range: "- (2 ^ 63) \<le> healthcheckConfigMapSuccesses m \<and> healthcheckConfigMapSuccesses m < 2 ^ 63"
  using strconv_Atoi_range by (auto simp: healthcheckConfigMapSuccesses_def split: option.splits)

lemma outside_healthcheck:
  assumes "net_frame N snap"
  shows "outside snap (healthcheckHostedControlPlane N hcp)"
  unfolding healthcheckHostedControlPlane_def endpointOK_def Let_def
  by (intro outside_intros outside_Net [OF assms])

text \<open>Writing the annotations of a stored config map.\<close>

lemma wp_update_annotations:
  assumes ok: "ok_world E snap w" and x: "map_of (c_cm (snap w)) k = Some x"
  shows "wp (kube_Update (cm_api E) (x\<lparr>obj_meta := (obj_meta x)\<lparr>om_annotations := a\<rparr>\<rparr>))
     (\<lambda>r w'. ok_world E snap w' \<and> changes_only c_cm c_cm_update k (snap w) (snap w') \<and>
       (case r of Inl e \<Rightarrow> snap w' = snap w
                | Inr n \<Rightarrow> map_of (c_cm (snap w')) k = Some n \<and> om_annotations (obj_meta n) = a)) w"
proof -
  have wfs: "wf_store (c_cm (snap w))" using ok_world_wf [OF ok] by (simp add: wf_cluster_def)
  have key: "obj_key (x\<lparr>obj_meta := (obj_meta x)\<lparr>om_annotations := a\<rparr>\<rparr>) = k"
    using wf_store_key [OF wfs x] by (simp add: obj_key_def)
  note held = wf_store_live [OF wfs x]
  show ?thesis
    by (rule wp_Update [OF ok ok_world_laws(9) [OF ok]])
      (use key x held in \<open>auto simp: cluster_lenses map_of_settle live_or_held_def same_sent_meta_def
         same_server_meta_def intro!: changes_only_upd\<close>)
qed

text \<open>The config map that holds the count: the stored one, or a new one without a count.\<close>

definition healthcheck_map :: "'w Env \<Rightarrow> HostedControlPlane \<Rightarrow> ('w, go_error + ConfigMap) io" where
  "healthcheck_map E hcp =
     do { g \<leftarrow> getHealthCheckConfigMap E hcp;
          (case g of
             Inr configmap \<Rightarrow> ret (Inr configmap)
           | Inl err \<Rightarrow>
               if \<not> IsNotFound err
               then ret (Inl (wrap_w ''failed to retrieve healthcheck configmap'' err))
               else do { c \<leftarrow> createHealthcheckConfigMap E hcp;
                         (case c of
                            Inl err \<Rightarrow> ret (Inl (wrap_w ''failed to create new healthcheck configmap'' err))
                          | Inr configmap \<Rightarrow> ret (Inr configmap)) }) }"

definition healthcheck_key :: "Libs \<Rightarrow> HostedControlPlane \<Rightarrow> NamespacedName" where
  "healthcheck_key L hcp = obj_key (buildHealthCheckConfigMap L hcp)"

lemma stored_count_at:
  "map_of (c_cm c) (healthcheck_key L hcp) = Some m \<Longrightarrow> stored_count L hcp c = healthcheckConfigMapSuccesses m"
  by (simp add: stored_count_def healthcheck_key_def)

lemma wp_healthcheck_map:
  assumes ok: "ok_world E snap w"
  shows "wp (healthcheck_map E hcp) (\<lambda>r w'. ok_world E snap w' \<and>
     changes_only c_cm c_cm_update (healthcheck_key (libs E) hcp) (snap w) (snap w') \<and>
     stored_count (libs E) hcp (snap w') = stored_count (libs E) hcp (snap w) \<and>
     (\<forall>m. r = Inr m \<longrightarrow> map_of (c_cm (snap w')) (healthcheck_key (libs E) hcp) = Some m)) w"
  unfolding healthcheck_map_def getHealthCheckConfigMap_def createHealthcheckConfigMap_def
    healthcheck_key_def [symmetric] wp_simps
proof (rule wp_Get [OF ok ok_world_laws(9) [OF ok]], goal_cases)
  case (1 e w1)
  let ?k = "healthcheck_key (libs E) hcp"
  have "wp (kube_Create (cm_api E) (buildHealthCheckConfigMap (libs E) hcp))
    (\<lambda>c w'. ok_world E snap w' \<and> changes_only c_cm c_cm_update ?k (snap w) (snap w') \<and>
       stored_count (libs E) hcp (snap w') = stored_count (libs E) hcp (snap w) \<and>
       (\<forall>m. c = Inr m \<longrightarrow> map_of (c_cm (snap w')) ?k = Some m)) w1"
    by (rule wp_Create [OF 1(1) ok_world_laws(9) [OF 1(1)]])
      (use 1 in \<open>auto simp: stored_count_def healthcheck_key_def cluster_lenses same_sent_meta_def
          healthcheckConfigMapSuccesses_def buildHealthCheckConfigMap_def empty_meta_def
          intro!: changes_only_upd\<close>)
  then have "wp (kube_Create (cm_api E) (buildHealthCheckConfigMap (libs E) hcp))
    (\<lambda>c w'. case c of
        Inl err \<Rightarrow> ok_world E snap w' \<and> changes_only c_cm c_cm_update ?k (snap w) (snap w') \<and>
          stored_count (libs E) hcp (snap w') = stored_count (libs E) hcp (snap w) \<and>
          (\<forall>m. Inl (wrap_w ''failed to create new healthcheck configmap'' err) = Inr m \<longrightarrow>
             map_of (c_cm (snap w')) ?k = Some m)
      | Inr configmap \<Rightarrow> ok_world E snap w' \<and> changes_only c_cm c_cm_update ?k (snap w) (snap w') \<and>
          stored_count (libs E) hcp (snap w') = stored_count (libs E) hcp (snap w) \<and>
          (\<forall>m. Inr configmap = Inr m \<longrightarrow> map_of (c_cm (snap w')) ?k = Some m)) w1"
    by (rule wp_mono) (auto split: sum.splits)
  then show ?case using 1 by (auto simp: cluster_lenses)
qed (auto simp: cluster_lenses)

text \<open>One health check, given the config map.\<close>

definition healthcheck_count ::
    "'w Env \<Rightarrow> 'w Net \<Rightarrow> HostedControlPlane \<Rightarrow> ConfigMap \<Rightarrow> ('w, go_error + bool) io" where
  "healthcheck_count E N hcp m =
     (if healthcheckConfigMapSuccesses m \<ge> consecutiveSuccessfulHealthchecks
      then ret (Inr True)
      else do { h \<leftarrow> healthcheckHostedControlPlane N hcp;
                (case h of
                   Some err \<Rightarrow>
                     do { r \<leftarrow> resetHealthCheckSuccesses E m;
                          (case err_of r of
                             Some resetErr \<Rightarrow>
                               (case errors_Join (Some err) (Some resetErr) of
                                  Some e \<Rightarrow> ret (Inl (wrap_w (''failed to update configmap healthcheck count '' @
                                               ''following healthchecking failure. Errors'') e))
                                | None \<Rightarrow> ret (Inr False))
                           | None \<Rightarrow> ret (Inr False)) }
                 | None \<Rightarrow>
                     do { a \<leftarrow> addHealthCheckSuccess E m;
                          (case a of
                             Inl err \<Rightarrow> ret (Inl (wrap_w ''failed to increment healthcheck success count'' err))
                           | Inr configmap \<Rightarrow>
                               ret (Inr (healthcheckConfigMapSuccesses configmap \<ge>
                                         consecutiveSuccessfulHealthchecks))) }) })"

lemma hcpReady_split:
  "hcpReady E N hcp cfg =
     (if SkipInfrastructureHealthCheck cfg then ret (Inr True)
      else do { old \<leftarrow> olderThan N (obj_meta hcp) hcpHealthCheckSkipAge;
                if old then ret (Inr True)
                else do { m \<leftarrow> healthcheck_map E hcp;
                          (case m of Inl err \<Rightarrow> ret (Inl err) | Inr m \<Rightarrow> healthcheck_count E N hcp m) } })"
  unfolding hcpReady_def healthcheck_map_def healthcheck_count_def bind_assoc ..

text \<open>What a check does to the stored count, given whether the endpoint answered.\<close>

definition counted where
  "counted L hcp b r c d \<longleftrightarrow>
     changes_only c_cm c_cm_update (healthcheck_key L hcp) c d \<and>
     (case r of
        Inl err \<Rightarrow> stored_count L hcp d = stored_count L hcp c
      | Inr ready \<Rightarrow> (stored_count L hcp d, ready) = check_step (stored_count L hcp c) b)"

lemma wp_healthcheck_count:
  assumes ok: "ok_world E snap w" and N: "net_frame N snap"
    and health: "wp (healthcheckHostedControlPlane N hcp) (\<lambda>h _. (h = None) = b) w"
    and m: "map_of (c_cm (snap w)) (healthcheck_key (libs E) hcp) = Some m"
  shows "wp (healthcheck_count E N hcp m)
     (\<lambda>r w'. ok_world E snap w' \<and> counted (libs E) hcp b r (snap w) (snap w')) w"
proof (cases "healthcheckConfigMapSuccesses m \<ge> consecutiveSuccessfulHealthchecks")
  case True
  then show ?thesis using ok stored_count_at [OF m]
    by (simp add: healthcheck_count_def wp_simps counted_def check_step_def cluster_lenses)
next
  case False
  let ?Q = "\<lambda>r w'. ok_world E snap w' \<and> counted (libs E) hcp b r (snap w) (snap w')"
  note c = stored_count_at [OF m]
  have checked: "wp (healthcheckHostedControlPlane N hcp)
      (\<lambda>h w'. (h = None) = b \<and> snap w' = snap w) w"
    by (rule wp_conj [OF health]) (rule wp_outside [OF outside_healthcheck [OF N]])
  have reset: "wp (resetHealthCheckSuccesses E m) (\<lambda>r w'. (\<forall>e. r = Inl e \<longrightarrow> (\<forall>x. ?Q (Inl x) w')) \<and>
      (\<forall>n. r = Inr n \<longrightarrow> ?Q (Inr False) w')) w1" if "\<not> b" "snap w1 = snap w" for w1
    unfolding resetHealthCheckSuccesses_def
    by (rule wp_mono [OF wp_update_annotations [OF ok_world_cong [OF ok that(2)]
          m [folded that(2)]]])
      (use that False c in \<open>auto simp: counted_def check_step_def cluster_lenses stored_count_at\<close>)
  have add: "wp (addHealthCheckSuccess E m) (\<lambda>r w'. (\<forall>e. r = Inl e \<longrightarrow> (\<forall>x. ?Q (Inl x) w')) \<and>
      (\<forall>n. r = Inr n \<longrightarrow> ?Q (Inr (healthcheckConfigMapSuccesses n \<ge> consecutiveSuccessfulHealthchecks)) w')) w1"
    if "b" "snap w1 = snap w" for w1
    unfolding addHealthCheckSuccess_def Let_def
  proof (rule wp_mono [OF wp_update_annotations [OF ok_world_cong [OF ok that(2)]
          m [folded that(2)]]], goal_cases)
    case (1 r w')
    let ?n = "healthcheckConfigMapSuccesses m"
    show ?case
    proof (cases r)
      case (Inl e)
      with 1 that(2) show ?thesis by (simp add: counted_def cluster_lenses)
    next
      case (Inr n)
      with 1 have n: "map_of (c_cm (snap w')) (healthcheck_key (libs E) hcp) = Some n"
        "om_annotations (obj_meta n) = fmupd healthcheckAnnotation (itoa (?n + 1)) (om_annotations (obj_meta m))"
        by simp_all
      have "healthcheckConfigMapSuccesses n = ?n + 1"
        by (rule successes_annotated [OF _ _ n(2)])
          (use successes_range [of m] False in \<open>simp_all add: consecutiveSuccessfulHealthchecks_def\<close>)
      then show ?thesis
        using 1 Inr that False c stored_count_at [OF n(1)] by (simp add: counted_def check_step_def)
    qed
  qed
  show ?thesis
    unfolding healthcheck_count_def wp_simps if_not_P [OF False]
  proof (rule wp_mono [OF checked], goal_cases)
    case (1 h w1)
    show ?case
    proof (cases h)
      case None
      with 1 have "b" "snap w1 = snap w" by simp_all
      show ?thesis unfolding None option.case
        by (rule wp_mono [OF add [OF \<open>b\<close> \<open>snap w1 = snap w\<close>]]) (auto split: sum.split)
    next
      case (Some e)
      with 1 have "\<not> b" "snap w1 = snap w" by simp_all
      show ?thesis unfolding Some option.case
        by (rule wp_mono [OF reset [OF \<open>\<not> b\<close> \<open>snap w1 = snap w\<close>]])
          (auto simp: err_of_def split: sum.split)
    qed
  qed
qed

text \<open>The setting of a check that counts: a young control plane, and a network on which its endpoint
  answers (\<open>b\<close>) or does not.\<close>

definition checked_now where
  "checked_now E N snap hcp cfg b \<longleftrightarrow>
     net_frame N snap \<and> \<not> SkipInfrastructureHealthCheck cfg \<and>
     (\<forall>w. wp (olderThan N (obj_meta hcp) hcpHealthCheckSkipAge) (\<lambda>old _. \<not> old) w) \<and>
     (\<forall>w. wp (healthcheckHostedControlPlane N hcp) (\<lambda>h _. (h = None) = b) w)"

lemma wp_hcpReady:
  assumes ok: "ok_world E snap w" and now: "checked_now E N snap hcp cfg b"
  shows "wp (hcpReady E N hcp cfg)
     (\<lambda>r w'. ok_world E snap w' \<and> counted (libs E) hcp b r (snap w) (snap w')) w"
proof -
  have N: "net_frame N snap" and skip: "\<not> SkipInfrastructureHealthCheck cfg"
    and young: "\<And>w. wp (olderThan N (obj_meta hcp) hcpHealthCheckSkipAge) (\<lambda>old _. \<not> old) w"
    and health: "\<And>w. wp (healthcheckHostedControlPlane N hcp) (\<lambda>h _. (h = None) = b) w"
    using now by (simp_all add: checked_now_def)
  have "wp (olderThan N (obj_meta hcp) hcpHealthCheckSkipAge) (\<lambda>_ w'. snap w' = snap w) w"
    unfolding olderThan_def Let_def
    by (rule wp_outside [OF outside_bind [OF outside_Net(1) [OF N] outside_return]])
  note young = wp_conj [OF young this]
  let ?Q = "\<lambda>r w'. ok_world E snap w' \<and> counted (libs E) hcp b r (snap w) (snap w')"
  have count: "wp (healthcheck_count E N hcp m) ?Q w2"
    if "ok_world E snap w2" "map_of (c_cm (snap w2)) (healthcheck_key (libs E) hcp) = Some m"
      "changes_only c_cm c_cm_update (healthcheck_key (libs E) hcp) (snap w) (snap w2)"
      "stored_count (libs E) hcp (snap w2) = stored_count (libs E) hcp (snap w)" for w2 m
    by (rule wp_mono [OF wp_healthcheck_count [OF that(1) N health that(2)]])
      (use that in \<open>auto simp: counted_def intro: changes_only_trans [OF cluster_lenses(9)] split: sum.splits\<close>)
  show ?thesis
    unfolding hcpReady_split wp_simps if_not_P [OF skip]
  proof (rule wp_mono [OF young], goal_cases)
    case (1 old w1)
    then have w1: "ok_world E snap w1" "snap w1 = snap w" and "\<not> old"
      using ok_world_cong [OF ok] by simp_all
    show ?case unfolding if_not_P [OF \<open>\<not> old\<close>]
    proof (rule wp_mono [OF wp_healthcheck_map [OF w1(1)]], goal_cases)
      case (1 r w2)
      then show ?case
        using w1(2) count [of w2] by (cases r) (auto simp: counted_def)
    qed
  qed
qed

lemma hcpReady_run:
  assumes "ok_world E snap w" "checked_now E N snap hcp cfg b" "run_state (hcpReady E N hcp cfg) w = (r, w')"
  shows "ok_world E snap w'" "counted (libs E) hcp b r (snap w) (snap w')"
  using wp_run [OF wp_hcpReady [OF assms(1,2)] assms(3)] by simp_all

lemma counted_ready:
  assumes "counted L hcp b (Inr ready) c d"
  shows "stored_count L hcp d = fst (check_step (stored_count L hcp c) b)"
    "ready = snd (check_step (stored_count L hcp c) b)"
  using assms unfolding counted_def sum.case by (metis fst_conv, metis snd_conv)

text \<open>The life of a control plane: health checks with their outcomes, checks whose requests to the
  API server failed, and changes of the cluster by others that leave the count alone.\<close>

inductive hcp_history for E snap hcp cfg where
  born: "ok_world E snap w \<Longrightarrow> stored_count (libs E) hcp (snap w) = 0 \<Longrightarrow> hcp_history E snap hcp cfg [] w"
| others: "hcp_history E snap hcp cfg oks w \<Longrightarrow> ok_world E snap w' \<Longrightarrow>
    stored_count (libs E) hcp (snap w') = stored_count (libs E) hcp (snap w) \<Longrightarrow>
    hcp_history E snap hcp cfg oks w'"
| failed: "hcp_history E snap hcp cfg oks w \<Longrightarrow> checked_now E N snap hcp cfg b \<Longrightarrow>
    run_state (hcpReady E N hcp cfg) w = (Inl err, w') \<Longrightarrow> hcp_history E snap hcp cfg oks w'"
| checked: "hcp_history E snap hcp cfg oks w \<Longrightarrow> checked_now E N snap hcp cfg b \<Longrightarrow>
    run_state (hcpReady E N hcp cfg) w = (Inr ready, w') \<Longrightarrow> hcp_history E snap hcp cfg (oks @ [b]) w'"

lemma hcp_history_count:
  "hcp_history E snap hcp cfg oks w \<Longrightarrow>
     ok_world E snap w \<and> stored_count (libs E) hcp (snap w) = check_run 0 oks"
proof (induction rule: hcp_history.induct)
  case (failed oks w N b err w')
  then show ?case using hcpReady_run [of E snap w N hcp cfg b "Inl err" w'] by (simp add: counted_def)
next
  case (checked oks w N b ready w')
  have "ok_world E snap w" using checked.IH by simp
  note run = hcpReady_run [OF this checked(2,3)]
  with checked.IH show ?case by (simp add: counted_ready check_run_append)
qed simp_all

lemma check_run_True:
  "0 \<le> n \<Longrightarrow> n \<le> 5 \<Longrightarrow> check_run n (replicate m True) = min 5 (n + int m)"
  by (induction m arbitrary: n) (auto simp: check_step_def consecutiveSuccessfulHealthchecks_def)

lemma check_run_full: "n \<ge> 5 \<Longrightarrow> check_run n oks = n"
  by (induction oks) (auto simp: check_step_def consecutiveSuccessfulHealthchecks_def)

lemma ready_iff_five: "snd (check_step (check_run 0 oks) b) \<longleftrightarrow>
    (\<exists>xs ys. oks @ [b] = xs @ replicate 5 True @ ys)"
proof -
  have "snd (check_step (check_run 0 oks) b) \<longleftrightarrow> check_run 0 (oks @ [b]) \<ge> 5"
    by (auto simp: check_run_append check_step_def consecutiveSuccessfulHealthchecks_def)
  moreover have "check_run 0 (xs @ replicate 5 True @ ys) \<ge> 5" for xs ys
    using check_run_True [of "check_run 0 xs" 5] check_run_bounds [of 0 xs]
    by (simp only: check_run_append) (simp add: check_run_full)
  ultimately show ?thesis using check_run_ready by metis
qed

text \<open>C13. A health check of a control plane younger than the skip age refines the abstract counter:
  without error, the new stored count and the answer are those of \<open>check_step\<close> on the old count,
  so a failed check resets it and a success adds one; with an error the count is unchanged; only
  the config map of this control plane may change.\<close>

theorem hcpReady_refines_counter:
  assumes "ok_world E snap w" and "checked_now E N snap hcp cfg b"
  shows "wp (hcpReady E N hcp cfg)
     (\<lambda>r w'. changes_only c_cm c_cm_update (healthcheck_key (libs E) hcp) (snap w) (snap w') \<and>
       (case r of
          Inl err \<Rightarrow> stored_count (libs E) hcp (snap w') = stored_count (libs E) hcp (snap w)
        | Inr ready \<Rightarrow> (stored_count (libs E) hcp (snap w'), ready) =
            check_step (stored_count (libs E) hcp (snap w)) b)) w"
  by (rule wp_mono [OF wp_hcpReady [OF assms]]) (simp add: counted_def)

text \<open>C12. Over the whole history of a control plane younger than three hours, with the infrastructure checks
  on, with checks that failed for reasons of their own in between, and with changes by others that leave the
  stored count alone, \<open>hcpReady\<close> answers that it is ready exactly when five checks in a row have succeeded
  at some time up to the present check.  For an older one, or with the checks skipped, it answers so without a check.\<close>

theorem ready_after_five_in_a_row:
  fixes E :: "'w Env"
  assumes "hcp_history E snap hcp cfg oks w" and "checked_now E N snap hcp cfg b"
    and "run_state (hcpReady E N hcp cfg) w = (Inr ready, w')"
  shows "(ready \<longleftrightarrow> (\<exists>xs ys. oks @ [b] = xs @ replicate 5 True @ ys)) \<and>
    (\<forall>N' cfg' v. SkipInfrastructureHealthCheck cfg' \<or>
       wp (olderThan N' (obj_meta hcp) hcpHealthCheckSkipAge) (\<lambda>old _. old) v \<longrightarrow>
       wp (hcpReady E N' hcp cfg') (\<lambda>r _. r = Inr True) v)"
proof (intro conjI allI impI)
  fix N' :: "'w Net" and cfg' :: RHOBSConfig and v :: 'w
  assume no_check: "SkipInfrastructureHealthCheck cfg' \<or>
    wp (olderThan N' (obj_meta hcp) hcpHealthCheckSkipAge) (\<lambda>old _. old) v"
  then show "wp (hcpReady E N' hcp cfg') (\<lambda>r _. r = Inr True) v"
    unfolding hcpReady_def
    by (cases "SkipInfrastructureHealthCheck cfg'")
      (auto simp: wp_return wp_bind [of "olderThan _ _ _"] elim!: wp_mono)
next
  have "ok_world E snap w" using hcp_history_count [OF assms(1)] by simp
  from counted_ready(2) [OF hcpReady_run(2) [OF this assms(2,3)]]
  have "ready = snd (check_step (check_run 0 oks) b)" using hcp_history_count [OF assms(1)] by simp
  then show "ready \<longleftrightarrow> (\<exists>xs ys. oks @ [b] = xs @ replicate 5 True @ ys)" by (simp only: ready_iff_five)
qed

end
