(* ===== verification/Go_Json.thy ===== *)
theory Go_Json
  imports Go_Url "HOL-Library.Finite_Map" "HOL-Library.List_Lexorder" "HOL-Library.Char_ord"
begin

text \<open>
  What the operator uses of package encoding/json: \<open>Marshal\<close> of strings, string maps and structs,
  \<open>Unmarshal\<close>, and \<open>Decoder.Decode\<close>.  Reading follows Go's scanner: a lexer over the bytes and a
  machine with a stack of open arrays and objects, at most ten thousand deep.  Of an error only the
  fact matters to the operator.
\<close>

section \<open>UTF-8\<close>

text \<open>The length of the encoding that starts with a byte and the range of its second byte.\<close>

definition rune_lead :: "char \<Rightarrow> nat \<times> nat \<times> nat" where
  "rune_lead c =
     (if between c 0 127 then (1, 0, 0)
      else if between c 0xC2 0xDF then (2, 0x80, 0xBF)
      else if between c 0xE0 0xE0 then (3, 0xA0, 0xBF)
      else if between c 0xED 0xED then (3, 0x80, 0x9F)
      else if between c 0xE1 0xEF then (3, 0x80, 0xBF)
      else if between c 0xF0 0xF0 then (4, 0x90, 0xBF)
      else if between c 0xF1 0xF3 then (4, 0x80, 0xBF)
      else if between c 0xF4 0xF4 then (4, 0x80, 0x8F)
      else (0, 0, 0))"

text \<open>\<open>utf8.DecodeRune\<close>: the length of the character at the front, 0 if it is not valid.\<close>

definition rune_len :: "string \<Rightarrow> nat" where
  "rune_len s =
     (case s of
        [] \<Rightarrow> 0
      | a # t \<Rightarrow>
          (case rune_lead a of (n, lo, hi) \<Rightarrow>
             if n \<le> 1 then n
             else if n - 1 \<le> length t \<and> between (hd t) lo hi \<and>
                     list_all (\<lambda>c. between c 0x80 0xBF) (take (n - 1) t)
             then n else 0))"

lemma rune_len_le: "rune_len s \<le> length s"
  by (auto simp: rune_len_def split: list.split prod.split)

function valid_utf8 :: "string \<Rightarrow> bool" where
  "valid_utf8 s =
     (if s = [] then True else if rune_len s = 0 then False else valid_utf8 (drop (rune_len s) s))"
  by pat_completeness auto
termination by (relation "measure length") auto

declare valid_utf8.simps [simp del]

definition rune_error :: string where
  "rune_error = [CHR 0xEF, CHR 0xBF, CHR 0xBD]"

definition encode_rune :: "nat \<Rightarrow> string" where
  "encode_rune r =
     (if r < 0x80 then [char_of r]
      else if r < 0x800 then [char_of (0xC0 + r div 64), char_of (0x80 + r mod 64)]
      else if 0xD800 \<le> r \<and> r < 0xE000 \<or> r > 0x10FFFF then rune_error
      else if r < 0x10000
      then [char_of (0xE0 + r div 4096), char_of (0x80 + r div 64 mod 64), char_of (0x80 + r mod 64)]
      else [char_of (0xF0 + r div 262144), char_of (0x80 + r div 4096 mod 64),
            char_of (0x80 + r div 64 mod 64), char_of (0x80 + r mod 64)])"

section \<open>Strings\<close>

definition lower_hex :: "nat \<Rightarrow> char" where
  "lower_hex n = ''0123456789abcdef'' ! n"

definition backslash :: char where "backslash = CHR 0x5C"
definition quote :: char where "quote = CHR 0x22"

text \<open>A byte below 128 of a string in the output of \<open>Marshal\<close>, which also escapes the characters
  that matter to HTML.\<close>

definition escape_ascii :: "char \<Rightarrow> string" where
  "escape_ascii c =
     (if c = quote then [backslash, quote]
      else if c = backslash then [backslash, backslash]
      else if c = CHR 0x08 then [backslash, CHR ''b'']
      else if c = CHR 0x0C then [backslash, CHR ''f'']
      else if c = CHR 0x0A then [backslash, CHR ''n'']
      else if c = CHR 0x0D then [backslash, CHR ''r'']
      else if c = CHR 0x09 then [backslash, CHR ''t'']
      else if between c 0 31 \<or> c \<in> set ''<>&''
      then [backslash, CHR ''u'', CHR ''0'', CHR ''0'', lower_hex (of_char c div 16), lower_hex (of_char c mod 16)]
      else [c])"

function escape :: "string \<Rightarrow> string" where
  "escape s =
     (case s of
        [] \<Rightarrow> []
      | c # cs \<Rightarrow>
          if between c 0 127 then escape_ascii c @ escape cs
          else
            (let n = rune_len s in
             if n = 0 then [backslash] @ ''ufffd'' @ escape cs
             else if take n s = [CHR 0xE2, CHR 0x80, CHR 0xA8] then [backslash] @ ''u2028'' @ escape (drop n s)
             else if take n s = [CHR 0xE2, CHR 0x80, CHR 0xA9] then [backslash] @ ''u2029'' @ escape (drop n s)
             else take n s @ escape (drop n s)))"
  by pat_completeness auto
termination by (relation "measure length") auto

declare escape.simps [simp del]

definition json_quote :: "string \<Rightarrow> string" where
  "json_quote s = [quote] @ escape s @ [quote]"

text \<open>The character a short escape stands for.\<close>

definition unescape_short :: "char \<Rightarrow> char option" where
  "unescape_short e =
     (if e \<in> {quote, backslash, CHR ''/''} then Some e
      else if e = CHR ''b'' then Some (CHR 0x08)
      else if e = CHR ''f'' then Some (CHR 0x0C)
      else if e = CHR ''n'' then Some (CHR 0x0A)
      else if e = CHR ''r'' then Some (CHR 0x0D)
      else if e = CHR ''t'' then Some (CHR 0x09)
      else None)"

definition hex4 :: "string \<Rightarrow> nat option" where
  "hex4 s =
     (if length s \<ge> 4 \<and> list_all is_hex (take 4 s)
      then Some (fold (\<lambda>c n. 16 * n + unhex c) (take 4 s) 0) else None)"

text \<open>The second half of a surrogate pair, if one follows.\<close>

definition low_surrogate :: "string \<Rightarrow> nat option" where
  "low_surrogate s =
     (if take 2 s = [backslash, CHR ''u'']
      then (case hex4 (drop 2 s) of
              None \<Rightarrow> None
            | Some u \<Rightarrow> if 0xDC00 \<le> u \<and> u < 0xE000 then Some u else None)
      else None)"

text \<open>The rest of a string literal after its opening quote: its value and what follows it.\<close>

function lex_string :: "string \<Rightarrow> (string \<times> string) option" where
  "lex_string s =
     (case s of
        [] \<Rightarrow> None
      | c # cs \<Rightarrow>
          if c = quote then Some ([], cs)
          else if c = backslash then
            (case cs of
               [] \<Rightarrow> None
             | e # r \<Rightarrow>
                 if e = CHR ''u'' then
                   (case hex4 r of
                      None \<Rightarrow> None
                    | Some u \<Rightarrow>
                        if 0xD800 \<le> u \<and> u < 0xDC00 \<and> low_surrogate (drop 4 r) \<noteq> None
                        then map_option (apfst (\<lambda>t. encode_rune
                                (0x10000 + (u - 0xD800) * 1024 + (the (low_surrogate (drop 4 r)) - 0xDC00)) @ t))
                               (lex_string (drop 10 r))
                        else map_option (apfst (\<lambda>t. encode_rune u @ t)) (lex_string (drop 4 r)))
                 else (case unescape_short e of
                         None \<Rightarrow> None
                       | Some x \<Rightarrow> map_option (apfst (\<lambda>t. x # t)) (lex_string r)))
          else if between c 0 31 then None
          else if between c 0 127 then map_option (apfst (\<lambda>t. c # t)) (lex_string cs)
          else
            (let n = rune_len s in
             if n = 0 then map_option (apfst (\<lambda>t. rune_error @ t)) (lex_string cs)
             else map_option (apfst (\<lambda>t. take n s @ t)) (lex_string (drop n s))))"
  by pat_completeness auto
termination by (relation "measure length") (auto simp: hex4_def split: if_splits)

declare lex_string.simps [simp del]

section \<open>Tokens\<close>

datatype token =
  TLBrace | TRBrace | TLBracket | TRBracket | TColon | TComma | TNull | TTrue | TFalse
| TStr string | TNum string

definition skip_space :: "string \<Rightarrow> string" where
  "skip_space = dropWhile (\<lambda>c. c \<in> {CHR 0x20, CHR 0x09, CHR 0x0A, CHR 0x0D})"

definition lex_fraction :: "string \<Rightarrow> (string \<times> string) option" where
  "lex_fraction s =
     (if prefix ''.'' s
      then let ds = takeWhile is_digit (drop 1 s) in
           if ds = [] then None else Some (CHR ''.'' # ds, drop (1 + length ds) s)
      else Some ([], s))"

definition lex_exponent :: "string \<Rightarrow> (string \<times> string) option" where
  "lex_exponent s =
     (if prefix ''e'' s \<or> prefix ''E'' s
      then let sign = (if prefix ''+'' (drop 1 s) \<or> prefix ''-'' (drop 1 s) then take 1 (drop 1 s) else []);
               ds = takeWhile is_digit (drop (1 + length sign) s) in
           if ds = [] then None
           else Some (take 1 s @ sign @ ds, drop (1 + length sign + length ds) s)
      else Some ([], s))"

definition lex_sign :: "string \<Rightarrow> string" where
  "lex_sign s = (if prefix ''-'' s then ''-'' else [])"

definition lex_whole :: "string \<Rightarrow> string" where
  "lex_whole s = (if prefix ''0'' s then ''0'' else takeWhile is_digit s)"

definition lex_number :: "string \<Rightarrow> (string \<times> string) option" where
  "lex_number s =
     (let s1 = drop (length (lex_sign s)) s in
      if lex_whole s1 = [] then None
      else case lex_fraction (drop (length (lex_whole s1)) s1) of
        None \<Rightarrow> None
      | Some (fraction, s2) \<Rightarrow>
          (case lex_exponent s2 of
             None \<Rightarrow> None
           | Some (exponent, s3) \<Rightarrow> Some (lex_sign s @ lex_whole s1 @ fraction @ exponent, s3)))"

definition lex_word :: "string \<Rightarrow> token \<Rightarrow> string \<Rightarrow> (token \<times> string) option" where
  "lex_word word t s = (if prefix word s then Some (t, drop (length word) s) else None)"

definition next_token :: "string \<Rightarrow> (token \<times> string) option" where
  "next_token s =
     (case skip_space s of
        [] \<Rightarrow> None
      | c # cs \<Rightarrow>
          if c = CHR ''{'' then Some (TLBrace, cs)
          else if c = CHR ''}'' then Some (TRBrace, cs)
          else if c = CHR ''['' then Some (TLBracket, cs)
          else if c = CHR '']'' then Some (TRBracket, cs)
          else if c = CHR '':'' then Some (TColon, cs)
          else if c = CHR '','' then Some (TComma, cs)
          else if c = quote then map_option (apfst TStr) (lex_string cs)
          else if c = CHR ''-'' \<or> is_digit c then map_option (apfst TNum) (lex_number (c # cs))
          else if c = CHR ''n'' then lex_word ''null'' TNull (c # cs)
          else if c = CHR ''t'' then lex_word ''true'' TTrue (c # cs)
          else if c = CHR ''f'' then lex_word ''false'' TFalse (c # cs)
          else None)"

lemma lex_string_shorter: "lex_string s = Some (t, r) \<Longrightarrow> length r < length s"
proof (induction s arbitrary: t r rule: measure_induct_rule [of length])
  case (less s)
  have tail: "length r' < length s" if "lex_string s' = Some (t', r')" "length s' < length s" for s' t' r'
    using less.IH that by (meson less_trans)
  have drop: "length r' < length s"
    if "lex_string (drop n s') = Some (t', r')" "length s' < length s" for n s' t' r'
    by (rule tail [OF that(1)]) (use that(2) in simp)
  show ?case
  proof (cases s)
    case Nil
    then show ?thesis using less.prems by (simp add: lex_string.simps)
  next
    case (Cons c cs)
    have rune: "length r' < length s" if "lex_string (drop n s) = Some (t', r')" "n \<noteq> 0" for n t' r'
      by (rule tail [OF that(1)]) (use that(2) Cons in simp)
    note shorter = tail [unfolded Cons, simplified] drop [unfolded Cons, simplified] rune [unfolded Cons, simplified]
    from less.prems show ?thesis
      by (subst (asm) lex_string.simps)
        (auto simp: Let_def Cons split: if_splits list.splits option.splits dest: shorter)
  qed
qed

lemma lex_number_shorter:
  assumes "lex_number s = Some (t, r)"
  shows "length r < length s"
proof -
  let ?s1 = "drop (length (lex_sign s)) s"
  have whole: "length (lex_whole u) \<le> length u" for u
    using length_takeWhile_le [of is_digit u] prefix_length_le [of "''0''" u] by (auto simp: lex_whole_def)
  have e: "lex_exponent a = Some (x, b) \<Longrightarrow> length b \<le> length a" for a b x
    by (auto simp: lex_exponent_def Let_def split: if_splits)
  have f: "lex_fraction a = Some (x, b) \<Longrightarrow> length b \<le> length a" for a b x
    by (auto simp: lex_fraction_def Let_def split: if_splits)
  from assms obtain fr s2 ex where "lex_whole ?s1 \<noteq> []"
    "lex_fraction (drop (length (lex_whole ?s1)) ?s1) = Some (fr, s2)" "lex_exponent s2 = Some (ex, r)"
    unfolding lex_number_def Let_def by (auto split: if_splits option.splits)
  then have "length r \<le> length ?s1 - length (lex_whole ?s1)" "0 < length (lex_whole ?s1)"
    using f e by (fastforce, simp)
  moreover have "length ?s1 \<le> length s" by simp
  ultimately show ?thesis using whole [of ?s1] by linarith
qed

lemma next_token_shorter:
  assumes "next_token s = Some (t, r)"
  shows "length r < length s"
proof -
  obtain c cs where s: "skip_space s = c # cs"
    using assms by (auto simp: next_token_def split: list.splits)
  have "length (skip_space s) \<le> length s" by (simp add: skip_space_def length_dropWhile_le)
  then have len: "Suc (length cs) \<le> length s" by (simp add: s)
  have word: "length r < length s" if "lex_word w u (c # cs) = Some (t, r)" "w \<noteq> []" for w u
    using that len by (cases w) (auto simp: lex_word_def split: if_splits)
  have str: "length r < length s" if "map_option (apfst TStr) (lex_string cs) = Some (t, r)"
    using that lex_string_shorter [of cs] len by (cases "lex_string cs") (fastforce simp: apfst_def)+
  have num: "length r < length s" if "map_option (apfst TNum) (lex_number (c # cs)) = Some (t, r)"
    using that lex_number_shorter [of "c # cs"] len
    by (cases "lex_number (c # cs)") (fastforce simp: apfst_def)+
  from assms have "r = cs \<or> map_option (apfst TStr) (lex_string cs) = Some (t, r) \<or>
      map_option (apfst TNum) (lex_number (c # cs)) = Some (t, r) \<or>
      (\<exists>w u. w \<noteq> [] \<and> lex_word w u (c # cs) = Some (t, r))"
    unfolding next_token_def s list.case by (fastforce split: if_splits)
  then show ?thesis using len word str num by auto
qed

section \<open>The machine\<close>

datatype json =
  JNull | JBool bool | JNum string | JStr string | JArr "json list" | JObj "(string \<times> json) list"

text \<open>The open arrays and objects, innermost first, with their members so far in reverse; an open
  object also has the key whose value is awaited.\<close>

datatype frame = InArr "json list" | InObj "(string \<times> json) list" string

datatype expect = Value | ValueOrEnd | Key | KeyOrEnd | Colon | CommaOrEnd | Finished json

type_synonym scanner = "frame list \<times> expect"

definition maxNestingDepth :: nat where
  "maxNestingDepth = 10000"

fun deliver :: "json \<Rightarrow> frame list \<Rightarrow> scanner" where
  "deliver j [] = ([], Finished j)"
| "deliver j (InArr vs # fs) = (InArr (j # vs) # fs, CommaOrEnd)"
| "deliver j (InObj kvs k # fs) = (InObj ((k, j) # kvs) [] # fs, CommaOrEnd)"

definition push :: "frame \<Rightarrow> expect \<Rightarrow> frame list \<Rightarrow> scanner option" where
  "push f e fs = (if length fs < maxNestingDepth then Some (f # fs, e) else None)"

definition scan_value :: "frame list \<Rightarrow> token \<Rightarrow> scanner option" where
  "scan_value fs t =
     (case t of
        TNull \<Rightarrow> Some (deliver JNull fs)
      | TTrue \<Rightarrow> Some (deliver (JBool True) fs)
      | TFalse \<Rightarrow> Some (deliver (JBool False) fs)
      | TNum n \<Rightarrow> Some (deliver (JNum n) fs)
      | TStr s \<Rightarrow> Some (deliver (JStr s) fs)
      | TLBracket \<Rightarrow> push (InArr []) ValueOrEnd fs
      | TLBrace \<Rightarrow> push (InObj [] []) KeyOrEnd fs
      | _ \<Rightarrow> None)"

definition close :: "token \<Rightarrow> frame list \<Rightarrow> scanner option" where
  "close t fs =
     (case (t, fs) of
        (TRBracket, InArr vs # fs) \<Rightarrow> Some (deliver (JArr (rev vs)) fs)
      | (TRBrace, InObj kvs k # fs) \<Rightarrow> Some (deliver (JObj (rev kvs)) fs)
      | _ \<Rightarrow> None)"

definition scan_key :: "frame list \<Rightarrow> token \<Rightarrow> scanner option" where
  "scan_key fs t =
     (case (t, fs) of
        (TStr k, InObj kvs _ # fs) \<Rightarrow> Some (InObj kvs k # fs, Colon)
      | _ \<Rightarrow> None)"

fun scan :: "scanner \<Rightarrow> token \<Rightarrow> scanner option" where
  "scan (fs, Value) t = scan_value fs t"
| "scan (fs, ValueOrEnd) t = (if t = TRBracket then close t fs else scan_value fs t)"
| "scan (fs, Key) t = scan_key fs t"
| "scan (fs, KeyOrEnd) t = (if t = TRBrace then close t fs else scan_key fs t)"
| "scan (fs, Colon) t = (if t = TColon then Some (fs, Value) else None)"
| "scan (fs, CommaOrEnd) t =
     (if t = TComma
      then Some (fs, case fs of InObj _ _ # _ \<Rightarrow> Key | _ \<Rightarrow> Value)
      else close t fs)"
| "scan (fs, Finished j) t = None"

function json_run :: "scanner \<Rightarrow> string \<Rightarrow> (json \<times> string) option" where
  "json_run st s =
     (case snd st of
        Finished j \<Rightarrow> Some (j, s)
      | _ \<Rightarrow> (case next_token s of
                None \<Rightarrow> None
              | Some (t, r) \<Rightarrow> (case scan st t of None \<Rightarrow> None | Some st' \<Rightarrow> json_run st' r)))"
  by pat_completeness auto
termination by (relation "measure (\<lambda>(st, s). length s)") (auto dest: next_token_shorter)

declare json_run.simps [simp del]

text \<open>\<open>Decoder.Decode\<close> reads the first value of its input, \<open>Unmarshal\<close> the whole input.\<close>

definition json_first :: "string \<Rightarrow> json option" where
  "json_first s = map_option fst (json_run ([], Value) s)"

definition json_parse :: "string \<Rightarrow> json option" where
  "json_parse s =
     (case json_run ([], Value) s of
        None \<Rightarrow> None
      | Some (j, r) \<Rightarrow> if skip_space r = [] then Some j else None)"

section \<open>Go values\<close>

text \<open>A field of a struct receives the value of a key that equals its name up to case; the two
  characters beyond ASCII whose case folding is an ASCII letter are the long s and the Kelvin sign.\<close>

fun fold_name :: "string \<Rightarrow> string" where
  "fold_name [] = []"
| "fold_name (c # cs) =
     (if take 2 (c # cs) = [CHR 0xC5, CHR 0xBF] then CHR ''s'' # drop 1 (fold_name cs)
      else if take 3 (c # cs) = [CHR 0xE2, CHR 0x84, CHR 0xAA] then CHR ''k'' # drop 2 (fold_name cs)
      else to_lower c # fold_name cs)"

text \<open>Each decoder takes the old value of its target and fails on a value of another kind; null
  leaves the target alone, except that it clears a map.\<close>

fun decode_string :: "string \<Rightarrow> json \<Rightarrow> string option" where
  "decode_string old JNull = Some old"
| "decode_string old (JStr s) = Some s"
| "decode_string old _ = None"

fun decode_bool :: "bool \<Rightarrow> json \<Rightarrow> bool option" where
  "decode_bool old JNull = Some old"
| "decode_bool old (JBool b) = Some b"
| "decode_bool old _ = None"

fun decode_int :: "int \<Rightarrow> json \<Rightarrow> int option" where
  "decode_int old JNull = Some old"
| "decode_int old (JNum n) = strconv_Atoi n"
| "decode_int old _ = None"

fun fold_option :: "('b \<Rightarrow> 'a \<Rightarrow> 'a option) \<Rightarrow> 'b list \<Rightarrow> 'a \<Rightarrow> 'a option" where
  "fold_option f [] a = Some a"
| "fold_option f (x # xs) a = (case f x a of None \<Rightarrow> None | Some a' \<Rightarrow> fold_option f xs a')"

fun decode_map ::
    "(string, string) fmap option \<Rightarrow> json \<Rightarrow> (string, string) fmap option option" where
  "decode_map old JNull = Some None"
| "decode_map old (JObj kvs) =
     map_option Some (fold_option (\<lambda>(k, v) m. map_option (\<lambda>s. fmupd k s m) (decode_string [] v)) kvs
       (case old of None \<Rightarrow> fmempty | Some m \<Rightarrow> m))"
| "decode_map old _ = None"

fun decode_list :: "('a \<Rightarrow> json \<Rightarrow> 'a option) \<Rightarrow> 'a \<Rightarrow> json \<Rightarrow> 'a list option" where
  "decode_list d zero JNull = Some []"
| "decode_list d zero (JArr vs) = those (map (d zero) vs)"
| "decode_list d zero _ = None"

text \<open>\<open>assign k v x\<close> stores the value of the key \<open>k\<close>, in lower case, into the struct \<open>x\<close>, and is the
  identity on a key that is no field.\<close>

fun decode_struct :: "(string \<Rightarrow> json \<Rightarrow> 'a \<Rightarrow> 'a option) \<Rightarrow> 'a \<Rightarrow> json \<Rightarrow> 'a option" where
  "decode_struct assign old JNull = Some old"
| "decode_struct assign old (JObj kvs) = fold_option (\<lambda>(k, v). assign (fold_name k) v) kvs old"
| "decode_struct assign old _ = None"

section \<open>Marshal\<close>

fun separated :: "string list \<Rightarrow> string" where
  "separated [] = []"
| "separated [x] = x"
| "separated (x # y # ys) = x @ '','' @ separated (y # ys)"

fun json_print :: "json \<Rightarrow> string" where
  "json_print JNull = ''null''"
| "json_print (JBool b) = (if b then ''true'' else ''false'')"
| "json_print (JNum n) = n"
| "json_print (JStr s) = json_quote s"
| "json_print (JArr vs) = ''['' @ separated (map json_print vs) @ '']''"
| "json_print (JObj kvs) =
     ''{'' @ separated (map (\<lambda>(k, v). json_quote k @ '':'' @ json_print v) kvs) @ ''}''"

text \<open>A nil map is null, the keys of a map are written in order.\<close>

definition encode_map :: "(string, string) fmap option \<Rightarrow> json" where
  "encode_map m =
     (case m of
        None \<Rightarrow> JNull
      | Some m \<Rightarrow> JObj (map (\<lambda>(k, v). (k, JStr v)) (sorted_list_of_fmap m)))"

section \<open>Reading what was written\<close>

lemma lower_hex_digit: "k < 16 \<Longrightarrow> is_hex (lower_hex k) \<and> unhex (lower_hex k) = k"
proof -
  have "\<forall>k \<in> set [0..<16]. is_hex (lower_hex k) \<and> unhex (lower_hex k) = k" by code_simp
  then show "k < 16 \<Longrightarrow> is_hex (lower_hex k) \<and> unhex (lower_hex k) = k" by simp
qed

lemma append_single [simp]: "(@) [x] = (#) x"
  by (rule ext) simp

lemma hex4_ascii:
  assumes "n < 128"
  shows "hex4 ([CHR ''0'', CHR ''0'', lower_hex (n div 16), lower_hex (n mod 16)] @ r) = Some n"
proof -
  have "n div 16 < 16" using assms by simp
  then show ?thesis
    using lower_hex_digit [of "n div 16"] lower_hex_digit [of "n mod 16"]
    by (simp add: hex4_def is_hex_def unhex_def is_digit_def)
qed

lemma quotes [simp]: "backslash \<noteq> quote" "quote \<noteq> backslash"
  by (simp_all add: backslash_def quote_def)

lemma rune_len_prefix: "rune_len s = n \<Longrightarrow> n \<noteq> 0 \<Longrightarrow> rune_len (take n s @ x) = n"
proof (cases s)
  case (Cons a t)
  assume n: "rune_len s = n" "n \<noteq> 0"
  obtain lo hi where lead: "rune_lead a = (n, lo, hi)"
    using n Cons by (auto simp: rune_len_def split: prod.splits if_splits)
  obtain m where m: "n = Suc m" using n(2) by (cases n) auto
  show ?thesis
  proof (cases m)
    case 0
    then show ?thesis using lead m Cons by (simp add: rune_len_def)
  next
    case (Suc k)
    then have t: "m \<le> length t" "between (hd t) lo hi" "list_all (\<lambda>c. between c 0x80 0xBF) (take m t)"
      using n lead Cons m by (auto simp: rune_len_def split: if_splits)
    then have "hd (take m t @ x) = hd t" using Suc by (cases t) auto
    then show ?thesis using t lead m Cons Suc by (simp add: rune_len_def)
  qed
qed (simp add: rune_len_def)

lemma lex_short:
  "unescape_short e = Some x \<Longrightarrow> e \<noteq> CHR ''u'' \<Longrightarrow>
     lex_string (backslash # e # r) = map_option (apfst (\<lambda>t. x # t)) (lex_string r)"
  by (subst lex_string.simps) simp

lemma lex_hex:
  "n < 128 \<Longrightarrow> lex_string ([backslash, CHR ''u'', CHR ''0'', CHR ''0'', lower_hex (n div 16), lower_hex (n mod 16)] @ r) =
     map_option (apfst (\<lambda>t. char_of n # t)) (lex_string r)"
  using hex4_ascii [of n r] by (subst lex_string.simps) (simp add: encode_rune_def)

lemma lex_plain:
  "between c 0 127 \<Longrightarrow> \<not> between c 0 31 \<Longrightarrow> c \<noteq> quote \<Longrightarrow> c \<noteq> backslash \<Longrightarrow>
     lex_string (c # r) = map_option (apfst (\<lambda>t. c # t)) (lex_string r)"
  by (subst lex_string.simps) simp

lemma unescape_shorts [simp]:
  "unescape_short quote = Some quote" "unescape_short backslash = Some backslash"
  "unescape_short CHR ''b'' = Some (CHR 0x08)" "unescape_short CHR ''f'' = Some (CHR 0x0C)"
  "unescape_short CHR ''n'' = Some (CHR 0x0A)" "unescape_short CHR ''r'' = Some (CHR 0x0D)"
  "unescape_short CHR ''t'' = Some (CHR 0x09)" "quote \<noteq> CHR ''u''" "backslash \<noteq> CHR ''u''"
  by (simp_all add: unescape_short_def quote_def backslash_def)

lemma lex_ascii:
  assumes "between c 0 127"
  shows "lex_string (escape_ascii c @ r) = map_option (apfst (\<lambda>t. c # t)) (lex_string r)"
proof (cases "between c 0 31 \<or> c \<in> set ''<>&''")
  case True
  have "of_char c < (128 :: nat)" using assms by (simp add: between_def)
  note hex = lex_hex [OF this, of r, simplified]
  show ?thesis using True by (simp add: escape_ascii_def lex_short hex)
next
  case False
  then show ?thesis using assms
    by (auto simp: escape_ascii_def lex_short lex_plain between_def)
qed

lemma lex_string_escape:
  assumes "valid_utf8 s"
  shows "lex_string (escape s @ quote # r) = Some (s, r)"
  using assms
proof (induction s rule: valid_utf8.induct)
  case (1 s)
  show ?case
  proof (cases s)
    case Nil
    then show ?thesis by (simp add: escape.simps lex_string.simps)
  next
    case (Cons c cs)
    let ?n = "rune_len s"
    have n: "?n \<noteq> 0" "valid_utf8 (drop ?n s)"
      using "1.prems" Cons valid_utf8.simps [of s] by (auto split: if_splits)
    have IH: "lex_string (escape (drop ?n s) @ quote # r) = Some (drop ?n s, r)"
      using "1.IH" n Cons by simp
    show ?thesis
    proof (cases "between c 0 127")
      case True
      then have "?n = 1" using Cons by (simp add: rune_len_def rune_lead_def)
      with IH Cons True show ?thesis by (simp add: escape.simps [of "c # cs"] lex_ascii)
    next
      case False
      have runes: "encode_rune 8232 = [CHR 0xE2, CHR 0x80, CHR 0xA8]" "encode_rune 8233 = [CHR 0xE2, CHR 0x80, CHR 0xA9]"
        using char_of_char [of "CHR 0xE2"] char_of_char [of "CHR 0x80"] char_of_char [of "CHR 0xA8"]
          char_of_char [of "CHR 0xA9"] by (simp_all add: encode_rune_def)
      have sep: "lex_string ([backslash] @ ''u2028'' @ u) = map_option (apfst (\<lambda>t. [CHR 0xE2, CHR 0x80, CHR 0xA8] @ t)) (lex_string u)"
        "lex_string ([backslash] @ ''u2029'' @ u) = map_option (apfst (\<lambda>t. [CHR 0xE2, CHR 0x80, CHR 0xA9] @ t)) (lex_string u)" for u
        by (subst lex_string.simps, simp add: hex4_def is_hex_def unhex_def is_digit_def runes)+
      have copy: "lex_string (take ?n s @ u) = map_option (apfst (\<lambda>t. take ?n s @ t)) (lex_string u)" for u
      proof -
        have "?n \<le> length s" by (rule rune_len_le)
        then have eq: "take ?n (take ?n s @ u) = take ?n s" "drop ?n (take ?n s @ u) = u" by simp_all
        obtain v where v: "take ?n s @ u = c # v" using n(1) Cons by (cases ?n) auto
        have len: "rune_len (c # v) = ?n" using rune_len_prefix [of s ?n u] n(1) v by simp
        show ?thesis unfolding v
          using False n(1) len eq v
          by (subst lex_string.simps) (auto simp: between_def quote_def backslash_def Let_def)
      qed
      have s: "take ?n s @ drop ?n s = s" by simp
      have esc: "escape s =
          (if take ?n s = [CHR 0xE2, CHR 0x80, CHR 0xA8] then [backslash] @ ''u2028'' @ escape (drop ?n s)
           else if take ?n s = [CHR 0xE2, CHR 0x80, CHR 0xA9] then [backslash] @ ''u2029'' @ escape (drop ?n s)
           else take ?n s @ escape (drop ?n s))"
        using n(1) Cons False by (subst escape.simps) (simp add: Let_def)
      consider "take ?n s = [CHR 0xE2, CHR 0x80, CHR 0xA8]" | "take ?n s = [CHR 0xE2, CHR 0x80, CHR 0xA9]"
        | "escape s = take ?n s @ escape (drop ?n s)" unfolding esc by presburger
      then show ?thesis
      proof cases
        case 1
        then have "escape s @ quote # r = [backslash] @ ''u2028'' @ (escape (drop ?n s) @ quote # r)"
          by (simp add: esc)
        with sep(1) 1 s IH show ?thesis by (metis apfst_conv option.simps(9))
      next
        case 2
        then have "escape s @ quote # r = [backslash] @ ''u2029'' @ (escape (drop ?n s) @ quote # r)"
          by (simp add: esc)
        with sep(2) 2 s IH show ?thesis by (metis apfst_conv option.simps(9))
      next
        case 3
        then show ?thesis using copy [of "escape (drop ?n s) @ quote # r"] IH s by simp
      qed
    qed
  qed
qed


lemma lex_quote: "valid_utf8 s \<Longrightarrow> next_token (json_quote s @ r) = Some (TStr s, r)"
  by (simp add: next_token_def skip_space_def json_quote_def lex_string_escape)
    (simp add: quote_def lex_string_escape [unfolded quote_def])

lemma next_token_punct [simp]:
  "next_token (CHR ''{'' # r) = Some (TLBrace, r)" "next_token (CHR ''}'' # r) = Some (TRBrace, r)"
  "next_token (CHR ''['' # r) = Some (TLBracket, r)" "next_token (CHR '']'' # r) = Some (TRBracket, r)"
  "next_token (CHR '':'' # r) = Some (TColon, r)" "next_token (CHR '','' # r) = Some (TComma, r)"
  "next_token (''null'' @ r) = Some (TNull, r)" "next_token (''true'' @ r) = Some (TTrue, r)"
  "next_token (''false'' @ r) = Some (TFalse, r)"
  by (simp_all add: next_token_def skip_space_def quote_def lex_word_def is_digit_def)

lemmas next_token_words [simp] = next_token_punct(7-9) [unfolded append_Cons append_Nil]

text \<open>Values without numbers, of valid strings, and how deep they nest.\<close>

fun plain_json :: "json \<Rightarrow> bool" where
  "plain_json (JNum n) = False"
| "plain_json (JStr s) = valid_utf8 s"
| "plain_json (JArr vs) = list_all plain_json vs"
| "plain_json (JObj kvs) = list_all (\<lambda>(k, v). valid_utf8 k \<and> plain_json v) kvs"
| "plain_json _ = True"

fun depth :: "json \<Rightarrow> nat" where
  "depth (JArr vs) = Suc (Max (set (0 # map depth vs)))"
| "depth (JObj kvs) = Suc (Max (set (0 # map (\<lambda>(k, v). depth v) kvs)))"
| "depth _ = 0"

lemma json_run_step:
  assumes "next_token s = Some (t, r)" and "scan (fs, e) t = Some st" and "\<And>j. e \<noteq> Finished j"
  shows "json_run (fs, e) s = json_run st r"
  using assms by (subst json_run.simps) (auto split: expect.splits)

lemma json_run_print:
  assumes "plain_json j" and "length fs + depth j \<le> maxNestingDepth"
    and "e = Value \<or> e = ValueOrEnd"
  shows "json_run (fs, e) (json_print j @ r) = json_run (deliver j fs) r"
  using assms
proof (induction j arbitrary: fs e r)
  case JNull
  show ?case by (rule json_run_step) (use JNull in \<open>auto simp: scan_value_def\<close>)
next
  case (JBool b)
  show ?case by (cases b; simp; rule json_run_step) (use JBool in \<open>auto simp: scan_value_def\<close>)
next
  case (JStr s)
  show ?case
    by (simp, rule json_run_step [OF lex_quote]) (use JStr in \<open>auto simp: scan_value_def\<close>)
next
  case (JArr vs)
  have item: "json_run (InArr us # fs, e') (json_print v @ r') = json_run (InArr (v # us) # fs, CommaOrEnd) r'"
    if "v \<in> set vs" "e' = Value \<or> e' = ValueOrEnd" for v us e' r'
  proof -
    have "depth v \<le> Max (insert 0 (depth ` set vs))" using that(1) by (intro Max_ge) auto
    then have "length (InArr us # fs) + depth v \<le> maxNestingDepth" using JArr.prems(2) by simp
    from JArr.IH [OF that(1) _ this that(2)] show ?thesis
      using JArr.prems(1) that(1) by (simp add: list_all_iff)
  qed
  have items: "json_run (InArr us # fs, e') (separated (map json_print ws) @ '']'' @ r) =
      json_run (deliver (JArr (rev us @ ws)) fs) r"
    if "set ws \<subseteq> set vs" "ws \<noteq> []" "e' = Value \<or> e' = ValueOrEnd" for us ws e'
    using that
  proof (induction ws arbitrary: us e')
    case (Cons v ws)
    show ?case
    proof (cases ws)
      case Nil
      have "json_run (InArr (v # us) # fs, CommaOrEnd) ('']'' @ r) = json_run (deliver (JArr (rev us @ [v])) fs) r"
        by (rule json_run_step, simp, simp add: close_def, simp)
      then show ?thesis using item [of v e' us "'']'' @ r"] Cons.prems Nil by simp
    next
      case (Cons w ws')
      have "json_run (InArr (v # us) # fs, CommaOrEnd) ('','' @ separated (map json_print ws) @ '']'' @ r) =
          json_run (InArr (v # us) # fs, Value) (separated (map json_print ws) @ '']'' @ r)"
        by (rule json_run_step, simp, simp, simp)
      then show ?thesis
        using item [of v e' us "'','' @ separated (map json_print ws) @ '']'' @ r"]
          Cons.IH [where us = "v # us" and e' = Value] Cons.prems Cons by simp
    qed
  qed simp
  have "length fs < maxNestingDepth" using JArr.prems by simp
  then have "json_run (fs, e) (''['' @ separated (map json_print vs) @ '']'' @ r) =
      json_run ([InArr []] @ fs, ValueOrEnd) (separated (map json_print vs) @ '']'' @ r)"
    by (intro json_run_step) (use JArr.prems in \<open>auto simp: scan_value_def push_def\<close>)
  also have "\<dots> = json_run (deliver (JArr vs) fs) r"
  proof (cases "vs = []")
    case True
    then show ?thesis by (simp, intro json_run_step, simp, simp add: close_def, simp)
  qed (use items [where ws = vs and us = "[]" and e' = ValueOrEnd] in simp)
  finally show ?case by simp
next
  case (JObj kvs)
  let ?member = "\<lambda>(k, v). json_quote k @ '':'' @ json_print v"
  have item: "json_run (InObj us k0 # fs, e') (json_quote k @ '':'' @ json_print v @ r') =
      json_run (InObj ((k, v) # us) [] # fs, CommaOrEnd) r'"
    if "(k, v) \<in> set kvs" "e' = Key \<or> e' = KeyOrEnd" for k v us k0 e' r'
  proof -
    have k: "valid_utf8 k" "plain_json v" using JObj.prems(1) that(1) by (auto simp: list_all_iff)
    have "depth v \<le> Max (insert 0 ((\<lambda>(k, v). depth v) ` set kvs))"
      using that(1) by (intro Max_ge) force+
    then have "length (InObj us k # fs) + depth v \<le> maxNestingDepth" using JObj.prems(2) by simp
    from JObj.IH [OF that(1) _ k(2) this] have v: "json_run (InObj us k # fs, Value) (json_print v @ r') =
        json_run (InObj ((k, v) # us) [] # fs, CommaOrEnd) r'" by simp
    have "json_run (InObj us k0 # fs, e') (json_quote k @ '':'' @ json_print v @ r') =
        json_run (InObj us k # fs, Colon) ('':'' @ json_print v @ r')"
      by (rule json_run_step [OF lex_quote [OF k(1)]]) (use that(2) in \<open>auto simp: scan_key_def\<close>)
    also have "\<dots> = json_run (InObj us k # fs, Value) (json_print v @ r')"
      by (rule json_run_step, simp, simp, simp)
    finally show ?thesis using v by simp
  qed
  have items: "json_run (InObj us k0 # fs, e') (separated (map ?member ws) @ ''}'' @ r) =
      json_run (deliver (JObj (rev us @ ws)) fs) r"
    if "set ws \<subseteq> set kvs" "ws \<noteq> []" "e' = Key \<or> e' = KeyOrEnd" for us ws k0 e'
    using that
  proof (induction ws arbitrary: us k0 e')
    case (Cons kv ws)
    obtain k v where kv: "kv = (k, v)" by (cases kv)
    show ?case
    proof (cases ws)
      case Nil
      have "json_run (InObj ((k, v) # us) [] # fs, CommaOrEnd) (''}'' @ r) =
          json_run (deliver (JObj (rev us @ [kv])) fs) r"
        by (rule json_run_step, simp, simp add: close_def kv, simp)
      then show ?thesis using item [of k v e' us k0 "''}'' @ r"] Cons.prems Nil kv by simp
    next
      case (Cons w ws')
      have "json_run (InObj ((k, v) # us) [] # fs, CommaOrEnd) ('','' @ separated (map ?member ws) @ ''}'' @ r) =
          json_run (InObj ((k, v) # us) [] # fs, Key) (separated (map ?member ws) @ ''}'' @ r)"
        by (rule json_run_step, simp, simp, simp)
      then show ?thesis
        using item [of k v e' us k0 "'','' @ separated (map ?member ws) @ ''}'' @ r"]
          Cons.IH [where us = "(k, v) # us" and e' = Key and ?k0.0 = "[]"] Cons.prems Cons kv by simp
    qed
  qed simp
  have "length fs < maxNestingDepth" using JObj.prems by simp
  then have "json_run (fs, e) (''{'' @ separated (map ?member kvs) @ ''}'' @ r) =
      json_run ([InObj [] []] @ fs, KeyOrEnd) (separated (map ?member kvs) @ ''}'' @ r)"
    by (intro json_run_step) (use JObj.prems in \<open>auto simp: scan_value_def push_def\<close>)
  also have "\<dots> = json_run (deliver (JObj kvs) fs) r"
  proof (cases "kvs = []")
    case True
    then show ?thesis by (simp, intro json_run_step, simp, simp add: close_def, simp)
  qed (use items [where ws = kvs and us = "[]" and e' = KeyOrEnd and ?k0.0 = "[]"] in simp)
  finally show ?case by simp
qed simp

lemma json_parse_print:
  assumes "plain_json j" and "depth j \<le> maxNestingDepth"
  shows "json_parse (json_print j) = Some j"
  using json_run_print [OF assms(1), of "[]" Value "[]"] assms(2)
  by (simp add: json_parse_def json_run.simps skip_space_def)

end
