(* ===== verification/Rhobs_Client.thy ===== *)
theory Rhobs_Client
  imports Go_Net Go_Json
begin

text \<open>
  pkg/rhobs: the client of the RHOBS synthetics API and its metrics.  A client keeps an OIDC token
  between requests; each method takes the client and returns it with the token it left behind.
\<close>

section \<open>metrics.go\<close>

definition status_label :: "bool \<Rightarrow> string" where
  "status_label success = (if success then ''success'' else ''error'')"

definition RecordAPIRequest :: "'w Net \<Rightarrow> string \<Rightarrow> int \<Rightarrow> bool \<Rightarrow> ('w, unit) io" where
  "RecordAPIRequest N operation duration success =
     do { metric_Observe N ''rhobs_route_monitor_operator_api_request_duration_seconds''
            [operation, status_label success] duration;
          metric_Inc N ''rhobs_route_monitor_operator_api_requests_total''
            [operation, status_label success] }"

definition RecordOIDCTokenRefresh :: "'w Net \<Rightarrow> int \<Rightarrow> bool \<Rightarrow> ('w, unit) io" where
  "RecordOIDCTokenRefresh N duration success =
     do { metric_Observe N ''rhobs_route_monitor_operator_oidc_token_refresh_duration_seconds'' [] duration;
          metric_Inc N ''rhobs_route_monitor_operator_oidc_token_refresh_total'' [status_label success] }"

definition RecordProbeDeletionTimeout :: "'w Net \<Rightarrow> ('w, unit) io" where
  "RecordProbeDeletionTimeout N =
     metric_Inc N ''rhobs_route_monitor_operator_probe_deletion_timeout_total'' []"

definition SetInfo :: "'w Net \<Rightarrow> string \<Rightarrow> ('w, unit) io" where
  "SetInfo N version = metric_Set N ''rhobs_route_monitor_operator_info'' [version] 1"

text \<open>The deferred record of a request: the time since \<open>start\<close> and whether it succeeded.\<close>

definition timed :: "'w Net \<Rightarrow> (int \<Rightarrow> bool \<Rightarrow> ('w, unit) io) \<Rightarrow> ('w, bool \<times> 'a) io \<Rightarrow> ('w, 'a) io" where
  "timed N record_it body =
     do { start \<leftarrow> now N;
          (success, a) \<leftarrow> body;
          stop \<leftarrow> now N;
          _ \<leftarrow> record_it (stop - start) success;
          ret a }"

section \<open>Probes\<close>

record ProbeRequest =
  pq_StaticURL :: string
  pq_Labels :: "string_map option"

record ProbeResponse =
  pp_ID :: string
  pp_Labels :: "string_map option"
  pp_Status :: string

definition labels_read :: "string_map option \<Rightarrow> string \<Rightarrow> string" where
  "labels_read m k = (case m of None \<Rightarrow> [] | Some m \<Rightarrow> map_read m k)"

definition NewProbeRequest :: "string \<Rightarrow> string_map option \<Rightarrow> ProbeRequest" where
  "NewProbeRequest staticURL labels = \<lparr>pq_StaticURL = staticURL, pq_Labels = labels\<rparr>"

definition NewClusterProbeRequest ::
    "'w Net \<Rightarrow> string \<Rightarrow> string \<Rightarrow> string \<Rightarrow> bool \<Rightarrow> ('w, ProbeRequest) io" where
  "NewClusterProbeRequest N clusterID monitoringURL region isPrivate =
     do { t \<leftarrow> now N;
          let labels = fmap_of_list [(''cluster-id'', clusterID),
                (''private'', if isPrivate then ''true'' else ''false''),
                (''region'', region), (''last-reconciled'', format_stamp t)];
          ret (NewProbeRequest monitoringURL (Some labels)) }"

definition marshal_ProbeRequest :: "ProbeRequest \<Rightarrow> string" where
  "marshal_ProbeRequest req =
     json_print (JObj [(''static_url'', JStr (pq_StaticURL req)), (''labels'', encode_map (pq_Labels req))])"

record ProbePatchRequest =
  pa_Status :: string
  pa_Labels :: "string_map option option"  \<comment> \<open>a pointer to a map, which may be nil\<close>

definition marshal_ProbePatchRequest :: "ProbePatchRequest \<Rightarrow> string" where
  "marshal_ProbePatchRequest p = json_print (JObj
     ((if pa_Status p = [] then [] else [(''status'', JStr (pa_Status p))]) @
      (case pa_Labels p of None \<Rightarrow> [] | Some m \<Rightarrow> [(''labels'', encode_map m)])))"

definition empty_ProbeResponse :: ProbeResponse where
  "empty_ProbeResponse = \<lparr>pp_ID = [], pp_Labels = None, pp_Status = []\<rparr>"

definition assign_ProbeResponse :: "string \<Rightarrow> json \<Rightarrow> ProbeResponse \<Rightarrow> ProbeResponse option" where
  "assign_ProbeResponse k v p =
     (if k = ''id'' then map_option (\<lambda>s. p\<lparr>pp_ID := s\<rparr>) (decode_string (pp_ID p) v)
      else if k = ''labels'' then map_option (\<lambda>m. p\<lparr>pp_Labels := m\<rparr>) (decode_map (pp_Labels p) v)
      else if k = ''status'' then map_option (\<lambda>s. p\<lparr>pp_Status := s\<rparr>) (decode_string (pp_Status p) v)
      else Some p)"

definition unmarshal :: "(string \<Rightarrow> json \<Rightarrow> 'a \<Rightarrow> 'a option) \<Rightarrow> 'a \<Rightarrow> string \<Rightarrow> go_error + 'a" where
  "unmarshal assign zero body =
     (case json_parse body of
        None \<Rightarrow> Inl (errors_New ''invalid JSON'')
      | Some j \<Rightarrow> (case decode_struct assign zero j of
                    None \<Rightarrow> Inl (errors_New ''json: cannot unmarshal'')
                  | Some x \<Rightarrow> Inr x))"

text \<open>\<open>ProbesListResponse\<close> is the list of its field \<open>probes\<close>.\<close>

type_synonym ProbesListResponse = "ProbeResponse list"

definition assign_ProbesList :: "string \<Rightarrow> json \<Rightarrow> ProbesListResponse \<Rightarrow> ProbesListResponse option" where
  "assign_ProbesList k v ps =
     (if k = ''probes''
      then decode_list (decode_struct assign_ProbeResponse) empty_ProbeResponse v
      else Some ps)"

section \<open>The client\<close>

record OIDCConfig =
  oidc_ClientID :: string
  oidc_ClientSecret :: string
  oidc_IssuerURL :: string

record tokenResponse =
  tr_AccessToken :: string
  tr_TokenType :: string
  tr_ExpiresIn :: int

record Client =
  cl_baseURL :: string
  cl_tenant :: string
  cl_oidcConfig :: "OIDCConfig option"
  cl_accessToken :: string
  cl_tokenExpiry :: int

text \<open>Go's zero time, as nanoseconds since 1970.\<close>

definition zero_time :: int where "zero_time = - 62135596800 * Second"

definition NewClient :: "string \<Rightarrow> string \<Rightarrow> Client" where
  "NewClient baseURL tenant =
     \<lparr>cl_baseURL = strings_TrimSuffix baseURL ''/'', cl_tenant = tenant, cl_oidcConfig = None,
      cl_accessToken = [], cl_tokenExpiry = zero_time\<rparr>"

definition NewClientWithOIDC :: "string \<Rightarrow> string \<Rightarrow> OIDCConfig \<Rightarrow> Client" where
  "NewClientWithOIDC baseURL tenant oidcConfig =
     \<lparr>cl_baseURL = strings_TrimSuffix baseURL ''/'', cl_tenant = tenant, cl_oidcConfig = Some oidcConfig,
      cl_accessToken = [], cl_tokenExpiry = zero_time\<rparr>"

definition apiErrorPrefix :: string where
  "apiErrorPrefix = ''API request failed with status''"

definition IsNon200Error :: "go_error option \<Rightarrow> bool" where
  "IsNon200Error err = (case err of None \<Rightarrow> False | Some e \<Rightarrow> strings_Contains (Error e) apiErrorPrefix)"

definition api_error :: "int \<Rightarrow> string \<Rightarrow> go_error" where
  "api_error code body = errors_New (apiErrorPrefix @ '' '' @ itoa code @ '': '' @ body)"

definition buildProbesURL :: "Client \<Rightarrow> string" where
  "buildProbesURL c =
     (if strings_Contains (cl_baseURL c) ''/probes'' then cl_baseURL c
      else cl_baseURL c @ ''/api/metrics/v1/'' @ cl_tenant c @ ''/probes'')"

definition buildProbeURL :: "Client \<Rightarrow> string \<Rightarrow> string" where
  "buildProbeURL c probeID =
     (if strings_Contains (cl_baseURL c) ''/probes''
      then (if strings_HasSuffix (cl_baseURL c) ''/probes'' then cl_baseURL c @ ''/'' @ probeID
            else cl_baseURL c @ ''/'' @ probeID)
      else cl_baseURL c @ ''/api/metrics/v1/'' @ cl_tenant c @ ''/probes/'' @ probeID)"

section \<open>Tokens\<close>

definition assign_tokenResponse :: "string \<Rightarrow> json \<Rightarrow> tokenResponse \<Rightarrow> tokenResponse option" where
  "assign_tokenResponse k v r =
     (if k = ''access_token'' then map_option (\<lambda>s. r\<lparr>tr_AccessToken := s\<rparr>) (decode_string (tr_AccessToken r) v)
      else if k = ''token_type'' then map_option (\<lambda>s. r\<lparr>tr_TokenType := s\<rparr>) (decode_string (tr_TokenType r) v)
      else if k = ''expires_in'' then map_option (\<lambda>n. r\<lparr>tr_ExpiresIn := n\<rparr>) (decode_int (tr_ExpiresIn r) v)
      else Some r)"

text \<open>The cached token may be used up to thirty seconds before it expires.\<close>

definition token_fresh :: "'w Net \<Rightarrow> Client \<Rightarrow> ('w, bool) io" where
  "token_fresh N c =
     (if cl_accessToken c = [] then ret False
      else do { t \<leftarrow> now N; ret (t < cl_tokenExpiry c + (- 30 * Second)) })"

definition tokenURL :: "OIDCConfig \<Rightarrow> string" where
  "tokenURL o' =
     (if \<not> strings_HasSuffix (oidc_IssuerURL o') ''/token''
      then strings_TrimSuffix (oidc_IssuerURL o') ''/'' @ ''/token'' else oidc_IssuerURL o')"

definition token_form :: "OIDCConfig \<Rightarrow> string" where
  "token_form o' = Encode [(''client_id'', oidc_ClientID o'), (''client_secret'', oidc_ClientSecret o'),
     (''grant_type'', ''client_credentials''), (''scope'', ''profile'')]"

text \<open>\<open>time.Duration(n) * time.Second\<close> wraps around in 64 bits.\<close>

definition wrap64 :: "int \<Rightarrow> int" where
  "wrap64 n = (n + 2 ^ 63) mod 2 ^ 64 - 2 ^ 63"

text \<open>The answer to a token request, with whether the refresh counts as successful.\<close>

definition token_answer :: "go_error + http_response \<Rightarrow> bool \<times> (go_error + tokenResponse)" where
  "token_answer r =
     (case r of
        Inl err \<Rightarrow> (False, Inl (wrap_w ''failed to request access token'' err))
      | Inr resp \<Rightarrow>
          (case resp_Body resp of
             Inl err \<Rightarrow> (False, Inl (wrap_w ''failed to read token response'' err))
           | Inr body \<Rightarrow>
               if resp_StatusCode resp \<noteq> 200
               then (False, Inl (errors_New (''token request failed with status '' @
                      itoa (resp_StatusCode resp) @ '': '' @ body)))
               else (case unmarshal assign_tokenResponse
                            \<lparr>tr_AccessToken = [], tr_TokenType = [], tr_ExpiresIn = 0\<rparr> body of
                       Inl err \<Rightarrow> (True, Inl (wrap_w ''failed to parse token response'' err))
                     | Inr tokenResp \<Rightarrow> (True, Inr tokenResp))))"

definition refreshAccessToken ::
    "'w Net \<Rightarrow> OIDCConfig \<Rightarrow> Client \<Rightarrow> ('w, (go_error + string) \<times> Client) io" where
  "refreshAccessToken N o' c =
     do { fresh \<leftarrow> token_fresh N c;
          if fresh then ret (Inr (cl_accessToken c), c)
          else case NewRequest ''POST'' (tokenURL o') (token_form o') of
            Inl err \<Rightarrow> ret (Inl (wrap_w ''failed to create token request'' err), c)
          | Inr req0 \<Rightarrow>
              do { let req = Header_Set ''Accept'' ''application/json''
                     (Header_Set ''Content-Type'' ''application/x-www-form-urlencoded'' req0);
                   timed N (RecordOIDCTokenRefresh N) (do { r \<leftarrow> http_Do N True req;
                     (case token_answer r of
                        (success, Inl err) \<Rightarrow> ret (success, (Inl err, c))
                      | (success, Inr tokenResp) \<Rightarrow>
                          do { t' \<leftarrow> now N;
                               ret (success, (Inr (tr_AccessToken tokenResp),
                                 c\<lparr>cl_accessToken := tr_AccessToken tokenResp,
                                   cl_tokenExpiry := t' + wrap64 (tr_ExpiresIn tokenResp * Second)\<rparr>)) }) }) } }"

definition GetAccessToken :: "'w Net \<Rightarrow> Client \<Rightarrow> ('w, (go_error + string) \<times> Client) io" where
  "GetAccessToken N c =
     (case cl_oidcConfig c of
        None \<Rightarrow> ret (Inr [], c)
      | Some o' \<Rightarrow>
          do { fresh \<leftarrow> token_fresh N c;
               if fresh then ret (Inr (cl_accessToken c), c) else refreshAccessToken N o' c })"

definition addAuthHeaders ::
    "'w Net \<Rightarrow> Client \<Rightarrow> http_request \<Rightarrow> ('w, (go_error + http_request) \<times> Client) io" where
  "addAuthHeaders N c req =
     (if cl_oidcConfig c = None then ret (Inr req, c)
      else do { (r, c') \<leftarrow> GetAccessToken N c;
                (case r of
                   Inl err \<Rightarrow> ret (Inl (wrap_w ''failed to get access token'' err), c')
                 | Inr token \<Rightarrow>
                     if token \<noteq> [] then ret (Inr (Header_Set ''Authorization'' (''Bearer '' @ token) req), c')
                     else ret (Inr req, c')) })"

definition addRHOBSHeaders :: "Client \<Rightarrow> http_request \<Rightarrow> http_request" where
  "addRHOBSHeaders c req =
     (let req' = Header_Set ''X-Tenant'' (cl_tenant c) req
      in case cl_oidcConfig c of
           None \<Rightarrow> req'
         | Some o' \<Rightarrow> Header_Set ''X-Username'' (oidc_ClientID o') req')"

section \<open>Operations\<close>

text \<open>The headers every request carries.\<close>

definition authorized ::
    "'w Net \<Rightarrow> Client \<Rightarrow> http_request \<Rightarrow> ('w, (go_error + http_request) \<times> Client) io" where
  "authorized N c req =
     do { (r, c') \<leftarrow> addAuthHeaders N c (addRHOBSHeaders c req);
          ret (case r of Inl err \<Rightarrow> Inl (wrap_w ''failed to add auth headers'' err) | Inr req' \<Rightarrow> Inr req', c') }"

text \<open>The answer to a request to create a probe, with whether the request counts as successful.\<close>

definition create_answer :: "ProbeRequest \<Rightarrow> go_error + http_response \<Rightarrow> bool \<times> (go_error + ProbeResponse)" where
  "create_answer req r =
     (case r of
        Inl err \<Rightarrow> (False, Inl (wrap_w ''failed to send HTTP request'' err))
      | Inr resp \<Rightarrow>
          (case resp_Body resp of
             Inl err \<Rightarrow> (False, Inl (wrap_w ''failed to read response body'' err))
           | Inr body \<Rightarrow>
               let code = resp_StatusCode resp; apiSuccess = (code \<in> {200, 201, 409}) in
               if code = 409
               then (apiSuccess, Inr \<lparr>pp_ID = ''existing'', pp_Labels = pq_Labels req, pp_Status = ''active''\<rparr>)
               else if code \<noteq> 200 \<and> code \<noteq> 201 then (apiSuccess, Inl (api_error code body))
               else (case unmarshal assign_ProbeResponse empty_ProbeResponse body of
                       Inl err \<Rightarrow> (apiSuccess, Inl (wrap_w ''failed to unmarshal response'' err))
                     | Inr probeResp \<Rightarrow> (apiSuccess, Inr probeResp))))"

definition CreateProbe ::
    "'w Net \<Rightarrow> Client \<Rightarrow> ProbeRequest \<Rightarrow> ('w, (go_error + ProbeResponse) \<times> Client) io" where
  "CreateProbe N c req =
     (case NewRequest ''POST'' (buildProbesURL c) (marshal_ProbeRequest req) of
        Inl err \<Rightarrow> ret (Inl (wrap_w ''failed to create HTTP request'' err), c)
      | Inr httpReq \<Rightarrow>
          do { (r, c') \<leftarrow> authorized N c (Header_Set ''Content-Type'' ''application/json'' httpReq);
               (case r of
                  Inl err \<Rightarrow> ret (Inl err, c')
                | Inr httpReq' \<Rightarrow>
                    timed N (RecordAPIRequest N ''create_probe'')
                      (do { resp \<leftarrow> http_Do N True httpReq';
                            (case create_answer req resp of
                               (apiSuccess, a) \<Rightarrow> ret (apiSuccess, (a, c'))) })) })"

text \<open>The query of a URL with one more value, as \<open>Query\<close>, \<open>Add\<close> and \<open>Encode\<close> make it.\<close>

definition label_query :: "string \<Rightarrow> string \<Rightarrow> string" where
  "label_query url clusterID =
     Encode_sorted (url_Query url @ [(''label_selector'', ''cluster-id='' @ clusterID)])"

definition get_answer :: "string \<Rightarrow> go_error + http_response \<Rightarrow> bool \<times> (go_error + ProbeResponse option)" where
  "get_answer clusterID r =
     (case r of
        Inl err \<Rightarrow> (False, Inl (wrap_w ''failed to send HTTP request'' err))
      | Inr resp \<Rightarrow>
          (case resp_Body resp of
             Inl err \<Rightarrow> (False, Inl (wrap_w ''failed to read response body'' err))
           | Inr body \<Rightarrow>
               let code = resp_StatusCode resp; apiSuccess = (code \<in> {200, 404}) in
               if code = 404 then (apiSuccess, Inr None)
               else if code \<noteq> 200 then (apiSuccess, Inl (api_error code body))
               else (case unmarshal assign_ProbesList [] body of
                       Inl err \<Rightarrow> (apiSuccess, Inl (wrap_w ''failed to unmarshal response'' err))
                     | Inr probes \<Rightarrow>
                         (apiSuccess, Inr (find (\<lambda>probe. pp_Labels probe \<noteq> None \<and>
                            labels_read (pp_Labels probe) ''cluster-id'' = clusterID) probes)))))"

definition GetProbe ::
    "'w Net \<Rightarrow> Client \<Rightarrow> string \<Rightarrow> ('w, (go_error + ProbeResponse option) \<times> Client) io" where
  "GetProbe N c clusterID =
     (case NewRequest ''GET'' (buildProbesURL c) [] of
        Inl err \<Rightarrow> ret (Inl (wrap_w ''failed to create HTTP request'' err), c)
      | Inr httpReq \<Rightarrow>
          do { (r, c') \<leftarrow> authorized N c
                 (httpReq\<lparr>hr_query := Some (label_query (buildProbesURL c) clusterID)\<rparr>);
               (case r of
                  Inl err \<Rightarrow> ret (Inl err, c')
                | Inr httpReq' \<Rightarrow>
                    timed N (RecordAPIRequest N ''get_probe'')
                      (do { resp \<leftarrow> http_Do N True httpReq';
                            (case get_answer clusterID resp of
                               (apiSuccess, a) \<Rightarrow> ret (apiSuccess, (a, c'))) })) })"

text \<open>A body that is read for an error message only: what could not be read is left out.\<close>

definition body_text :: "http_response \<Rightarrow> string" where
  "body_text resp = (case resp_Body resp of Inl _ \<Rightarrow> [] | Inr body \<Rightarrow> body)"

definition update_answer :: "go_error + http_response \<Rightarrow> bool \<times> go_error option" where
  "update_answer r =
     (case r of
        Inl err \<Rightarrow> (False, Some (wrap_w ''failed to send HTTP request'' err))
      | Inr resp \<Rightarrow>
          let code = resp_StatusCode resp; apiSuccess = (code = 200) in
          if code \<noteq> 200 then (apiSuccess, Some (api_error code (body_text resp)))
          else (apiSuccess, None))"

definition UpdateProbeLabels ::
    "'w Net \<Rightarrow> Client \<Rightarrow> string \<Rightarrow> string_map \<Rightarrow> ('w, go_error option \<times> Client) io" where
  "UpdateProbeLabels N c probeID labels =
     (case NewRequest ''PATCH'' (buildProbeURL c probeID)
             (marshal_ProbePatchRequest \<lparr>pa_Status = [], pa_Labels = Some (Some labels)\<rparr>) of
        Inl err \<Rightarrow> ret (Some (wrap_w ''failed to create HTTP request'' err), c)
      | Inr httpReq \<Rightarrow>
          do { (r, c') \<leftarrow> authorized N c (Header_Set ''Content-Type'' ''application/json'' httpReq);
               (case r of
                  Inl err \<Rightarrow> ret (Some err, c')
                | Inr httpReq' \<Rightarrow>
                    timed N (RecordAPIRequest N ''update_probe_labels'')
                      (do { resp \<leftarrow> http_Do N True httpReq';
                            (case update_answer resp of
                               (apiSuccess, a) \<Rightarrow> ret (apiSuccess, (a, c'))) })) })"

definition delete_answer :: "go_error + http_response \<Rightarrow> bool \<times> go_error option" where
  "delete_answer r =
     (case r of
        Inl err \<Rightarrow> (False, Some (wrap_w ''failed to send HTTP request'' err))
      | Inr resp \<Rightarrow>
          let code = resp_StatusCode resp; apiSuccess = (code \<in> {200, 204, 404}) in
          if code = 404 then (apiSuccess, None)
          else if code \<noteq> 200 \<and> code \<noteq> 204 then (apiSuccess, Some (api_error code (body_text resp)))
          else (apiSuccess, None))"

text \<open>The request that asks for a probe's termination.\<close>

definition terminate_probe ::
    "'w Net \<Rightarrow> Client \<Rightarrow> string \<Rightarrow> ('w, go_error option \<times> Client) io" where
  "terminate_probe N c probeID =
     (case NewRequest ''PATCH'' (buildProbeURL c probeID)
             (marshal_ProbePatchRequest \<lparr>pa_Status = ''terminating'', pa_Labels = None\<rparr>) of
        Inl err \<Rightarrow> ret (Some (wrap_w ''failed to create HTTP request'' err), c)
      | Inr httpReq \<Rightarrow>
          do { (r, c') \<leftarrow> authorized N c (Header_Set ''Content-Type'' ''application/json'' httpReq);
               (case r of
                  Inl err \<Rightarrow> ret (Some err, c')
                | Inr httpReq' \<Rightarrow>
                    timed N (RecordAPIRequest N ''delete_probe'')
                      (do { resp \<leftarrow> http_Do N True httpReq';
                            (case delete_answer resp of
                               (apiSuccess, a) \<Rightarrow> ret (apiSuccess, (a, c'))) })) })"

definition DeleteProbe ::
    "'w Net \<Rightarrow> Client \<Rightarrow> string \<Rightarrow> ('w, go_error option \<times> Client) io" where
  "DeleteProbe N c clusterID =
     do { (r, c1) \<leftarrow> GetProbe N c clusterID;
          (case r of
             Inl err \<Rightarrow> ret (Some (wrap_w ''failed to check existing probe'' err), c1)
           | Inr None \<Rightarrow> ret (None, c1)
           | Inr (Some existingProbe) \<Rightarrow> terminate_probe N c1 (pp_ID existingProbe)) }"

section \<open>The client stays outside the cluster\<close>

lemma outside_metrics:
  assumes "net_frame N snap"
  shows "outside snap (RecordAPIRequest N op d b)" "outside snap (RecordOIDCTokenRefresh N d b)"
    "outside snap (RecordProbeDeletionTimeout N)" "outside snap (SetInfo N v)"
  unfolding RecordAPIRequest_def RecordOIDCTokenRefresh_def RecordProbeDeletionTimeout_def SetInfo_def
  by (intro outside_intros outside_Net [OF assms])+

lemma outside_timed:
  assumes "net_frame N snap" and "\<And>d b. outside snap (f d b)" and "outside snap body"
  shows "outside snap (timed N f body)"
  unfolding timed_def by (intro outside_intros outside_Net [OF assms(1)] assms(2,3))

lemma outside_token_fresh:
  assumes "net_frame N snap"
  shows "outside snap (token_fresh N c)"
  unfolding token_fresh_def by (intro outside_intros outside_Net [OF assms])

lemma outside_GetAccessToken:
  assumes "net_frame N snap"
  shows "outside snap (GetAccessToken N c)"
  unfolding GetAccessToken_def refreshAccessToken_def Let_def
  by (intro outside_intros outside_Net [OF assms] outside_token_fresh [OF assms]
      outside_timed [OF assms] outside_metrics [OF assms])

lemma outside_authorized:
  assumes "net_frame N snap"
  shows "outside snap (authorized N c req)"
  unfolding authorized_def addAuthHeaders_def
  by (intro outside_intros outside_GetAccessToken [OF assms])

lemma outside_client:
  assumes "net_frame N snap"
  shows "outside snap (CreateProbe N c req)" "outside snap (GetProbe N c i)"
    "outside snap (UpdateProbeLabels N c i ls)" "outside snap (terminate_probe N c i)"
  unfolding CreateProbe_def GetProbe_def UpdateProbeLabels_def terminate_probe_def Let_def
  by (intro outside_intros outside_Net [OF assms] outside_authorized [OF assms]
      outside_timed [OF assms] outside_metrics [OF assms])+

lemma outside_DeleteProbe:
  assumes "net_frame N snap"
  shows "outside snap (DeleteProbe N c i)"
  unfolding DeleteProbe_def by (intro outside_intros outside_client [OF assms])

end
