(* ===== verification/Dynatrace_Client.thy ===== *)
theory Dynatrace_Client
  imports Go_Net Go_Json
begin

text \<open>
  pkg/dynatrace: the client of the Dynatrace synthetic-monitor API, with the template of the HTTP
  monitor it creates.
\<close>

section \<open>Values\<close>

record BasicHttpMonitor =
  bm_Enabled :: bool
  bm_EntityId :: string
  bm_Name :: string
  bm_Type :: string

text \<open>An embedded struct has its fields at the same level in JSON.\<close>

record HttpMonitor = BasicHttpMonitor +
  hm_Locations :: "string list"

record DynatraceMonitorConfig =
  mc_MonitorName :: string
  mc_ApiUrl :: string
  mc_DynatraceEquivalentClusterRegionId :: string
  mc_ClusterId :: string
  mc_ClusterRegion :: string

record Location =
  loc_Name :: string
  loc_Type :: string
  loc_CloudPlatform :: string
  loc_EntityId :: string
  loc_Status :: string

type_synonym DynatraceLocation = "Location list"

definition empty_BasicHttpMonitor :: BasicHttpMonitor where
  "empty_BasicHttpMonitor = \<lparr>bm_Enabled = False, bm_EntityId = [], bm_Name = [], bm_Type = []\<rparr>"

definition empty_HttpMonitor :: HttpMonitor where
  "empty_HttpMonitor =
     \<lparr>bm_Enabled = False, bm_EntityId = [], bm_Name = [], bm_Type = [], hm_Locations = []\<rparr>"

definition assign_BasicHttpMonitor ::
    "string \<Rightarrow> json \<Rightarrow> 'a BasicHttpMonitor_scheme \<Rightarrow> 'a BasicHttpMonitor_scheme option" where
  "assign_BasicHttpMonitor k v m =
     (if k = ''enabled'' then map_option (\<lambda>b. m\<lparr>bm_Enabled := b\<rparr>) (decode_bool (bm_Enabled m) v)
      else if k = ''entityid'' then map_option (\<lambda>s. m\<lparr>bm_EntityId := s\<rparr>) (decode_string (bm_EntityId m) v)
      else if k = ''name'' then map_option (\<lambda>s. m\<lparr>bm_Name := s\<rparr>) (decode_string (bm_Name m) v)
      else if k = ''type'' then map_option (\<lambda>s. m\<lparr>bm_Type := s\<rparr>) (decode_string (bm_Type m) v)
      else Some m)"

definition assign_HttpMonitor :: "string \<Rightarrow> json \<Rightarrow> HttpMonitor \<Rightarrow> HttpMonitor option" where
  "assign_HttpMonitor k v m =
     (if k = ''locations'' then map_option (\<lambda>ls. m\<lparr>hm_Locations := ls\<rparr>) (decode_list decode_string [] v)
      else assign_BasicHttpMonitor k v m)"

definition assign_Monitors :: "string \<Rightarrow> json \<Rightarrow> BasicHttpMonitor list \<Rightarrow> BasicHttpMonitor list option" where
  "assign_Monitors k v ms =
     (if k = ''monitors''
      then decode_list (decode_struct assign_BasicHttpMonitor) empty_BasicHttpMonitor v
      else Some ms)"

definition assign_Location :: "string \<Rightarrow> json \<Rightarrow> Location \<Rightarrow> Location option" where
  "assign_Location k v l =
     (if k = ''name'' then map_option (\<lambda>s. l\<lparr>loc_Name := s\<rparr>) (decode_string (loc_Name l) v)
      else if k = ''type'' then map_option (\<lambda>s. l\<lparr>loc_Type := s\<rparr>) (decode_string (loc_Type l) v)
      else if k = ''cloudplatform''
      then map_option (\<lambda>s. l\<lparr>loc_CloudPlatform := s\<rparr>) (decode_string (loc_CloudPlatform l) v)
      else if k = ''entityid'' then map_option (\<lambda>s. l\<lparr>loc_EntityId := s\<rparr>) (decode_string (loc_EntityId l) v)
      else if k = ''status'' then map_option (\<lambda>s. l\<lparr>loc_Status := s\<rparr>) (decode_string (loc_Status l) v)
      else Some l)"

definition assign_DynatraceLocation :: "string \<Rightarrow> json \<Rightarrow> DynatraceLocation \<Rightarrow> DynatraceLocation option" where
  "assign_DynatraceLocation k v ls =
     (if k = ''locations''
      then decode_list (decode_struct assign_Location)
             \<lparr>loc_Name = [], loc_Type = [], loc_CloudPlatform = [], loc_EntityId = [], loc_Status = []\<rparr> v
      else Some ls)"

text \<open>\<open>json.NewDecoder(body).Decode\<close>.\<close>

definition decode_body ::
    "(string \<Rightarrow> json \<Rightarrow> 'a \<Rightarrow> 'a option) \<Rightarrow> 'a \<Rightarrow> http_response \<Rightarrow> go_error + 'a" where
  "decode_body assign zero resp =
     (case resp_Body resp of
        Inl err \<Rightarrow> Inl err
      | Inr body \<Rightarrow>
          (case json_first body of
             None \<Rightarrow> Inl (errors_New ''invalid JSON'')
           | Some j \<Rightarrow> (case decode_struct assign zero j of
                         None \<Rightarrow> Inl (errors_New ''json: cannot unmarshal'')
                       | Some x \<Rightarrow> Inr x)))"

section \<open>The monitor template\<close>

text \<open>html/template escapes a value in running text for HTML.\<close>

definition html_escape_char :: "char \<Rightarrow> string" where
  "html_escape_char c =
     (if c = CHR 0x00 then rune_error
      else if c = quote then ''&#34;''
      else if c = CHR ''&'' then ''&amp;''
      else if c = CHR 0x27 then ''&#39;''
      else if c = CHR ''+'' then ''&#43;''
      else if c = CHR ''<'' then ''&lt;''
      else if c = CHR ''>'' then ''&gt;''
      else [c])"

definition html_escape :: "string \<Rightarrow> string" where
  "html_escape s = concat (map html_escape_char s)"

datatype template_part = Text string | Field "DynatraceMonitorConfig \<Rightarrow> string"

fun execute :: "template_part list \<Rightarrow> DynatraceMonitorConfig \<Rightarrow> string" where
  "execute [] cfg = []"
| "execute (Text s # ps) cfg = s @ execute ps cfg"
| "execute (Field f # ps) cfg = html_escape (f cfg) @ execute ps cfg"

definition q :: "string \<Rightarrow> string" where "q s = [quote] @ s @ [quote]"
definition nl :: string where "nl = [CHR 0x0A]"
definition tab :: string where "tab = [CHR 0x09]"

definition publicMonitorTemplate :: "template_part list" where
  "publicMonitorTemplate =
     [
      Text nl,
      Text (''{'' @ nl),
      Text (''    '' @ q ''name'' @ '': '' @ [quote]), Field mc_MonitorName, Text ([quote] @ '','' @ nl),
      Text (''    '' @ q ''frequencyMin'' @ '': 1,'' @ nl),
      Text (''    '' @ q ''enabled'' @ '': true,'' @ nl),
      Text (''    '' @ q ''type'' @ '': '' @ q ''HTTP'' @ '','' @ nl),
      Text (''    '' @ q ''script'' @ '': {'' @ nl),
      Text (''        '' @ q ''version'' @ '': '' @ q ''1.0'' @ '','' @ nl),
      Text (''        '' @ q ''requests'' @ '': ['' @ nl),
      Text (''            {'' @ nl),
      Text (''                '' @ q ''description'' @ '': '' @ q ''api availability'' @ '','' @ nl),
      Text (''                '' @ q ''url'' @ '': '' @ [quote]), Field mc_ApiUrl, Text ([quote] @ '','' @ nl),
      Text (''                '' @ q ''method'' @ '': '' @ q ''GET'' @ '','' @ nl),
      Text (''                '' @ q ''requestBody'' @ '': '' @ q [] @ '','' @ nl),
      Text (''                '' @ q ''preProcessingScript'' @ '': '' @ q [] @ '','' @ nl),
      Text (''                '' @ q ''postProcessingScript'' @ '': '' @ q [] @ nl),
      Text (''            }'' @ nl),
      Text (''        ]'' @ nl),
      Text (''    },'' @ nl),
      Text (''    '' @ q ''locations'' @ '': ['' @ [quote]), Field mc_DynatraceEquivalentClusterRegionId, Text ([quote] @ ''],'' @ nl),
      Text (''    '' @ q ''anomalyDetection'' @ '': {'' @ nl),
      Text (''        '' @ q ''outageHandling'' @ '': {'' @ nl),
      Text (''            '' @ q ''globalOutage'' @ '': true,'' @ nl),
      Text (''            '' @ q ''localOutage'' @ '': false,'' @ nl),
      Text (''            '' @ q ''localOutagePolicy'' @ '': {'' @ nl),
      Text (''                '' @ q ''affectedLocations'' @ '': 1,'' @ nl),
      Text (''                '' @ q ''consecutiveRuns'' @ '': 1'' @ nl),
      Text (''            }'' @ nl),
      Text (''        },'' @ nl),
      Text (''        '' @ q ''loadingTimeThresholds'' @ '': {'' @ nl),
      Text (''            '' @ q ''enabled'' @ '': true,'' @ nl),
      Text (''            '' @ q ''thresholds'' @ '': ['' @ nl),
      Text (''                {'' @ nl),
      Text (''                    '' @ q ''type'' @ '': '' @ q ''TOTAL'' @ '','' @ nl),
      Text (''                    '' @ q ''valueMs'' @ '': 10000'' @ nl),
      Text (''                }'' @ nl),
      Text (''            ]'' @ nl),
      Text (''        }'' @ nl),
      Text (''    },'' @ nl),
      Text (tab @ q ''tags'' @ '': ['' @ nl),
      Text (''        {'' @ nl),
      Text (''            '' @ q ''key'' @ '': '' @ q ''cluster-id'' @ '','' @ nl),
      Text (''            '' @ q ''value'' @ '': '' @ [quote]), Field mc_ClusterId, Text ([quote] @ nl),
      Text (''        },'' @ nl),
      Text (tab @ tab @ ''{'' @ nl),
      Text (''            '' @ q ''key'' @ '': '' @ q ''cluster-region'' @ '','' @ nl),
      Text (''            '' @ q ''value'' @ '': '' @ [quote]), Field mc_ClusterRegion, Text ([quote] @ nl),
      Text (''        },'' @ nl),
      Text (''        {'' @ nl),
      Text (''            '' @ q ''key'' @ '': '' @ q ''route-monitor-operator-managed'' @ '','' @ nl),
      Text (''            '' @ q ''value'' @ '': '' @ q ''true'' @ nl),
      Text (''        },'' @ nl),
      Text (''        {'' @ nl),
      Text (''            '' @ q ''key'' @ '': '' @ q ''hcp-cluster'' @ '','' @ nl),
      Text (''            '' @ q ''value'' @ '': '' @ q ''true'' @ nl),
      Text (''        }'' @ nl),
      Text (''    ]'' @ nl),
      Text (''}'' @ nl)]"

section \<open>Requests\<close>

record DynatraceApiClient =
  dy_baseURL :: string
  dy_apiToken :: string

definition NewDynatraceApiClient :: "string \<Rightarrow> string \<Rightarrow> DynatraceApiClient" where
  "NewDynatraceApiClient baseURL apiToken = \<lparr>dy_baseURL = baseURL, dy_apiToken = apiToken\<rparr>"

definition httpMonitorPath :: string where "httpMonitorPath = ''/synthetic/monitors''"
definition locationPath :: string where "locationPath = ''/synthetic/locations''"

definition MakeRequest ::
    "'w Net \<Rightarrow> DynatraceApiClient \<Rightarrow> string \<Rightarrow> string \<Rightarrow> string \<Rightarrow> ('w, go_error + http_response) io" where
  "MakeRequest N c method path renderedJSON =
     (let url = dy_baseURL c @ path in
      case NewRequest method url renderedJSON of
        Inl err \<Rightarrow> ret (Inl err)
      | Inr req \<Rightarrow>
          http_Do N True (Header_Set ''Content-Type'' ''application/json''
            (Header_Set ''Authorization'' (''Api-Token '' @ dy_apiToken c) req)))"

definition ListDynatraceHttpMonitorsForCluster ::
    "'w Net \<Rightarrow> DynatraceApiClient \<Rightarrow> string \<Rightarrow> ('w, go_error + BasicHttpMonitor list) io" where
  "ListDynatraceHttpMonitorsForCluster N c clusterId =
     do { r \<leftarrow> MakeRequest N c ''GET'' (httpMonitorPath @ ''/?tag=cluster-id:'' @ clusterId) [];
          (case r of
             Inl err \<Rightarrow> ret (Inl err)
           | Inr resp \<Rightarrow>
               if resp_StatusCode resp \<noteq> 200
               then ret (Inl (errors_New (''failed to fetch monitor in Dynatrace. Status code: '' @
                                itoa (resp_StatusCode resp))))
               else (case decode_body assign_Monitors [] resp of
                       Inl err \<Rightarrow> ret (Inl (wrap_w ''error parsing JSON'' err))
                     | Inr monitors \<Rightarrow> ret (Inr monitors))) }"

text \<open>The error for an unexpected status also dumps the response, which is left out here.\<close>

definition GetDynatraceHttpMonitor ::
    "'w Net \<Rightarrow> DynatraceApiClient \<Rightarrow> string \<Rightarrow> ('w, go_error + HttpMonitor) io" where
  "GetDynatraceHttpMonitor N c entityId =
     do { r \<leftarrow> MakeRequest N c ''GET'' (httpMonitorPath @ ''/'' @ entityId) [];
          (case r of
             Inl err \<Rightarrow> ret (Inl (wrap_w ''failed to GET HTTP monitor from Dynatrace'' err))
           | Inr resp \<Rightarrow>
               if resp_StatusCode resp \<noteq> 200
               then ret (Inl (errors_New (''unexpected response from Dynatrace when retrieving monitor '' @ q entityId @
                      '': expected status code 200, got '' @ itoa (resp_StatusCode resp))))
               else (case decode_body assign_HttpMonitor empty_HttpMonitor resp of
                       Inl err \<Rightarrow> ret (Inl (wrap_w ''failed to decode response body'' err))
                     | Inr monitor \<Rightarrow> ret (Inr monitor))) }"

text \<open>The enabled AWS location of a name, or the enabled private location whose name contains it.\<close>

definition find_location :: "string \<Rightarrow> string \<Rightarrow> DynatraceLocation \<Rightarrow> Location option" where
  "find_location locationName locationType ls =
     (case (if locationType = EndpointAccess_PublicAndPrivate
            then find (\<lambda>loc. loc_Name loc = locationName \<and> loc_Type loc = ''PUBLIC'' \<and>
                   loc_CloudPlatform loc = ''AMAZON_EC2'' \<and> loc_Status loc = ''ENABLED'') ls
            else None) of
        Some loc \<Rightarrow> Some loc
      | None \<Rightarrow>
          if locationType = EndpointAccess_Private
          then find (\<lambda>loc. strings_Contains (loc_Name loc) locationName \<and> loc_Type loc = ''PRIVATE'' \<and>
                 loc_Status loc = ''ENABLED'') ls
          else None)"

definition GetLocationEntityIdFromDynatrace ::
    "'w Net \<Rightarrow> DynatraceApiClient \<Rightarrow> string \<Rightarrow> string \<Rightarrow> ('w, go_error + string) io" where
  "GetLocationEntityIdFromDynatrace N c locationName locationType =
     do { r \<leftarrow> MakeRequest N c ''GET'' locationPath [];
          (case r of
             Inl err \<Rightarrow> ret (Inl err)
           | Inr resp \<Rightarrow>
               if resp_StatusCode resp \<noteq> 200
               then ret (Inl (errors_New (''failed to fetch locations. Status code: '' @ itoa (resp_StatusCode resp))))
               else (case decode_body assign_DynatraceLocation [] resp of
                       Inl err \<Rightarrow> ret (Inl err)
                     | Inr locationResponse \<Rightarrow>
                         (case find_location locationName locationType locationResponse of
                            Some loc \<Rightarrow> ret (Inr (loc_EntityId loc))
                          | None \<Rightarrow> ret (Inl (errors_New (''location '' @ locationName @
                                '' not found for location type '' @ locationType)))))) }"

definition CreateDynatraceHttpMonitor ::
    "'w Net \<Rightarrow> DynatraceApiClient \<Rightarrow> string \<Rightarrow> string \<Rightarrow> string \<Rightarrow> string \<Rightarrow> string
       \<Rightarrow> ('w, go_error + string) io" where
  "CreateDynatraceHttpMonitor N c monitorName apiUrl clusterId dynatraceEquivalentClusterRegionId clusterRegion =
     (let monitorConfig =
        \<lparr>mc_MonitorName = monitorName, mc_ApiUrl = apiUrl,
         mc_DynatraceEquivalentClusterRegionId = dynatraceEquivalentClusterRegionId,
         mc_ClusterId = clusterId, mc_ClusterRegion = clusterRegion\<rparr> in
      do { r \<leftarrow> MakeRequest N c ''POST'' httpMonitorPath (execute publicMonitorTemplate monitorConfig);
           (case r of
              Inl err \<Rightarrow> ret (Inl err)
            | Inr resp \<Rightarrow>
                if resp_StatusCode resp \<noteq> 200
                then (case resp_Body resp of
                        Inl readErr \<Rightarrow>
                          ret (Inl (errors_New (''failed to create HTTP monitor. Status code: '' @
                            itoa (resp_StatusCode resp) @ '' (unable to read response body: '' @ Error readErr @ '')'')))
                      | Inr body \<Rightarrow>
                          ret (Inl (errors_New (''failed to create HTTP monitor. Status code: '' @
                            itoa (resp_StatusCode resp) @ '', Response: '' @ body))))
                else (case decode_body assign_BasicHttpMonitor empty_BasicHttpMonitor resp of
                        Inl err \<Rightarrow> ret (Inl (wrap_v ''failed to fetch monitor id'' err))
                      | Inr createdMonitor \<Rightarrow> ret (Inr (bm_EntityId createdMonitor)))) })"

definition DeleteSingleMonitor ::
    "'w Net \<Rightarrow> DynatraceApiClient \<Rightarrow> string \<Rightarrow> ('w, go_error option) io" where
  "DeleteSingleMonitor N c monitorId =
     do { r \<leftarrow> MakeRequest N c ''DELETE'' (httpMonitorPath @ ''/'' @ monitorId) [];
          (case r of
             Inl err \<Rightarrow> ret (Some err)
           | Inr resp \<Rightarrow>
               if resp_StatusCode resp \<noteq> 204
               then ret (Some (errors_New (''failed to delete monitor '' @ monitorId @ ''. Status code: '' @
                           itoa (resp_StatusCode resp))))
               else ret None) }"

fun delete_monitors ::
    "'w Net \<Rightarrow> DynatraceApiClient \<Rightarrow> BasicHttpMonitor list \<Rightarrow> ('w, go_error option) io" where
  "delete_monitors N c [] = ret None"
| "delete_monitors N c (monitor # monitors) =
     do { r \<leftarrow> DeleteSingleMonitor N c (bm_EntityId monitor);
          (case r of Some err \<Rightarrow> ret (Some err) | None \<Rightarrow> delete_monitors N c monitors) }"

definition DeleteDynatraceMonitorByCluserId ::
    "'w Net \<Rightarrow> DynatraceApiClient \<Rightarrow> string \<Rightarrow> ('w, go_error option) io" where
  "DeleteDynatraceMonitorByCluserId N c clusterId =
     do { r \<leftarrow> ListDynatraceHttpMonitorsForCluster N c clusterId;
          (case r of
             Inl err \<Rightarrow> ret (Some err)
           | Inr monitors \<Rightarrow> delete_monitors N c monitors) }"

section \<open>The client stays outside the cluster\<close>

lemma outside_MakeRequest:
  assumes "net_frame N snap"
  shows "outside snap (MakeRequest N c m p b)"
  unfolding MakeRequest_def Let_def by (intro outside_intros outside_Net [OF assms])

lemma outside_DeleteSingleMonitor:
  assumes "net_frame N snap"
  shows "outside snap (DeleteSingleMonitor N c i)"
  unfolding DeleteSingleMonitor_def by (intro outside_intros outside_MakeRequest [OF assms])

lemma outside_delete_monitors:
  assumes "net_frame N snap"
  shows "outside snap (delete_monitors N c ms)"
  by (induction ms) (auto intro!: outside_intros outside_DeleteSingleMonitor [OF assms])

lemma outside_dynatrace:
  assumes "net_frame N snap"
  shows "outside snap (ListDynatraceHttpMonitorsForCluster N c i)" "outside snap (GetDynatraceHttpMonitor N c i)"
    "outside snap (GetLocationEntityIdFromDynatrace N c l t)" "outside snap (CreateDynatraceHttpMonitor N c n u i r g)"
    "outside snap (DeleteDynatraceMonitorByCluserId N c i)"
  unfolding ListDynatraceHttpMonitorsForCluster_def GetDynatraceHttpMonitor_def
    GetLocationEntityIdFromDynatrace_def CreateDynatraceHttpMonitor_def
    DeleteDynatraceMonitorByCluserId_def Let_def
  by (intro outside_intros outside_MakeRequest [OF assms] outside_delete_monitors [OF assms])+

end
