(* ===== verification/Hcp_Synthetics.thy ===== *)
theory Hcp_Synthetics
  imports Hcp_Healthcheck Rhobs_Client Dynatrace_Client
begin

text \<open>
  controllers/hostedcontrolplane/synthetics.go: the monitors of a hosted control plane in the two
  external services, Dynatrace and RHOBS.  A hosted control plane without an AWS platform makes
  some of these functions panic, which is an outcome of the model.
\<close>

section \<open>Dynatrace\<close>

definition dynatraceSecretNamespace :: string where
  "dynatraceSecretNamespace = ''openshift-route-monitor-operator''"
definition dynatraceSecretName :: string where "dynatraceSecretName = ''dynatrace-token''"
definition dynatraceApiKey :: string where "dynatraceApiKey = ''apiToken''"
definition dynatraceTenantKey :: string where "dynatraceTenantKey = ''apiUrl''"

text \<open>The value of a key of a secret, which must be there and not empty.\<close>

definition secret_value :: "Secret \<Rightarrow> string \<Rightarrow> go_error + string" where
  "secret_value secret key =
     (case fmlookup (obj_spec secret) key of
        None \<Rightarrow> Inl (errors_New (''secret did not contain key '' @ key))
      | Some v \<Rightarrow> if v = [] then Inl (errors_New (key @ '' is empty'')) else Inr v)"

definition getDynatraceSecrets :: "'w Env \<Rightarrow> ('w, go_error + string \<times> string) io" where
  "getDynatraceSecrets E =
     do { r \<leftarrow> kube_Get (sec_api E) \<lparr>nn_name = dynatraceSecretName, nn_namespace = dynatraceSecretNamespace\<rparr>;
          (case r of
             Inl err \<Rightarrow> ret (Inl (wrap_v ''error getting Kubernetes secret'' err))
           | Inr secret \<Rightarrow>
               (case secret_value secret dynatraceApiKey of
                  Inl err \<Rightarrow> ret (Inl err)
                | Inr apiToken \<Rightarrow>
                    (case secret_value secret dynatraceTenantKey of
                       Inl err \<Rightarrow> ret (Inl err)
                     | Inr tenant \<Rightarrow> ret (Inr (apiToken, tenant))))) }"

definition hcp_NewDynatraceApiClient :: "'w Env \<Rightarrow> ('w, go_error + DynatraceApiClient) io" where
  "hcp_NewDynatraceApiClient E =
     do { r \<leftarrow> getDynatraceSecrets E;
          (case r of
             Inl err \<Rightarrow> ret (Inl (wrap_w ''failed to get secret for Dynatrace API client'' err))
           | Inr (apiToken, tenant) \<Rightarrow> ret (Inr (NewDynatraceApiClient (tenant @ ''/v1'') apiToken))) }"

definition sao_paulo :: string where
  "sao_paulo = ''S'' @ [CHR 0xC3, CHR 0xA3] @ ''o Paulo''"

definition awsRegionToDynatraceRegionMapping :: "(string \<times> string) list" where
  "awsRegionToDynatraceRegionMapping =
     [(''us-east-1'', ''N. Virginia''), (''us-east-2'', ''N. Virginia''),
      (''us-west-1'', ''Oregon''), (''us-west-2'', ''Oregon''), (''af-south-1'', sao_paulo),
      (''ap-southeast-1'', ''Singapore''), (''ap-southeast-2'', ''Sydney''),
      (''ap-southeast-3'', ''Singapore''), (''ap-southeast-4'', ''Sydney''),
      (''ap-northeast-1'', ''Singapore''), (''ap-northeast-2'', ''Sydney''),
      (''ap-northeast-3'', ''Singapore''), (''ap-south-1'', ''Mumbai''),
      (''ap-south-2'', ''Mumbai''), (''ap-east-1'', ''Singapore''),
      (''ca-central-1'', ''Montreal''), (''eu-west-1'', ''Dublin''), (''eu-west-2'', ''London''),
      (''eu-west-3'', ''Frankfurt''), (''eu-central-1'', ''Frankfurt''),
      (''eu-central-2'', ''Frankfurt''), (''eu-south-1'', ''Frankfurt''),
      (''eu-south-2'', ''Frankfurt''), (''eu-north-1'', ''London''), (''me-south-1'', ''Mumbai''),
      (''me-central-1'', ''Mumbai''), (''sa-east-1'', sao_paulo)]"

definition getDynatraceEquivalentClusterRegionName :: "string \<Rightarrow> go_error + string" where
  "getDynatraceEquivalentClusterRegionName clusterRegion =
     (case map_of awsRegionToDynatraceRegionMapping clusterRegion of
        None \<Rightarrow> Inl (errors_New (''location not found for region: '' @ clusterRegion))
      | Some dynatraceLocationName \<Rightarrow> Inr dynatraceLocationName)"

definition GetAPIServerHostname :: "HostedControlPlane \<Rightarrow> go_error + string" where
  "GetAPIServerHostname hostedcontrolplane =
     (case find (\<lambda>service. spub_service service = ''APIServer'') (hcps_services (obj_spec hostedcontrolplane)) of
        None \<Rightarrow> Inl (errors_New ''APIServer service not found in the hostedcontrolplane'')
      | Some service \<Rightarrow>
          (case spub_route service of
             Some hostname \<Rightarrow>
               if hostname \<noteq> [] then Inr hostname
               else Inl (errors_New (''APIServer Route hostname is empty (service type: '' @ spub_type service @ '')''))
           | None \<Rightarrow> Inl (errors_New (''APIServer Route hostname is empty (service type: '' @ spub_type service @ '')''))))"

fun removeDyntraceMonitors ::
    "'w Net \<Rightarrow> DynatraceApiClient \<Rightarrow> BasicHttpMonitor list \<Rightarrow> ('w, go_error option) io" where
  "removeDyntraceMonitors N c [] = ret None"
| "removeDyntraceMonitors N c (monitor # monitors) =
     do { e \<leftarrow> DeleteSingleMonitor N c (bm_EntityId monitor);
          es \<leftarrow> removeDyntraceMonitors N c monitors;
          ret (errors_Join e es) }"

text \<open>\<open>.Spec.Platform.AWS\<close> is dereferenced without a check.  The error text also prints the object.\<close>

definition getClusterRegion :: "HostedControlPlane \<Rightarrow> (go_error + string) outcome" where
  "getClusterRegion hostedcontrolplane =
     (case hcps_aws (obj_spec hostedcontrolplane) of
        None \<Rightarrow> Panics
      | Some aws \<Rightarrow>
          if aws_region aws = [] then Returns (Inl (errors_New ''aws region is not set in hcp''))
          else Returns (Inr (aws_region aws)))"

definition determineDynatraceClusterRegionName :: "string \<Rightarrow> string \<Rightarrow> go_error + string" where
  "determineDynatraceClusterRegionName clusterRegion monitorLocationType =
     (if monitorLocationType = EndpointAccess_PublicAndPrivate
      then getDynatraceEquivalentClusterRegionName clusterRegion
      else if monitorLocationType = EndpointAccess_Private then Inr ''backplane''
      else Inl (errors_New (''monitorLocationType '' @ monitorLocationType @ '' not supported'')))"

text \<open>Bring the monitors of a cluster down to one at the right location: \<open>Inr True\<close> when it is there,
  \<open>Inr False\<close> when one has to be created.\<close>

definition settle_monitors ::
    "'w Net \<Rightarrow> DynatraceApiClient \<Rightarrow> BasicHttpMonitor list \<Rightarrow> string \<Rightarrow> ('w, go_error + bool) io" where
  "settle_monitors N c monitors locationId =
     (case monitors of
        [] \<Rightarrow> ret (Inr False)
      | first # rest \<Rightarrow>
          do { _ \<leftarrow> (if rest \<noteq> [] then removeDyntraceMonitors N c rest else ret None);
               g \<leftarrow> GetDynatraceHttpMonitor N c (bm_EntityId first);
               (case g of
                  Inl err \<Rightarrow> ret (Inl (wrap_w (''failed to retrieve existing monitor '' @ q [] @ '' (ID='' @ q [] @
                                     '') from Dynatrace'') err))
                | Inr existingMonitor \<Rightarrow>
                    if locationId \<in> set (hm_Locations existingMonitor) then ret (Inr True)
                    else do { d \<leftarrow> DeleteSingleMonitor N c (bm_EntityId existingMonitor);
                              (case d of
                                 Some err \<Rightarrow> ret (Inl (wrap_w (''failed to delete HTTP monitor '' @
                                    q (bm_Name existingMonitor) @ '' (ID='' @ q (bm_EntityId existingMonitor) @
                                    '') from Dynatrace'') err))
                               | None \<Rightarrow> ret (Inr False)) }) })"

definition deployDynatraceHttpMonitorResources ::
    "'w Net \<Rightarrow> DynatraceApiClient \<Rightarrow> HostedControlPlane \<Rightarrow> ('w, go_error option outcome) io" where
  "deployDynatraceHttpMonitorResources N c hostedcontrolplane =
     (case GetAPIServerHostname hostedcontrolplane of
        Inl err \<Rightarrow> ret (Returns (Some (errors_New (''failed to get APIServer hostname '' @ Error err))))
      | Inr apiServerHostname \<Rightarrow>
          let monitorName = strings_Replace1 apiServerHostname ''api.'' [];
              apiUrl = ''https://'' @ apiServerHostname @ ''/livez'' in
          (case hcps_aws (obj_spec hostedcontrolplane) of
             None \<Rightarrow> ret Panics
           | Some aws \<Rightarrow>
               let monitorLocationType = aws_endpointAccess aws in
               (case getClusterRegion hostedcontrolplane of
                  Panics \<Rightarrow> ret Panics
                | Returns (Inl err) \<Rightarrow> ret (Returns (Some (wrap_v ''error calling getClusterRegion'' err)))
                | Returns (Inr clusterRegion) \<Rightarrow>
                    (case determineDynatraceClusterRegionName clusterRegion monitorLocationType of
                       Inl err \<Rightarrow> ret (Returns (Some (wrap_v ''error calling determineDynatraceClusterRegionId'' err)))
                     | Inr dynatraceClusterRegionName \<Rightarrow>
                         do { l \<leftarrow> GetLocationEntityIdFromDynatrace N c dynatraceClusterRegionName monitorLocationType;
                              (case l of
                                 Inl err \<Rightarrow> ret (Returns (Some (wrap_v ''error calling GetLocationEntityIdFromDynatrace'' err)))
                               | Inr locationId \<Rightarrow>
                                   let clusterID = hcps_clusterID (obj_spec hostedcontrolplane) in
                                   if clusterID = []
                                   then ret (Returns (Some (errors_New ''hostedcontrolplane has empty .Spec.ClusterID field'')))
                                   else do { ms \<leftarrow> ListDynatraceHttpMonitorsForCluster N c clusterID;
                                     (case ms of
                                        Inl err \<Rightarrow> ret (Returns (Some (wrap_w
                                          (''failed to retrieve existing HTTP monitors from Dynatrace for cluster '' @
                                           q clusterID) err)))
                                      | Inr monitors \<Rightarrow>
                                          do { s \<leftarrow> settle_monitors N c monitors locationId;
                                               (case s of
                                                  Inl err \<Rightarrow> ret (Returns (Some err))
                                                | Inr True \<Rightarrow> ret (Returns None)
                                                | Inr False \<Rightarrow>
                                                    do { m \<leftarrow> CreateDynatraceHttpMonitor N c monitorName apiUrl
                                                           clusterID locationId clusterRegion;
                                                         (case m of
                                                            Inl err \<Rightarrow> ret (Returns (Some (wrap_w
                                                              (''error creating HTTP monitor '' @ q monitorName) err)))
                                                          | Inr monitorId \<Rightarrow> ret (Returns None)) }) }) }) }))))"

definition deleteDynatraceHttpMonitorResources ::
    "'w Net \<Rightarrow> DynatraceApiClient \<Rightarrow> HostedControlPlane \<Rightarrow> ('w, go_error option) io" where
  "deleteDynatraceHttpMonitorResources N c hostedcontrolplane =
     do { r \<leftarrow> DeleteDynatraceMonitorByCluserId N c (hcps_clusterID (obj_spec hostedcontrolplane));
          (case r of
             Some err \<Rightarrow> ret (Some (wrap_v ''error deleting HTTP monitor(s). Status Code'' err))
           | None \<Rightarrow> ret None) }"

section \<open>RHOBS\<close>

definition createRHOBSClient :: "RHOBSConfig \<Rightarrow> Client" where
  "createRHOBSClient cfg =
     (if OIDCClientID cfg \<noteq> [] \<and> OIDCClientSecret cfg \<noteq> [] \<and> OIDCIssuerURL cfg \<noteq> []
      then NewClientWithOIDC (ProbeAPIURL cfg) (Tenant cfg)
             \<lparr>oidc_ClientID = OIDCClientID cfg, oidc_ClientSecret = OIDCClientSecret cfg,
              oidc_IssuerURL = OIDCIssuerURL cfg\<rparr>
      else NewClient (ProbeAPIURL cfg) (Tenant cfg))"

definition isPrivateProbe :: "ProbeResponse \<Rightarrow> bool" where
  "isPrivateProbe probe = (labels_read (pp_Labels probe) ''private'' = ''true'')"

definition limited_support_label :: string where
  "limited_support_label = ''api.openshift.com/limited-support''"

text \<open>Limited support as the HostedCluster says, which may have dropped the label; the label of the
  control plane decides when the HostedCluster cannot be read.\<close>

definition limited_support :: "'w Env \<Rightarrow> HostedControlPlane \<Rightarrow> ('w, bool) io" where
  "limited_support E hostedcontrolplane =
     (if map_read (om_labels (obj_meta hostedcontrolplane)) limited_support_label = ''true''
      then
        let hcNamespace = strings_TrimSuffix (om_namespace (obj_meta hostedcontrolplane))
              (''-'' @ om_name (obj_meta hostedcontrolplane)) in
        do { r \<leftarrow> kube_Get (hc_api E) \<lparr>nn_name = om_name (obj_meta hostedcontrolplane), nn_namespace = hcNamespace\<rparr>;
             ret (case r of
                Inl err \<Rightarrow> True
              | Inr hc \<Rightarrow> map_read (om_labels (obj_meta hc)) limited_support_label = ''true'') }
      else ret False)"

definition drop_probe :: "'w Net \<Rightarrow> Client \<Rightarrow> string \<Rightarrow> ('w, go_error option) io" where
  "drop_probe N client clusterID =
     do { (g, client') \<leftarrow> GetProbe N client clusterID;
          (case g of
             Inl err \<Rightarrow> ret (Some (wrap_w ''failed to check existing probe'' err))
           | Inr None \<Rightarrow> ret None
           | Inr (Some existingProbe) \<Rightarrow>
               do { (d, _) \<leftarrow> DeleteProbe N client' clusterID;
                    (case d of
                       Some err \<Rightarrow> ret (Some (wrap_w ''failed to delete probe for limited support cluster'' err))
                     | None \<Rightarrow> ret None) }) }"

definition create_probe ::
    "'w Net \<Rightarrow> Client \<Rightarrow> HostedControlPlane \<Rightarrow> string \<Rightarrow> bool \<Rightarrow> ('w, go_error option outcome) io" where
  "create_probe N client hostedcontrolplane monitoringURL isPrivate =
     (case getClusterRegion hostedcontrolplane of
        Panics \<Rightarrow> ret Panics
      | Returns (Inl err) \<Rightarrow> ret (Returns (Some (wrap_w ''failed to get cluster region'' err)))
      | Returns (Inr clusterRegion) \<Rightarrow>
          do { probeReq \<leftarrow> NewClusterProbeRequest N (hcps_clusterID (obj_spec hostedcontrolplane))
                 monitoringURL clusterRegion isPrivate;
               (p, _) \<leftarrow> CreateProbe N client probeReq;
               (case p of
                  Inl err \<Rightarrow> ret (Returns (Some (wrap_w ''failed to create RHOBS probe'' err)))
                | Inr probe \<Rightarrow> ret (Returns None)) })"

text \<open>What to do about a probe that exists and has not failed: the heartbeat is always sent; then
  either the function is done, or the probe was deleted to be created again (\<open>Inr client\<close>).\<close>

definition refresh_probe ::
    "'w Net \<Rightarrow> Client \<Rightarrow> HostedControlPlane \<Rightarrow> ProbeResponse \<Rightarrow> bool
       \<Rightarrow> ('w, (go_error option + Client) outcome) io" where
  "refresh_probe N client hostedcontrolplane existingProbe isPrivate =
     (let clusterID = hcps_clusterID (obj_spec hostedcontrolplane);
          labels = pp_Labels existingProbe in
      do { t \<leftarrow> now N;
           (heartbeatErr, client1) \<leftarrow> UpdateProbeLabels N client (pp_ID existingProbe)
              (fmap_of_list [(''last-reconciled'', format_stamp t)]);
           (case getClusterRegion hostedcontrolplane of
              Panics \<Rightarrow> ret Panics
            | Returns (Inl err) \<Rightarrow> ret (Returns (Inl (Some (wrap_w ''failed to get cluster region'' err))))
            | Returns (Inr clusterRegion) \<Rightarrow>
                let hasPrivateLabel = (case labels of None \<Rightarrow> False | Some m \<Rightarrow> fmlookup m ''private'' \<noteq> None);
                    labelsMatch = (hasPrivateLabel \<and> isPrivateProbe existingProbe = isPrivate \<and>
                                   labels_read labels ''region'' = clusterRegion) in
                if labelsMatch
                then (case heartbeatErr of
                        Some err \<Rightarrow> ret (Returns (Inl (Some (wrap_w
                                      ''probe labels match but heartbeat update failed'' err))))
                      | None \<Rightarrow> ret (Returns (Inl None)))
                else if \<not> hasPrivateLabel \<or> isPrivateProbe existingProbe \<noteq> isPrivate
                then do { (d, client2) \<leftarrow> DeleteProbe N client1 clusterID;
                          (case d of
                             Some err \<Rightarrow> ret (Returns (Inl (Some (wrap_w
                                           ''failed to delete probe for private label correction'' err))))
                           | None \<Rightarrow> ret (Returns (Inr client2))) }
                else do { t' \<leftarrow> now N;
                          (u, _) \<leftarrow> UpdateProbeLabels N client1 (pp_ID existingProbe)
                             (fmap_of_list [(''cluster-id'', clusterID), (''region'', clusterRegion),
                                            (''last-reconciled'', format_stamp t')]);
                          (case u of
                             Some err \<Rightarrow> ret (Returns (Inl (Some (wrap_w
                                           ''failed to update RHOBS probe labels'' err))))
                           | None \<Rightarrow> ret (Returns (Inl None))) }) })"

definition ensureRHOBSProbe ::
    "'w Env \<Rightarrow> 'w Net \<Rightarrow> HostedControlPlane \<Rightarrow> RHOBSConfig \<Rightarrow> ('w, go_error option outcome) io" where
  "ensureRHOBSProbe E N hostedcontrolplane cfg =
     (let clusterID = hcps_clusterID (obj_spec hostedcontrolplane) in
      if clusterID = [] then ret (Returns (Some (errors_New ''cluster ID is empty'')))
      else
        let isPrivate = isPrivateHCP hostedcontrolplane in
        do { isLimitedSupport \<leftarrow> limited_support E hostedcontrolplane;
             if isLimitedSupport
             then do { r \<leftarrow> drop_probe N (createRHOBSClient cfg) clusterID; ret (Returns r) }
             else if OnlyPublicClusters cfg \<and> isPrivate then ret (Returns None)
             else case GetAPIServerHostname hostedcontrolplane of
               Inl err \<Rightarrow> ret (Returns (Some (wrap_w ''failed to get API server hostname'' err)))
             | Inr hostname \<Rightarrow>
                 let monitoringURL = ''https://'' @ hostname @ ''/livez'' in
                 do { (g, client) \<leftarrow> GetProbe N (createRHOBSClient cfg) clusterID;
                      (case g of
                         Inl err \<Rightarrow> ret (Returns (Some (wrap_w ''failed to check existing probe'' err)))
                       | Inr None \<Rightarrow> create_probe N client hostedcontrolplane monitoringURL isPrivate
                       | Inr (Some existingProbe) \<Rightarrow>
                           if pp_Status existingProbe = ''failed''
                           then do { (d, client') \<leftarrow> DeleteProbe N client clusterID;
                                     (case d of
                                        Some err \<Rightarrow> ret (Returns (Some (wrap_w ''failed to delete failed probe'' err)))
                                      | None \<Rightarrow> create_probe N client' hostedcontrolplane monitoringURL isPrivate) }
                           else do { f \<leftarrow> refresh_probe N client hostedcontrolplane existingProbe isPrivate;
                                     (case f of
                                        Panics \<Rightarrow> ret Panics
                                      | Returns (Inl r) \<Rightarrow> ret (Returns r)
                                      | Returns (Inr client') \<Rightarrow>
                                          create_probe N client' hostedcontrolplane monitoringURL isPrivate) }) } })"

definition deleteRHOBSProbe ::
    "'w Net \<Rightarrow> HostedControlPlane \<Rightarrow> RHOBSConfig \<Rightarrow> ('w, go_error option) io" where
  "deleteRHOBSProbe N hostedcontrolplane cfg =
     (let clusterID = hcps_clusterID (obj_spec hostedcontrolplane) in
      if clusterID = [] then ret (Some (errors_New ''cluster ID is empty''))
      else do { (d, _) \<leftarrow> DeleteProbe N (createRHOBSClient cfg) clusterID;
                (case d of
                   Some err \<Rightarrow> ret (Some (wrap_w (''failed to delete RHOBS probe for cluster '' @ clusterID) err))
                 | None \<Rightarrow> ret None) })"

section \<open>What may change\<close>

lemma outside_dynatrace_steps:
  assumes "net_frame N snap"
  shows "outside snap (removeDyntraceMonitors N c ms)" "outside snap (settle_monitors N c ms l)"
    "outside snap (deployDynatraceHttpMonitorResources N c hcp)"
    "outside snap (deleteDynatraceHttpMonitorResources N c hcp)"
proof -
  show remove: "outside snap (removeDyntraceMonitors N c ms)" for ms
    by (induction ms) (auto intro!: outside_intros outside_DeleteSingleMonitor [OF assms])
  show settle: "outside snap (settle_monitors N c ms l)" for ms l
    unfolding settle_monitors_def
    by (cases ms) (auto intro!: outside_intros outside_dynatrace [OF assms] outside_DeleteSingleMonitor [OF assms] remove)
  show "outside snap (deployDynatraceHttpMonitorResources N c hcp)"
    unfolding deployDynatraceHttpMonitorResources_def Let_def
    by (intro outside_intros outside_dynatrace [OF assms] settle) (auto intro!: outside_intros outside_dynatrace [OF assms] split: bool.split)
  show "outside snap (deleteDynatraceHttpMonitorResources N c hcp)"
    unfolding deleteDynatraceHttpMonitorResources_def
    by (intro outside_intros outside_dynatrace [OF assms])
qed

lemma outside_rhobs_steps:
  assumes "net_frame N snap"
  shows "outside snap (drop_probe N c i)" "outside snap (create_probe N c hcp u p)"
    "outside snap (refresh_probe N c hcp e p)" "outside snap (deleteRHOBSProbe N hcp cfg)"
  unfolding drop_probe_def create_probe_def refresh_probe_def deleteRHOBSProbe_def Let_def
    NewClusterProbeRequest_def
  by (intro outside_intros outside_client [OF assms] outside_DeleteProbe [OF assms] outside_Net [OF assms])+

lemma keeps_ensureRHOBSProbe:
  assumes "api_laws E snap" "net_frame N snap"
  shows "keeps E snap (ensureRHOBSProbe E N hcp cfg)"
proof -
  have hc: "kube_laws snap c_hc c_hc_update (hc_api E)" using assms(1) by (simp add: api_laws_def)
  note out = outside_rhobs_steps [OF assms(2)] outside_client [OF assms(2)] outside_DeleteProbe [OF assms(2)]
  show ?thesis
    unfolding ensureRHOBSProbe_def limited_support_def
    by (intro keeps_intros keeps_Get [OF hc] out [THEN keeps_outside])
qed

lemma keeps_NewDynatraceApiClient:
  assumes "api_laws E snap"
  shows "keeps E snap (hcp_NewDynatraceApiClient E)"
proof -
  have sec: "kube_laws snap c_sec c_sec_update (sec_api E)" using assms by (simp add: api_laws_def)
  show ?thesis unfolding hcp_NewDynatraceApiClient_def getDynatraceSecrets_def
    by (intro keeps_intros keeps_Get [OF sec])
qed

end
