(* ===== verification/Operator_Config.thy ===== *)
theory Operator_Config
  imports Hcp_Healthcheck
begin

text \<open>
  Where the operator's configuration comes from: config/config.go, the flags and the config map
  that main.go reads at start-up, and the same config map as the hosted-control-plane controller
  reads it at every reconcile.
\<close>

definition OperatorName :: string where "OperatorName = ''route-monitor-operator''"
definition OperatorNamespace :: string where "OperatorNamespace = ''openshift-route-monitor-operator''"
definition configMapName :: string where "configMapName = OperatorName @ ''-config''"

definition config_key :: NamespacedName where
  "config_key = \<lparr>nn_name = configMapName, nn_namespace = OperatorNamespace\<rparr>"

text \<open>The trimmed value of a key of the config map.\<close>

definition config_value :: "ConfigMap \<Rightarrow> string \<Rightarrow> string" where
  "config_value configMap k = strings_TrimSpace (map_read (obj_spec configMap) k)"

section \<open>main.go\<close>

record OperatorConfig =
  oc_ProbeAPIURL :: string
  oc_ProbeTenant :: string
  oc_OIDCClientID :: string
  oc_OIDCClientSecret :: string
  oc_OIDCIssuerURL :: string
  oc_OnlyPublicClusters :: bool
  oc_SkipInfrastructureHealthCheck :: bool

definition empty_OperatorConfig :: OperatorConfig where
  "empty_OperatorConfig =
     \<lparr>oc_ProbeAPIURL = [], oc_ProbeTenant = [], oc_OIDCClientID = [], oc_OIDCClientSecret = [],
      oc_OIDCIssuerURL = [], oc_OnlyPublicClusters = False, oc_SkipInfrastructureHealthCheck = False\<rparr>"

text \<open>What the config map says; a boolean is true only for the value \<open>true\<close>.\<close>

definition config_of :: "ConfigMap \<Rightarrow> OperatorConfig" where
  "config_of configMap =
     \<lparr>oc_ProbeAPIURL = config_value configMap ''probe-api-url'',
      oc_ProbeTenant = config_value configMap ''probe-tenant'',
      oc_OIDCClientID = config_value configMap ''oidc-client-id'',
      oc_OIDCClientSecret = config_value configMap ''oidc-client-secret'',
      oc_OIDCIssuerURL = config_value configMap ''oidc-issuer-url'',
      oc_OnlyPublicClusters = (config_value configMap ''only-public-clusters'' = ''true''),
      oc_SkipInfrastructureHealthCheck =
        (config_value configMap ''skip-infrastructure-health-check'' = ''true'')\<rparr>"

text \<open>\<open>client.New\<close> may fail; it is a parameter.\<close>

definition getConfigFromConfigMap ::
    "('w, go_error option) io \<Rightarrow> 'w Env \<Rightarrow> ('w, go_error + OperatorConfig) io" where
  "getConfigFromConfigMap client_New E =
     do { n \<leftarrow> client_New;
          (case n of
             Some err \<Rightarrow> ret (Inl err)
           | None \<Rightarrow>
               do { r \<leftarrow> kube_Get (cm_api E) config_key;
                    (case r of
                       Inl err \<Rightarrow> if IsNotFound err then ret (Inr empty_OperatorConfig) else ret (Inl err)
                     | Inr configMap \<Rightarrow> ret (Inr (config_of configMap))) }) }"

definition shouldEnableHCP :: "('w, go_error option) io \<Rightarrow> 'w Env \<Rightarrow> ('w, bool \<times> go_error option) io" where
  "shouldEnableHCP client_New E =
     do { n \<leftarrow> client_New;
          (case n of
             Some err \<Rightarrow> ret (False, Some err)
           | None \<Rightarrow>
               do { r \<leftarrow> kube_Get (crd_api E)
                      \<lparr>nn_name = ''hostedcontrolplanes.hypershift.openshift.io'', nn_namespace = []\<rparr>;
                    (case r of
                       Inl err \<Rightarrow> if IsNotFound err then ret (False, None) else ret (False, Some err)
                     | Inr _ \<Rightarrow> ret (True, None)) }) }"

text \<open>The configuration after the command line and the config map are merged: the variables of
  \<open>main\<close> that its controllers are made from.  \<open>flags\<close> are the values of the flags.\<close>

definition or_flag :: "string \<Rightarrow> string \<Rightarrow> string" where
  "or_flag v flag = (if v \<noteq> [] then v else flag)"

definition merge_config :: "OperatorConfig \<Rightarrow> go_error + OperatorConfig \<Rightarrow> OperatorConfig" where
  "merge_config flags r =
     (case r of
        Inl err \<Rightarrow> flags
      | Inr configData \<Rightarrow>
          \<lparr>oc_ProbeAPIURL = or_flag (oc_ProbeAPIURL configData) (oc_ProbeAPIURL flags),
           oc_ProbeTenant = or_flag (oc_ProbeTenant configData) (oc_ProbeTenant flags),
           oc_OIDCClientID = or_flag (oc_OIDCClientID configData) (oc_OIDCClientID flags),
           oc_OIDCClientSecret = or_flag (oc_OIDCClientSecret configData) (oc_OIDCClientSecret flags),
           oc_OIDCIssuerURL = or_flag (oc_OIDCIssuerURL configData) (oc_OIDCIssuerURL flags),
           oc_OnlyPublicClusters =
             (if oc_OnlyPublicClusters configData then True else oc_OnlyPublicClusters flags),
           oc_SkipInfrastructureHealthCheck =
             (if oc_SkipInfrastructureHealthCheck configData then True
              else oc_SkipInfrastructureHealthCheck flags)\<rparr>)"

definition validate_config :: "OperatorConfig \<Rightarrow> OperatorConfig" where
  "validate_config c =
     (if oc_ProbeAPIURL c \<noteq> [] \<and> \<not> ValidURL (oc_ProbeAPIURL c) then c\<lparr>oc_ProbeAPIURL := []\<rparr> else c)"

definition rhobs_config :: "OperatorConfig \<Rightarrow> RHOBSConfig" where
  "rhobs_config c =
     \<lparr>ProbeAPIURL = oc_ProbeAPIURL c, Tenant = oc_ProbeTenant c, OIDCClientID = oc_OIDCClientID c,
      OIDCClientSecret = oc_OIDCClientSecret c, OIDCIssuerURL = oc_OIDCIssuerURL c,
      OnlyPublicClusters = oc_OnlyPublicClusters c,
      SkipInfrastructureHealthCheck = oc_SkipInfrastructureHealthCheck c, ReconcileInterval = 0\<rparr>"

text \<open>The configuration \<open>main\<close> starts its controllers with, and the hosted-control-plane
  controller's part of it when that controller is enabled.\<close>

definition startup ::
    "('w, go_error option) io \<Rightarrow> 'w Env \<Rightarrow> OperatorConfig \<Rightarrow> ('w, OperatorConfig \<times> RHOBSConfig option) io" where
  "startup client_New E flags =
     do { configData \<leftarrow> getConfigFromConfigMap client_New E;
          (let cfg = validate_config (merge_config flags configData) in
           do { (enableHCP, err) \<leftarrow> shouldEnableHCP client_New E;
                ret (cfg, if enableHCP then Some (rhobs_config cfg) else None) }) }"

section \<open>getRHOBSConfig\<close>

definition periodicReconcileInterval :: int where "periodicReconcileInterval = 10 * Minute"

definition merge_interval :: "string \<Rightarrow> int \<Rightarrow> int" where
  "merge_interval v interval =
     (if v = [] then interval
      else case ParseDuration v of
             None \<Rightarrow> interval
           | Some d \<Rightarrow> if d \<ge> 10 * Second then d else interval)"

definition getRHOBSConfig :: "'w Env \<Rightarrow> RHOBSConfig \<Rightarrow> ('w, RHOBSConfig \<times> DynatraceConfig) io" where
  "getRHOBSConfig E fallback =
     do { r \<leftarrow> kube_Get (cm_api E) config_key;
          (case r of
             Inl err \<Rightarrow> ret (fallback, \<lparr>dt_Enabled = False\<rparr>)
           | Inr configMap \<Rightarrow>
               ret (\<lparr>ProbeAPIURL = or_flag (config_value configMap ''probe-api-url'') (ProbeAPIURL fallback),
                     Tenant = or_flag (config_value configMap ''probe-tenant'') (Tenant fallback),
                     OIDCClientID = or_flag (config_value configMap ''oidc-client-id'') (OIDCClientID fallback),
                     OIDCClientSecret =
                       or_flag (config_value configMap ''oidc-client-secret'') (OIDCClientSecret fallback),
                     OIDCIssuerURL = or_flag (config_value configMap ''oidc-issuer-url'') (OIDCIssuerURL fallback),
                     OnlyPublicClusters = (if config_value configMap ''only-public-clusters'' = ''true'' then True
                       else OnlyPublicClusters fallback),
                     SkipInfrastructureHealthCheck =
                       (if config_value configMap ''skip-infrastructure-health-check'' = ''true'' then True
                        else SkipInfrastructureHealthCheck fallback),
                     ReconcileInterval =
                       merge_interval (config_value configMap ''reconcile-interval'') (ReconcileInterval fallback)\<rparr>,
                    \<lparr>dt_Enabled = (config_value configMap ''dynatrace-enabled'' = ''true'')\<rparr>)) }"

definition reconcile_interval :: "RHOBSConfig \<Rightarrow> int" where
  "reconcile_interval cfg = (if ReconcileInterval cfg > 0 then ReconcileInterval cfg else periodicReconcileInterval)"

section \<open>Properties\<close>

text \<open>A fallback that enables RHOBS cannot be disabled from the config map.\<close>

lemma wp_getRHOBSConfig:
  assumes "ok_world E snap w"
  shows "wp (getRHOBSConfig E fallback) (\<lambda>(cfg, dt) w'. ok_world E snap w' \<and> snap w' = snap w \<and>
     (ProbeAPIURL fallback \<noteq> [] \<longrightarrow> ProbeAPIURL cfg \<noteq> []) \<and>
     (SkipInfrastructureHealthCheck fallback \<longrightarrow> SkipInfrastructureHealthCheck cfg)) w"
  unfolding getRHOBSConfig_def wp_simps
  by (rule wp_Get [OF assms ok_world_laws(9) [OF assms]]) (simp_all add: wp_simps or_flag_def)

text \<open>C36. The interval between two reconciles of a control plane is at least ten seconds, whatever the
  config map says, when the fallback's is (an interval of zero stands for ten minutes).\<close>

theorem reconcile_interval_bounded:
  assumes "ok_world E snap w"
    and "ReconcileInterval fallback = 0 \<or> ReconcileInterval fallback \<ge> 10 * Second"
  shows "wp (getRHOBSConfig E fallback) (\<lambda>(cfg, dt) _. reconcile_interval cfg \<ge> 10 * Second) w"
proof -
  have merge: "merge_interval v i = 0 \<or> merge_interval v i \<ge> 10 * Second"
    if "i = 0 \<or> i \<ge> 10 * Second" for v i
    using that by (auto simp: merge_interval_def split: option.splits)
  have le: "10 * Second \<le> periodicReconcileInterval"
    by (simp add: periodicReconcileInterval_def Minute_def Second_def)
  have "reconcile_interval cfg \<ge> 10 * Second"
    if "ReconcileInterval cfg = 0 \<or> ReconcileInterval cfg \<ge> 10 * Second" for cfg
    using that le by (auto simp: reconcile_interval_def)
  then show ?thesis
    unfolding getRHOBSConfig_def wp_simps
    by (intro wp_Get [OF assms(1) ok_world_laws(9) [OF assms(1)]]) (simp_all add: wp_simps assms(2) merge)
qed

text \<open>C35. The operator starts with RHOBS probes enabled only for a well-formed http or https URL with
  a host: whatever flags and config map say, the URL its controllers are given is empty or valid.\<close>

theorem startup_url_valid:
  "wp (startup client_New E flags)
     (\<lambda>(cfg, hcp) _. (oc_ProbeAPIURL cfg = [] \<or> ValidURL (oc_ProbeAPIURL cfg)) \<and>
        (\<forall>rc. hcp = Some rc \<longrightarrow> ProbeAPIURL rc = oc_ProbeAPIURL cfg)) w"
  unfolding startup_def Let_def
  by (auto simp: wp_simps validate_config_def rhobs_config_def wp_iff_run split: prod.splits)

text \<open>C34. The two readers of the config map agree, but for a malformed URL: with the config map that main has
  started the hosted-control-plane controller with still in place, and an API server that answers, a
  reconcile computes the configuration that main made, up to the reconcile interval, which only the second
  reader knows.  When the config map's probe-api-url is malformed main has dropped the URL, and the
  reconcile uses it as it stands.\<close>

theorem reconcile_config_stable:
  assumes ok: "ok_world E snap w" and rel: "api_reliable E"
    and stored: "map_of (c_cm (snap w)) config_key = Some configMap"
    and client: "\<And>v. ok_world E snap v \<Longrightarrow> wp client_New (\<lambda>r v'. r = None \<and> ok_world E snap v' \<and> snap v' = snap v) v"
  defines "url \<equiv> config_value configMap ''probe-api-url''"
  shows "wp (startup client_New E flags) (\<lambda>(_, hcp) w'. \<forall>rc. hcp = Some rc \<longrightarrow>
     wp (getRHOBSConfig E rc) (\<lambda>(cfg, dt) _. cfg\<lparr>ReconcileInterval := 0\<rparr> =
       (if url = [] \<or> ValidURL url then rc else rc\<lparr>ProbeAPIURL := url\<rparr>)) w') w"
proof -
  let ?m = "validate_config (merge_config flags (Inr (config_of configMap)))"
  have first: "wp (getConfigFromConfigMap client_New E)
      (\<lambda>r w'. r = Inr (config_of configMap) \<and> ok_world E snap w' \<and> snap w' = snap w) w"
    unfolding getConfigFromConfigMap_def wp_bind
  proof (rule wp_mono [OF client [OF ok]], elim conjE, goal_cases)
    case (1 r v)
    show ?case unfolding 1(1) option.case wp_bind
      by (rule wp_Get_reliable [OF 1(2) ok_world_laws(9) [OF ok] api_reliable_kinds(9) [OF rel]])
        (use 1(3) stored in \<open>auto simp: wp_simps\<close>)
  qed
  have enable: "wp (shouldEnableHCP client_New E) (\<lambda>_ v'. ok_world E snap v' \<and> snap v' = snap w) v"
    if v: "ok_world E snap v" "snap v = snap w" for v
    unfolding shouldEnableHCP_def wp_bind
  proof (rule wp_mono [OF client [OF v(1)]], elim conjE, goal_cases)
    case (1 r v1)
    show ?case unfolding 1(1) option.case wp_bind
      by (rule wp_Get [OF 1(2) ok_world_laws(17) [OF ok]]) (use 1(3) v(2) in \<open>auto simp: wp_simps\<close>)
  qed
  have second: "wp (getRHOBSConfig E (rhobs_config ?m)) (\<lambda>(cfg, dt) _. cfg\<lparr>ReconcileInterval := 0\<rparr> =
      (if url = [] \<or> ValidURL url then rhobs_config ?m else (rhobs_config ?m)\<lparr>ProbeAPIURL := url\<rparr>)) v"
    if v: "ok_world E snap v" "snap v = snap w" for v
  proof -
    have flag: "or_flag u (or_flag u f) = or_flag u f" "or_flag [] f = f" "u \<noteq> [] \<Longrightarrow> or_flag u f = u" for u f
      by (simp_all add: or_flag_def)
    note read = wp_Get_reliable [OF v(1) ok_world_laws(9) [OF ok] api_reliable_kinds(9) [OF rel]]
      and fields = rhobs_config_def merge_config_def config_of_def validate_config_def flag url_def [symmetric]
    show ?thesis
    proof (cases "url = []")
      case True
      show ?thesis
        unfolding getRHOBSConfig_def wp_bind
        by (rule read) (use stored v(2) True in \<open>auto simp: wp_simps fields\<close>)
    next
      case False
      show ?thesis
        unfolding getRHOBSConfig_def wp_bind
        by (rule read) (use stored v(2) False in \<open>auto simp: wp_simps fields\<close>)
    qed
  qed
  show ?thesis
    unfolding startup_def Let_def wp_bind
    by (rule wp_mono [OF first], elim conjE, simp only: wp_simps, rule wp_mono [OF enable])
      (auto simp: wp_simps intro!: wp_mono [OF second])
qed

text \<open>C37. The URL that a reconcile uses is not validated: whatever stands under probe-api-url in the
  config map, well formed or not, is the URL of the probe API when the config map can be read.\<close>

theorem reconcile_url_unvalidated:
  assumes "ok_world E snap w" and "api_reliable E"
    and "map_of (c_cm (snap w)) config_key = Some configMap"
    and "config_value configMap ''probe-api-url'' = url" and "url \<noteq> []"
  shows "wp (getRHOBSConfig E fallback) (\<lambda>(cfg, dt) _. ProbeAPIURL cfg = url) w"
  unfolding getRHOBSConfig_def wp_simps
  by (rule wp_Get_reliable [OF assms(1) ok_world_laws(9) [OF assms(1)] api_reliable_kinds(9) [OF assms(2)]])
    (use assms in \<open>auto simp: wp_simps or_flag_def\<close>)

end
