(* ===== verification/Hcp_Controller.thy ===== *)
theory Hcp_Controller
  imports Hcp_Synthetics Operator_Config Finalizers Reconcile_Result Kube_Patterns
begin

text \<open>
  controllers/hostedcontrolplane/hostedcontrolplane.go: the controller of hosted control planes.
  It keeps a Route and a RouteMonitor for the kube-apiserver inside the management cluster and the
  monitors of \<open>Hcp_Synthetics\<close> outside, and cleans up under a finalizer.
\<close>

section \<open>Names\<close>

definition hostedcontrolplaneFinalizer :: string where
  "hostedcontrolplaneFinalizer = ''hostedcontrolplane.routemonitoroperator.monitoring.openshift.io/finalizer''"

definition watchResourceLabel :: string where
  "watchResourceLabel = ''hostedcontrolplane.routemonitoroperator.monitoring.openshift.io/managed''"

definition retryTimeoutMinutes :: int where "retryTimeoutMinutes = 5"
definition vpcEndpointRetryTimeout :: int where "vpcEndpointRetryTimeout = retryTimeoutMinutes * Minute"
definition rhobsAPIRetryTimeout :: int where "rhobsAPIRetryTimeout = retryTimeoutMinutes * Minute"
definition rhobsProbeDeletionTimeout :: int where "rhobsProbeDeletionTimeout = 15 * Minute"

section \<open>Internal monitoring objects\<close>

definition getKubeAPIServerPort :: "'w Env \<Rightarrow> HostedControlPlane \<Rightarrow> ('w, go_error + int) io" where
  "getKubeAPIServerPort E hostedcontrolplane =
     do { r \<leftarrow> kube_Get (svc_api E)
            \<lparr>nn_name = ''kube-apiserver'', nn_namespace = om_namespace (obj_meta hostedcontrolplane)\<rparr>;
          (case r of
             Inl err \<Rightarrow> ret (Inl (wrap_w ''couldn't query API server service resource'' err))
           | Inr apiServerService \<Rightarrow>
               (case svc_ports (obj_spec apiServerService) of
                  port # _ \<Rightarrow> ret (Inr (sp_port port))
                | [] \<Rightarrow> ret (Inr 6443))) }"

definition buildMetadataForUpdate :: "ObjectMeta \<Rightarrow> ObjectMeta \<Rightarrow> ObjectMeta" where
  "buildMetadataForUpdate expected actual =
     actual\<lparr>om_labels := om_labels expected, om_ownerReferences := om_ownerReferences expected\<rparr>"

definition buildInternalMonitoringRoute :: "Libs \<Rightarrow> HostedControlPlane \<Rightarrow> Route" where
  "buildInternalMonitoringRoute L hostedcontrolplane =
     \<lparr>obj_type = empty_type,
      obj_meta = empty_meta\<lparr>om_name := om_name (obj_meta hostedcontrolplane) @ ''-kube-apiserver-monitoring'',
                            om_namespace := om_namespace (obj_meta hostedcontrolplane),
                            om_ownerReferences := buildOwnerReferences L hostedcontrolplane,
                            om_labels := fmap_of_list [(watchResourceLabel, ''true'')]\<rparr>,
      obj_spec = \<lparr>rt_host = ''kube-apiserver.'' @ om_namespace (obj_meta hostedcontrolplane) @ ''.svc.cluster.local'',
                  rt_tls = Some (''None'', ''passthrough''),
                  rt_to = (''Service'', ''kube-apiserver'', 100),
                  rt_wildcardPolicy = ''None''\<rparr>,
      obj_status = []\<rparr>"

definition buildInternalMonitoringRouteMonitor ::
    "Libs \<Rightarrow> Route \<Rightarrow> HostedControlPlane \<Rightarrow> int \<Rightarrow> RouteMonitor" where
  "buildInternalMonitoringRouteMonitor L route hostedcontrolplane apiServerPort =
     empty_RouteMonitor
      \<lparr>obj_meta := empty_meta\<lparr>om_name := om_name (obj_meta route),
                             om_namespace := om_namespace (obj_meta route),
                             om_ownerReferences := buildOwnerReferences L hostedcontrolplane,
                             om_labels := fmap_of_list [(watchResourceLabel, ''true'')]\<rparr>,
       obj_spec := \<lparr>rms_route = \<lparr>rmrs_name = om_name (obj_meta route), rmrs_namespace = om_namespace (obj_meta route),
                                rmrs_port = apiServerPort, rmrs_suffix = ''/livez''\<rparr>,
                   rms_slo = \<lparr>TargetAvailabilityPercent = ''99.5''\<rparr>,
                   rms_skipPrometheusRule = False, rms_insecureSkipTLSVerify = True,
                   rms_serviceMonitorType = ServiceMonitorTypeRHOBS\<rparr>\<rparr>"

text \<open>Create an object, or give the stored one the expected spec, labels and owners; the object as the
  server answered it.\<close>

definition create_or_update ::
    "('s, 't, 'w) kube \<Rightarrow> ('s, 't) kobj \<Rightarrow> ('w, go_error + ('s, 't) kobj) io" where
  "create_or_update K expected =
     do { c \<leftarrow> kube_Create K expected;
          (case c of
             Inr created \<Rightarrow> ret (Inr created)
           | Inl err \<Rightarrow>
               if \<not> IsAlreadyExists err then ret (Inl err)
               else do { g \<leftarrow> kube_Get K (obj_key expected);
                         (case g of
                            Inl err \<Rightarrow> ret (Inl err)
                          | Inr actual \<Rightarrow>
                              kube_Update K (expected\<lparr>obj_meta :=
                                buildMetadataForUpdate (obj_meta expected) (obj_meta actual)\<rparr>)) }) }"

definition deployInternalMonitoringObjects ::
    "'w Env \<Rightarrow> HostedControlPlane \<Rightarrow> RHOBSConfig \<Rightarrow> ('w, go_error option) io" where
  "deployInternalMonitoringObjects E hostedcontrolplane cfg =
     (if SkipInfrastructureHealthCheck cfg then ret None
      else do { r \<leftarrow> create_or_update (route_api E) (buildInternalMonitoringRoute (libs E) hostedcontrolplane);
                (case r of
                   Inl err \<Rightarrow> ret (Some err)
                 | Inr expectedRoute \<Rightarrow>
                     do { p \<leftarrow> getKubeAPIServerPort E hostedcontrolplane;
                          (case p of
                             Inl err \<Rightarrow> ret (Some err)
                           | Inr apiServerPort \<Rightarrow>
                               do { m \<leftarrow> create_or_update (rm_api E) (buildInternalMonitoringRouteMonitor (libs E)
                                      expectedRoute hostedcontrolplane apiServerPort);
                                    ret (err_of m) }) }) })"

text \<open>Delete an object that may be gone already.\<close>

definition delete_if_present :: "('s, 't, 'w) kube \<Rightarrow> ('s, 't) kobj \<Rightarrow> ('w, go_error option) io" where
  "delete_if_present K expected =
     do { d \<leftarrow> kube_Delete K expected;
          (case d of
             Some err \<Rightarrow> if \<not> IsNotFound err then ret (Some err) else ret None
           | None \<Rightarrow> ret None) }"

definition deleteInternalMonitoringObjects ::
    "'w Env \<Rightarrow> HostedControlPlane \<Rightarrow> ('w, go_error option) io" where
  "deleteInternalMonitoringObjects E hostedcontrolplane =
     (let expectedRoute = buildInternalMonitoringRoute (libs E) hostedcontrolplane in
      do { r \<leftarrow> delete_if_present (route_api E) expectedRoute;
           (case r of
              Some err \<Rightarrow> ret (Some err)
            | None \<Rightarrow>
                delete_if_present (rm_api E)
                  (buildInternalMonitoringRouteMonitor (libs E) expectedRoute hostedcontrolplane 6443)) })"

definition finalizeHostedControlPlane ::
    "'w Env \<Rightarrow> HostedControlPlane \<Rightarrow> ('w, go_error option) io" where
  "finalizeHostedControlPlane E hostedcontrolplane =
     do { r \<leftarrow> deleteInternalMonitoringObjects E hostedcontrolplane;
          (case r of
             Some err \<Rightarrow> ret (Some (wrap_w ''failed to cleanup internal monitoring resources'' err))
           | None \<Rightarrow> ret None) }"

definition isHCPAvailable :: "Libs \<Rightarrow> HostedControlPlane \<Rightarrow> bool \<times> string" where
  "isHCPAvailable L hcp =
     (case FindStatusCondition L (hcpst_conditions (obj_status hcp)) ''Available'' of
        None \<Rightarrow> (False, ''AvailableConditionNotFound'')
      | Some condition \<Rightarrow>
          if cond_status condition \<noteq> ''True'' then (False, cond_reason condition) else (True, []))"

section \<open>Reconcile\<close>

text \<open>The RHOBS part of a deletion: an error within the timeout stops it (\<open>Inl\<close> the result), an error
  after the timeout is recorded and ignored.\<close>

definition delete_probe_step ::
    "'w Net \<Rightarrow> HostedControlPlane \<Rightarrow> RHOBSConfig \<Rightarrow> ('w, (CtrlResult \<times> go_error option) + unit) io" where
  "delete_probe_step N hostedcontrolplane cfg =
     (if ProbeAPIURL cfg = [] then ret (Inr ())
      else do { t \<leftarrow> now N;
                let deletionElapsed = t - the (om_deletionTimestamp (obj_meta hostedcontrolplane));
                d \<leftarrow> deleteRHOBSProbe N hostedcontrolplane cfg;
                (case d of
                   None \<Rightarrow> ret (Inr ())
                 | Some err \<Rightarrow>
                     if deletionElapsed < rhobsProbeDeletionTimeout
                     then (if IsNon200Error (Some err)
                           then ret (Inl (Requeue_after rhobsAPIRetryTimeout, None))
                           else ret (Inl (RequeueWith (Some err))))
                     else do { _ \<leftarrow> RecordProbeDeletionTimeout N; ret (Inr ()) }) })"

definition delete_dynatrace_step ::
    "'w Net \<Rightarrow> DynatraceApiClient option \<Rightarrow> HostedControlPlane \<Rightarrow> RHOBSConfig
       \<Rightarrow> ('w, (CtrlResult \<times> go_error option) + unit) io" where
  "delete_dynatrace_step N dynatraceApiClient hostedcontrolplane cfg =
     (case dynatraceApiClient of
        None \<Rightarrow> ret (Inr ())
      | Some client \<Rightarrow>
          do { d \<leftarrow> deleteDynatraceHttpMonitorResources N client hostedcontrolplane;
               (case d of
                  None \<Rightarrow> ret (Inr ())
                | Some err \<Rightarrow> if ProbeAPIURL cfg \<noteq> [] then ret (Inr ()) else ret (Inl (RequeueWith (Some err)))) })"

text \<open>The last part of a deletion: the internal objects and the finalizer.\<close>

definition finalize_deletion ::
    "'w Env \<Rightarrow> HostedControlPlane \<Rightarrow> ('w, CtrlResult \<times> go_error option) io" where
  "finalize_deletion E hostedcontrolplane =
     do { f \<leftarrow> finalizeHostedControlPlane E hostedcontrolplane;
          (case f of
             Some err \<Rightarrow> ret (RequeueWith (Some err))
           | None \<Rightarrow>
               do { u \<leftarrow> kube_Update (hcp_api E) (hostedcontrolplane\<lparr>obj_meta :=
                      Remove (libs E) (obj_meta hostedcontrolplane) hostedcontrolplaneFinalizer\<rparr>);
                    (case err_of u of
                       Some err \<Rightarrow> ret (RequeueWith (Some err))
                     | None \<Rightarrow> ret Stop) }) }"

text \<open>A control plane whose deletion was requested.\<close>

definition reconcile_deletion ::
    "'w Env \<Rightarrow> 'w Net \<Rightarrow> DynatraceApiClient option \<Rightarrow> HostedControlPlane \<Rightarrow> RHOBSConfig
       \<Rightarrow> ('w, CtrlResult \<times> go_error option) io" where
  "reconcile_deletion E N dynatraceApiClient hostedcontrolplane cfg =
     do { a \<leftarrow> delete_dynatrace_step N dynatraceApiClient hostedcontrolplane cfg;
          (case a of
             Inl r \<Rightarrow> ret r
           | Inr _ \<Rightarrow>
               do { b \<leftarrow> delete_probe_step N hostedcontrolplane cfg;
                    (case b of
                       Inl r \<Rightarrow> ret r
                     | Inr _ \<Rightarrow> finalize_deletion E hostedcontrolplane) }) }"

text \<open>The monitoring of a control plane that is ready.\<close>

definition reconcile_monitors ::
    "'w Env \<Rightarrow> 'w Net \<Rightarrow> DynatraceApiClient option \<Rightarrow> HostedControlPlane \<Rightarrow> RHOBSConfig
       \<Rightarrow> ('w, (CtrlResult \<times> go_error option) outcome) io" where
  "reconcile_monitors E N dynatraceApiClient hostedcontrolplane cfg =
     do { i \<leftarrow> deployInternalMonitoringObjects E hostedcontrolplane cfg;
          (case i of
             Some err \<Rightarrow> ret (Returns (RequeueWith (Some err)))
           | None \<Rightarrow>
               do { d \<leftarrow> (case dynatraceApiClient of
                        None \<Rightarrow> ret (Returns None)
                      | Some client \<Rightarrow> deployDynatraceHttpMonitorResources N client hostedcontrolplane);
                    (case d of
                       Panics \<Rightarrow> ret Panics
                     | Returns derr \<Rightarrow>
                         if derr \<noteq> None \<and> ProbeAPIURL cfg = [] then ret (Returns (RequeueWith derr))
                         else if ProbeAPIURL cfg = []
                         then ret (Returns (Requeue_after (reconcile_interval cfg), derr))
                         else do { p \<leftarrow> ensureRHOBSProbe E N hostedcontrolplane cfg;
                                   (case p of
                                      Panics \<Rightarrow> ret Panics
                                    | Returns (Some err) \<Rightarrow>
                                        if IsNon200Error (Some err)
                                        then ret (Returns (Requeue_after rhobsAPIRetryTimeout, None))
                                        else ret (Returns (RequeueWith (Some err)))
                                    | Returns None \<Rightarrow>
                                        ret (Returns (Requeue_after (reconcile_interval cfg), None))) }) }) }"

text \<open>The TLS check: \<open>Inl\<close> the result when the kube-apiserver cannot be reached, in which case the
  internal objects are removed.\<close>

definition tls_step ::
    "'w Env \<Rightarrow> 'w Net \<Rightarrow> HostedControlPlane \<Rightarrow> RHOBSConfig
       \<Rightarrow> ('w, (CtrlResult \<times> go_error option) + unit) io" where
  "tls_step E N hostedcontrolplane cfg =
     (if SkipInfrastructureHealthCheck cfg then ret (Inr ())
      else do { p \<leftarrow> getKubeAPIServerPort E hostedcontrolplane;
                (case p of
                   Inl err \<Rightarrow> ret (Inl (Requeue_after (healthcheckIntervalSeconds * Second), None))
                 | Inr apiServerPort \<Rightarrow>
                     do { k \<leftarrow> isKubeAPIServerReachable N hostedcontrolplane apiServerPort;
                          (case k of
                             None \<Rightarrow> ret (Inr ())
                           | Some err \<Rightarrow>
                               do { d \<leftarrow> deleteInternalMonitoringObjects E hostedcontrolplane;
                                    (case d of
                                       Some deleteErr \<Rightarrow> ret (Inl (RequeueWith (Some (wrap_w
                                         (''failed to remove internal monitoring objects while '' @
                                          ''kube-apiserver TLS is unavailable'') deleteErr))))
                                     | None \<Rightarrow> ret (Inl (Requeue_after (healthcheckIntervalSeconds * Second), None))) }) }) })"

text \<open>A live control plane that has its finalizer.\<close>

definition reconcile_live ::
    "'w Env \<Rightarrow> 'w Net \<Rightarrow> DynatraceApiClient option \<Rightarrow> HostedControlPlane \<Rightarrow> RHOBSConfig
       \<Rightarrow> ('w, (CtrlResult \<times> go_error option) outcome) io" where
  "reconcile_live E N dynatraceApiClient hostedcontrolplane cfg =
     (if \<not> SkipInfrastructureHealthCheck cfg \<and> \<not> fst (isHCPAvailable (libs E) hostedcontrolplane)
      then ret (Returns (Requeue_after (healthcheckIntervalSeconds * Second), None))
      else do { h \<leftarrow> hcpReady E N hostedcontrolplane cfg;
        (case h of
           Inl err \<Rightarrow> ret (Returns (RequeueWith (Some (wrap_v ''HCP readiness check failed'' err))))
         | Inr False \<Rightarrow> ret (Returns (Requeue_after (healthcheckIntervalSeconds * Second), None))
         | Inr True \<Rightarrow>
             do { v \<leftarrow> isVpcEndpointReady E hostedcontrolplane cfg;
                  (case v of
                     Inl err \<Rightarrow> ret (Returns (RequeueWith (Some err)))
                   | Inr False \<Rightarrow> ret (Returns (Requeue_after vpcEndpointRetryTimeout, None))
                   | Inr True \<Rightarrow>
                       do { t \<leftarrow> tls_step E N hostedcontrolplane cfg;
                            (case t of
                               Inl r \<Rightarrow> ret (Returns r)
                             | Inr _ \<Rightarrow> reconcile_monitors E N dynatraceApiClient hostedcontrolplane cfg) }) }) })"

definition hcp_Reconcile ::
    "'w Env \<Rightarrow> 'w Net \<Rightarrow> RHOBSConfig \<Rightarrow> NamespacedName \<Rightarrow> ('w, (CtrlResult \<times> go_error option) outcome) io" where
  "hcp_Reconcile E N fallback req =
     do { (cfg, dynatraceConfig) \<leftarrow> getRHOBSConfig E fallback;
          g \<leftarrow> kube_Get (hcp_api E) req;
          (case g of
             Inl err \<Rightarrow> if IsNotFound err then ret (Returns Stop) else ret (Returns (RequeueWith (Some err)))
           | Inr hostedcontrolplane \<Rightarrow>
               do { c \<leftarrow> (if dt_Enabled dynatraceConfig
                         then do { n \<leftarrow> hcp_NewDynatraceApiClient E;
                                   ret (case n of
                                          Inr client \<Rightarrow> Inr (Some client)
                                        | Inl err \<Rightarrow> if ProbeAPIURL cfg \<noteq> [] then Inr None else Inl err) }
                         else ret (Inr None));
                    (case c of
                       Inl err \<Rightarrow> ret (Returns (RequeueWith (Some err)))
                     | Inr dynatraceApiClient \<Rightarrow>
                         if WasDeleteRequested (obj_meta hostedcontrolplane)
                         then do { r \<leftarrow> reconcile_deletion E N dynatraceApiClient hostedcontrolplane cfg;
                                   ret (Returns r) }
                         else if \<not> Contains (om_finalizers (obj_meta hostedcontrolplane)) hostedcontrolplaneFinalizer
                         then do { u \<leftarrow> kube_Update (hcp_api E) (hostedcontrolplane\<lparr>obj_meta :=
                                     Add (libs E) (obj_meta hostedcontrolplane) hostedcontrolplaneFinalizer\<rparr>);
                                   (case u of
                                      Inl err \<Rightarrow> ret (Returns (RequeueWith (Some err)))
                                    | Inr updated \<Rightarrow> reconcile_live E N dynatraceApiClient updated cfg) }
                         else reconcile_live E N dynatraceApiClient hostedcontrolplane cfg) }) }"

section \<open>Requests from the config map\<close>

text \<open>A change of the operator's config map requeues every control plane.\<close>

definition configMap_requests :: "'w Env \<Rightarrow> ConfigMap \<Rightarrow> ('w, NamespacedName list) io" where
  "configMap_requests E cm =
     (if om_name (obj_meta cm) \<noteq> configMapName \<or> om_namespace (obj_meta cm) \<noteq> OperatorNamespace
      then ret []
      else do { r \<leftarrow> kube_List (hcp_api E) None;
                (case r of
                   Inl err \<Rightarrow> ret []
                 | Inr hcps \<Rightarrow> ret (map obj_key hcps)) })"

end
