(* ===== verification/Hcp_Internal.thy ===== *)
theory Hcp_Internal
  imports Hcp_Controller
begin

text \<open>
  The internal monitoring objects of a hosted control plane: what deploying and removing them does
  to the cluster.
\<close>

section \<open>Removal\<close>

definition internal_key :: "HostedControlPlane \<Rightarrow> NamespacedName" where
  "internal_key hcp = \<lparr>nn_name = om_name (obj_meta hcp) @ ''-kube-apiserver-monitoring'',
                       nn_namespace = om_namespace (obj_meta hcp)\<rparr>"

lemma internal_keys [simp]:
  "obj_key (buildInternalMonitoringRoute L hcp) = internal_key hcp"
  "obj_key (buildInternalMonitoringRouteMonitor L (buildInternalMonitoringRoute L hcp) hcp p) = internal_key hcp"
  by (simp_all add: obj_key_def internal_key_def buildInternalMonitoringRoute_def
      buildInternalMonitoringRouteMonitor_def)

text \<open>The clusters \<open>c\<close> and \<open>d\<close> differ at most in the Route and the RouteMonitor \<open>k\<close>.\<close>

definition internal_frame :: "NamespacedName \<Rightarrow> cluster \<Rightarrow> cluster \<Rightarrow> bool" where
  "internal_frame k c d \<longleftrightarrow>
     d = c\<lparr>c_route := c_route d, c_rm := c_rm d\<rparr> \<and>
     (\<forall>k'. k' \<noteq> k \<longrightarrow> map_of (c_route d) k' = map_of (c_route c) k' \<and> map_of (c_rm d) k' = map_of (c_rm c) k')"

lemma internal_frame_refl [simp]: "internal_frame k c c"
  by (simp add: internal_frame_def)

lemma internal_frame_trans: "internal_frame k c d \<Longrightarrow> internal_frame k d e \<Longrightarrow> internal_frame k c e"
  by (cases c; cases d; cases e) (simp add: internal_frame_def)

lemma internal_frame_intros:
  "changes_only c_route c_route_update k c d \<Longrightarrow> internal_frame k c d"
  "changes_only c_rm c_rm_update k c d \<Longrightarrow> internal_frame k c d"
  by (cases c; cases d; auto simp: changes_only_def internal_frame_def)+

text \<open>Nothing is left of the internal objects, except what others still hold.\<close>

definition internal_gone :: "NamespacedName \<Rightarrow> cluster \<Rightarrow> bool" where
  "internal_gone k c \<longleftrightarrow> gone c_route k c \<and> gone c_rm k c"

lemma wp_delete_if_present:
  assumes ok: "ok_world E snap w" and laws: "kube_laws snap fld upd K" and lens: "lens fld upd"
  shows "wp (delete_if_present K x)
     (\<lambda>r w'. ok_world E snap w' \<and> changes_only fld upd (obj_key x) (snap w) (snap w') \<and>
        (r = None \<longrightarrow> gone fld (obj_key x) (snap w'))) w"
  unfolding delete_if_present_def wp_simps
  by (rule wp_Delete [OF ok laws])
    (use lens in \<open>auto simp: gone_def lens_get map_of_settle live_or_held_def intro!: changes_only_upd\<close>)

lemma wp_deleteInternalMonitoringObjects:
  assumes ok: "ok_world E snap w"
  shows "wp (deleteInternalMonitoringObjects E hcp)
     (\<lambda>r w'. ok_world E snap w' \<and> internal_frame (internal_key hcp) (snap w) (snap w') \<and>
        (r = None \<longrightarrow> internal_gone (internal_key hcp) (snap w'))) w"
  unfolding deleteInternalMonitoringObjects_def Let_def wp_simps
proof (rule wp_mono [OF wp_delete_if_present [OF ok ok_world_laws(3) [OF ok] cluster_lenses(3)]], goal_cases)
  case (1 r w1)
  let ?k = "internal_key hcp"
  from 1 have ok1: "ok_world E snap w1" and f1: "internal_frame ?k (snap w) (snap w1)"
    and g1: "r = None \<Longrightarrow> gone c_route ?k (snap w1)"
    by (auto intro: internal_frame_intros)
  show ?case
  proof (cases r)
    case None
    have "wp (delete_if_present (rm_api E) (buildInternalMonitoringRouteMonitor (libs E)
        (buildInternalMonitoringRoute (libs E) hcp) hcp 6443))
      (\<lambda>r w'. ok_world E snap w' \<and> internal_frame ?k (snap w) (snap w') \<and>
         (r = None \<longrightarrow> internal_gone ?k (snap w'))) w1"
    proof (rule wp_mono [OF wp_delete_if_present [OF ok1 ok_world_laws(1) [OF ok1] cluster_lenses(1)]], goal_cases)
      case (1 r' w')
      then have "changes_only c_rm c_rm_update ?k (snap w1) (snap w')" by simp
      then have "internal_frame ?k (snap w1) (snap w')" "c_route (snap w') = c_route (snap w1)"
        by (auto intro: internal_frame_intros simp: changes_only_def)
           (metis cluster.select_convs(3) cluster.surjective cluster.update_convs(1))
      then show ?case
        using 1 g1 [OF None] internal_frame_trans [OF f1] by (simp add: internal_gone_def gone_def)
    qed
    then show ?thesis by (simp add: None)
  qed (use ok1 f1 in simp)
qed

lemma yields_delete_if_present: "kube_reliable K \<Longrightarrow> yields (\<lambda>r. r = None) (delete_if_present K x)"
  unfolding delete_if_present_def
  by (rule yields_bind [where P = "\<lambda>d. \<forall>e. d = Some e \<longrightarrow> IsNotFound e"])
    (auto simp: kube_reliable_def yields_def split: option.split intro!: wp_return [THEN iffD2])

lemma yields_deleteInternalMonitoringObjects:
  assumes "api_reliable E"
  shows "yields (\<lambda>r. r = None) (deleteInternalMonitoringObjects E hcp)"
proof -
  note absent = yields_delete_if_present [OF api_reliable_kinds(3) [OF assms]]
    yields_delete_if_present [OF api_reliable_kinds(1) [OF assms]]
  show ?thesis
    unfolding deleteInternalMonitoringObjects_def Let_def
    by (rule yields_bind [OF absent(1)]) (simp add: absent(2))
qed

section \<open>Deployment\<close>

text \<open>\<open>deployed fld k x n c\<close>: under \<open>k\<close> stands \<open>n\<close>, with the spec, labels and owners of \<open>x\<close>.\<close>

definition deployed where
  "deployed fld k x n c \<longleftrightarrow> map_of (fld c) k = Some n \<and> obj_spec n = obj_spec x \<and>
     om_labels (obj_meta n) = om_labels (obj_meta x) \<and>
     om_ownerReferences (obj_meta n) = om_ownerReferences (obj_meta x)"

lemma update_metadata_key [simp]:
  "obj_key (x\<lparr>obj_meta := buildMetadataForUpdate m (obj_meta a)\<rparr>) = obj_key a"
  by (simp add: buildMetadataForUpdate_def obj_key_def)

lemma update_metadata_fields [simp]:
  "om_labels (buildMetadataForUpdate m a) = om_labels m"
  "om_ownerReferences (buildMetadataForUpdate m a) = om_ownerReferences m"
  "om_finalizers (buildMetadataForUpdate m a) = om_finalizers a"
  by (simp_all add: buildMetadataForUpdate_def)

lemma wp_create_or_update:
  assumes ok: "ok_world E snap w" and laws: "kube_laws snap fld upd K" and lens: "lens fld upd"
    and wf: "\<And>c. wf_cluster c \<Longrightarrow> wf_store (fld c)"
  shows "wp (create_or_update K x) (\<lambda>r w'. ok_world E snap w' \<and>
     changes_only fld upd (obj_key x) (snap w) (snap w') \<and>
     (\<forall>n. r = Inr n \<longrightarrow> deployed fld (obj_key x) x n (snap w'))) w"
    (is "wp _ ?Q w")
proof -
  have update: "wp (kube_Update K (x\<lparr>obj_meta := buildMetadataForUpdate (obj_meta x) (obj_meta actual)\<rparr>)) ?Q w2"
    if w2: "ok_world E snap w2" "snap w2 = snap w" and a: "map_of (fld (snap w)) (obj_key x) = Some actual"
    for actual w2
  proof -
    have wfs: "wf_store (fld (snap w))" using wf ok_world_wf [OF ok] .
    have key: "obj_key actual = obj_key x" and live: "live_or_held actual"
      using wf_store_key [OF wfs a] wf_store_live [OF wfs a] by simp_all
    show ?thesis
      by (rule wp_Update [OF w2(1) laws])
        (use w2(2) a key live lens in \<open>auto simp: deployed_def lens_get map_of_settle live_or_held_def
           same_sent_meta_def same_server_meta_def intro!: changes_only_upd\<close>)
  qed
  have fetch: "wp (kube_Get K (obj_key x)) (\<lambda>g. wp (case g of Inl err \<Rightarrow> ret (Inl err)
      | Inr actual \<Rightarrow> kube_Update K (x\<lparr>obj_meta := buildMetadataForUpdate (obj_meta x) (obj_meta actual)\<rparr>)) ?Q) w1"
    if w1: "ok_world E snap w1" "snap w1 = snap w" for w1
    by (rule wp_Get [OF w1(1) laws]) (use w1(2) lens update in \<open>simp_all add: wp_return\<close>)
  show ?thesis
    unfolding create_or_update_def wp_bind
  proof (rule wp_Create [OF ok laws], goal_cases)
    case (1 e w1)
    then show ?case using fetch lens by (simp add: wp_return wp_bind)
  next
    case (2 n w1)
    then show ?case using lens
      by (auto simp: deployed_def lens_get same_sent_meta_def wp_return intro!: changes_only_upd)
  qed
qed

text \<open>The port of the kube-apiserver service, which the cluster must have.\<close>

definition apiserver_port :: "HostedControlPlane \<Rightarrow> cluster \<Rightarrow> int option" where
  "apiserver_port hcp c =
     (case map_of (c_svc c) \<lparr>nn_name = ''kube-apiserver'', nn_namespace = om_namespace (obj_meta hcp)\<rparr> of
        None \<Rightarrow> None
      | Some svc \<Rightarrow> Some (case svc_ports (obj_spec svc) of [] \<Rightarrow> 6443 | port # _ \<Rightarrow> sp_port port))"

lemma wp_getKubeAPIServerPort:
  assumes "ok_world E snap w"
  shows "wp (getKubeAPIServerPort E hcp) (\<lambda>r w'. ok_world E snap w' \<and> snap w' = snap w \<and>
     (\<forall>p. r = Inr p \<longrightarrow> apiserver_port hcp (snap w) = Some p)) w"
  unfolding getKubeAPIServerPort_def wp_bind
  by (rule wp_Get [OF assms ok_world_laws(8) [OF assms]])
    (auto simp: apiserver_port_def wp_simps split: list.splits)

lemma wp_deploy_internal:
  assumes ok: "ok_world E snap w" and skip: "\<not> SkipInfrastructureHealthCheck cfg"
  shows "wp (deployInternalMonitoringObjects E hcp cfg)
     (\<lambda>r w'. ok_world E snap w' \<and> internal_frame (internal_key hcp) (snap w) (snap w') \<and>
       (r = None \<longrightarrow> (\<exists>port rt m. apiserver_port hcp (snap w) = Some port \<and>
          deployed c_route (internal_key hcp) (buildInternalMonitoringRoute (libs E) hcp) rt (snap w') \<and>
          deployed c_rm (internal_key hcp) (buildInternalMonitoringRouteMonitor (libs E)
            (buildInternalMonitoringRoute (libs E) hcp) hcp port) m (snap w')))) w"
  unfolding deployInternalMonitoringObjects_def if_not_P [OF skip] wp_bind
proof (rule wp_mono [OF wp_create_or_update [OF ok ok_world_laws(3) [OF ok] cluster_lenses(3)]], goal_cases)
  case (1 c)
  then show ?case by (simp add: wf_cluster_def)
next
  case (2 r w1)
  let ?k = "internal_key hcp" and ?route = "buildInternalMonitoringRoute (libs E) hcp"
  from 2 have ok1: "ok_world E snap w1" and f1: "internal_frame ?k (snap w) (snap w1)"
    and r1: "\<And>n. r = Inr n \<Longrightarrow> deployed c_route ?k ?route n (snap w1)"
    and svc: "c_svc (snap w1) = c_svc (snap w)"
    by (auto intro: internal_frame_intros simp: changes_only_def)
      (metis cluster.select_convs(8) cluster.surjective cluster.update_convs(3))
  show ?case
  proof (cases r)
    case (Inr rt)
    have key: "obj_key rt = ?k"
      using r1 [OF Inr] wf_store_key [of "c_route (snap w1)" ?k rt] ok_world_wf [OF ok1]
      by (simp add: deployed_def wf_cluster_def)
    then have same: "buildInternalMonitoringRouteMonitor (libs E) rt hcp p =
        buildInternalMonitoringRouteMonitor (libs E) ?route hcp p" for p
      by (simp add: buildInternalMonitoringRouteMonitor_def buildInternalMonitoringRoute_def
          obj_key_def internal_key_def empty_meta_def)
    show ?thesis unfolding Inr sum.case wp_bind
    proof (rule wp_mono [OF wp_getKubeAPIServerPort [OF ok1]], goal_cases)
      case (1 p w2)
      then have ok2: "ok_world E snap w2" and eq2: "snap w2 = snap w1"
        and port: "\<And>n. p = Inr n \<Longrightarrow> apiserver_port hcp (snap w) = Some n"
        by (simp_all add: apiserver_port_def svc)
      show ?case
      proof (cases p)
        case (Inr n)
        show ?thesis unfolding Inr sum.case wp_bind same
        proof (rule wp_mono [OF wp_create_or_update [OF ok2 ok_world_laws(1) [OF ok2] cluster_lenses(1)]], goal_cases)
          case (2 m w3)
          have "c_route (snap w3) = c_route (snap w1)" if "changes_only c_rm c_rm_update ?k (snap w1) (snap w3)"
            using that by (cases "snap w1"; cases "snap w3") (simp add: changes_only_def)
          then show ?case
            using 2 eq2 port [OF Inr] r1 [OF \<open>r = Inr rt\<close>] internal_frame_trans [OF f1]
            by (cases m) (auto simp: wp_return deployed_def intro: internal_frame_intros)
        qed (simp add: wf_cluster_def)
      qed (use f1 ok2 eq2 in \<open>simp add: wp_return\<close>)
    qed
  qed (use f1 ok1 in \<open>simp add: wp_return\<close>)
qed

text \<open>C23. When the internal monitoring of a control plane is deployed without error, its Route stands
  in the cluster with the expected host, service and labels, and its RouteMonitor with the port of
  the kube-apiserver service; in any case nothing else changes.\<close>

theorem deploy_internal_correct:
  assumes "ok_world E snap w" and "\<not> SkipInfrastructureHealthCheck cfg"
  shows "wp (deployInternalMonitoringObjects E hcp cfg)
     (\<lambda>r w'. internal_frame (internal_key hcp) (snap w) (snap w') \<and>
       (r = None \<longrightarrow> (\<exists>port rt m. apiserver_port hcp (snap w) = Some port \<and>
          deployed c_route (internal_key hcp) (buildInternalMonitoringRoute (libs E) hcp) rt (snap w') \<and>
          deployed c_rm (internal_key hcp) (buildInternalMonitoringRouteMonitor (libs E)
            (buildInternalMonitoringRoute (libs E) hcp) hcp port) m (snap w')))) w"
  by (rule wp_mono [OF wp_deploy_internal [OF assms]]) simp

end
