(* ===== verification/Rhobs_Properties.thy ===== *)
theory Rhobs_Properties
  imports Rhobs_Client
begin

text \<open>
  What the RHOBS client promises: its URLs, the errors its callers tell apart, the token cache, and
  how it behaves when the API is down.
\<close>

section \<open>An API that is down\<close>

text \<open>Every request fails or is answered with a server error.\<close>

definition api_down :: "'w Net \<Rightarrow> bool" where
  "api_down N \<longleftrightarrow> (\<forall>v r. yields (\<lambda>a. case a of Inl _ \<Rightarrow> True | Inr resp \<Rightarrow> resp_StatusCode resp \<ge> 500) (http_Do N v r))"

lemma yields_timed:
  assumes "yields (\<lambda>(_, a). P a) body"
  shows "yields P (timed N record_it body)"
  unfolding timed_def
  by (intro yields_after yields_bind [OF assms]) (auto intro!: yields_after yields_return)

lemma yields_GetProbe:
  assumes "api_down N"
  shows "yields (\<lambda>(r, _). \<exists>e. r = Inl e) (GetProbe N c i)"
proof -
  have answer: "\<exists>e. snd (get_answer i a) = Inl e"
    if "case a of Inl _ \<Rightarrow> True | Inr resp \<Rightarrow> resp_StatusCode resp \<ge> 500" for a
    using that by (auto simp: get_answer_def Let_def split: sum.splits)
  have "yields (\<lambda>(_, r, _). \<exists>e. r = Inl e) (do { resp \<leftarrow> http_Do N True req;
      (case get_answer i resp of (apiSuccess, a) \<Rightarrow> ret (apiSuccess, (a, c'))) })" for req c'
    by (rule yields_bind [OF assms [unfolded api_down_def, rule_format]])
      (use answer in \<open>fastforce split: prod.splits intro!: yields_return\<close>)
  note inner = yields_timed [OF this]
  show ?thesis
  proof (cases "NewRequest ''GET'' (buildProbesURL c) []")
    case (Inr req)
    show ?thesis unfolding GetProbe_def Inr sum.case
      by (rule yields_after) (auto split: prod.split sum.split intro: yields_return inner)
  qed (simp add: GetProbe_def yields_return)
qed

lemma yields_DeleteProbe:
  assumes "api_down N"
  shows "yields (\<lambda>(r, _). \<exists>e. r = Some e) (DeleteProbe N c i)"
  unfolding DeleteProbe_def
  by (rule yields_bind [OF yields_GetProbe [OF assms]]) (auto intro!: yields_return)

section \<open>URLs\<close>

text \<open>The URL of a probe is the URL of the collection, a slash and the ID, for every base URL and
  tenant: the two functions that build them agree on the base.\<close>

lemma probe_url_extends_collection: "buildProbeURL c probeID = buildProbesURL c @ ''/'' @ probeID"
  by (simp add: buildProbeURL_def buildProbesURL_def)

section \<open>Errors that are told apart\<close>

lemma IsNon200Error_wrap_w [simp]:
  "IsNon200Error (Some e) \<Longrightarrow> IsNon200Error (Some (wrap_w ctx e))"
  using strings_Contains_append [of "Error e" apiErrorPrefix "ctx @ '': ''"]
  by (simp add: IsNon200Error_def wrap_w_def)

lemma IsNon200Error_api_error [simp]: "IsNon200Error (Some (api_error code body))"
  by (simp add: IsNon200Error_def api_error_def errors_New_def strings_Contains_def apiErrorPrefix_def)

section \<open>Answers of the API\<close>

lemma fold_option_map:
  "(\<And>x a. x \<in> set xs \<Longrightarrow> f (h x) a = Some (g x a)) \<Longrightarrow> fold_option f (map h xs) a = Some (fold g xs a)"
  by (induction xs arbitrary: a) auto

lemma fmlookup_fold:
  "fmlookup (fold (\<lambda>(k, v). fmupd k v) kvs m) x =
     (case map_of (rev kvs) x of None \<Rightarrow> fmlookup m x | Some v \<Rightarrow> Some v)"
  by (induction kvs arbitrary: m) (auto simp: map_add_def split: option.splits)

lemma decode_encode_map: "decode_map None (encode_map m) = Some m"
proof (cases m)
  case (Some f)
  let ?kvs = "sorted_list_of_fmap f"
  have "distinct (map fst ?kvs)" by (simp add: sorted_list_of_fmap_def comp_def sorted_list_of_fset.rep_eq)
  then have "map_of (rev ?kvs) = map_of ?kvs"
    by (subst map_of_inject_set) (simp_all add: rev_map [symmetric])
  then have "fold (\<lambda>(k, v). fmupd k v) ?kvs fmempty = f"
    by (intro fmap_ext) (simp add: fmlookup_fold split: option.split)
  then show ?thesis
    by (simp add: Some encode_map_def fold_option_map [where g = "\<lambda>(k, v). fmupd k v"] split_beta)
qed (simp add: encode_map_def)

text \<open>The JSON of a probe and of a list of probes, as the API answers them.\<close>

lemma fold_names: "fold_name ''id'' = ''id''" "fold_name ''labels'' = ''labels''"
  "fold_name ''status'' = ''status''" "fold_name ''probes'' = ''probes''" 
  by code_simp+

definition probe_json :: "ProbeResponse \<Rightarrow> json" where
  "probe_json p = JObj [(''id'', JStr (pp_ID p)), (''labels'', encode_map (pp_Labels p)), (''status'', JStr (pp_Status p))]"

lemma decode_probe: "decode_struct assign_ProbeResponse empty_ProbeResponse (probe_json p) = Some p"
  by (simp add: probe_json_def fold_names assign_ProbeResponse_def empty_ProbeResponse_def decode_encode_map
      del: fold_name.simps)

definition probe_utf8 :: "ProbeResponse \<Rightarrow> bool" where
  "probe_utf8 p \<longleftrightarrow> valid_utf8 (pp_ID p) \<and> valid_utf8 (pp_Status p) \<and>
     (case pp_Labels p of None \<Rightarrow> True | Some m \<Rightarrow> fmpred (\<lambda>k v. valid_utf8 k \<and> valid_utf8 v) m)"

lemma utf8_names: "valid_utf8 ''id''" "valid_utf8 ''labels''" "valid_utf8 ''status''" "valid_utf8 ''probes''" "valid_utf8 ''static_url''"
  by code_simp+

lemma plain_map: "plain_json (encode_map m) \<longleftrightarrow> (\<forall>f. m = Some f \<longrightarrow> fmpred (\<lambda>k v. valid_utf8 k \<and> valid_utf8 v) f)"
  by (cases m) (simp_all add: encode_map_def list.pred_map comp_def split_beta curry_def)

lemma depth_map: "depth (encode_map m) \<le> 1"
  by (cases m) (auto simp: encode_map_def split_beta image_constant_conv)

lemma plain_probe: "probe_utf8 p \<Longrightarrow> plain_json (probe_json p)"
  by (simp add: probe_utf8_def probe_json_def plain_map utf8_names split: option.splits del: valid_utf8.simps)

lemma depth_probe: "depth (probe_json p) \<le> 2"
  using depth_map [of "pp_Labels p"] by (simp add: probe_json_def)

definition probes_json :: "ProbeResponse list \<Rightarrow> json" where
  "probes_json ps = JObj [(''probes'', JArr (map probe_json ps))]"

lemma those_map_Some: "(\<And>x. x \<in> set xs \<Longrightarrow> f x = Some (g x)) \<Longrightarrow> those (map f xs) = Some (map g xs)"
  by (induction xs) auto

lemma unmarshal_print:
  assumes "plain_json j" and "depth j \<le> 4" and "decode_struct assign zero j = Some x"
  shows "unmarshal assign zero (json_print j) = Inr x"
proof -
  have "depth j \<le> maxNestingDepth" using assms(2) by (simp add: maxNestingDepth_def)
  then have "json_parse (json_print j) = Some j" by (rule json_parse_print [OF assms(1)])
  then show ?thesis using assms(3) by (simp add: unmarshal_def)
qed

lemma unmarshal_probes:
  assumes "list_all probe_utf8 ps"
  shows "unmarshal assign_ProbesList [] (json_print (probes_json ps)) = Inr ps"
proof (rule unmarshal_print)
  show "plain_json (probes_json ps)"
    using assms by (auto simp: probes_json_def list_all_iff utf8_names plain_probe simp del: valid_utf8.simps)
  show "depth (probes_json ps) \<le> 4"
    using depth_probe by (auto simp: probes_json_def intro!: Max.boundedI)
  show "decode_struct assign_ProbesList [] (probes_json ps) = Some ps"
    by (simp add: probes_json_def fold_names assign_ProbesList_def decode_probe
        those_map_Some [where g = "\<lambda>x. x"] comp_def del: fold_name.simps)
qed

text \<open>C31. Whatever list of probes the API prints as JSON with status 200, the client reads back the same
  list and answers the first probe whose labels carry the cluster ID; the request counts as a
  success.\<close>

theorem probes_list_roundtrip:
  assumes "list_all probe_utf8 ps"
  shows "get_answer i (Inr \<lparr>resp_StatusCode = 200, resp_Status = st, resp_Body = Inr (json_print (probes_json ps))\<rparr>) =
     (True, Inr (find (\<lambda>p. pp_Labels p \<noteq> None \<and> labels_read (pp_Labels p) ''cluster-id'' = i) ps))"
  using unmarshal_probes [OF assms] by (simp add: get_answer_def)


end
