(* ===== verification/Hcp_Deletion.thy ===== *)
theory Hcp_Deletion
  imports Hcp_Internal Rhobs_Properties
begin

text \<open>
  The deletion of a hosted control plane: what it may change, when it is held back by the RHOBS API,
  and that it is not held back for ever.
\<close>

section \<open>What a deletion may change\<close>

definition hcp_frame :: "NamespacedName \<Rightarrow> NamespacedName \<Rightarrow> cluster \<Rightarrow> cluster \<Rightarrow> bool" where
  "hcp_frame k ik c d \<longleftrightarrow>
     d = c\<lparr>c_route := c_route d, c_rm := c_rm d, c_hcp := c_hcp d\<rparr> \<and>
     (\<forall>k'. (k' \<noteq> ik \<longrightarrow> map_of (c_route d) k' = map_of (c_route c) k' \<and> map_of (c_rm d) k' = map_of (c_rm c) k') \<and>
       (k' \<noteq> k \<longrightarrow> map_of (c_hcp d) k' = map_of (c_hcp c) k'))"

lemma hcp_frame_refl [simp]: "hcp_frame k ik c c"
  by (simp add: hcp_frame_def)

lemma hcp_frame_intros:
  "internal_frame ik c d \<Longrightarrow> hcp_frame k ik c d"
  "internal_frame ik c d \<Longrightarrow> changes_only c_hcp c_hcp_update k d e \<Longrightarrow> hcp_frame k ik c e"
  by (cases c; cases d; auto simp: changes_only_def internal_frame_def hcp_frame_def)
    (cases c; cases d; cases e; auto simp: changes_only_def internal_frame_def hcp_frame_def)

definition hcp_finalized :: "NamespacedName \<Rightarrow> cluster \<Rightarrow> bool" where
  "hcp_finalized k c \<longleftrightarrow>
     (\<forall>h. map_of (c_hcp c) k = Some h \<longrightarrow> hostedcontrolplaneFinalizer \<notin> set (om_finalizers (obj_meta h)))"

lemma wp_drop_hcp_finalizer:
  assumes ok: "ok_world E snap w" and h: "map_of (c_hcp (snap w)) k = Some h"
  shows "wp (kube_Update (hcp_api E) (h\<lparr>obj_meta := Remove (libs E) (obj_meta h) hostedcontrolplaneFinalizer\<rparr>))
     (\<lambda>u w'. ok_world E snap w' \<and> changes_only c_hcp c_hcp_update k (snap w) (snap w') \<and>
        (case u of Inl e \<Rightarrow> snap w' = snap w \<and> \<not> api_reliable E | Inr _ \<Rightarrow> hcp_finalized k (snap w'))) w"
proof -
  have wfs: "wf_store (c_hcp (snap w))" using ok_world_wf [OF ok] by (simp add: wf_cluster_def)
  have sets: "sets_ok (libs E)" using ok by (simp add: ok_world_def)
  have key: "obj_key (h\<lparr>obj_meta := Remove (libs E) (obj_meta h) hostedcontrolplaneFinalizer\<rparr>) = k"
    using wf_store_key [OF wfs h] by (simp add: obj_key_def)
  let ?x = "h\<lparr>obj_meta := Remove (libs E) (obj_meta h) hostedcontrolplaneFinalizer\<rparr>"
  have update: "wp (kube_Update (hcp_api E) ?x)
     (\<lambda>u w'. ok_world E snap w' \<and> changes_only c_hcp c_hcp_update k (snap w) (snap w') \<and>
        (case u of Inl e \<Rightarrow> snap w' = snap w | Inr _ \<Rightarrow> hcp_finalized k (snap w'))) w"
    by (rule wp_Update [OF ok ok_world_laws(11) [OF ok]])
      (use key h sets in \<open>auto simp: cluster_lenses map_of_settle hcp_finalized_def same_sent_meta_def
         intro!: changes_only_upd\<close>)
  have reliable: "wp (kube_Update (hcp_api E) ?x) (\<lambda>u _. api_reliable E \<longrightarrow> (\<exists>n. u = Inr n)) w"
  proof (cases "api_reliable E")
    case True
    have "wp (kube_Update (hcp_api E) ?x) (\<lambda>u _. \<exists>n. u = Inr n) w"
      using key h sets
      by (intro wp_Update_reliable [OF ok ok_world_laws(11) [OF ok] api_reliable_kinds(11) [OF True]])
        (auto simp: adds_finalizer_def)
    then show ?thesis by (rule wp_mono) simp
  qed (simp add: wp_iff_run)
  show ?thesis
    by (rule wp_mono [OF wp_conj [OF update reliable]]) (auto split: sum.splits)
qed

text \<open>What a deletion step leaves behind: either the control plane is untouched, or the internal objects
  are gone and it has lost the finalizer.\<close>

definition deletion_step where
  "deletion_step k h c d \<longleftrightarrow> hcp_frame k (internal_key h) c d \<and>
     (map_of (c_hcp d) k = map_of (c_hcp c) k \<or> internal_gone (internal_key h) d \<and> hcp_finalized k d)"

lemma wp_reliable_removal:
  "wp (deleteInternalMonitoringObjects E hcp) (\<lambda>r _. api_reliable E \<longrightarrow> r = None) w"
  using yields_deleteInternalMonitoringObjects [of E hcp]
  by (cases "api_reliable E") (auto simp: yields_def wp_iff_run)

lemma wp_finalize_deletion:
  assumes ok: "ok_world E snap w" and h: "map_of (c_hcp (snap w)) k = Some h"
  shows "wp (finalize_deletion E h)
     (\<lambda>r w'. ok_world E snap w' \<and> deletion_step k h (snap w) (snap w') \<and>
        (snd r = None \<longrightarrow> internal_gone (internal_key h) (snap w') \<and> hcp_finalized k (snap w')) \<and>
        (api_reliable E \<longrightarrow> r = Stop)) w"
  unfolding finalize_deletion_def finalizeHostedControlPlane_def bind_assoc wp_simps
proof (rule wp_mono [OF wp_conj [OF wp_deleteInternalMonitoringObjects [OF ok] wp_reliable_removal]], goal_cases)
  case (1 r w1)
  let ?ik = "internal_key h"
  have ok1: "ok_world E snap w1" and f: "internal_frame ?ik (snap w) (snap w1)"
    and g: "r = None \<Longrightarrow> internal_gone ?ik (snap w1)" using 1 by simp_all
  have hcp: "c_hcp (snap w1) = c_hcp (snap w)"
    using f by (metis internal_frame_def cluster.select_convs(11) cluster.surjective
        cluster.update_convs(1) cluster.update_convs(3))
  show ?case
  proof (cases r)
    case None
    have h1: "map_of (c_hcp (snap w1)) k = Some h" using h hcp by simp
    show ?thesis unfolding None option.case wp_simps
    proof (rule wp_mono [OF wp_drop_hcp_finalizer [OF ok1 h1]], goal_cases)
      case (1 u w')
      have "internal_gone ?ik (snap w')"
      proof -
        have "c_route (snap w') = c_route (snap w1) \<and> c_rm (snap w') = c_rm (snap w1)"
          using 1 unfolding changes_only_def
          by (metis cluster.select_convs(1,3) cluster.surjective cluster.update_convs(11))
        then show ?thesis using g [OF None] by (simp add: internal_gone_def gone_def)
      qed
      then show ?case
        using 1 hcp_frame_intros(2) [OF f] hcp_frame_intros(1) [OF f] hcp
        by (cases u) (auto simp: deletion_step_def RequeueWith_def Stop_def wp_simps)
    qed
  next
    case (Some e)
    then have "\<not> api_reliable E" using 1 by simp
    then show ?thesis using Some ok1 f hcp
      by (simp add: wp_simps deletion_step_def hcp_frame_intros RequeueWith_def)
  qed
qed

lemma outside_deletion_steps:
  assumes "net_frame N snap"
  shows "outside snap (delete_dynatrace_step N c h cfg)" "outside snap (delete_probe_step N h cfg)"
  unfolding delete_dynatrace_step_def delete_probe_step_def Let_def
  by (intro outside_intros outside_dynatrace_steps [OF assms] outside_rhobs_steps [OF assms]
      outside_Net [OF assms] outside_metrics [OF assms])+

lemma wp_reconcile_deletion:
  assumes ok: "ok_world E snap w" and N: "net_frame N snap" and h: "map_of (c_hcp (snap w)) k = Some h"
  shows "wp (reconcile_deletion E N c h cfg)
     (\<lambda>_ w'. ok_world E snap w' \<and> deletion_step k h (snap w) (snap w')) w"
  unfolding reconcile_deletion_def wp_simps
proof (rule wp_outside [OF outside_deletion_steps(1) [OF N]], goal_cases)
  case (1 a w1)
  have still: "deletion_step k h (snap w) (snap w)" by (simp add: deletion_step_def)
  show ?case
  proof (cases a)
    case (Inr u)
    show ?thesis unfolding Inr sum.case
    proof (rule wp_outside [OF outside_deletion_steps(2) [OF N]], goal_cases)
      case (1 b w2)
      then have eq: "snap w2 = snap w" using \<open>snap w1 = snap w\<close> by simp
      have fin: "wp (finalize_deletion E h)
          (\<lambda>_ w'. ok_world E snap w' \<and> deletion_step k h (snap w) (snap w')) w2"
        by (rule wp_mono [OF wp_finalize_deletion [OF ok_world_cong [OF ok eq] h [folded eq]]]) (simp add: eq)
      then show ?case using ok_world_cong [OF ok eq] eq still by (cases b) simp_all
    qed
  qed (use 1 ok_world_cong [OF ok] still in simp)
qed

lemma wp_return_eta [wp_simps]: "wp (ret a) Q = Q a"
  by (rule ext) (rule wp_return)

text \<open>Reconciling a control plane whose deletion was requested comes down to \<open>reconcile_deletion\<close>;
  only without RHOBS may it stop before, when there is no Dynatrace client.\<close>

lemma wp_hcp_Reconcile_deleted:
  assumes ok: "ok_world E snap w" and h: "map_of (c_hcp (snap w)) k = Some h"
    and del: "om_deletionTimestamp (obj_meta h) \<noteq> None"
    and get_err: "\<And>e w'. ok_world E snap w' \<Longrightarrow> snap w' = snap w \<Longrightarrow> \<not> api_reliable E \<Longrightarrow>
      Q (Returns (RequeueWith (Some e))) w'"
    and no_client: "\<And>e w'. ok_world E snap w' \<Longrightarrow> snap w' = snap w \<Longrightarrow> ProbeAPIURL fallback = [] \<Longrightarrow>
      Q (Returns (RequeueWith (Some e))) w'"
    and deletion: "\<And>c cfg w'. ok_world E snap w' \<Longrightarrow> snap w' = snap w \<Longrightarrow>
      (ProbeAPIURL fallback \<noteq> [] \<Longrightarrow> ProbeAPIURL cfg \<noteq> []) \<Longrightarrow>
      wp (reconcile_deletion E N c h cfg) (\<lambda>r. Q (Returns r)) w'"
  shows "wp (hcp_Reconcile E N fallback k) Q w"
  unfolding hcp_Reconcile_def wp_bind
proof (rule wp_mono [OF wp_getRHOBSConfig [OF ok]], goal_cases)
  case (1 p w1)
  obtain cfg dt where p: "p = (cfg, dt)" by (cases p)
  have ok1: "ok_world E snap w1" and eq1: "snap w1 = snap w"
    and url: "ProbeAPIURL fallback \<noteq> [] \<Longrightarrow> ProbeAPIURL cfg \<noteq> []" using 1 by (simp_all add: p)
  have laws: "api_laws E snap" using ok by (simp add: ok_world_def)
  show ?case unfolding p prod.case wp_bind
  proof (rule wp_mono [OF wp_Get_stored [OF ok1 ok_world_laws(11) [OF ok1] h [folded eq1]]], goal_cases)
    case (1 g w2)
    then have ok2: "ok_world E snap w2" and eq2: "snap w2 = snap w"
      and g: "case g of Inl e \<Rightarrow> \<not> kube_reliable (hcp_api E) \<and> \<not> IsNotFound e | Inr y \<Rightarrow> y = h"
      using eq1 by simp_all
    have del': "wp (reconcile_deletion E N c h cfg) (\<lambda>r. Q (Returns r)) w3"
      if "ok_world E snap w3" "snap w3 = snap w" for c w3
      using that url by (rule deletion)
    have err': "Q (Returns (RequeueWith (Some e))) w3"
      if "ok_world E snap w3" "snap w3 = snap w" "ProbeAPIURL cfg = []" for e w3
      using that(1,2) by (rule no_client) (use that(3) url in blast)
    have found: "wp (do { c \<leftarrow> (if dt_Enabled dt
                         then do { n \<leftarrow> hcp_NewDynatraceApiClient E;
                                   ret (case n of
                                          Inr client \<Rightarrow> Inr (Some client)
                                        | Inl err \<Rightarrow> if ProbeAPIURL cfg \<noteq> [] then Inr None else Inl err) }
                         else ret (Inr None));
                    (case c of
                       Inl err \<Rightarrow> ret (Returns (RequeueWith (Some err)))
                     | Inr c' \<Rightarrow> do { r \<leftarrow> reconcile_deletion E N c' h cfg; ret (Returns r) }) }) Q w2"
    proof (cases "dt_Enabled dt")
      case True
      show ?thesis unfolding wp_simps if_P [OF True]
        by (rule wp_keeps [OF ok2 keeps_NewDynatraceApiClient [OF laws]])
          (use eq2 in \<open>auto simp: wp_simps split: sum.split intro!: del' err'\<close>)
    next
      case False
      show ?thesis unfolding wp_simps if_not_P [OF False]
        using ok2 eq2 by (auto simp: wp_simps intro!: del')
    qed
    show ?case
    proof (cases g)
      case (Inl e)
      then show ?thesis using g get_err [OF ok2 eq2] by (auto simp: wp_simps api_reliable_def)
    next
      case (Inr y)
      with g have "g = Inr h" by simp
      have "WasDeleteRequested (obj_meta h)" using del by (simp add: WasDeleteRequested_def)
      show ?thesis unfolding \<open>g = Inr h\<close> sum.case if_P [OF \<open>WasDeleteRequested (obj_meta h)\<close>] by (rule found)
    qed
  qed
qed

section \<open>Held back by RHOBS\<close>

text \<open>C7. Reconciling a control plane that is being deleted never panics; it may change that control
  plane and its internal Route and RouteMonitor only, and the control plane loses its finalizer
  only when the internal objects are gone or themselves being deleted, whatever the network does.\<close>

theorem hcp_deletion_safe:
  assumes "ok_world E snap w" and "net_frame N snap" and "map_of (c_hcp (snap w)) k = Some h"
    and "om_deletionTimestamp (obj_meta h) \<noteq> None"
  shows "wp (hcp_Reconcile E N fallback k)
     (\<lambda>r w'. r \<noteq> Panics \<and> deletion_step k h (snap w) (snap w')) w"
proof (rule wp_hcp_Reconcile_deleted [OF assms(1,3,4)], goal_cases)
  case (3 c cfg w')
  show ?case
    by (rule wp_mono [OF wp_reconcile_deletion [OF 3(1) assms(2) assms(3) [folded 3(2)]]]) (simp add: 3(2))
qed (simp_all add: deletion_step_def)

definition deletion_held :: "(CtrlResult \<times> go_error option) outcome \<Rightarrow> bool" where
  "deletion_held r \<longleftrightarrow> r = Returns (Requeue_after rhobsAPIRetryTimeout, None) \<or>
     (\<exists>e. r = Returns (RequeueWith (Some e)))"

lemma yields_delete_dynatrace_step:
  "ProbeAPIURL cfg \<noteq> [] \<Longrightarrow> yields (\<lambda>a. a = Inr ()) (delete_dynatrace_step N c h cfg)"
  unfolding delete_dynatrace_step_def
  by (auto split: option.split intro!: yields_after yields_return)

lemma yields_delete_probe_step_held:
  assumes "api_down N" and "ProbeAPIURL cfg \<noteq> []"
    and "yields (\<lambda>t. t - the (om_deletionTimestamp (obj_meta h)) < rhobsProbeDeletionTimeout) (now N)"
  shows "yields (\<lambda>b. \<exists>r. b = Inl r \<and> deletion_held (Returns r)) (delete_probe_step N h cfg)"
proof -
  have fails: "yields (\<lambda>d. \<exists>e. d = Some e) (deleteRHOBSProbe N h cfg)"
    unfolding deleteRHOBSProbe_def Let_def
    by (auto intro!: yields_return yields_bind [OF yields_DeleteProbe [OF assms(1)]])
  show ?thesis
    unfolding delete_probe_step_def Let_def if_not_P [OF assms(2)]
    by (rule yields_bind [OF assms(3)], rule yields_bind [OF fails])
      (auto simp: deletion_held_def RequeueWith_def intro!: yields_return)
qed

text \<open>C10. With RHOBS configured at start-up and every HTTP service down, its API among them, a control plane whose deletion was
  requested less than fifteen minutes ago is held back: nothing in the cluster changes, so the
  finalizer stays, and the request is retried.\<close>

theorem hcp_deletion_held_back:
  assumes "ok_world E snap w" and "net_frame N snap" and "map_of (c_hcp (snap w)) k = Some h"
    and "om_deletionTimestamp (obj_meta h) = Some d"
    and "api_down N" and "ProbeAPIURL fallback \<noteq> []"
    and "yields (\<lambda>t. t - d < rhobsProbeDeletionTimeout) (now N)"
  shows "wp (hcp_Reconcile E N fallback k) (\<lambda>r w'. snap w' = snap w \<and> deletion_held r) w"
proof (rule wp_hcp_Reconcile_deleted [OF assms(1,3)], goal_cases)
  case (4 c cfg w')
  then have url: "ProbeAPIURL cfg \<noteq> []" and eq: "snap w' = snap w" using assms(6) by simp_all
  show ?case unfolding reconcile_deletion_def wp_bind
  proof (rule wp_mono [OF wp_yields [OF yields_delete_dynatrace_step [OF url]
        wp_outside [OF outside_deletion_steps(1) [OF assms(2)], of _ "\<lambda>_ v. snap v = snap w'"]]], goal_cases)
    case (2 a w1)
    then have a: "a = Inr ()" and eq1: "snap w1 = snap w" using eq by simp_all
    show ?case unfolding a sum.case wp_bind
      by (rule wp_mono [OF wp_yields [OF yields_delete_probe_step_held [OF assms(5) url]
            wp_outside [OF outside_deletion_steps(2) [OF assms(2)], of _ "\<lambda>_ v. snap v = snap w1"]]])
        (use assms(4,7) eq1 in \<open>auto simp: wp_simps\<close>)
  qed simp
qed (use assms(4,6) in \<open>auto simp: deletion_held_def\<close>)

section \<open>Not held back for ever\<close>

lemma yields_delete_probe_step_released:
  assumes "yields (\<lambda>t. t - the (om_deletionTimestamp (obj_meta h)) \<ge> rhobsProbeDeletionTimeout) (now N)"
  shows "yields (\<lambda>b. b = Inr ()) (delete_probe_step N h cfg)"
proof (cases "ProbeAPIURL cfg = []")
  case False
  show ?thesis
    unfolding delete_probe_step_def Let_def if_not_P [OF False]
    by (rule yields_bind [OF assms], rule yields_after)
      (auto split: option.split intro!: yields_return yields_after)
qed (simp add: delete_probe_step_def yields_return)

text \<open>C9. Fifteen minutes after its deletion was requested a control plane is let go, whatever the
  network does, API down or not: with RHOBS configured at start-up and an API server that answers,
  one reconcile removes the internal objects and the finalizer and asks for no retry.\<close>

theorem hcp_deletion_released:
  assumes "ok_world E snap w" and "net_frame N snap" and "map_of (c_hcp (snap w)) k = Some h"
    and "om_deletionTimestamp (obj_meta h) = Some d"
    and "api_reliable E" and "ProbeAPIURL fallback \<noteq> []"
    and "yields (\<lambda>t. t - d \<ge> rhobsProbeDeletionTimeout) (now N)"
  shows "wp (hcp_Reconcile E N fallback k) (\<lambda>r w'. r = Returns Stop \<and>
     internal_gone (internal_key h) (snap w') \<and> hcp_finalized k (snap w') \<and>
     hcp_frame k (internal_key h) (snap w) (snap w')) w"
proof (rule wp_hcp_Reconcile_deleted [OF assms(1,3)], goal_cases)
  case (4 c cfg w')
  then have url: "ProbeAPIURL cfg \<noteq> []" and eq: "snap w' = snap w" using assms(6) by simp_all
  show ?case unfolding reconcile_deletion_def wp_bind
  proof (rule wp_mono [OF wp_yields [OF yields_delete_dynatrace_step [OF url]
        wp_outside [OF outside_deletion_steps(1) [OF assms(2)], of _ "\<lambda>_ v. snap v = snap w'"]]], goal_cases)
    case (2 a w1)
    then have a: "a = Inr ()" and eq1: "snap w1 = snap w" using eq by simp_all
    have released: "yields (\<lambda>b. b = Inr ()) (delete_probe_step N h cfg)"
      by (rule yields_delete_probe_step_released) (use assms(4,7) in simp)
    show ?case unfolding a sum.case wp_bind
    proof (rule wp_mono [OF wp_yields [OF released
            wp_outside [OF outside_deletion_steps(2) [OF assms(2)], of _ "\<lambda>_ v. snap v = snap w1"]]], goal_cases)
      case (2 b w2)
      then have b: "b = Inr ()" and eq2: "snap w2 = snap w" using eq1 by simp_all
      show ?case unfolding b sum.case
        by (rule wp_mono [OF wp_finalize_deletion [OF ok_world_cong [OF assms(1) eq2] assms(3) [folded eq2]]])
          (use assms(5) in \<open>auto simp: eq2 deletion_step_def Stop_def\<close>)
    qed simp
  qed simp
qed (use assms(4-6) in auto)

end
