(* ===== verification/Hcp_Live.thy ===== *)
theory Hcp_Live
  imports Hcp_Deletion
begin

text \<open>
  A whole reconcile of a hosted control plane: which objects it may change, and when it panics.
\<close>

section \<open>Computations that stay within a frame\<close>

text \<open>\<open>stays E snap R P m\<close>: the change \<open>m\<close> makes to the cluster is in \<open>R\<close>, its result in \<open>P\<close>.\<close>

definition stays where
  "stays E snap R P m \<longleftrightarrow> (\<forall>w. ok_world E snap w \<longrightarrow>
     wp m (\<lambda>a w'. ok_world E snap w' \<and> R (snap w) (snap w') \<and> P a) w)"

lemma stays_wp:
  "stays E snap R P m \<Longrightarrow> ok_world E snap w \<Longrightarrow>
     wp m (\<lambda>a w'. ok_world E snap w' \<and> R (snap w) (snap w') \<and> P a) w"
  by (simp add: stays_def)

lemma stays_return: "reflp R \<Longrightarrow> P a \<Longrightarrow> stays E snap R P (ret a)"
  by (simp add: stays_def wp_return reflpD)

lemma stays_bind:
  assumes "transp R" and "stays E snap R P m" and "\<And>a. P a \<Longrightarrow> stays E snap R Q (f a)"
  shows "stays E snap R Q (m \<bind> f)"
  unfolding stays_def wp_bind
proof (intro allI impI)
  fix w
  assume "ok_world E snap w"
  then show "wp m (\<lambda>a. wp (f a) (\<lambda>b w'. ok_world E snap w' \<and> R (snap w) (snap w') \<and> Q b)) w"
  proof (rule wp_mono [OF stays_wp [OF assms(2)]], goal_cases)
    case (1 a w1)
    then show ?case
      by (intro wp_mono [OF stays_wp [OF assms(3)], of a w1]) (auto intro: transpD [OF assms(1)])
  qed
qed

lemma stays_mono:
  assumes "stays E snap R P m" and "\<And>c d. R c d \<Longrightarrow> S c d" and "\<And>a. P a \<Longrightarrow> Q a"
  shows "stays E snap S Q m"
  unfolding stays_def using assms by (blast intro: wp_mono [OF stays_wp])

lemma stays_keeps:
  assumes "reflp R" "keeps E snap m" "yields P m"
  shows "stays E snap R P m"
  unfolding stays_def
proof (intro allI impI)
  fix w
  assume ok: "ok_world E snap w"
  have "wp m (\<lambda>_ w'. ok_world E snap w' \<and> snap w' = snap w) w"
    by (rule wp_keeps [OF ok assms(2)]) simp
  from wp_yields [OF assms(3) this]
  show "wp m (\<lambda>a w'. ok_world E snap w' \<and> R (snap w) (snap w') \<and> P a) w"
    by (rule wp_mono) (simp add: reflpD [OF assms(1)])
qed

lemmas stays_reads = stays_keeps [OF _ _ yields_any]

section \<open>The objects a reconcile may change\<close>

definition internal_of :: "NamespacedName \<Rightarrow> NamespacedName" where
  "internal_of k = \<lparr>nn_name = nn_name k @ ''-kube-apiserver-monitoring'', nn_namespace = nn_namespace k\<rparr>"

definition healthcheck_of :: "NamespacedName \<Rightarrow> NamespacedName" where
  "healthcheck_of k = \<lparr>nn_name = nn_name k @ ''-kube-apiserver-rmo-healthcheck'', nn_namespace = nn_namespace k\<rparr>"

lemma hcp_keys:
  "internal_key h = internal_of (obj_key h)" "healthcheck_key L h = healthcheck_of (obj_key h)"
  by (simp_all add: internal_key_def internal_of_def healthcheck_key_def healthcheck_of_def obj_key_def
      buildHealthCheckConfigMap_def)

text \<open>The clusters differ at most in the control plane \<open>k\<close>, its internal Route and RouteMonitor, and the
  config map of its health checks.\<close>

definition hcp_touch :: "NamespacedName \<Rightarrow> cluster \<Rightarrow> cluster \<Rightarrow> bool" where
  "hcp_touch k c d \<longleftrightarrow>
     d = c\<lparr>c_route := c_route d, c_rm := c_rm d, c_hcp := c_hcp d, c_cm := c_cm d\<rparr> \<and>
     (\<forall>k'. (k' \<noteq> internal_of k \<longrightarrow>
              map_of (c_route d) k' = map_of (c_route c) k' \<and> map_of (c_rm d) k' = map_of (c_rm c) k') \<and>
           (k' \<noteq> k \<longrightarrow> map_of (c_hcp d) k' = map_of (c_hcp c) k') \<and>
           (k' \<noteq> healthcheck_of k \<longrightarrow> map_of (c_cm d) k' = map_of (c_cm c) k'))"

lemma hcp_touch_order: "reflp (hcp_touch k)" "transp (hcp_touch k)"
proof -
  show "reflp (hcp_touch k)" by (simp add: reflp_def hcp_touch_def)
  show "transp (hcp_touch k)"
  proof (rule transpI)
    fix c d e
    assume "hcp_touch k c d" "hcp_touch k d e"
    then show "hcp_touch k c e" by (cases c; cases d; cases e) (simp add: hcp_touch_def)
  qed
qed

lemma hcp_touch_intros:
  "internal_frame (internal_of k) c d \<Longrightarrow> hcp_touch k c d"
  "changes_only c_hcp c_hcp_update k c d \<Longrightarrow> hcp_touch k c d"
  "changes_only c_cm c_cm_update (healthcheck_of k) c d \<Longrightarrow> hcp_touch k c d"
  "hcp_frame k (internal_of k) c d \<Longrightarrow> hcp_touch k c d"
  by (cases c; cases d; auto simp: hcp_touch_def internal_frame_def changes_only_def hcp_frame_def)+

lemmas touch_bind = stays_bind [OF hcp_touch_order(2)]
lemmas touch_return = stays_return [OF hcp_touch_order(1)]
lemmas touch_reads = stays_reads [OF hcp_touch_order(1)]

section \<open>When a reconcile panics\<close>

abbreviation has_aws :: "HostedControlPlane \<Rightarrow> bool" where
  "has_aws h \<equiv> hcps_aws (obj_spec h) \<noteq> None"

text \<open>A computation that never panics.\<close>

definition tame :: "('w, 'a outcome) io \<Rightarrow> bool" where
  "tame m \<longleftrightarrow> yields (\<lambda>r. r \<noteq> Panics) m"

named_theorems tame_intros

lemma tame_return [tame_intros]: "tame (ret (Returns x))"
  by (simp add: tame_def yields_return)

lemma tame_if [tame_intros]: "tame m \<Longrightarrow> tame n \<Longrightarrow> tame (if b then m else n)"
  by simp

lemma tame_sum [tame_intros]:
  "(\<And>e. tame (m e)) \<Longrightarrow> (\<And>x. tame (n x)) \<Longrightarrow> tame (case r of Inl e \<Rightarrow> m e | Inr x \<Rightarrow> n x)"
  by (cases r) simp_all

lemma tame_option [tame_intros]:
  "tame m \<Longrightarrow> (\<And>x. tame (n x)) \<Longrightarrow> tame (case r of None \<Rightarrow> m | Some x \<Rightarrow> n x)"
  by (cases r) simp_all

lemma tame_bool [tame_intros]: "tame m \<Longrightarrow> tame n \<Longrightarrow> tame (case b of True \<Rightarrow> m | False \<Rightarrow> n)"
  by (cases b) simp_all

lemma tame_prod [tame_intros]: "(\<And>a b. tame (m a b)) \<Longrightarrow> tame (case r of (a, b) \<Rightarrow> m a b)"
  by (cases r) simp

lemma tame_bind [tame_intros]: "(\<And>a. tame (f a)) \<Longrightarrow> tame (m \<bind> f)"
  unfolding tame_def by (rule yields_after)

lemma tame_outcome:
  "r \<noteq> Panics \<Longrightarrow> (\<And>x. tame (n x)) \<Longrightarrow> tame (case r of Panics \<Rightarrow> m | Returns x \<Rightarrow> n x)"
  by (cases r) simp_all

lemma tame_bind_outcome:
  "tame m \<Longrightarrow> (\<And>x. tame (n x)) \<Longrightarrow> tame (do { r \<leftarrow> m; (case r of Panics \<Rightarrow> p | Returns x \<Rightarrow> n x) })"
  unfolding tame_def [of m] by (simp add: tame_def yields_bind tame_outcome [unfolded tame_def])

lemma region_tame: "has_aws h \<Longrightarrow> getClusterRegion h \<noteq> Panics"
  by (auto simp: getClusterRegion_def split: if_splits)

lemma tame_steps:
  assumes "has_aws h"
  shows "tame (deployDynatraceHttpMonitorResources N c h)" "tame (create_probe N cl h u p)"
    "tame (refresh_probe N cl h e p)"
proof -
  obtain aws where aws: "hcps_aws (obj_spec h) = Some aws" using assms by auto
  note region = region_tame [OF assms]
  show "tame (deployDynatraceHttpMonitorResources N c h)"
    unfolding deployDynatraceHttpMonitorResources_def Let_def aws option.case
    by (intro tame_intros tame_outcome region)
  show "tame (create_probe N cl h u p)" "tame (refresh_probe N cl h e p)"
    unfolding create_probe_def refresh_probe_def Let_def by (intro tame_intros tame_outcome region)+
qed

lemma tame_ensureRHOBSProbe: "has_aws h \<Longrightarrow> tame (ensureRHOBSProbe E N h cfg)"
  unfolding ensureRHOBSProbe_def Let_def
  by (intro tame_bind_outcome tame_steps tame_intros)

lemma tame_reconcile_monitors: "has_aws h \<Longrightarrow> tame (reconcile_monitors E N c h cfg)"
  unfolding reconcile_monitors_def
  by (intro tame_bind_outcome tame_ensureRHOBSProbe tame_steps tame_intros)

lemma tame_reconcile_live: "has_aws h \<Longrightarrow> tame (reconcile_live E N c h cfg)"
  unfolding reconcile_live_def
  by (auto intro!: tame_intros tame_reconcile_monitors split: sum.split bool.split)

text \<open>Without an AWS platform the code dereferences a nil pointer: with a Dynatrace client, a hostname and the
  infrastructure checks skipped, deploying the monitors panics, and creating an RHOBS probe always does.\<close>

lemma non_aws_panics:
  assumes "hcps_aws (obj_spec h) = None" and "GetAPIServerHostname h = Inr host"
    and "SkipInfrastructureHealthCheck cfg"
  shows "reconcile_monitors E N (Some c) h cfg = ret Panics \<and> create_probe N cl h u p = ret Panics"
  using assms
  by (simp add: reconcile_monitors_def deployInternalMonitoringObjects_def
      deployDynatraceHttpMonitorResources_def create_probe_def getClusterRegion_def Let_def)

section \<open>The frame of a reconcile\<close>

abbreviation touches where
  "touches E snap k m \<equiv> stays E snap (hcp_touch k) (\<lambda>_. True) m"

lemma touches_sum:
  "(\<And>e. touches E snap k (m e)) \<Longrightarrow> (\<And>x. touches E snap k (n x)) \<Longrightarrow>
     touches E snap k (case r of Inl e \<Rightarrow> m e | Inr x \<Rightarrow> n x)"
  by (cases r) simp_all

lemma touches_option:
  "touches E snap k m \<Longrightarrow> (\<And>x. touches E snap k (n x)) \<Longrightarrow>
     touches E snap k (case r of None \<Rightarrow> m | Some x \<Rightarrow> n x)"
  by (cases r) simp_all

lemma touches_if:
  "touches E snap k m \<Longrightarrow> touches E snap k n \<Longrightarrow> touches E snap k (if b then m else n)"
  "touches E snap k m \<Longrightarrow> touches E snap k n \<Longrightarrow> touches E snap k (case b of True \<Rightarrow> m | False \<Rightarrow> n)"
  by (simp_all split: bool.split)

lemma touches_outcome:
  "touches E snap k m \<Longrightarrow> (\<And>x. touches E snap k (n x)) \<Longrightarrow>
     touches E snap k (case r of Panics \<Rightarrow> m | Returns x \<Rightarrow> n x)"
  by (cases r) simp_all

lemma touches_return: "touches E snap k (ret a)"
  by (rule touch_return) simp

lemma touches_bind:
  "touches E snap k m \<Longrightarrow> (\<And>a. touches E snap k (f a)) \<Longrightarrow> touches E snap k (m \<bind> f)"
  by (rule touch_bind)

lemmas touches_intros = touches_return touches_bind touches_if touches_sum touches_option touches_outcome

lemma touches_deleteInternal:
  assumes "obj_key h = k"
  shows "touches E snap k (deleteInternalMonitoringObjects E h)"
  unfolding stays_def
  by (intro allI impI wp_mono [OF wp_deleteInternalMonitoringObjects])
    (auto simp: hcp_keys assms intro: hcp_touch_intros)

lemma touches_deployInternal:
  assumes "obj_key h = k"
  shows "touches E snap k (deployInternalMonitoringObjects E h cfg)"
proof (cases "SkipInfrastructureHealthCheck cfg")
  case True
  then show ?thesis by (simp add: deployInternalMonitoringObjects_def touch_return)
next
  case False
  show ?thesis unfolding stays_def
    by (intro allI impI wp_mono [OF wp_deploy_internal [OF _ False]])
      (auto simp: hcp_keys assms intro: hcp_touch_intros)
qed

lemma touches_update_hcp:
  assumes "obj_key h = k"
  shows "stays E snap (hcp_touch k) (\<lambda>r. \<forall>n. r = Inr n \<longrightarrow> obj_key n = k \<and> obj_spec n = obj_spec h)
    (kube_Update (hcp_api E) h)"
  unfolding stays_def
proof (intro allI impI)
  fix w
  assume ok: "ok_world E snap w"
  show "wp (kube_Update (hcp_api E) h) (\<lambda>r w'. ok_world E snap w' \<and> hcp_touch k (snap w) (snap w') \<and>
      (\<forall>n. r = Inr n \<longrightarrow> obj_key n = k \<and> obj_spec n = obj_spec h)) w"
    by (rule wp_Update [OF ok ok_world_laws(11) [OF ok]])
      (use assms in \<open>auto simp: same_sent_meta_def obj_key_def map_of_settle cluster_lenses
         reflpD [OF hcp_touch_order(1)] intro!: hcp_touch_intros(2) changes_only_upd\<close>)
qed

lemma touches_count:
  assumes ok: "ok_world E snap w" and N: "net_frame N snap"
    and m: "map_of (c_cm (snap w)) (healthcheck_of k) = Some m"
  shows "wp (healthcheck_count E N h m)
     (\<lambda>_ w'. ok_world E snap w' \<and> hcp_touch k (snap w) (snap w')) w"
proof -
  have put: "wp (kube_Update (cm_api E) (m\<lparr>obj_meta := (obj_meta m)\<lparr>om_annotations := a\<rparr>\<rparr>))
      (\<lambda>_ w'. ok_world E snap w' \<and> hcp_touch k (snap w) (snap w')) w1" if "snap w1 = snap w" for a w1
    by (rule wp_mono [OF wp_update_annotations [OF ok_world_cong [OF ok that] m [folded that]]])
      (auto simp: that intro: hcp_touch_intros)
  show ?thesis
    unfolding healthcheck_count_def wp_simps resetHealthCheckSuccesses_def addHealthCheckSuccess_def Let_def
  proof (cases "healthcheckConfigMapSuccesses m \<ge> consecutiveSuccessfulHealthchecks", goal_cases)
    case 1
    then show ?case using ok reflpD [OF hcp_touch_order(1)] by simp
  next
    case 2
    show ?case unfolding if_not_P [OF 2]
      by (rule wp_outside [OF outside_healthcheck [OF N]])
        (auto split: option.split intro!: wp_mono [OF put] split: sum.split)
  qed
qed

lemma touches_hcpReady:
  assumes N: "net_frame N snap" and k: "obj_key h = k"
  shows "touches E snap k (hcpReady E N h cfg)"
  unfolding hcpReady_split
proof (rule touches_if(1) [OF touches_return touches_bind [OF _ touches_if(1) [OF touches_return]]])
  show "touches E snap k (olderThan N (obj_meta h) hcpHealthCheckSkipAge)"
    unfolding olderThan_def Let_def
    by (intro touch_reads keeps_outside outside_intros outside_Net [OF N])
next
  show "touches E snap k (healthcheck_map E h \<bind>
      (\<lambda>m. case m of Inl err \<Rightarrow> ret (Inl err) | Inr m \<Rightarrow> healthcheck_count E N h m))"
    unfolding stays_def wp_bind
  proof (intro allI impI)
    fix w
    assume "ok_world E snap w"
    then show "wp (healthcheck_map E h) (\<lambda>a. wp (case a of Inl err \<Rightarrow> ret (Inl err)
        | Inr m \<Rightarrow> healthcheck_count E N h m)
        (\<lambda>_ w'. ok_world E snap w' \<and> hcp_touch k (snap w) (snap w') \<and> True)) w"
    proof (rule wp_mono [OF wp_healthcheck_map], goal_cases)
      case (1 r w1)
      then have "hcp_touch k (snap w) (snap w1)" by (auto simp: hcp_keys k intro: hcp_touch_intros)
      with 1 show ?case
        by (cases r) (auto simp: hcp_keys k wp_return intro!: wp_mono [OF touches_count [OF _ N]]
            dest: transpD [OF hcp_touch_order(2)])
    qed
  qed
qed

lemma touches_live:
  assumes laws: "api_laws E snap" and N: "net_frame N snap" and k: "obj_key h = k"
  shows "touches E snap k (reconcile_live E N c h cfg)"
proof -
  have svc: "kube_laws snap c_svc c_svc_update (svc_api E)" and vpce: "kube_laws snap c_vpce c_vpce_update (vpce_api E)"
    using laws by (simp_all add: api_laws_def)
  have port: "touches E snap k (getKubeAPIServerPort E h)"
    unfolding getKubeAPIServerPort_def by (intro touch_reads keeps_intros keeps_Get [OF svc])
  have reach: "touches E snap k (isKubeAPIServerReachable N h p)" for p
    unfolding isKubeAPIServerReachable_def by (intro touch_reads keeps_outside outside_intros outside_Net [OF N])
  have endpoint: "touches E snap k (isVpcEndpointReady E h cfg)"
    unfolding isVpcEndpointReady_def Let_def by (intro touch_reads keeps_intros keeps_Get [OF vpce])
  have dynatrace: "touches E snap k (deployDynatraceHttpMonitorResources N cl h)" for cl
    by (intro touch_reads keeps_outside outside_dynatrace_steps [OF N])
  have rhobs: "touches E snap k (ensureRHOBSProbe E N h cfg)"
    by (intro touch_reads keeps_ensureRHOBSProbe [OF laws N])
  note steps = port reach endpoint dynatrace rhobs touches_deleteInternal [OF k] touches_deployInternal [OF k]
    touches_hcpReady [OF N k]
  show ?thesis
    unfolding reconcile_live_def tls_step_def reconcile_monitors_def
    by (intro touches_intros steps)
qed

lemma live_calm:
  assumes "ok_world E snap w" and "net_frame N snap" and "obj_key h = k"
  shows "wp (reconcile_live E N c h cfg) (\<lambda>r w'. hcp_touch k (snap w) (snap w') \<and>
     (has_aws h \<longrightarrow> r \<noteq> Panics)) w"
proof (rule wp_conj)
  have laws: "api_laws E snap" using assms(1) by (simp add: ok_world_def)
  show "wp (reconcile_live E N c h cfg) (\<lambda>_ w'. hcp_touch k (snap w) (snap w')) w"
    by (rule wp_mono [OF stays_wp [OF touches_live [OF laws assms(2,3)] assms(1)]]) simp
  show "wp (reconcile_live E N c h cfg) (\<lambda>r _. has_aws h \<longrightarrow> r \<noteq> Panics) w"
    using tame_reconcile_live [of h E N c cfg]
    by (cases "has_aws h") (auto simp: tame_def yields_def wp_iff_run)
qed

text \<open>C11. Whatever the state of a control plane and of the network, a reconcile of it changes nothing
  but the control plane itself, its internal Route and RouteMonitor, and the config map of its
  health checks; and it does not panic when the platform of the control plane is AWS.\<close>

theorem hcp_reconcile_frame:
  assumes "ok_world E snap w" and "net_frame N snap"
  shows "wp (hcp_Reconcile E N fallback k) (\<lambda>r w'. hcp_touch k (snap w) (snap w') \<and>
     ((\<forall>h. map_of (c_hcp (snap w)) k = Some h \<longrightarrow> has_aws h) \<longrightarrow> r \<noteq> Panics)) w"
    (is "wp _ ?Q w")
  unfolding hcp_Reconcile_def wp_bind
proof (rule wp_mono [OF wp_getRHOBSConfig [OF assms(1)]], goal_cases)
  case (1 p w1)
  obtain cfg dt where p: "p = (cfg, dt)" by (cases p)
  have ok1: "ok_world E snap w1" and eq1: "snap w1 = snap w" using 1 by (simp_all add: p)
  have laws: "api_laws E snap" using assms(1) by (simp add: ok_world_def)
  have same: "hcp_touch k (snap w) (snap w)" using hcp_touch_order(1) by (rule reflpD)
  show ?case unfolding p prod.case wp_bind
  proof (rule wp_Get [OF ok1 ok_world_laws(11) [OF ok1]], goal_cases)
    case (1 e w2)
    then show ?case using eq1 same by (simp add: wp_simps)
  next
    case (2 h w2)
    then have h: "map_of (c_hcp (snap w)) k = Some h" and ok2: "ok_world E snap w2" and eq2: "snap w2 = snap w"
      using eq1 by simp_all
    have key: "obj_key h = k"
      using wf_store_key [OF _ h] ok_world_wf [OF assms(1)] by (simp add: wf_cluster_def)
    have deletion: "wp (reconcile_deletion E N c h cfg) (\<lambda>r. ?Q (Returns r)) w3"
      if "ok_world E snap w3" "snap w3 = snap w" for c w3
      by (rule wp_mono [OF wp_reconcile_deletion [OF that(1) assms(2) h [folded that(2)]]])
        (use that(2) key in \<open>auto simp: deletion_step_def hcp_keys intro: hcp_touch_intros\<close>)
    have live: "wp (reconcile_live E N c h' cfg) ?Q w3"
      if "ok_world E snap w3" "hcp_touch k (snap w) (snap w3)" "obj_key h' = k" "obj_spec h' = obj_spec h" for c h' w3
      by (rule wp_mono [OF live_calm [OF that(1) assms(2) that(3)]])
        (use that h in \<open>auto dest: transpD [OF hcp_touch_order(2)]\<close>)
    have add: "wp (kube_Update (hcp_api E) (h\<lparr>obj_meta := Add (libs E) (obj_meta h) hostedcontrolplaneFinalizer\<rparr>))
        (\<lambda>u. wp (case u of Inl err \<Rightarrow> ret (Returns (RequeueWith (Some err)))
                  | Inr updated \<Rightarrow> reconcile_live E N c updated cfg) ?Q) w3"
      if "ok_world E snap w3" "snap w3 = snap w" for c w3
      by (rule wp_mono [OF stays_wp [OF touches_update_hcp [of _ k] that(1)]])
        (use that key live in \<open>auto simp: obj_key_def wp_return split: sum.split\<close>)
    define cont where "cont c = (if WasDeleteRequested (obj_meta h)
         then do { r \<leftarrow> reconcile_deletion E N c h cfg; ret (Returns r) }
         else if \<not> Contains (om_finalizers (obj_meta h)) hostedcontrolplaneFinalizer
         then do { u \<leftarrow> kube_Update (hcp_api E) (h\<lparr>obj_meta :=
                     Add (libs E) (obj_meta h) hostedcontrolplaneFinalizer\<rparr>);
                   (case u of
                      Inl err \<Rightarrow> ret (Returns (RequeueWith (Some err)))
                    | Inr updated \<Rightarrow> reconcile_live E N c updated cfg) }
         else reconcile_live E N c h cfg)" for c
    have rest: "wp (cont c) ?Q w3" if "ok_world E snap w3" "snap w3 = snap w" for c w3
      using deletion [OF that] add [OF that] live [OF that(1), of h] that(2) same key
      by (simp add: cont_def wp_bind wp_return_eta)
    have fail: "wp (ret (Returns (RequeueWith (Some e)))) ?Q w3" if "snap w3 = snap w" for e w3
      using that same by (simp add: wp_return)
    show ?case unfolding sum.case cont_def [symmetric]
    proof (cases "dt_Enabled dt", goal_cases)
      case 1
      show ?case unfolding if_P [OF 1] wp_bind wp_return
        by (rule wp_keeps [OF ok2 keeps_NewDynatraceApiClient [OF laws]])
          (use eq2 rest fail in \<open>auto split: sum.split\<close>)
    next
      case 2
      show ?case unfolding if_not_P [OF 2] using rest [OF ok2 eq2] by simp
    qed
  qed
qed

end
