(* ===== verification/Rhobs_Trace.thy ===== *)
theory Rhobs_Trace
  imports Hcp_Synthetics Rhobs_Properties
begin

text \<open>
  The requests that the handling of an RHOBS probe sends, in their order and with their answers,
  for any behaviour of the API: the network keeps a log of them.
\<close>

section \<open>Logs\<close>

type_synonym exchange = "http_request \<times> (go_error + http_response)"

definition recording :: "'w Net \<Rightarrow> ('w \<Rightarrow> exchange list) \<Rightarrow> bool" where
  "recording N log \<longleftrightarrow>
     (\<forall>w. wp (now N) (\<lambda>_ w'. log w' = log w) w) \<and>
     (\<forall>v r w. wp (http_Do N v r) (\<lambda>a w'. log w' = log w @ [(r, a)]) w) \<and>
     (\<forall>m ls w. wp (metric_Inc N m ls) (\<lambda>_ w'. log w' = log w) w) \<and>
     (\<forall>m ls v w. wp (metric_Observe N m ls v) (\<lambda>_ w'. log w' = log w) w)"

lemma traces_silent:
  assumes "recording N log"
  shows "traces log (\<lambda>_ t. t = []) (now N)" "traces log (\<lambda>_ t. t = []) (metric_Inc N m ls)"
    "traces log (\<lambda>_ t. t = []) (metric_Observe N m ls v)"
  using assms by (simp_all add: recording_def traces_def)

lemma traces_Do: "recording N log \<Longrightarrow> traces log (\<lambda>a t. t = [(r, a)]) (http_Do N v r)"
  by (simp add: recording_def traces_def)

lemma silent_metrics:
  assumes "recording N log"
  shows "traces log (\<lambda>_ t. t = []) (RecordAPIRequest N op d b)"
    "traces log (\<lambda>_ t. t = []) (RecordOIDCTokenRefresh N d b)"
  unfolding RecordAPIRequest_def RecordOIDCTokenRefresh_def
  by (intro silent_bind traces_silent [OF assms])+

lemma traces_timed:
  assumes rec: "recording N log" and record_it: "\<And>d b. traces log (\<lambda>_ t. t = []) (record_it d b)"
    and body: "traces log (\<lambda>(s, a) t. P a t) body"
  shows "traces log P (timed N record_it body)"
  unfolding timed_def
proof (intro silent_bind [OF traces_silent(1) [OF rec]] traces_bind [OF body], goal_cases)
  case (1 start sa t)
  then show ?case
    by (cases sa) (auto intro!: silent_bind [OF traces_silent(1) [OF rec]] silent_bind [OF record_it] traces_return)
qed

section \<open>Kinds of requests\<close>

text \<open>A request that creates a probe, and one that asks for a probe's termination.\<close>

definition creates :: "http_request \<Rightarrow> bool" where
  "creates r \<longleftrightarrow> hr_method r = ''POST'' \<and> (''Content-Type'', ''application/json'') \<in> set (hr_headers r)"

definition terminates :: "http_request \<Rightarrow> bool" where
  "terminates r \<longleftrightarrow> hr_method r = ''PATCH'' \<and>
     hr_body r = marshal_ProbePatchRequest \<lparr>pa_Status = ''terminating'', pa_Labels = None\<rparr>"

definition quiet :: "exchange list \<Rightarrow> bool" where
  "quiet t \<longleftrightarrow> list_all (\<lambda>(r, a). \<not> creates r) t"

lemma quiet_simps [simp]: "quiet []" "quiet (t @ u) \<longleftrightarrow> quiet t \<and> quiet u"
  "quiet ((r, a) # t) \<longleftrightarrow> \<not> creates r \<and> quiet t"
  by (simp_all add: quiet_def)

text \<open>The API has said that the cluster has no probe, or has accepted to terminate it.\<close>

definition cleared :: "string \<Rightarrow> exchange list \<Rightarrow> bool" where
  "cleared i t \<longleftrightarrow> (\<exists>(r, a) \<in> set t.
     hr_method r = ''GET'' \<and> snd (get_answer i a) = Inr None \<or> terminates r \<and> snd (delete_answer a) = None)"

lemma cleared_append [simp]: "cleared i (t @ u) \<longleftrightarrow> cleared i t \<or> cleared i u"
  by (auto simp: cleared_def)

lemma cleared_Nil [simp]: "\<not> cleared i []"
  by (simp add: cleared_def)

section \<open>The operations of the client\<close>

lemma NewRequest_fields:
  "NewRequest m u b = Inr r \<Longrightarrow> hr_method r = m \<and> hr_body r = b \<and> hr_headers r = []"
  by (auto simp: NewRequest_def split: sum.splits)

lemma Header_Set_fields [simp]:
  "hr_method (Header_Set k v r) = hr_method r" "hr_body (Header_Set k v r) = hr_body r"
  "(k', v') \<in> set (hr_headers (Header_Set k v r)) \<longleftrightarrow>
     (if k' = k then v' = v else (k', v') \<in> set (hr_headers r))"
  by (auto simp: Header_Set_def)

definition same_request :: "http_request \<Rightarrow> http_request \<Rightarrow> bool" where
  "same_request r r' \<longleftrightarrow> hr_method r' = hr_method r \<and> hr_body r' = hr_body r \<and> (creates r' \<longleftrightarrow> creates r)"

lemma traces_token_fresh: "recording N log \<Longrightarrow> traces log (\<lambda>_ t. t = []) (token_fresh N c)"
  unfolding token_fresh_def by (auto intro!: traces_return silent_bind traces_silent)

lemma traces_GetAccessToken:
  assumes rec: "recording N log"
  shows "traces log (\<lambda>_ t. quiet t) (GetAccessToken N c)"
proof -
  note fresh = silent_bind [OF traces_token_fresh [OF rec]]
  have "traces log (\<lambda>_ t. quiet t) (refreshAccessToken N o' c)" for o'
  proof (cases "NewRequest ''POST'' (tokenURL o') (token_form o')")
    case (Inr req0)
    let ?req = "Header_Set ''Accept'' ''application/json''
      (Header_Set ''Content-Type'' ''application/x-www-form-urlencoded'' req0)"
    have "\<not> creates ?req" by (simp add: creates_def)
    then have "traces log (\<lambda>(s, a) t. quiet t) (do { r \<leftarrow> http_Do N True ?req;
       (case token_answer r of
          (success, Inl err) \<Rightarrow> ret (success, (Inl err, c))
        | (success, Inr tokenResp) \<Rightarrow>
            do { t' \<leftarrow> now N; ret (success, (Inr (tr_AccessToken tokenResp),
                   c\<lparr>cl_accessToken := tr_AccessToken tokenResp,
                     cl_tokenExpiry := t' + wrap64 (tr_ExpiresIn tokenResp * Second)\<rparr>)) }) })"
      by (intro traces_bind [OF traces_Do [OF rec]])
        (auto split: prod.split sum.split intro!: traces_return silent_bind [OF traces_silent(1) [OF rec]])
    then show ?thesis
      unfolding refreshAccessToken_def Inr sum.case Let_def
      by (intro fresh) (auto intro!: traces_return traces_timed [OF rec silent_metrics(2) [OF rec]])
  qed (auto simp: refreshAccessToken_def intro!: fresh traces_return)
  then show ?thesis
    unfolding GetAccessToken_def
    by (auto split: option.split intro!: fresh traces_return)
qed

lemma traces_authorized:
  assumes rec: "recording N log"
  shows "traces log (\<lambda>(r, _) t. quiet t \<and> (\<forall>req'. r = Inr req' \<longrightarrow> same_request req req')) (authorized N c req)"
proof -
  have rhobs: "same_request req (addRHOBSHeaders c req)"
    by (auto simp: same_request_def addRHOBSHeaders_def creates_def Let_def split: option.split)
  then have bearer: "same_request req (Header_Set ''Authorization'' v (addRHOBSHeaders c req))" for v
    by (auto simp: same_request_def creates_def)
  show ?thesis
    unfolding authorized_def addAuthHeaders_def
    by (cases "cl_oidcConfig c = None")
      (auto intro!: traces_return traces_bind [OF traces_GetAccessToken [OF rec]] rhobs bearer
        split: prod.split sum.split)
qed

text \<open>An authorized request that is sent once, answered, and recorded in the metrics.\<close>

lemma traces_request:
  assumes rec: "recording N log"
    and err: "\<And>e c' t. quiet t \<Longrightarrow> P (x e, c') t"
    and sent: "\<And>r a c' t. quiet t \<Longrightarrow> same_request req r \<Longrightarrow> P (snd (answer a), c') (t @ [(r, a)])"
  shows "traces log P (do { (r, c') \<leftarrow> authorized N c req;
     (case r of
        Inl e \<Rightarrow> ret (x e, c')
      | Inr r' \<Rightarrow> timed N (RecordAPIRequest N op) (do { resp \<leftarrow> http_Do N True r';
                    (case answer resp of (apiSuccess, a) \<Rightarrow> ret (apiSuccess, (a, c'))) })) })"
proof -
  have body: "traces log (\<lambda>(s, a) u. P a (t @ u)) (do { resp \<leftarrow> http_Do N True r;
      (case answer resp of (apiSuccess, a) \<Rightarrow> ret (apiSuccess, (a, c'))) })"
    if "quiet t" "same_request req r" for r c' t
    by (rule traces_bind [OF traces_Do [OF rec]])
      (use sent [OF that] in \<open>auto simp: split_beta intro!: traces_return\<close>)
  show ?thesis
    by (rule traces_bind [OF traces_authorized [OF rec]])
      (auto split: sum.split intro!: traces_return err traces_timed [OF rec silent_metrics(1) [OF rec]] body)
qed

lemma traces_GetProbe:
  assumes "recording N log"
  shows "traces log (\<lambda>(r, _) t. quiet t \<and> (r = Inr None \<longrightarrow> cleared i t)) (GetProbe N c i)"
proof (cases "NewRequest ''GET'' (buildProbesURL c) []")
  case (Inr req)
  show ?thesis unfolding GetProbe_def Inr sum.case
    by (rule traces_request [OF assms])
      (use NewRequest_fields [OF Inr] in \<open>auto simp: same_request_def creates_def cleared_def\<close>)
qed (simp add: GetProbe_def traces_return)

lemma traces_terminate_probe:
  assumes "recording N log"
  shows "traces log (\<lambda>(d, _) t. quiet t \<and> (d = None \<longrightarrow> cleared i t)) (terminate_probe N c j)"
proof (cases "NewRequest ''PATCH'' (buildProbeURL c j)
    (marshal_ProbePatchRequest \<lparr>pa_Status = ''terminating'', pa_Labels = None\<rparr>)")
  case (Inr req)
  show ?thesis unfolding terminate_probe_def Inr sum.case
    by (rule traces_request [OF assms, where x = Some])
      (use NewRequest_fields [OF Inr] in \<open>auto simp: same_request_def creates_def cleared_def terminates_def\<close>)
qed (simp add: terminate_probe_def traces_return)

lemma traces_DeleteProbe:
  assumes "recording N log"
  shows "traces log (\<lambda>(d, _) t. quiet t \<and> (d = None \<longrightarrow> cleared i t)) (DeleteProbe N c i)"
  unfolding DeleteProbe_def
  by (rule traces_bind [OF traces_GetProbe [OF assms, of i]])
    (auto split: sum.split option.split intro!: traces_return traces_mono [OF traces_terminate_probe [OF assms, of i]])

lemma traces_UpdateProbeLabels:
  assumes "recording N log"
  shows "traces log (\<lambda>_ t. quiet t) (UpdateProbeLabels N c j ls)"
proof (cases "NewRequest ''PATCH'' (buildProbeURL c j)
    (marshal_ProbePatchRequest \<lparr>pa_Status = [], pa_Labels = Some (Some ls)\<rparr>)")
  case (Inr req)
  show ?thesis unfolding UpdateProbeLabels_def Inr sum.case
    by (rule traces_request [OF assms, where x = Some])
      (use NewRequest_fields [OF Inr] in \<open>auto simp: same_request_def creates_def\<close>)
qed (simp add: UpdateProbeLabels_def traces_return)

text \<open>At most the last request creates a probe.\<close>

definition one_last :: "exchange list \<Rightarrow> bool" where
  "one_last t \<longleftrightarrow> quiet (butlast t)"

lemma traces_CreateProbe:
  assumes "recording N log"
  shows "traces log (\<lambda>_ t. one_last t) (CreateProbe N c req)"
proof (cases "NewRequest ''POST'' (buildProbesURL c) (marshal_ProbeRequest req)")
  case (Inr r)
  have "quiet t \<Longrightarrow> quiet (butlast t)" for t
    by (auto simp: quiet_def list_all_iff dest: in_set_butlastD)
  then show ?thesis unfolding CreateProbe_def Inr sum.case
    by (intro traces_request [OF assms, where x = Inl]) (auto simp: one_last_def)
qed (simp add: CreateProbe_def traces_return one_last_def)

section \<open>ensureRHOBSProbe\<close>

text \<open>A log with at most one creating request, the last one, before which the API has said that the
  cluster has no probe or has accepted to terminate it.\<close>

definition guarded :: "string \<Rightarrow> exchange list \<Rightarrow> bool" where
  "guarded i t \<longleftrightarrow> quiet t \<or> (\<exists>t1 t2. t = t1 @ t2 \<and> quiet t1 \<and> cleared i t1 \<and> one_last t2)"

lemma guarded_quiet: "quiet t \<Longrightarrow> guarded i t"
  by (simp add: guarded_def)

lemma guarded_append: "quiet t \<Longrightarrow> guarded i u \<Longrightarrow> guarded i (t @ u)"
  unfolding guarded_def by (metis append.assoc cleared_append quiet_simps(2))

lemma guarded_create: "quiet t \<Longrightarrow> cleared i t \<Longrightarrow> one_last u \<Longrightarrow> guarded i (t @ u)"
  unfolding guarded_def by blast

lemma traces_create_probe:
  assumes rec: "recording N log"
  shows "traces log (\<lambda>_ t. one_last t) (create_probe N c h u p)"
proof -
  have last: "one_last []" by (simp add: one_last_def)
  show ?thesis
    unfolding create_probe_def NewClusterProbeRequest_def Let_def bind_assoc
    by (auto split: outcome.split sum.split prod.split simp: last
        intro!: traces_return silent_bind [OF traces_silent(1) [OF rec]]
          traces_bind [OF traces_CreateProbe [OF rec]])
qed

lemma traces_drop_probe:
  assumes rec: "recording N log"
  shows "traces log (\<lambda>_ t. quiet t) (drop_probe N c i)"
  unfolding drop_probe_def
  by (rule traces_bind [OF traces_GetProbe [OF rec, of i]])
    (auto split: sum.splits option.splits prod.split intro!: traces_return traces_bind [OF traces_DeleteProbe [OF rec, of i]])

lemma traces_refresh_probe:
  assumes rec: "recording N log"
  shows "traces log (\<lambda>r t. quiet t \<and> (\<forall>c. r = Returns (Inr c) \<longrightarrow> cleared (hcps_clusterID (obj_spec h)) t))
    (refresh_probe N c h e p)"
  unfolding refresh_probe_def Let_def
  by (intro silent_bind [OF traces_silent(1) [OF rec]] traces_bind [OF traces_UpdateProbeLabels [OF rec]])
    (auto split: outcome.split sum.split option.splits prod.split if_splits
      intro!: traces_return traces_bind [OF traces_DeleteProbe [OF rec, of "hcps_clusterID (obj_spec h)"]]
        silent_bind [OF traces_silent(1) [OF rec]] traces_bind [OF traces_UpdateProbeLabels [OF rec]])

text \<open>The cluster's API server is not part of the log.\<close>

definition off_the_record :: "'w Env \<Rightarrow> ('w \<Rightarrow> exchange list) \<Rightarrow> bool" where
  "off_the_record E log \<longleftrightarrow> (\<forall>k w. wp (kube_Get (hc_api E) k) (\<lambda>_ w'. log w' = log w) w)"

lemma silent_limited_support:
  assumes "off_the_record E log"
  shows "traces log (\<lambda>_ t. t = []) (limited_support E h)"
proof -
  have "traces log (\<lambda>_ t. t = []) (kube_Get (hc_api E) k)" for k
    using assms by (simp add: off_the_record_def traces_def)
  then show ?thesis
    unfolding limited_support_def Let_def by (auto intro!: silent_bind traces_return)
qed

lemma traces_ensureRHOBSProbe:
  assumes rec: "recording N log" and off: "off_the_record E log"
  shows "traces log (\<lambda>_ t. guarded (hcps_clusterID (obj_spec h)) t) (ensureRHOBSProbe E N h cfg)"
proof -
  let ?i = "hcps_clusterID (obj_spec h)"
  let ?G = "\<lambda>_. guarded ?i"
  have done': "traces log (\<lambda>_. guarded i) (ret r)" for r i by (simp add: traces_return guarded_quiet)
  have create: "traces log (\<lambda>_ u. guarded ?i (t @ u)) (create_probe N c h u p)"
    if "quiet t" "cleared ?i t" for t c u p
    by (rule traces_mono [OF traces_create_probe [OF rec]]) (rule guarded_create [OF that])
  have finish: "traces log (\<lambda>_ u. guarded ?i (t @ u)) (ret r)" if "quiet t" for t r
    using that by (simp add: traces_return guarded_quiet)
  have failed: "traces log (\<lambda>_ u. guarded ?i (t @ u)) (do { (d, client') \<leftarrow> DeleteProbe N c ?i;
      (case d of Some err \<Rightarrow> ret (x err) | None \<Rightarrow> create_probe N client' h u p) })" if "quiet t" for t c x u p
    by (rule traces_bind [OF traces_DeleteProbe [OF rec, of ?i]])
      (use that create [of "t @ _"] finish [of "t @ _"] in \<open>auto split: prod.splits option.splits\<close>)
  have refresh: "traces log (\<lambda>_ u. guarded ?i (t @ u)) (do { f \<leftarrow> refresh_probe N c h e p;
      (case f of Panics \<Rightarrow> ret Panics | Returns (Inl r) \<Rightarrow> ret (Returns r)
       | Returns (Inr client') \<Rightarrow> create_probe N client' h u p) })" if "quiet t" for t c e u p
    by (rule traces_bind [OF traces_refresh_probe [OF rec]])
      (use that create [of "t @ _"] finish [of "t @ _"] in \<open>auto split: outcome.splits sum.splits\<close>)
  have probe: "traces log ?G (do { (g, client) \<leftarrow> GetProbe N c ?i; f g client })"
    if "\<And>e client t. quiet t \<Longrightarrow> traces log (\<lambda>_ u. guarded ?i (t @ u)) (f (Inl e) client)"
      "\<And>client t. quiet t \<Longrightarrow> cleared ?i t \<Longrightarrow> traces log (\<lambda>_ u. guarded ?i (t @ u)) (f (Inr None) client)"
      "\<And>e client t. quiet t \<Longrightarrow> traces log (\<lambda>_ u. guarded ?i (t @ u)) (f (Inr (Some e)) client)" for c f
  proof (rule traces_bind [OF traces_GetProbe [OF rec, of ?i]], goal_cases)
    case (1 a t)
    then show ?case using that by (cases a; cases "fst a"; cases "projr (fst a)") auto
  qed
  show ?thesis
    unfolding ensureRHOBSProbe_def Let_def
    by (auto intro!: done' silent_bind [OF silent_limited_support [OF off]]
        traces_bind [OF traces_drop_probe [OF rec]] probe finish create failed refresh split: sum.split)
qed

text \<open>C14. However the API behaves, one handling of a probe creates at most one, with its last request,
  and only after the API has said that the cluster has no probe or has accepted to terminate the
  one it had.\<close>

theorem probe_created_when_cleared:
  assumes "recording N log" and "off_the_record E log"
  shows "wp (ensureRHOBSProbe E N h cfg)
     (\<lambda>_ w'. \<exists>t. log w' = log w @ t \<and> guarded (hcps_clusterID (obj_spec h)) t) w"
  using traces_ensureRHOBSProbe [OF assms] by (simp add: traces_def)

text \<open>C30. When only public clusters are to be probed, no probe is ever created for a private one.\<close>

theorem private_cluster_not_probed:
  assumes "recording N log" and "off_the_record E log"
    and "OnlyPublicClusters cfg" and "isPrivateHCP h"
  shows "wp (ensureRHOBSProbe E N h cfg) (\<lambda>_ w'. \<exists>t. log w' = log w @ t \<and> quiet t) w"
proof -
  have "traces log (\<lambda>_. quiet) (ensureRHOBSProbe E N h cfg)"
    unfolding ensureRHOBSProbe_def Let_def
    by (auto simp: assms(3,4) intro!: silent_bind [OF silent_limited_support [OF assms(2)]] traces_return
        traces_bind [OF traces_drop_probe [OF assms(1)]])
  then show ?thesis by (simp add: traces_def)
qed

section \<open>The token cache\<close>

lemma traces_yields: "yields P m \<Longrightarrow> traces log Q m \<Longrightarrow> traces log (\<lambda>a t. P a \<and> Q a t) m"
  unfolding traces_def yields_def
proof
  fix w
  assume p: "\<forall>w. wp m (\<lambda>a _. P a) w" and q: "\<forall>w. wp m (\<lambda>a w'. \<exists>t. log w' = log w @ t \<and> Q a t) w"
  from wp_conj [OF p [rule_format, of w] q [rule_format, of w]]
  show "wp m (\<lambda>a w'. \<exists>t. log w' = log w @ t \<and> P a \<and> Q a t) w"
    by (rule wp_mono) blast
qed

definition grants :: "string \<Rightarrow> int \<Rightarrow> go_error + http_response \<Rightarrow> bool" where
  "grants tok n a \<longleftrightarrow> (\<exists>r. snd (token_answer a) = Inr r \<and> tr_AccessToken r = tok \<and> tr_ExpiresIn r = n)"

definition in_lifetime :: "int \<Rightarrow> int \<Rightarrow> int \<Rightarrow> bool" where
  "in_lifetime t0 n t \<longleftrightarrow> t0 \<le> t \<and> t + 30 * Second < t0 + n * Second"

lemma traces_first_token:
  assumes rec: "recording N log" and oidc: "cl_oidcConfig c = Some o'" and none: "cl_accessToken c = []"
    and url: "NewRequest ''POST'' (tokenURL o') (token_form o') = Inr req"
    and grant: "\<And>v r. yields (grants tok n) (http_Do N v r)"
    and clock: "yields (in_lifetime t0 n) (now N)" and n: "0 \<le> n" "n * Second < 2 ^ 63"
  shows "traces log (\<lambda>(r, c') t. r = Inr tok \<and> length t = 1 \<and> cl_oidcConfig c' = Some o' \<and>
     cl_accessToken c' = tok \<and> t0 + n * Second \<le> cl_tokenExpiry c') (GetAccessToken N c)"
proof -
  note t = traces_yields [OF clock traces_silent(1) [OF rec]]
  have "wrap64 (n * Second) = n * Second"
    using n by (simp add: wrap64_def Second_def)
  then have body: "traces log (\<lambda>(s, r, c') t. r = Inr tok \<and> length t = 1 \<and> cl_oidcConfig c' = Some o' \<and>
     cl_accessToken c' = tok \<and> t0 + n * Second \<le> cl_tokenExpiry c') (do { r \<leftarrow> http_Do N True q;
       (case token_answer r of
          (success, Inl err) \<Rightarrow> ret (success, (Inl err, c))
        | (success, Inr tokenResp) \<Rightarrow>
            do { t' \<leftarrow> now N; ret (success, (Inr (tr_AccessToken tokenResp),
                   c\<lparr>cl_accessToken := tr_AccessToken tokenResp,
                     cl_tokenExpiry := t' + wrap64 (tr_ExpiresIn tokenResp * Second)\<rparr>)) }) })" for q
    by (intro traces_bind [OF traces_yields [OF grant traces_Do [OF rec]]])
      (auto simp: grants_def in_lifetime_def oidc split: prod.splits sum.splits
        intro!: traces_bind [OF t] traces_return)
  show ?thesis
    unfolding GetAccessToken_def refreshAccessToken_def token_fresh_def oidc option.case none simp_thms
      if_True bind_left_identity if_False url sum.case Let_def
    by (rule traces_timed [OF rec silent_metrics(2) [OF rec] body])
qed

text \<open>C32. Within the lifetime of a token, up to thirty seconds before it expires, a client asks the
  identity provider once: two calls give the same token and send one request.\<close>

theorem token_requested_once:
  assumes "recording N log" and "cl_oidcConfig c = Some o'" and "cl_accessToken c = []"
    and "NewRequest ''POST'' (tokenURL o') (token_form o') = Inr req"
    and "\<And>v r. yields (grants tok n) (http_Do N v r)" and "tok \<noteq> []"
    and "yields (in_lifetime t0 n) (now N)" and "0 \<le> n" and "n * Second < 2 ^ 63"
  shows "wp (do { (r1, c1) \<leftarrow> GetAccessToken N c; (r2, c2) \<leftarrow> GetAccessToken N c1; ret (r1, r2) })
     (\<lambda>rs w'. rs = (Inr tok, Inr tok) \<and> length (log w') = length (log w) + 1) w"
proof -
  have second: "traces log (\<lambda>(r, _) t. r = Inr tok \<and> t = []) (GetAccessToken N c1)"
    if "cl_oidcConfig c1 = Some o'" "cl_accessToken c1 = tok" "t0 + n * Second \<le> cl_tokenExpiry c1" for c1
    unfolding GetAccessToken_def token_fresh_def that(1) option.case bind_assoc
    using assms(6) that
    by (auto simp: in_lifetime_def
        intro!: traces_bind [OF traces_yields [OF assms(7) traces_silent(1) [OF assms(1)]]] traces_return)
  have "traces log (\<lambda>rs t. rs = (Inr tok, Inr tok) \<and> length t = 1)
     (do { (r1, c1) \<leftarrow> GetAccessToken N c; (r2, c2) \<leftarrow> GetAccessToken N c1; ret (r1, r2) })"
    by (rule traces_bind [OF traces_first_token [OF assms(1-5,7-9)]])
      (auto intro!: traces_bind [OF second] traces_return)
  then have "wp (do { (r1, c1) \<leftarrow> GetAccessToken N c; (r2, c2) \<leftarrow> GetAccessToken N c1; ret (r1, r2) })
     (\<lambda>rs w'. \<exists>t. log w' = log w @ t \<and> rs = (Inr tok, Inr tok) \<and> length t = 1) w"
    by (simp add: traces_def)
  then show ?thesis by (rule wp_mono) auto
qed

end
