(* ===== verification/Dynatrace_Trace.thy ===== *)
theory Dynatrace_Trace
  imports Rhobs_Trace
begin

text \<open>
  The requests that the handling of a cluster's Dynatrace monitor sends, in their order and with their
  answers, for any behaviour of the API.
\<close>

section \<open>Requests\<close>

text \<open>No monitor is created.\<close>

definition no_create :: "exchange list \<Rightarrow> bool" where
  "no_create t \<longleftrightarrow> (\<forall>(r, a) \<in> set t. hr_method r \<noteq> ''POST'')"

text \<open>The API answered that a cluster has no monitor; it accepted the deletion of a monitor.\<close>

definition listed_none :: "DynatraceApiClient \<Rightarrow> string \<Rightarrow> exchange \<Rightarrow> bool" where
  "listed_none c clusterID e \<longleftrightarrow>
     hr_method (fst e) = ''GET'' \<and>
     hr_url (fst e) = dy_baseURL c @ httpMonitorPath @ ''/?tag=cluster-id:'' @ clusterID \<and>
     (\<exists>resp. snd e = Inr resp \<and> resp_StatusCode resp = 200 \<and> decode_body assign_Monitors [] resp = Inr [])"

definition monitor_deleted :: "DynatraceApiClient \<Rightarrow> exchange \<Rightarrow> bool" where
  "monitor_deleted c e \<longleftrightarrow>
     hr_method (fst e) = ''DELETE'' \<and> (\<exists>i. hr_url (fst e) = dy_baseURL c @ httpMonitorPath @ ''/'' @ i) \<and>
     (\<exists>resp. snd e = Inr resp \<and> resp_StatusCode resp = 204)"

text \<open>At most one monitor is created, for the cluster, with the last request, and only when the request
  just before it was answered that there is none, or that the one at the wrong location is deleted.\<close>

definition create_guarded :: "DynatraceApiClient \<Rightarrow> string \<Rightarrow> exchange list \<Rightarrow> bool" where
  "create_guarded c clusterID t \<longleftrightarrow> no_create t \<or>
     (\<exists>u r a cfg. t = u @ [(r, a)] \<and> no_create u \<and> hr_method r = ''POST'' \<and>
        hr_url r = dy_baseURL c @ httpMonitorPath \<and> hr_body r = execute publicMonitorTemplate cfg \<and>
        mc_ClusterId cfg = clusterID \<and> u \<noteq> [] \<and> (listed_none c clusterID (last u) \<or> monitor_deleted c (last u)))"

lemma no_create_simps [simp]:
  "no_create []" "no_create (e # t) \<longleftrightarrow> hr_method (fst e) \<noteq> ''POST'' \<and> no_create t"
  "no_create (t @ u) \<longleftrightarrow> no_create t \<and> no_create u"
  by (auto simp: no_create_def split: prod.splits)

section \<open>The calls of the client\<close>

lemma traces_MakeRequest:
  assumes "recording N log"
  shows "traces log (\<lambda>a t. t = [] \<and> isl a \<or>
      (\<exists>r. t = [(r, a)] \<and> hr_method r = m \<and> hr_url r = dy_baseURL c @ p \<and> hr_body r = b))
    (MakeRequest N c m p b)"
proof (cases "NewRequest m (dy_baseURL c @ p) b")
  case (Inl e)
  then show ?thesis by (simp add: MakeRequest_def traces_return)
next
  case (Inr req)
  then have "hr_method req = m" "hr_url req = dy_baseURL c @ p" "hr_body req = b"
    by (auto simp: NewRequest_def split: sum.splits)
  then show ?thesis
    unfolding MakeRequest_def Inr sum.case Let_def
    by (intro traces_mono [OF traces_Do [OF assms]]) (auto simp: Header_Set_def)
qed

lemma traces_get:
  assumes rec: "recording N log" and m: "m \<noteq> ''POST''"
    and f: "\<And>a. traces log (\<lambda>_ t. t = []) (f a)"
  shows "traces log (\<lambda>_. no_create) (MakeRequest N c m p b \<bind> f)"
  by (rule traces_bind [OF traces_MakeRequest [OF rec]], rule traces_mono [OF f]) (use m in auto)

lemma traces_reads:
  assumes "recording N log"
  shows "traces log (\<lambda>_. no_create) (GetDynatraceHttpMonitor N c i)"
    "traces log (\<lambda>_. no_create) (GetLocationEntityIdFromDynatrace N c l ty)"
  unfolding GetDynatraceHttpMonitor_def GetLocationEntityIdFromDynatrace_def
  by (rule traces_get [OF assms], simp, auto intro!: traces_return split: sum.split option.split)+

lemma traces_list:
  assumes "recording N log"
  shows "traces log (\<lambda>a t. no_create t \<and> (\<forall>ms. a = Inr ms \<longrightarrow> t \<noteq> [] \<and> (ms = [] \<longrightarrow> listed_none c i (last t))))
    (ListDynatraceHttpMonitorsForCluster N c i)"
  unfolding ListDynatraceHttpMonitorsForCluster_def
proof (rule traces_bind [OF traces_MakeRequest [OF assms]], goal_cases)
  case (1 a t)
  then show ?case
    by (cases a) (auto simp: listed_none_def intro!: traces_return split: sum.split)
qed

lemma traces_delete:
  assumes "recording N log"
  shows "traces log (\<lambda>a t. no_create t \<and> (a = None \<longrightarrow> t \<noteq> [] \<and> monitor_deleted c (last t))) (DeleteSingleMonitor N c i)"
  unfolding DeleteSingleMonitor_def
proof (rule traces_bind [OF traces_MakeRequest [OF assms]], goal_cases)
  case (1 a t)
  then show ?case
    by (cases a) (auto simp: monitor_deleted_def intro!: traces_return)
qed

lemma traces_remove:
  assumes "recording N log"
  shows "traces log (\<lambda>_. no_create) (removeDyntraceMonitors N c ms)"
proof (induction ms)
  case Nil
  then show ?case by (simp add: traces_return)
next
  case (Cons m ms)
  have "traces log (\<lambda>_. no_create) (do { es \<leftarrow> removeDyntraceMonitors N c ms; ret (errors_Join e es) })" for e
    by (rule traces_bind [OF Cons.IH]) (simp add: traces_return)
  then show ?case
    by (auto intro!: traces_bind [OF traces_delete [OF assms]] elim: traces_mono)
qed

lemma traces_settle:
  assumes rec: "recording N log"
  shows "traces log (\<lambda>a t. no_create t \<and> (a = Inr False \<longrightarrow> (if ms = [] then t = [] else t \<noteq> [] \<and> monitor_deleted c (last t))))
    (settle_monitors N c ms l)"
proof (cases ms)
  case Nil
  then show ?thesis by (simp add: settle_monitors_def traces_return)
next
  case (Cons m ms')
  have rem: "traces log (\<lambda>_. no_create) (if ms' \<noteq> [] then removeDyntraceMonitors N c ms' else ret None)"
    by (simp add: traces_remove [OF rec] traces_return)
  have del: "traces log (\<lambda>a t. no_create t \<and> (a = Inr False \<longrightarrow> t \<noteq> [] \<and> monitor_deleted c (last t)))
      (do { d \<leftarrow> DeleteSingleMonitor N c i; (case d of Some err \<Rightarrow> ret (Inl (f err)) | None \<Rightarrow> ret (Inr False)) })" for i f
    by (rule traces_bind [OF traces_delete [OF rec]]) (auto intro!: traces_return split: option.split)
  have get: "traces log (\<lambda>a t. no_create t \<and> (a = Inr False \<longrightarrow> t \<noteq> [] \<and> monitor_deleted c (last t)))
      (do { g \<leftarrow> GetDynatraceHttpMonitor N c j;
            (case g of Inl err \<Rightarrow> ret (Inl (e err))
             | Inr x \<Rightarrow> if l \<in> set (hm_Locations x) then ret (Inr True)
                 else do { d \<leftarrow> DeleteSingleMonitor N c (bm_EntityId x);
                           (case d of Some err \<Rightarrow> ret (Inl (f x err)) | None \<Rightarrow> ret (Inr False)) }) })" for j e f
    by (rule traces_bind [OF traces_reads(1) [OF rec]])
      (auto intro!: traces_return traces_mono [OF del] split: sum.split)
  show ?thesis
    unfolding Cons settle_monitors_def list.case
    by (rule traces_bind [OF rem]) (rule traces_mono [OF get], auto)
qed

lemma traces_create:
  assumes "recording N log"
  shows "traces log (\<lambda>_ t. t = [] \<or> (\<exists>r a. t = [(r, a)] \<and> hr_method r = ''POST'' \<and>
      hr_url r = dy_baseURL c @ httpMonitorPath \<and> hr_body r = execute publicMonitorTemplate
        \<lparr>mc_MonitorName = n, mc_ApiUrl = u, mc_DynatraceEquivalentClusterRegionId = d, mc_ClusterId = i,
         mc_ClusterRegion = g\<rparr>))
    (CreateDynatraceHttpMonitor N c n u i d g)"
  unfolding CreateDynatraceHttpMonitor_def Let_def
proof (rule traces_bind [OF traces_MakeRequest [OF assms]], goal_cases)
  case (1 a t)
  then show ?case
    by (cases a) (auto intro!: traces_return split: sum.split)
qed

section \<open>deployDynatraceHttpMonitorResources\<close>

lemma guarded_no_create: "no_create t \<Longrightarrow> create_guarded c i t"
  by (simp add: create_guarded_def)

lemma traces_deploy:
  assumes rec: "recording N log"
  shows "traces log (\<lambda>_. create_guarded c (hcps_clusterID (obj_spec h)))
    (deployDynatraceHttpMonitorResources N c h)"
proof -
  let ?i = "hcps_clusterID (obj_spec h)"
  let ?G = "create_guarded c ?i"
  have stop: "traces log (\<lambda>_ u. ?G (t @ u)) (ret r)" if "no_create t" for t r
    using that by (simp add: traces_return guarded_no_create)
  have stop0: "traces log (\<lambda>_. ?G) (ret r)" for r
    using stop [of "[]"] by simp
  have create: "traces log (\<lambda>_ u. ?G (t @ u))
      (do { m \<leftarrow> CreateDynatraceHttpMonitor N c n u ?i d g; (case m of Inl e \<Rightarrow> ret (f e) | Inr x \<Rightarrow> ret (k x)) })"
    if "no_create t" "t \<noteq> []" "listed_none c ?i (last t) \<or> monitor_deleted c (last t)" for t n u d g f k
  proof (rule traces_bind [OF traces_create [OF rec]], goal_cases)
    case (1 a s)
    then have "?G (t @ s)"
      using that by (fastforce simp: create_guarded_def)
    then show ?case by (cases a) (auto intro!: traces_return)
  qed
  have settled: "traces log (\<lambda>_ u. ?G (t @ u)) (do { s \<leftarrow> settle_monitors N c ms l;
      (case s of Inl e \<Rightarrow> ret (f e) | Inr True \<Rightarrow> ret k
       | Inr False \<Rightarrow> do { m \<leftarrow> CreateDynatraceHttpMonitor N c n u ?i d g;
                          (case m of Inl e \<Rightarrow> ret (f' e) | Inr x \<Rightarrow> ret (k' x)) }) })"
    if "no_create t" "t \<noteq> []" "ms = [] \<Longrightarrow> listed_none c ?i (last t)" for t ms l f k n u d g f' k'
  proof (rule traces_bind [OF traces_settle [OF rec]], goal_cases)
    case (1 a s)
    then show ?case
      using that stop [of "t @ s"] create [of "t @ s"]
      by (cases a) (auto split: bool.split if_splits)
  qed
  have listed: "traces log (\<lambda>_ u. ?G (t @ u)) (do { ms \<leftarrow> ListDynatraceHttpMonitorsForCluster N c ?i;
      (case ms of Inl e \<Rightarrow> ret (f e)
       | Inr monitors \<Rightarrow> do { s \<leftarrow> settle_monitors N c monitors l;
           (case s of Inl e \<Rightarrow> ret (f' e) | Inr True \<Rightarrow> ret k
            | Inr False \<Rightarrow> do { m \<leftarrow> CreateDynatraceHttpMonitor N c n u ?i d g;
                               (case m of Inl e \<Rightarrow> ret (f'' e) | Inr x \<Rightarrow> ret (k' x)) }) }) })"
    if "no_create t" for t l f f' k n u d g f'' k'
  proof (rule traces_bind [OF traces_list [OF rec]], goal_cases)
    case (1 a s)
    then show ?case
      using that
      by (cases a) (auto intro!: stop [of "t @ s", unfolded append_assoc] settled [of "t @ s", unfolded append_assoc])
  qed
  show ?thesis
    unfolding deployDynatraceHttpMonitorResources_def Let_def
    by (auto simp: traces_return guarded_no_create intro!: stop0 stop listed traces_bind [OF traces_reads(2) [OF rec]] split: sum.split option.split outcome.split)
qed

text \<open>C16. However the API behaves, one handling of a cluster's Dynatrace monitor creates at most one, for
  that cluster, with its last request, and only when the request just before it was answered that
  there is none, or that the one at the wrong location is deleted.\<close>

theorem dynatrace_create_guarded:
  assumes "recording N log"
  shows "wp (deployDynatraceHttpMonitorResources N c h)
     (\<lambda>_ w'. \<exists>t. log w' = log w @ t \<and> create_guarded c (hcps_clusterID (obj_spec h)) t) w"
  using traces_deploy [OF assms] by (simp add: traces_def)

end
