(* ===== verification/Hcp_Witnesses.thy ===== *)
theory Hcp_Witnesses
  imports Witnesses Exporter_Sharing Hcp_Live Rhobs_Trace Dynatrace_Trace
begin

text \<open>
  The properties of the ClusterUrlMonitor and hosted-control-plane controllers and of the RHOBS
  client at concrete inputs: the in-memory API server, next to it a network that answers every
  request by a function and keeps a log.
\<close>

section \<open>A network\<close>

definition mem_net :: "int \<Rightarrow> (http_request \<Rightarrow> go_error + http_response) \<Rightarrow> ('c \<times> exchange list) Net" where
  "mem_net t answer =
     \<lparr>now = ret t,
      http_Do = (\<lambda>v r. State (\<lambda>(c, l). (answer r, (c, l @ [(r, answer r)])))),
      tls_Dial = (\<lambda>a. ret None),
      metric_Inc = (\<lambda>m ls. ret ()), metric_Observe = (\<lambda>m ls v. ret ()), metric_Set = (\<lambda>m ls v. ret ())\<rparr>"

lemma mem_net_frame: "net_frame (mem_net t answer) fst"
  by (auto simp: net_frame_def mem_net_def wp_def)

lemma mem_net_recording: "recording (mem_net t answer) snd"
  by (auto simp: recording_def mem_net_def wp_def)

lemma mem_env_off_the_record: "off_the_record mem_env snd"
  by (simp add: off_the_record_def mem_env_def mem_kube_def wp_request split: option.split)

lemma mem_net_now: "P t \<Longrightarrow> yields P (now (mem_net t answer))"
  by (simp add: mem_net_def yields_return)

lemma mem_net_Do: "(\<And>r. P (answer r)) \<Longrightarrow> yields P (http_Do (mem_net t answer) v r)"
  by (simp add: mem_net_def yields_def wp_def split: prod.split)

definition answers :: "int \<Rightarrow> string \<Rightarrow> http_request \<Rightarrow> go_error + http_response" where
  "answers code body r = Inr \<lparr>resp_StatusCode = code, resp_Status = [], resp_Body = Inr body\<rparr>"

section \<open>ClusterUrlMonitors\<close>

definition deleted_cum :: "string \<Rightarrow> ClusterUrlMonitor" where
  "deleted_cum f = empty_ClusterUrlMonitor
     \<lparr>obj_meta := mon_meta\<lparr>om_deletionTimestamp := Some 1, om_finalizers := [f]\<rparr>\<rparr>"

abbreviation cum_world :: "string \<Rightarrow> cluster \<times> unit" where
  "cum_world f \<equiv> (empty_cluster\<lparr>c_cum := [(mon_key, deleted_cum f)]\<rparr>, ())"

lemma ok_cum_world: "ok_world mem_env fst (cum_world f)"
  by (rule ok_world_mem) (simp add: wf_cluster_def empty_cluster_def wf_store_def deleted_cum_def
      mon_key_def mon_meta_def empty_meta_def live_or_held_def obj_key_def empty_ClusterUrlMonitor_def)

lemma cum_world_facts:
  "map_of (c_cum (fst (cum_world f))) mon_key = Some (deleted_cum f)"
  "om_deletionTimestamp (obj_meta (deleted_cum f)) \<noteq> None"
  "om_finalizers (obj_meta (deleted_cum f)) = [f]"
  by (simp_all add: deleted_cum_def)


theorem cum_deletion_unheld_fails_witness:
  "wp (CUM_Reconcile (CUM_NewReconciler mem_env ''img'' ''ns'' False ''u'') mon_key) (\<lambda>(res, err) w'.
     err \<noteq> None \<and> c_cum (fst w') = [(mon_key, deleted_cum ''other'')]) (cum_world ''other'')"
  by (rule wp_mono [OF cum_deletion_unheld_fails [OF ok_cum_world cum_world_facts(1,2)]])
    (auto simp: cum_world_facts(3) CUM_FinalizerKey_def)

text \<open>The exporter's config map, and a RouteMonitor that is being deleted, alone or next to a ClusterUrlMonitor.\<close>

abbreviation bb_key :: NamespacedName where
  "bb_key \<equiv> bb_NamespacedName (New ''img'' ''ns'')"

definition exporter_config :: ConfigMap where
  "exporter_config = \<lparr>obj_type = empty_type,
     obj_meta = empty_meta\<lparr>om_name := nn_name bb_key, om_namespace := nn_namespace bb_key\<rparr>,
     obj_spec = fmempty, obj_status = ()\<rparr>"

definition exporter_world :: "ClusterUrlMonitor store \<Rightarrow> cluster \<times> unit" where
  "exporter_world cums = (deleting_cluster\<lparr>c_cum := cums, c_cm := [(bb_key, exporter_config)]\<rparr>, ())"

lemma ok_exporter_world:
  assumes "cums \<in> {[], [(mon_key, deleted_cum ''other'')]}"
  shows "ok_world mem_env fst (exporter_world cums)"
  unfolding exporter_world_def
  by (rule ok_world_mem)
    (use wf_deleting_cluster assms in \<open>auto simp: wf_cluster_def wf_store_def exporter_config_def deleted_cum_def obj_key_def
       empty_meta_def live_or_held_def mon_key_def mon_meta_def empty_ClusterUrlMonitor_def\<close>)

lemma exporter_world_facts:
  "map_of (c_rm (fst (exporter_world cums))) mon_key = Some deleted_rm"
  "c_cm (fst (exporter_world cums)) = [(bb_key, exporter_config)]"
  "last_monitor (fst (exporter_world cums)) = (cums = [])"
  using deleting_cluster_facts
  by (auto simp: exporter_world_def last_monitor_def monitor_metas_def deleting_cluster_def deleted_rm_def)

theorem exporter_removed_with_last_monitor_witness:
  "wp (Reconcile (NewReconciler mem_env ''img'' ''ns'' False ''u'') mon_key) (\<lambda>(res, err) w'.
     c_cm (fst w') = [(bb_key, exporter_config)]) (exporter_world [(mon_key, deleted_cum ''other'')]) \<and>
   wp (Reconcile (NewReconciler mem_env ''img'' ''ns'' False ''u'') mon_key) (\<lambda>(res, err) w'.
     err = None \<longrightarrow> gone c_cm bb_key (fst w')) (exporter_world [])"
proof
  note removed = exporter_removed_with_last_monitor [THEN conjunct1, rule_format,
      OF ok_exporter_world conjI [OF exporter_world_facts(1) deleting_cluster_facts(2)]]
  show "wp (Reconcile (NewReconciler mem_env ''img'' ''ns'' False ''u'') mon_key) (\<lambda>(res, err) w'.
     c_cm (fst w') = [(bb_key, exporter_config)]) (exporter_world [(mon_key, deleted_cum ''other'')])"
    by (rule wp_mono [OF removed]) (auto simp: exporter_follows_def exporter_world_facts)
  show "wp (Reconcile (NewReconciler mem_env ''img'' ''ns'' False ''u'') mon_key) (\<lambda>(res, err) w'.
     err = None \<longrightarrow> gone c_cm bb_key (fst w')) (exporter_world [])"
    by (rule wp_mono [OF removed]) (auto simp: exporter_follows_def exporter_world_facts)
qed

theorem removeSubdomain_plain_witness:
  "removeSubdomain ''api'' ''https://api.a.com:6443'' = Inr ''a.com''"
proof -
  have "host_port ''api.a.com'' ''api.a.com:6443''"
    unfolding host_port_def by (intro conjI disjI2 exI [of _ "''6443''"]) code_simp+
  from removeSubdomain_plain [OF this, of "''https://api.a.com:6443''" "''api''"]
  show ?thesis by simp
qed

section \<open>Configuration\<close>

definition a_config :: "string \<Rightarrow> ConfigMap" where
  "a_config url = \<lparr>obj_type = empty_type,
     obj_meta = empty_meta\<lparr>om_name := configMapName, om_namespace := OperatorNamespace\<rparr>,
     obj_spec = fmap_of_list [(''probe-api-url'', url)], obj_status = ()\<rparr>"

definition config_world :: "cluster \<times> unit" where
  "config_world = (empty_cluster\<lparr>c_cm := [(config_key, a_config ''bad'')]\<rparr>, ())"

lemma ok_config_world: "ok_world mem_env fst config_world"
  unfolding config_world_def
  by (rule ok_world_mem) (simp add: wf_cluster_def empty_cluster_def wf_store_def a_config_def
      config_key_def empty_meta_def live_or_held_def obj_key_def)

lemma config_world_read: "map_of (c_cm (fst config_world)) config_key = Some (a_config ''bad'')"
  by (simp add: config_world_def)

definition no_config :: RHOBSConfig where
  "no_config = \<lparr>ProbeAPIURL = [], Tenant = [], OIDCClientID = [], OIDCClientSecret = [], OIDCIssuerURL = [],
     OnlyPublicClusters = False, SkipInfrastructureHealthCheck = False, ReconcileInterval = 0\<rparr>"

definition no_flags :: OperatorConfig where
  "no_flags = empty_OperatorConfig"

theorem reconcile_interval_bounded_witness:
  "wp (getRHOBSConfig mem_env no_config) (\<lambda>(cfg, dt) _. reconcile_interval cfg \<ge> 10 * Second) config_world"
  by (rule reconcile_interval_bounded [OF ok_config_world]) (simp add: no_config_def)

definition hypershift_crd :: "(unit, unit) kobj" where
  "hypershift_crd = \<lparr>obj_type = empty_type,
     obj_meta = empty_meta\<lparr>om_name := ''hostedcontrolplanes.hypershift.openshift.io''\<rparr>, obj_spec = (), obj_status = ()\<rparr>"

definition hcp_config_world :: "cluster \<times> unit" where
  "hcp_config_world = (empty_cluster\<lparr>c_cm := [(config_key, a_config ''bad'')],
     c_crd := [(obj_key hypershift_crd, hypershift_crd)]\<rparr>, ())"

lemma hcp_config_world_facts:
  "ok_world mem_env fst hcp_config_world"
  "map_of (c_cm (fst hcp_config_world)) config_key = Some (a_config ''bad'')"
proof -
  show "ok_world mem_env fst hcp_config_world"
    unfolding hcp_config_world_def
    by (rule ok_world_mem) (simp add: wf_cluster_def empty_cluster_def wf_store_def a_config_def hypershift_crd_def
        config_key_def empty_meta_def live_or_held_def obj_key_def)
qed (simp add: hcp_config_world_def)

theorem reconcile_config_stable_witness:
  "wp (startup (ret None) mem_env no_flags) (\<lambda>(_, hcp) w'. hcp \<noteq> None \<and> (\<forall>rc. hcp = Some rc \<longrightarrow>
     wp (getRHOBSConfig mem_env rc) (\<lambda>(cfg, dt) _. cfg\<lparr>ReconcileInterval := 0\<rparr> = rc\<lparr>ProbeAPIURL := ''bad''\<rparr>) w'))
     hcp_config_world"
proof -
  have value_read: "config_value (a_config ''bad'') ''probe-api-url'' = ''bad''"
    unfolding config_value_def a_config_def by code_simp
  have bad: "\<not> ValidURL ''bad''" by code_simp
  have client: "wp (ret None) (\<lambda>r v'. r = None \<and> ok_world mem_env fst v' \<and> fst v' = fst v) v"
    if "ok_world mem_env fst v" for v :: "cluster \<times> unit"
    using that by (simp add: wp_return)
  have enabled: "wp (startup (ret None) mem_env no_flags) (\<lambda>(_, hcp) _. hcp \<noteq> None) hcp_config_world"
    unfolding startup_def getConfigFromConfigMap_def shouldEnableHCP_def hcp_config_world_def
    by (simp add: wp_simps Let_def mem_env_def mem_kube_def wp_request hypershift_crd_def obj_key_def empty_meta_def)
  have stable: "wp (startup (ret None) mem_env no_flags) (\<lambda>(_, hcp) w'. \<forall>rc. hcp = Some rc \<longrightarrow>
     wp (getRHOBSConfig mem_env rc) (\<lambda>(cfg, dt) _. cfg\<lparr>ReconcileInterval := 0\<rparr> = rc\<lparr>ProbeAPIURL := ''bad''\<rparr>) w')
     hcp_config_world"
    using reconcile_config_stable [OF hcp_config_world_facts(1) mem_api_reliable hcp_config_world_facts(2) client, of no_flags]
    unfolding value_read by (simp add: bad)
  show ?thesis by (rule wp_mono [OF wp_conj [OF enabled stable]]) auto
qed

theorem startup_url_valid_witness:
  "wp (startup (ret None) mem_env no_flags)
     (\<lambda>(cfg, hcp) _. oc_ProbeAPIURL cfg \<noteq> ''bad'') config_world"
proof -
  have "\<not> ValidURL ''bad''" by code_simp
  then show ?thesis by (intro wp_mono [OF startup_url_valid]) auto
qed

theorem reconcile_url_unvalidated_witness:
  "wp (getRHOBSConfig mem_env no_config) (\<lambda>(cfg, dt) _. ProbeAPIURL cfg = ''bad'' \<and> \<not> ValidURL ''bad'') config_world"
proof -
  have value_read: "config_value (a_config ''bad'') ''probe-api-url'' = ''bad''"
    unfolding config_value_def a_config_def by code_simp
  have "\<not> ValidURL ''bad''" by code_simp
  then show ?thesis
    by (intro wp_mono [OF reconcile_url_unvalidated
        [OF ok_config_world mem_api_reliable config_world_read value_read]]) auto
qed

section \<open>Hosted control planes\<close>

definition hcp_key :: NamespacedName where
  "hcp_key = \<lparr>nn_name = ''h'', nn_namespace = ''ns''\<rparr>"

text \<open>A private control plane, with or without an AWS platform, young or being deleted.\<close>

definition an_hcp :: "AWSPlatform option \<Rightarrow> int option \<Rightarrow> HostedControlPlane" where
  "an_hcp aws deleted =
     \<lparr>obj_type = empty_type,
      obj_meta = empty_meta\<lparr>om_name := ''h'', om_namespace := ''ns'', om_creationTimestamp := 0,
        om_deletionTimestamp := deleted, om_finalizers := [hostedcontrolplaneFinalizer]\<rparr>,
      obj_spec = \<lparr>hcps_clusterID = ''id'', hcps_aws = aws,
        hcps_services = [\<lparr>spub_service = ''APIServer'', spub_type = ''Route'', spub_route = Some ''api.a.com''\<rparr>]\<rparr>,
      obj_status = \<lparr>hcpst_conditions = [], hcpst_endpointHost = ''api.a.com''\<rparr>\<rparr>"

abbreviation private_aws :: AWSPlatform where
  "private_aws \<equiv> \<lparr>aws_region = ''us-east-1'', aws_endpointAccess = EndpointAccess_Private\<rparr>"

definition apiserver_service :: Service where
  "apiserver_service = \<lparr>obj_type = empty_type,
     obj_meta = empty_meta\<lparr>om_name := ''kube-apiserver'', om_namespace := ''ns''\<rparr>,
     obj_spec = \<lparr>svc_selector = fmempty, svc_ports = [\<lparr>sp_targetPort = [], sp_port = 443, sp_name = []\<rparr>]\<rparr>,
     obj_status = ()\<rparr>"

definition hcp_world :: "HostedControlPlane \<Rightarrow> cluster \<times> exchange list" where
  "hcp_world h = (empty_cluster\<lparr>c_hcp := [(hcp_key, h)],
     c_svc := [(obj_key apiserver_service, apiserver_service)]\<rparr>, [])"

lemma ok_hcp_world: "ok_world mem_env fst (hcp_world (an_hcp aws d))"
  unfolding hcp_world_def
  by (rule ok_world_mem) (simp add: wf_cluster_def empty_cluster_def wf_store_def an_hcp_def
      hcp_key_def empty_meta_def live_or_held_def obj_key_def apiserver_service_def)

lemma hcp_world_facts:
  "map_of (c_hcp (fst (hcp_world h))) hcp_key = Some h"
  "om_deletionTimestamp (obj_meta (an_hcp aws d)) = d" "hcps_aws (obj_spec (an_hcp aws d)) = aws"
  by (simp_all add: hcp_world_def an_hcp_def)

definition rhobs_fallback :: RHOBSConfig where
  "rhobs_fallback = no_config\<lparr>ProbeAPIURL := ''https://rhobs''\<rparr>"

theorem hcp_deletion_safe_witness:
  "wp (hcp_Reconcile mem_env (mem_net 0 (answers 200 [])) no_config hcp_key)
     (\<lambda>r w'. r \<noteq> Panics) (hcp_world (an_hcp None (Some 0)))"
  by (rule wp_mono [OF hcp_deletion_safe [OF ok_hcp_world mem_net_frame hcp_world_facts(1)]])
    (simp_all add: hcp_world_facts)

lemma always_down: "api_down (mem_net t (answers 500 []))"
  by (simp add: api_down_def mem_net_Do answers_def)

theorem hcp_deletion_held_back_witness:
  "wp (hcp_Reconcile mem_env (mem_net Minute (answers 500 [])) rhobs_fallback hcp_key)
     (\<lambda>r w'. fst w' = fst (hcp_world (an_hcp None (Some 0))) \<and> deletion_held r) (hcp_world (an_hcp None (Some 0)))"
  by (rule wp_mono [OF hcp_deletion_held_back
        [OF ok_hcp_world mem_net_frame hcp_world_facts(1) hcp_world_facts(2) always_down]])
    (auto simp: rhobs_fallback_def rhobsProbeDeletionTimeout_def Minute_def Second_def intro!: mem_net_now)

theorem hcp_deletion_released_witness:
  "wp (hcp_Reconcile mem_env (mem_net (15 * Minute) (answers 500 [])) rhobs_fallback hcp_key)
     (\<lambda>r w'. r = Returns Stop \<and> hcp_finalized hcp_key (fst w')) (hcp_world (an_hcp None (Some 0)))"
  by (rule wp_mono [OF hcp_deletion_released
        [OF ok_hcp_world mem_net_frame hcp_world_facts(1) hcp_world_facts(2) mem_api_reliable]])
    (auto simp: rhobs_fallback_def rhobsProbeDeletionTimeout_def Minute_def Second_def intro!: mem_net_now)

theorem deploy_internal_correct_witness:
  "wp (deployInternalMonitoringObjects mem_env (an_hcp None None) no_config)
     (\<lambda>r w'. r = None \<longrightarrow> (\<exists>rt. map_of (c_route (fst w')) (internal_key (an_hcp None None)) = Some rt))
     (hcp_world (an_hcp None None))"
  by (rule wp_mono [OF deploy_internal_correct [OF ok_hcp_world]])
    (auto simp: no_config_def deployed_def)

theorem hcp_reconcile_frame_witness:
  "wp (hcp_Reconcile mem_env (mem_net 0 (answers 200 [])) rhobs_fallback hcp_key)
     (\<lambda>r w'. r \<noteq> Panics) (hcp_world (an_hcp (Some private_aws) None))"
  by (rule wp_mono [OF hcp_reconcile_frame [OF ok_hcp_world mem_net_frame]])
    (simp add: hcp_world_facts)

section \<open>RHOBS\<close>

definition a_probe :: ProbeResponse where
  "a_probe = \<lparr>pp_ID = ''p'', pp_Labels = Some (fmap_of_list [(''cluster-id'', ''id'')]), pp_Status = ''active''\<rparr>"

theorem probes_list_roundtrip_witness:
  "get_answer ''id'' (Inr \<lparr>resp_StatusCode = 200, resp_Status = [], resp_Body = Inr (json_print (probes_json [a_probe]))\<rparr>) =
     (True, Inr (Some a_probe))"
proof -
  have "valid_utf8 ''p''" "valid_utf8 ''active''" "valid_utf8 ''cluster-id''" "valid_utf8 ''id''"
    by code_simp+
  then have "probe_utf8 a_probe" unfolding probe_utf8_def a_probe_def
    by (auto simp: fmpred_iff split: if_splits simp del: valid_utf8.simps)
  then show ?thesis
    using probes_list_roundtrip [of "[a_probe]" "''id''" "[]"]
    by (simp add: a_probe_def labels_read_def map_read_def)
qed

theorem probe_created_when_cleared_witness:
  "wp (ensureRHOBSProbe mem_env (mem_net 0 (answers 404 [])) (an_hcp (Some private_aws) None) rhobs_fallback)
     (\<lambda>_ w'. guarded ''id'' (snd w')) (hcp_world (an_hcp (Some private_aws) None))"
  by (rule wp_mono [OF probe_created_when_cleared [OF mem_net_recording mem_env_off_the_record]])
    (auto simp: hcp_world_def an_hcp_def)

theorem private_cluster_not_probed_witness:
  "wp (ensureRHOBSProbe mem_env (mem_net 0 (answers 404 [])) (an_hcp (Some private_aws) None)
        (rhobs_fallback\<lparr>OnlyPublicClusters := True\<rparr>))
     (\<lambda>_ w'. quiet (snd w')) (hcp_world (an_hcp (Some private_aws) None))"
  by (rule wp_mono [OF private_cluster_not_probed [OF mem_net_recording mem_env_off_the_record]])
    (auto simp: hcp_world_def an_hcp_def isPrivateHCP_def)

definition an_oidc :: OIDCConfig where
  "an_oidc = \<lparr>oidc_ClientID = ''c'', oidc_ClientSecret = ''s'', oidc_IssuerURL = ''https://sso''\<rparr>"

abbreviation token_body :: string where
  "token_body \<equiv> json_print (JObj [(''access_token'', JStr ''t''), (''expires_in'', JNum ''3600'')])"

theorem token_requested_once_witness:
  "wp (do { (r1, c1) \<leftarrow> GetAccessToken (mem_net 0 (answers 200 token_body)) (NewClientWithOIDC ''u'' ''t'' an_oidc);
            (r2, c2) \<leftarrow> GetAccessToken (mem_net 0 (answers 200 token_body)) c1; ret (r1, r2) })
     (\<lambda>rs w'. length (snd w') = 1) ((), [])"
proof -
  have oidc: "cl_oidcConfig (NewClientWithOIDC ''u'' ''t'' an_oidc) = Some an_oidc"
    and none: "cl_accessToken (NewClientWithOIDC ''u'' ''t'' an_oidc) = []"
    by (simp_all add: NewClientWithOIDC_def)
  obtain req where url: "NewRequest ''POST'' (tokenURL an_oidc) (token_form an_oidc) = Inr req"
  proof -
    have "isl (NewRequest ''POST'' (tokenURL an_oidc) (token_form an_oidc)) = False" by code_simp
    then show ?thesis by (cases "NewRequest ''POST'' (tokenURL an_oidc) (token_form an_oidc)") (auto intro: that)
  qed
  have answer: "snd (token_answer (answers 200 token_body r)) =
      Inr \<lparr>tr_AccessToken = ''t'', tr_TokenType = [], tr_ExpiresIn = 3600\<rparr>" for r
    unfolding answers_def by code_simp
  have grant: "yields (grants ''t'' 3600) (http_Do (mem_net 0 (answers 200 token_body)) v r)" for v r
    by (rule mem_net_Do) (unfold grants_def answer, simp)
  have clock: "yields (in_lifetime 0 3600) (now (mem_net 0 (answers 200 token_body)))"
    by (rule mem_net_now) (simp add: in_lifetime_def Second_def)
  show ?thesis
    by (rule wp_mono [OF token_requested_once [OF mem_net_recording oidc none url grant _ clock]])
      (simp_all add: Second_def)
qed

section \<open>Health checks\<close>

abbreviation young_hcp :: HostedControlPlane where
  "young_hcp \<equiv> an_hcp (Some private_aws) None"

abbreviation ok_net :: "(cluster \<times> exchange list) Net" where
  "ok_net \<equiv> mem_net 0 (answers 200 [])"

lemma checked_young: "checked_now mem_env ok_net fst young_hcp no_config True"
proof -
  let ?url = "''https://kube-apiserver.ns.svc.cluster.local:6443/livez''"
  have "isl (NewRequest ''GET'' ?url []) = False" by code_simp
  then obtain req where req: "NewRequest ''GET'' ?url [] = Inr req"
    by (cases "NewRequest ''GET'' ?url []") auto
  have "wp (healthcheckHostedControlPlane ok_net young_hcp) (\<lambda>h _. (h = None) = True) w" for w
    by (cases w) (simp add: healthcheckHostedControlPlane_def Let_def isPrivateHCP_def hcp_world_facts
        endpointOK_def req wp_simps mem_net_def wp_def answers_def an_hcp_def)
  moreover have "wp (olderThan ok_net (obj_meta young_hcp) hcpHealthCheckSkipAge) (\<lambda>old _. \<not> old) w" for w
    by (simp add: olderThan_def mem_net_def wp_simps an_hcp_def hcpHealthCheckSkipAge_def Hour_def Minute_def Second_def)
  ultimately show ?thesis
    by (simp add: checked_now_def mem_net_frame no_config_def)
qed

lemma unchecked_young: "stored_count mem_libs young_hcp (fst (hcp_world young_hcp)) = 0"
  by (simp add: stored_count_def hcp_world_def empty_cluster_def)

theorem hcpReady_refines_counter_witness:
  "wp (hcpReady mem_env ok_net young_hcp no_config)
     (\<lambda>r w'. \<forall>ready. r = Inr ready \<longrightarrow> stored_count mem_libs young_hcp (fst w') = 1) (hcp_world young_hcp)"
  by (rule wp_mono [OF hcpReady_refines_counter [OF ok_hcp_world checked_young]])
    (auto simp: unchecked_young check_step_def consecutiveSuccessfulHealthchecks_def)

theorem ready_after_five_in_a_row_witness:
  "\<exists>w'. run_state (hcpReady mem_env ok_net young_hcp no_config) (hcp_world young_hcp) = (Inr False, w') \<and>
     \<not> (\<exists>xs ys. [] @ [True] = xs @ replicate 5 True @ ys)"
proof -
  have "fst (run_state (hcpReady mem_env ok_net young_hcp no_config) (hcp_world young_hcp)) = Inr False"
    by code_simp
  then obtain w' where run: "run_state (hcpReady mem_env ok_net young_hcp no_config) (hcp_world young_hcp) = (Inr False, w')"
    by (metis prod.collapse)
  have "hcp_history mem_env fst young_hcp no_config [] (hcp_world young_hcp)"
    by (rule hcp_history.born) (simp_all add: ok_hcp_world unchecked_young)
  from conjunct1 [OF ready_after_five_in_a_row [OF this checked_young run]] run show ?thesis by blast
qed

section \<open>Dynatrace\<close>

text \<open>An API with one private location and no monitor.\<close>

definition dynatrace_api :: "http_request \<Rightarrow> go_error + http_response" where
  "dynatrace_api r = answers 200 (json_print (
     if hr_method r = ''POST'' then JObj [(''entityId'', JStr ''m'')]
     else if hr_url r = ''u'' @ locationPath
     then JObj [(''locations'', JArr [JObj [(''name'', JStr ''backplane''), (''type'', JStr ''PRIVATE''),
            (''entityId'', JStr ''l''), (''status'', JStr ''ENABLED'')]])]
     else JObj [(''monitors'', JArr [])])) r"

theorem dynatrace_create_guarded_witness:
  "wp (deployDynatraceHttpMonitorResources (mem_net 0 dynatrace_api) (NewDynatraceApiClient ''u'' ''t'')
        (an_hcp (Some private_aws) None))
     (\<lambda>r w'. r = Returns None \<and> map (hr_method \<circ> fst) (snd w') = [''GET'', ''GET'', ''POST''] \<and>
        create_guarded (NewDynatraceApiClient ''u'' ''t'') ''id'' (snd w'))
     ((), [])"
proof -
  have "wp (deployDynatraceHttpMonitorResources (mem_net 0 dynatrace_api) (NewDynatraceApiClient ''u'' ''t'')
        (an_hcp (Some private_aws) None))
     (\<lambda>r w'. r = Returns None \<and> map (hr_method \<circ> fst) (snd w') = [''GET'', ''GET'', ''POST'']) ((), [])"
    by code_simp
  from wp_conj [OF this dynatrace_create_guarded [OF mem_net_recording]] show ?thesis
    by (rule wp_mono) (simp add: an_hcp_def)
qed

end
