(* ===== verification/Monitor_Steps.thy ===== *)
theory Monitor_Steps
  imports Interfaces
begin

text \<open>
  The steps that both monitor controllers are made of, over the interfaces: a status is written, the
  ServiceMonitor or the PrometheusRule is stored and its reference kept, the PrometheusRule is
  removed and its reference cleared.
\<close>

type_synonym slo_parser = "string \<Rightarrow> SloSpec \<Rightarrow> string \<times> go_error option"

lemma other_stores:
  "changes_only c_rm c_rm_update k c d \<Longrightarrow> c_route d = c_route c \<and> c_cm d = c_cm c \<and> c_dep d = c_dep c \<and> c_svc d = c_svc c"
  "changes_only c_sm c_sm_update k c d \<Longrightarrow> c_route d = c_route c \<and> c_cm d = c_cm c \<and> c_dep d = c_dep c \<and> c_svc d = c_svc c"
  "changes_only c_rsm c_rsm_update k c d \<Longrightarrow> c_route d = c_route c \<and> c_cm d = c_cm c \<and> c_dep d = c_dep c \<and> c_svc d = c_svc c"
  "changes_only c_pr c_pr_update k c d \<Longrightarrow> c_route d = c_route c \<and> c_cm d = c_cm c \<and> c_dep d = c_dep c \<and> c_svc d = c_svc c"
  "changes_only c_cum c_cum_update k c d \<Longrightarrow> c_route d = c_route c \<and> c_cm d = c_cm c \<and> c_dep d = c_dep c \<and> c_svc d = c_svc c"
  by (cases c; cases d; simp add: changes_only_def)+

context monitor_handlers begin

lemma reads_osd_id: "reads invar snap (mh_GetOSDClusterID common)"
  unfolding reads_def by (auto intro: wp_mono [OF osd_id])

text \<open>Writing a status: the stored object keeps all but its status, and nothing else changes.\<close>

lemma wp_put_status:
  fixes x :: "('s, 't) kobj"
  assumes inv: "invar w" and x: "map_of (fld (snap w)) k = Some x"
    and err: "\<And>e. Q (Some e) (snap w)"
    and stored: "\<And>y d. changes_only fld upd k (snap w) d \<Longrightarrow> map_of (fld d) k = Some y \<Longrightarrow>
      obj_spec y = obj_spec x \<Longrightarrow> om_deletionTimestamp (obj_meta y) = om_deletionTimestamp (obj_meta x) \<Longrightarrow>
      om_finalizers (obj_meta y) = om_finalizers (obj_meta x) \<Longrightarrow> obj_status y = st \<Longrightarrow> Q None d"
  shows "wp (mh_UpdateMonitorResourceStatus common (x\<lparr>obj_status := st\<rparr>))
    (\<lambda>(res, err) w'. invar w' \<and> ShouldStop res \<and> Q err (snap w')) w"
proof (rule wp_mono [OF status_update [OF inv]], goal_cases)
  case (1 a w')
  obtain res err where a: "a = (res, err)" by (cases a)
  have key: "obj_key (x\<lparr>obj_status := st\<rparr>) = k"
    using wf_store_key [OF invar_wf [OF inv] x] by (simp add: obj_key_def)
  show ?case
  proof (cases err)
    case (Some e)
    with 1 a show ?thesis by (simp add: assms(3))
  next
    case None
    with 1 a have up: "status_updated fld upd (x\<lparr>obj_status := st\<rparr>) (snap w) (snap w')" by simp
    then obtain n where n: "om_finalizers (obj_meta n) = om_finalizers (obj_meta x)"
      "om_deletionTimestamp (obj_meta n) = om_deletionTimestamp (obj_meta x)" "obj_spec n = obj_spec x"
      "obj_status n = st" and d: "snap w' = upd (AList.update k n) (snap w)"
      using x by (auto simp: status_updated_def key same_sent_meta_def same_server_meta_def)
    have "map_of (fld (snap w')) k = Some n" by (simp add: d lens_get [OF store_lens] update_conv')
    with n updated_changes(2) [OF store_lens up] show ?thesis
      using 1 a None stored [of "snap w'" n] by (simp add: key)
  qed
qed

text \<open>The PrometheusRule is removed and the reference to it cleared.\<close>

lemma wp_drop_rule:
  assumes inv: "invar w"
    and err: "\<And>e w1. invar w1 \<Longrightarrow> snap w1 = snap w \<Longrightarrow> Q (RequeueReconcileWith (Some e)) w1"
    and put: "\<And>w1. invar w1 \<Longrightarrow>
      snap w1 = snap w \<or> (\<exists>p. changes_only c_pr c_pr_update p (snap w) (snap w1)) \<Longrightarrow>
      wp (mh_UpdateMonitorResourceStatus common (y nn_empty)) Q w1"
  shows "wp (do { d \<leftarrow> ph_DeletePrometheusRuleDeployment prom ref;
       (case d of
          Some err \<Rightarrow> ret (RequeueReconcileWith (Some err))
        | None \<Rightarrow>
            (case mh_SetResourceReference common ref nn_empty of
               ((updated, _), ref') \<Rightarrow>
                 if updated then mh_UpdateMonitorResourceStatus common (y ref') else ret z)) }) Q w"
  unfolding wp_bind
proof (rule wp_mono [OF rule_delete [OF inv]], goal_cases)
  case (1 d w1)
  then show ?case
    using err [of w1] put [of w1]
    by (cases d) (auto simp: wp_simps reference removed_def split: if_splits)
qed

text \<open>The PrometheusRule is stored and the reference set, unless it is.\<close>

lemma wp_write_rule:
  assumes inv: "invar w" and key: "obj_key t = k" "k \<noteq> nn_empty"
    and err: "\<And>e w1. invar w1 \<Longrightarrow> snap w1 = snap w \<Longrightarrow> Q (RequeueReconcileWith (Some e)) w1"
    and put: "\<And>w1 p. invar w1 \<Longrightarrow> changes_only c_pr c_pr_update k (snap w) (snap w1) \<Longrightarrow>
      map_of (c_pr (snap w1)) k = Some p \<Longrightarrow> obj_spec p = obj_spec t \<Longrightarrow> ref = nn_empty \<Longrightarrow>
      wp (mh_UpdateMonitorResourceStatus common (y k)) Q w1"
    and same: "\<And>w1 p. invar w1 \<Longrightarrow> changes_only c_pr c_pr_update k (snap w) (snap w1) \<Longrightarrow>
      map_of (c_pr (snap w1)) k = Some p \<Longrightarrow> obj_spec p = obj_spec t \<Longrightarrow> ref \<noteq> nn_empty \<Longrightarrow>
      Q ContinueReconcile w1"
  shows "wp (do { u \<leftarrow> ph_UpdatePrometheusRuleDeployment prom t;
       (case u of
          Some err \<Rightarrow> ret (RequeueReconcileWith (Some err))
        | None \<Rightarrow>
            (case mh_SetResourceReference common ref k of
               ((updated, _), ref') \<Rightarrow>
                 if updated then mh_UpdateMonitorResourceStatus common (y ref') else ret ContinueReconcile)) }) Q w"
  unfolding wp_bind
proof (rule wp_mono [OF rule_update [OF inv]], goal_cases)
  case (1 u w1)
  then show ?case
    using err [of w1] put [of w1] same [of w1] key
    by (cases u; cases "ref = nn_empty") (auto simp: wp_simps reference upserted_def)
qed

text \<open>The ServiceMonitor is stored and the reference set, unless it is; a reference to another one is an
  error.\<close>

lemma wp_write_probe:
  fixes url bbns k cid owner insecure
  defines "t \<equiv> probe_template url bbns k cid insecure owner"
  assumes inv: "invar w" and key: "k \<noteq> nn_empty"
    and err: "\<And>e w1. invar w1 \<Longrightarrow> snap w1 = snap w \<or> changes_only c_rsm c_rsm_update k (snap w) (snap w1) \<or>
      changes_only c_sm c_sm_update k (snap w) (snap w1) \<Longrightarrow> Q (RequeueReconcileWith (Some e)) w1"
    and put: "\<And>w1 p. invar w1 \<Longrightarrow>
      if hyper then changes_only c_rsm c_rsm_update k (snap w) (snap w1) else changes_only c_sm c_sm_update k (snap w) (snap w1) \<Longrightarrow>
      map_of (if hyper then c_rsm (snap w1) else c_sm (snap w1)) k = Some p \<Longrightarrow> obj_spec p = obj_spec t \<Longrightarrow>
      ref = nn_empty \<Longrightarrow> wp (mh_UpdateMonitorResourceStatus common (y k)) Q w1"
    and same: "\<And>w1 p. invar w1 \<Longrightarrow>
      if hyper then changes_only c_rsm c_rsm_update k (snap w) (snap w1) else changes_only c_sm c_sm_update k (snap w) (snap w1) \<Longrightarrow>
      map_of (if hyper then c_rsm (snap w1) else c_sm (snap w1)) k = Some p \<Longrightarrow> obj_spec p = obj_spec t \<Longrightarrow>
      ref = k \<Longrightarrow> Q ContinueReconcile w1"
  shows "wp (do { e \<leftarrow> sh_TemplateAndUpdateServiceMonitorDeployment sm url bbns k cid hyper insecure owner;
       (case e of
          Some err \<Rightarrow> ret (RequeueReconcileWith (Some err))
        | None \<Rightarrow>
            (case mh_SetResourceReference common ref k of
               ((updated, err), ref') \<Rightarrow>
                 (case err of
                    Some err \<Rightarrow> ret (RequeueReconcileWith (Some err))
                  | None \<Rightarrow>
                      if updated then mh_UpdateMonitorResourceStatus common (y ref')
                      else ret ContinueReconcile))) }) Q w"
  unfolding wp_bind
proof (rule wp_mono [OF sm_update [OF inv]], goal_cases)
  case (1 e w1)
  then have inv1: "invar w1" and ups: "if hyper then upserted c_rsm c_rsm_update t e (snap w) (snap w1)
      else upserted c_sm c_sm_update t e (snap w) (snap w1)" by (simp_all add: t_def)
  have tk: "obj_key t = k" by (simp add: t_def)
  show ?case
  proof (cases e)
    case (Some e')
    then show ?thesis using ups err [OF inv1] by (simp add: upserted_def wp_simps split: if_splits)
  next
    case None
    then obtain p where p: "map_of (if hyper then c_rsm (snap w1) else c_sm (snap w1)) k = Some p" "obj_spec p = obj_spec t"
      and ch: "if hyper then changes_only c_rsm c_rsm_update k (snap w) (snap w1) else changes_only c_sm c_sm_update k (snap w) (snap w1)"
      using ups tk by (auto simp: upserted_def split: if_splits)
    then show ?thesis
      using None err [OF inv1] put [OF inv1 ch p] same [OF inv1 ch p] key
      by (cases "ref = nn_empty"; cases hyper) (auto simp: wp_simps reference)
  qed
qed

end

lemma GetBlackBoxExporterNamespace_methods:
  "bh_GetBlackBoxExporterNamespace (BlackBoxExporter_methods E (New img bbns)) = bbns"
  by (simp add: BlackBoxExporter_methods_def GetBlackBoxExporterNamespace_def New_def)

section \<open>Runs\<close>

text \<open>A run of the operator seen from one object: its reconciles, with or without an error, and steps of
  everyone else, limited by the relation \<open>R\<close>.  The number counts the reconciles without an error.\<close>

inductive runs ::
    "('w, 'r \<times> go_error option) io \<Rightarrow> ('w \<Rightarrow> 'w \<Rightarrow> bool) \<Rightarrow> 'w \<Rightarrow> nat \<Rightarrow> 'w \<Rightarrow> bool"
  for reconcile R w where
  start: "runs reconcile R w 0 w"
| reconciled: "runs reconcile R w n v \<Longrightarrow> run_state reconcile v = ((res, None), v') \<Longrightarrow>
    runs reconcile R w (Suc n) v'"
| failed: "runs reconcile R w n v \<Longrightarrow> run_state reconcile v = ((res, Some e), v') \<Longrightarrow>
    runs reconcile R w n v'"
| others: "runs reconcile R w n v \<Longrightarrow> R v v' \<Longrightarrow> runs reconcile R w n v'"

text \<open>If every reconcile without an error makes what is lacking less, until nothing is, and nothing else makes
  it more, then a run with as many of them as was lacking ends with nothing lacking.\<close>

lemma runs_lacking:
  fixes lacking :: "'w \<Rightarrow> nat"
  assumes run: "runs reconcile R w n v" and start: "I w"
    and step: "\<And>v res err v'. I v \<Longrightarrow> run_state reconcile v = ((res, err), v') \<Longrightarrow> I v' \<and>
      (if err = None then lacking v' = 0 \<or> lacking v' < lacking v else lacking v' = lacking v)"
    and others: "\<And>v v'. I v \<Longrightarrow> R v v' \<Longrightarrow> I v' \<and> lacking v' = lacking v"
  shows "I v \<and> (lacking v = 0 \<or> n + lacking v \<le> lacking w)"
  using run
proof induction
  case start
  then show ?case using assms(2) by simp
next
  case (reconciled n v res v')
  then have "I v" "I v'" "lacking v' = 0 \<or> lacking v' < lacking v" "lacking v = 0 \<or> n + lacking v \<le> lacking w"
    using step [of v res None v'] by simp_all
  then show ?case by linarith
next
  case (failed n v res e v')
  then show ?case using step [of v res "Some e" v'] by simp
next
  case (others n v v')
  then show ?case using assms(4) [of v v'] by simp
qed

end
