(* ===== verification/Rm_Convergence.thy ===== *)
theory Rm_Convergence
  imports Route_Monitor Monitor_Steps
begin

text \<open>
  The RouteMonitor controller does one step per reconcile.  Here: every reconcile without an error
  makes progress or finds everything in place, so a bounded number of them brings a monitor to the
  state its spec asks for.
\<close>

section \<open>What a monitor still lacks\<close>

text \<open>A PrometheusRule is wanted unless it is skipped or the SLO is absent or invalid.\<close>

definition wants_rule :: "slo_parser \<Rightarrow> string \<Rightarrow> RouteMonitor \<Rightarrow> bool" where
  "wants_rule parse url rm \<longleftrightarrow>
     \<not> rms_skipPrometheusRule (obj_spec rm) \<and> fst (parse url (rms_slo (obj_spec rm))) \<noteq> []"

text \<open>The error status does not say yet whether the SLO is valid.\<close>

definition error_pending :: "slo_parser \<Rightarrow> string \<Rightarrow> RouteMonitor \<Rightarrow> bool" where
  "error_pending parse url rm \<longleftrightarrow> \<not> rms_skipPrometheusRule (obj_spec rm) \<and>
     (rmst_errorStatus (obj_status rm) = [] \<longleftrightarrow> snd (parse url (rms_slo (obj_spec rm))) \<noteq> None)"

definition missing :: "slo_parser \<Rightarrow> Route \<Rightarrow> RouteMonitor \<Rightarrow> nat" where
  "missing parse route rm =
     (let url = extractedRouteURL route rm; st = obj_status rm in
      of_bool (FinalizerKey \<notin> set (om_finalizers (obj_meta rm))) +
      of_bool (rmst_routeURL st \<noteq> url) +
      of_bool (rmst_serviceMonitorRef st = nn_empty) +
      of_bool (error_pending parse url rm) +
      of_bool (wants_rule parse url rm \<longleftrightarrow> rmst_prometheusRuleRef st = nn_empty))"

lemma missing_le: "missing parse route rm \<le> 5"
  by (simp add: missing_def Let_def)

text \<open>The ServiceMonitor of a monitor, of the right API group, has the spec of the template.\<close>

definition probe_stored :: "string \<Rightarrow> string \<Rightarrow> NamespacedName \<Rightarrow> RouteMonitor \<Rightarrow> cluster \<Rightarrow> bool" where
  "probe_stored url bbns k rm c \<longleftrightarrow>
     (\<exists>x cid owner. map_of (if rms_serviceMonitorType (obj_spec rm) = ServiceMonitorTypeRHOBS
                           then c_rsm c else c_sm c) k = Some x \<and>
        obj_spec x = obj_spec (probe_template url bbns k cid (rms_insecureSkipTLSVerify (obj_spec rm)) owner))"

text \<open>Everything is in place: the finalizer, the URL of the route, the ServiceMonitor of the right API
  group with the spec of the template, the error status, and the PrometheusRule if one is wanted.\<close>

definition monitor_settled ::
    "slo_parser \<Rightarrow> Libs \<Rightarrow> string \<Rightarrow> Route \<Rightarrow> NamespacedName \<Rightarrow> RouteMonitor \<Rightarrow> cluster \<Rightarrow> bool" where
  "monitor_settled parse L bbns route k rm c \<longleftrightarrow>
     (let url = extractedRouteURL route rm; spec = obj_spec rm; st = obj_status rm in
      FinalizerKey \<in> set (om_finalizers (obj_meta rm)) \<and> rmst_routeURL st = url \<and>
      probe_stored url bbns k rm c \<and> rmst_serviceMonitorRef st = k \<and> \<not> error_pending parse url rm \<and>
      (if wants_rule parse url rm
       then rmst_prometheusRuleRef st \<noteq> nn_empty \<and>
         (\<exists>p. map_of (c_pr c) k = Some p \<and>
            obj_spec p = obj_spec (TemplateForPrometheusRuleResource L url (fst (parse url (rms_slo spec))) k))
       else rmst_prometheusRuleRef st = nn_empty))"

text \<open>What a reconcile leaves of the monitor \<open>rm\<close>: its spec is as it was and it is not being deleted.
  After an error it is stored as it was; without one everything is in place or less is missing.\<close>

definition progress where
  "progress parse L bbns up route k rm c d err \<longleftrightarrow>
     c_route d = c_route c \<and>
     (\<exists>rm'. map_of (c_rm d) k = Some rm' \<and> obj_spec rm' = obj_spec rm \<and>
        om_deletionTimestamp (obj_meta rm') = None \<and> (err \<noteq> None \<longrightarrow> rm' = rm) \<and>
        (err = None \<longrightarrow> monitor_settled parse L bbns route k rm' d \<and> up d \<or>
           missing parse route rm' < missing parse route rm))"

lemma extractedRouteURL_spec: "obj_spec rm' = obj_spec rm \<Longrightarrow> extractedRouteURL route rm' = extractedRouteURL route rm"
  by (simp add: extractedRouteURL_def)

lemma wants_rule_spec: "obj_spec rm' = obj_spec rm \<Longrightarrow> wants_rule parse url rm' = wants_rule parse url rm"
  by (simp add: wants_rule_def)

definition route_key :: "RouteMonitor \<Rightarrow> NamespacedName" where
  "route_key rm = \<lparr>nn_name = rmrs_name (rms_route (obj_spec rm)),
                   nn_namespace = rmrs_namespace (rms_route (obj_spec rm))\<rparr>"

lemma blackbox_route: "blackbox_only b c d \<Longrightarrow> c_route d = c_route c"
  by (cases c; cases d) (simp add: blackbox_only_def)

lemma probe_stored_cong:
  "c_sm d = c_sm c \<Longrightarrow> c_rsm d = c_rsm c \<Longrightarrow> obj_spec rm' = obj_spec rm \<Longrightarrow>
     probe_stored url bbns k rm' d = probe_stored url bbns k rm c"
  by (simp add: probe_stored_def)

section \<open>The steps\<close>

context route_monitor_reconciler begin

abbreviation advances where
  "advances \<equiv> progress (mh_ParseMonitorSLOSpecs (rmr_Common r)) (libs (rmr_Client r))
     (bh_GetBlackBoxExporterNamespace (rmr_BlackBoxExporter r)) up"

abbreviation settled where
  "settled \<equiv> monitor_settled (mh_ParseMonitorSLOSpecs (rmr_Common r)) (libs (rmr_Client r))
     (bh_GetBlackBoxExporterNamespace (rmr_BlackBoxExporter r))"

abbreviation lacks where
  "lacks \<equiv> missing (mh_ParseMonitorSLOSpecs (rmr_Common r))"

lemma advances_error:
  assumes "map_of (c_rm d) k = Some rm" "om_deletionTimestamp (obj_meta rm) = None" "c_route d = c_route c"
  shows "advances route k rm c d (Some e)"
  using assms by (simp add: progress_def)

text \<open>A status write makes progress if it brings the monitor closer, or leaves it settled.\<close>

lemma wp_put_advances:
  fixes rm :: RouteMonitor
  assumes inv: "invar w" and rm: "map_of (c_rm (snap w)) k = Some rm"
    and live: "om_deletionTimestamp (obj_meta rm) = None" and c: "c_route (snap w) = c_route c"
    and step: "\<And>rm' d. changes_only c_rm c_rm_update k (snap w) d \<Longrightarrow> map_of (c_rm d) k = Some rm' \<Longrightarrow>
      obj_spec rm' = obj_spec rm \<Longrightarrow> om_finalizers (obj_meta rm') = om_finalizers (obj_meta rm) \<Longrightarrow>
      obj_status rm' = st \<Longrightarrow> settled route k rm' d \<and> up d \<or> lacks route rm' < lacks route rm"
  shows "wp (mh_UpdateMonitorResourceStatus (rmr_Common r) (rm\<lparr>obj_status := st\<rparr>)) (\<lambda>(res, err) w'.
     invar w' \<and> ShouldStop res \<and> advances route k rm c (snap w') err) w"
proof (rule wp_put_status [OF inv rm, where Q = "\<lambda>err d. advances route k rm c d err"], goal_cases)
  case (1 e)
  then show ?case by (rule advances_error [OF rm live c])
next
  case (2 rm' d)
  then show ?case
    using step [OF 2(1-3,5,6)] live c other_stores(1) [OF 2(1)] by (auto simp: progress_def)
qed

lemma wp_finalizer_step:
  fixes rm :: RouteMonitor
  assumes inv: "invar w" and rm: "map_of (c_rm (snap w)) k = Some rm"
    and live: "om_deletionTimestamp (obj_meta rm) = None"
  shows "wp (EnsureFinalizerSet r rm) (\<lambda>(res, err) w'. invar w' \<and>
     (if err = None \<and> \<not> ShouldStop res
      then snap w' = snap w \<and> FinalizerKey \<in> set (om_finalizers (obj_meta rm))
      else advances route k rm (snap w) (snap w') err)) w"
proof -
  have key: "obj_key rm = k" using wf_store_key [OF invar_wf [OF inv] rm] .
  have ne: "PrevFinalizerKey \<noteq> FinalizerKey" by (simp add: PrevFinalizerKey_def FinalizerKey_def)
  show ?thesis
    unfolding EnsureFinalizerSet_def
  proof (rule wp_mono [OF wp_add_finalizer [OF inv store_lens _ ne]], goal_cases)
    case 1
    then show ?case using rm key by simp
  next
    case (2 a w')
    obtain res err where a: "a = (res, err)" by (cases a)
    show ?case
    proof (cases "FinalizerKey \<in> set (om_finalizers (obj_meta rm))")
      case True
      with 2 a show ?thesis by simp
    next
      case False
      show ?thesis
      proof (cases err)
        case (Some e)
        then show ?thesis using 2 a False rm live by (simp add: advances_error)
      next
        case None
        with 2 a False key obtain rm' where rm': "map_of (c_rm (snap w')) k = Some rm'"
          "set (om_finalizers (obj_meta rm')) =
             insert FinalizerKey (set (om_finalizers (obj_meta rm))) - {PrevFinalizerKey}"
          "om_deletionTimestamp (obj_meta rm') = om_deletionTimestamp (obj_meta rm)"
          "obj_spec rm' = obj_spec rm" "obj_status rm' = obj_status rm"
          and ch: "changes_only c_rm c_rm_update k (snap w) (snap w')" and stop: "ShouldStop res" "invar w'"
          by auto
        have "lacks route rm' < lacks route rm"
          using False rm' ne
          by (simp add: missing_def error_pending_def wants_rule_def extractedRouteURL_def Let_def)
        then show ?thesis
          using None a stop rm' live other_stores(1) [OF ch] by (auto simp: progress_def)
      qed
    qed
  qed
qed

lemma wp_url_step:
  fixes rm :: RouteMonitor
  assumes inv: "invar w" and rm: "map_of (c_rm (snap w)) k = Some rm"
    and live: "om_deletionTimestamp (obj_meta rm) = None" and c: "c_route (snap w) = c_route c"
  shows "wp (EnsureRouteURLExists r route rm) (\<lambda>(res, err) w'. invar w' \<and>
     (if err = None \<and> \<not> ShouldStop res
      then snap w' = snap w \<and> rmst_routeURL (obj_status rm) = extractedRouteURL route rm
      else advances route k rm c (snap w') err)) w"
proof -
  have err: "advances route k rm c (snap w) (Some e)" for e
    by (rule advances_error [OF rm live c])
  have "wp (mh_UpdateMonitorResourceStatus (rmr_Common r)
      (rm\<lparr>obj_status := (obj_status rm)\<lparr>rmst_routeURL := extractedRouteURL route rm\<rparr>\<rparr>))
      (\<lambda>(res, err) w'. invar w' \<and> ShouldStop res \<and> advances route k rm c (snap w') err) w"
    if "rmst_routeURL (obj_status rm) \<noteq> extractedRouteURL route rm"
    by (rule wp_put_advances [OF inv rm live c])
      (use that in \<open>simp add: missing_def error_pending_def wants_rule_def extractedRouteURL_def Let_def\<close>)
  then show ?thesis
    unfolding EnsureRouteURLExists_def wp_simps
    using inv err
    by (auto simp: ContinueReconcile_def RequeueReconcileWith_def wp_return elim!: wp_mono split: prod.splits)
qed

lemma wp_probe_step:
  fixes rm :: RouteMonitor
  assumes inv: "invar w" and rm: "map_of (c_rm (snap w)) k = Some rm"
    and live: "om_deletionTimestamp (obj_meta rm) = None" and c: "c_route (snap w) = c_route c"
    and k: "k \<noteq> nn_empty" and up: "up (snap w)"
  shows "wp (EnsureServiceMonitorExists r rm) (\<lambda>(res, err) w'. invar w' \<and>
     (if err = None \<and> \<not> ShouldStop res
      then probe_stored (rmst_routeURL (obj_status rm))
             (bh_GetBlackBoxExporterNamespace (rmr_BlackBoxExporter r)) k rm (snap w') \<and>
        rmst_serviceMonitorRef (obj_status rm) = k \<and> up (snap w') \<and>
        map_of (c_rm (snap w')) k = Some rm \<and> c_route (snap w') = c_route c
      else advances route k rm c (snap w') err)) w" (is "wp _ ?Q w")
proof -
  let ?hcp = "rms_serviceMonitorType (obj_spec rm) = ServiceMonitorTypeRHOBS"
  have key: "obj_key rm = k" using wf_store_key [OF invar_wf [OF inv] rm] .
  then have nn: "\<lparr>nn_name = om_name (obj_meta rm), nn_namespace = om_namespace (obj_meta rm)\<rparr> = k"
    by (simp add: obj_key_def)
  have err: "?Q (RequeueReconcileWith (Some e)) w1"
    if "invar w1" "c_rm (snap w1) = c_rm (snap w)" "c_route (snap w1) = c_route c" for e w1
    using that rm live by (simp add: RequeueReconcileWith_def advances_error)
  have probe: "wp (do { e \<leftarrow> sh_TemplateAndUpdateServiceMonitorDeployment (rmr_ServiceMonitor r)
         (rmst_routeURL (obj_status rm)) (bh_GetBlackBoxExporterNamespace (rmr_BlackBoxExporter r))
         k cid ?hcp (rms_insecureSkipTLSVerify (obj_spec rm)) owner;
       (case e of
          Some err \<Rightarrow> ret (RequeueReconcileWith (Some err))
        | None \<Rightarrow>
            (case mh_SetResourceReference (rmr_Common r) (rmst_serviceMonitorRef (obj_status rm)) k of
               ((updated, err), ref) \<Rightarrow>
                 (case err of
                    Some err \<Rightarrow> ret (RequeueReconcileWith (Some err))
                  | None \<Rightarrow>
                      if updated
                      then mh_UpdateMonitorResourceStatus (rmr_Common r)
                             (rm\<lparr>obj_status := (obj_status rm)\<lparr>rmst_serviceMonitorRef := ref\<rparr>\<rparr>)
                      else ret ContinueReconcile))) }) ?Q w1"
    if w1: "invar w1" "snap w1 = snap w" for cid owner w1
  proof -
    have other: "c_rm d = c_rm (snap w) \<and> c_route d = c_route c \<and> up d"
      if "changes_only c_rsm c_rsm_update k (snap w1) d \<or> changes_only c_sm c_sm_update k (snap w1) d" for d
      using that other_stores(2,3) [of k "snap w" d] changes_only_other_fields(1,4) [of k "snap w" d]
        c w1(2) up_of [OF up, of d] by auto
    show ?thesis
    proof (rule wp_write_probe [OF w1(1) k], goal_cases)
      case (1 e w2)
      then show ?case using err [of w2 e] other [of "snap w2"] c w1(2) by auto
    next
      case (2 w2 p)
      then have st: "c_rm (snap w2) = c_rm (snap w)" "c_route (snap w2) = c_route c"
        using other [of "snap w2"] by (auto split: if_splits)
      show ?case
        by (rule wp_mono [OF wp_put_advances [OF 2(1) _ live st(2)]])
          (use 2 rm st k in
            \<open>auto simp: missing_def error_pending_def wants_rule_def extractedRouteURL_def Let_def\<close>)
    next
      case (3 w2 p)
      then have "probe_stored (rmst_routeURL (obj_status rm))
          (bh_GetBlackBoxExporterNamespace (rmr_BlackBoxExporter r)) k rm (snap w2)"
        by (auto simp: probe_stored_def split: if_splits)
      then show ?case
        using 3 other [of "snap w2"] rm by (auto simp: ContinueReconcile_def split: if_splits)
    qed
  qed
  have ids: "wp (if ?hcp
      then do { h \<leftarrow> getHostedControlPlane r (om_namespace (obj_meta rm));
                ret (map_sum id (\<lambda>hcp. hcps_clusterID (obj_spec hcp)) h) }
      else mh_GetOSDClusterID (rmr_Common r)) (\<lambda>_ w1. invar w1 \<and> snap w1 = snap w) w"
    unfolding getHostedControlPlane_def
    by (rule wp_reads [where invar = invar and snap = snap]) (intro reads_rules list_hcp reads_osd_id inv)+
  show ?thesis
  proof (cases "rmst_routeURL (obj_status rm) = []")
    case True
    show ?thesis
      unfolding EnsureServiceMonitorExists_def if_P [OF True] wp_return by (rule err [OF inv _ c]) simp
  next
    case False
    show ?thesis
      unfolding EnsureServiceMonitorExists_def if_not_P [OF False] Let_def nn wp_bind
    proof (rule wp_mono [OF ids], goal_cases)
      case (1 i w1)
      show ?case
      proof (cases i)
        case (Inl e)
        show ?thesis unfolding Inl sum.case wp_return by (rule err) (use 1 c in simp_all)
      next
        case (Inr cid)
        show ?thesis
          unfolding Inr sum.case by (rule probe) (use 1 in simp_all)
      qed
    qed
  qed
qed

text \<open>The last step starts from a monitor that lacks at most its error status and its PrometheusRule.\<close>

abbreviation ready where
  "ready route k rm c \<equiv> FinalizerKey \<in> set (om_finalizers (obj_meta rm)) \<and>
     rmst_routeURL (obj_status rm) = extractedRouteURL route rm \<and>
     probe_stored (extractedRouteURL route rm) (bh_GetBlackBoxExporterNamespace (rmr_BlackBoxExporter r)) k rm c \<and>
     rmst_serviceMonitorRef (obj_status rm) = k \<and> up c \<and> map_of (c_rm c) k = Some rm"

lemma ready_pr:
  assumes rdy: "ready route k rm c" and ch: "changes_only c_pr c_pr_update p c d"
  shows "ready route k rm d"
proof -
  note o = other_stores(4) [OF ch] changes_only_other_fields(2) [OF ch]
  have "up d" by (rule up_of [of c]) (use o rdy in simp_all)
  then show ?thesis using rdy o probe_stored_cong [of d c rm rm] by simp
qed

lemma ready_rm:
  assumes rdy: "ready route k rm c" and ch: "changes_only c_rm c_rm_update k c d"
    and spec: "obj_spec rm' = obj_spec rm"
  shows "up d" and "probe_stored (extractedRouteURL route rm')
    (bh_GetBlackBoxExporterNamespace (rmr_BlackBoxExporter r)) k rm' d"
proof -
  note o = other_stores(1) [OF ch] changes_only_other_fields(3) [OF ch]
  show "up d" by (rule up_of [of c]) (use o rdy in simp_all)
  show "probe_stored (extractedRouteURL route rm')
    (bh_GetBlackBoxExporterNamespace (rmr_BlackBoxExporter r)) k rm' d"
    using rdy o extractedRouteURL_spec [OF spec] probe_stored_cong [OF _ _ spec, of d c] by simp
qed

lemma wp_no_rule:
  fixes rm :: RouteMonitor
  assumes inv: "invar w" and live: "om_deletionTimestamp (obj_meta rm) = None"
    and c: "c_route (snap w) = c_route c" and k: "k \<noteq> nn_empty" and rdy: "ready route k rm (snap w)"
    and no: "\<not> wants_rule (mh_ParseMonitorSLOSpecs (rmr_Common r)) (extractedRouteURL route rm) rm"
      "\<not> error_pending (mh_ParseMonitorSLOSpecs (rmr_Common r)) (extractedRouteURL route rm) rm"
  shows "wp (do { d \<leftarrow> ph_DeletePrometheusRuleDeployment (rmr_Prom r) (rmst_prometheusRuleRef (obj_status rm));
       (case d of
          Some err \<Rightarrow> ret (RequeueReconcileWith (Some err))
        | None \<Rightarrow>
            (case mh_SetResourceReference (rmr_Common r) (rmst_prometheusRuleRef (obj_status rm)) nn_empty of
               ((updated, _), ref) \<Rightarrow>
                 if updated
                 then mh_UpdateMonitorResourceStatus (rmr_Common r)
                        (rm\<lparr>obj_status := (obj_status rm)\<lparr>rmst_prometheusRuleRef := ref\<rparr>\<rparr>)
                 else ret z)) })
     (\<lambda>(res, err) w'. invar w' \<and> advances route k rm c (snap w') err) w"
proof (rule wp_drop_rule [OF inv], goal_cases)
  case (1 e w1)
  then show ?case using rdy live c by (simp add: RequeueReconcileWith_def advances_error)
next
  case (2 w1)
  then have w1: "ready route k rm (snap w1)" "c_route (snap w1) = c_route c"
    using ready_pr [OF rdy, of _ "snap w1"] other_stores(4) [of _ "snap w" "snap w1"] rdy c by metis+
  show ?case
  proof (rule wp_mono [OF wp_put_advances [OF 2(1) _ live w1(2), where k = k and route = route]], goal_cases)
    case (2 rm' d)
    note ready_rm [OF w1(1) 2(1,3)]
    with 2 no rdy k show ?case
      by (auto simp: monitor_settled_def missing_def error_pending_def wants_rule_def
          extractedRouteURL_def Let_def)
  qed (use w1 in auto)
qed

lemma wp_wanted_rule:
  fixes rm :: RouteMonitor
  assumes inv: "invar w" and live: "om_deletionTimestamp (obj_meta rm) = None"
    and c: "c_route (snap w) = c_route c" and k: "k \<noteq> nn_empty" and rdy: "ready route k rm (snap w)"
    and slo: "fst (mh_ParseMonitorSLOSpecs (rmr_Common r) (extractedRouteURL route rm) (rms_slo (obj_spec rm))) = slo"
    and yes: "wants_rule (mh_ParseMonitorSLOSpecs (rmr_Common r)) (extractedRouteURL route rm) rm"
      "\<not> error_pending (mh_ParseMonitorSLOSpecs (rmr_Common r)) (extractedRouteURL route rm) rm"
  shows "wp (do { u \<leftarrow> ph_UpdatePrometheusRuleDeployment (rmr_Prom r)
            (TemplateForPrometheusRuleResource (libs (rmr_Client r)) (extractedRouteURL route rm) slo k);
       (case u of
          Some err \<Rightarrow> ret (RequeueReconcileWith (Some err))
        | None \<Rightarrow>
            (case mh_SetResourceReference (rmr_Common r) (rmst_prometheusRuleRef (obj_status rm)) k of
               ((updated, _), ref) \<Rightarrow>
                 if updated
                 then mh_UpdateMonitorResourceStatus (rmr_Common r)
                        (rm\<lparr>obj_status := (obj_status rm)\<lparr>rmst_prometheusRuleRef := ref\<rparr>\<rparr>)
                 else ret ContinueReconcile)) })
     (\<lambda>(res, err) w'. invar w' \<and> advances route k rm c (snap w') err) w"
proof (rule wp_write_rule [OF inv _ k], goal_cases)
  case 1
  then show ?case by simp
next
  case (2 e w1)
  then show ?case using rdy live c by (simp add: RequeueReconcileWith_def advances_error)
next
  case (3 w1 p)
  have w1: "ready route k rm (snap w1)" "c_route (snap w1) = c_route c"
    using ready_pr [OF rdy 3(2)] other_stores(4) [OF 3(2)] c by simp_all
  show ?case
    by (rule wp_mono [OF wp_put_advances [OF 3(1) _ live w1(2)]]) (use w1 3 k yes in
        \<open>auto simp: missing_def error_pending_def wants_rule_def extractedRouteURL_def Let_def\<close>)
next
  case (4 w1 p)
  have w1: "ready route k rm (snap w1)" "c_route (snap w1) = c_route c"
    using ready_pr [OF rdy 4(2)] other_stores(4) [OF 4(2)] c by simp_all
  have "settled route k rm (snap w1)"
    using w1 4 yes slo by (auto simp: monitor_settled_def Let_def)
  then have "advances route k rm c (snap w1) None"
    using w1 live by (auto simp: progress_def)
  then show ?case using 4(1) by (simp add: ContinueReconcile_def)
qed

lemma wp_rule_step:
  fixes rm :: RouteMonitor
  assumes inv: "invar w" and live: "om_deletionTimestamp (obj_meta rm) = None"
    and c: "c_route (snap w) = c_route c" and k: "k \<noteq> nn_empty" and rdy: "ready route k rm (snap w)"
  shows "wp (EnsurePrometheusRuleExists r rm) (\<lambda>(res, err) w'. invar w' \<and>
     advances route k rm c (snap w') err) w"
proof -
  note rm = rdy [THEN conjunct2, THEN conjunct2, THEN conjunct2, THEN conjunct2, THEN conjunct2]
  have url: "rmst_routeURL (obj_status rm) = extractedRouteURL route rm" using rdy by blast
  have nn: "\<lparr>nn_name = om_name (obj_meta rm), nn_namespace = om_namespace (obj_meta rm)\<rparr> = k"
    using wf_store_key [OF invar_wf [OF inv] rm] by (simp add: obj_key_def)
  obtain slo perr where parse: "mh_ParseMonitorSLOSpecs (rmr_Common r) (extractedRouteURL route rm)
      (rms_slo (obj_spec rm)) = (slo, perr)" by fastforce
  define pending where "pending \<longleftrightarrow>
    error_pending (mh_ParseMonitorSLOSpecs (rmr_Common r)) (extractedRouteURL route rm) rm"
  have wants: "wants_rule (mh_ParseMonitorSLOSpecs (rmr_Common r)) (extractedRouteURL route rm) rm \<longleftrightarrow>
      \<not> rms_skipPrometheusRule (obj_spec rm) \<and> slo \<noteq> []" by (simp add: wants_rule_def parse)
  show ?thesis
  proof (cases "rms_skipPrometheusRule (obj_spec rm)")
    case True
    then have "\<not> pending" by (simp add: pending_def error_pending_def)
    then show ?thesis
      unfolding EnsurePrometheusRuleExists_def Let_def if_P [OF True] pending_def
      using wp_no_rule [OF inv live c k rdy] wants True by simp
  next
    case False
    obtain changed st where status: "mh_SetErrorStatus (rmr_Common r)
        (rmst_errorStatus (obj_status rm)) perr = (changed, st)" by fastforce
    have ch: "changed \<longleftrightarrow> pending" "\<not> changed \<longrightarrow> st = rmst_errorStatus (obj_status rm)"
      "st = [] \<longleftrightarrow> perr = None"
      using status parse_slo [of "extractedRouteURL route rm" "rms_slo (obj_spec rm)" slo] parse False
      by (auto simp: error_status pending_def error_pending_def split: option.splits if_splits)
    have put: "wp (mh_UpdateMonitorResourceStatus (rmr_Common r)
        (rm\<lparr>obj_status := (obj_status rm)\<lparr>rmst_errorStatus := st\<rparr>\<rparr>))
        (\<lambda>(res, err) w'. invar w' \<and> ShouldStop res \<and> advances route k rm c (snap w') err) w" if pending
      by (rule wp_put_advances [OF inv rm live c]) (use that False ch parse in
          \<open>simp add: pending_def missing_def error_pending_def wants_rule_def extractedRouteURL_def Let_def\<close>)
    show ?thesis
    proof (cases pending)
      case True
      then show ?thesis
        unfolding EnsurePrometheusRuleExists_def Let_def if_not_P [OF False] url parse prod.case status
        using put ch(1) by (auto elim: wp_mono)
    next
      case np: False
      then have same: "rm\<lparr>obj_status := (obj_status rm)\<lparr>rmst_errorStatus := st\<rparr>\<rparr> = rm"
        and nc: "\<not> changed" using ch by simp_all
      show ?thesis
        unfolding EnsurePrometheusRuleExists_def Let_def if_not_P [OF False] url parse prod.case status
          same if_not_P [OF nc] nn
      proof (split if_split, intro conjI impI, goal_cases)
        case 1
        then show ?case
          by (intro wp_no_rule [OF inv live c k rdy]) (use wants np pending_def in simp_all)
      next
        case 2
        then show ?case
          by (intro wp_wanted_rule [OF inv live c k rdy])
            (use wants np pending_def False parse in simp_all)
      qed
    qed
  qed
qed

section \<open>A reconcile\<close>

text \<open>What is left of a reconcile after each of its steps.\<close>

definition from_probe where
  "from_probe rm = do { s \<leftarrow> EnsureServiceMonitorExists r rm;
     (case s of (res, err) \<Rightarrow>
        if err \<noteq> None then ret (RequeueWith err)
        else if ShouldStop res then ret Stop
        else do { p \<leftarrow> EnsurePrometheusRuleExists r rm;
          (case p of (res, err) \<Rightarrow> if err \<noteq> None then ret (RequeueWith err) else ret Stop) }) }"

definition from_route where
  "from_route rm = do { g \<leftarrow> GetRoute r rm;
     (case g of
        Inl err \<Rightarrow> ret (RequeueWith (Some err))
      | Inr route \<Rightarrow>
          do { u \<leftarrow> EnsureRouteURLExists r route rm;
            (case u of (res, err) \<Rightarrow>
             if err \<noteq> None then ret (RequeueWith err)
             else if ShouldStop res then ret Stop
             else from_probe rm) }) }"

definition from_blackbox where
  "from_blackbox rm = do { b \<leftarrow> bh_EnsureBlackBoxExporterResourcesExist (rmr_BlackBoxExporter r);
     (case b of Some err \<Rightarrow> ret (RequeueWith (Some err)) | None \<Rightarrow> from_route rm) }"

definition from_finalizer where
  "from_finalizer rm = do { f \<leftarrow> EnsureFinalizerSet r rm;
     (case f of (res, err) \<Rightarrow>
      if err \<noteq> None then ret (RequeueWith err)
      else if ShouldStop res then ret Stop
      else from_blackbox rm) }"

lemma wp_GetRoute:
  assumes "invar w"
  shows "wp (GetRoute r rm) (\<lambda>g w'. invar w' \<and> snap w' = snap w \<and>
    (\<forall>x. g = Inr x \<longrightarrow> map_of (c_route (snap w)) (route_key rm) = Some x)) w"
  unfolding GetRoute_def Let_def wp_if
  using get_route [OF assms, of "route_key rm"] assms
  by (auto simp: wp_return route_key_def elim!: wp_mono split: sum.splits)

lemma wp_from_probe:
  fixes rm :: RouteMonitor
  assumes inv: "invar w" and rm: "map_of (c_rm (snap w)) k = Some rm"
    and live: "om_deletionTimestamp (obj_meta rm) = None" and c: "c_route (snap w) = c_route c"
    and k: "k \<noteq> nn_empty" and up: "up (snap w)"
    and fin: "FinalizerKey \<in> set (om_finalizers (obj_meta rm))"
    and url: "rmst_routeURL (obj_status rm) = extractedRouteURL route rm"
  shows "wp (from_probe rm) (\<lambda>(res, err) w'. invar w' \<and> advances route k rm c (snap w') err) w"
proof -
  have last: "wp (do { p \<leftarrow> EnsurePrometheusRuleExists r rm;
        (case p of (res, err) \<Rightarrow> if err \<noteq> None then ret (RequeueWith err) else ret Stop) })
      (\<lambda>(res, err) w'. invar w' \<and> advances route k rm c (snap w') err) w1"
    if "invar w1" "c_route (snap w1) = c_route c" "ready route k rm (snap w1)" for w1
    unfolding wp_bind
    by (rule wp_mono [OF wp_rule_step [OF that(1) live that(2) k that(3)]])
      (auto simp: wp_simps RequeueWith_def Stop_def)
  show ?thesis
    unfolding from_probe_def wp_bind
  proof (rule wp_mono [OF wp_probe_step [OF inv rm live c k up, where route = route]], goal_cases)
    case (1 a w1)
    then show ?case
      using last [of w1] fin url
      by (cases a; cases "snd a") (auto simp: wp_simps RequeueWith_def Stop_def)
  qed
qed

lemma wp_from_route:
  fixes rm :: RouteMonitor
  assumes inv: "invar w" and rm: "map_of (c_rm (snap w)) k = Some rm"
    and live: "om_deletionTimestamp (obj_meta rm) = None" and c: "c_route (snap w) = c_route c"
    and k: "k \<noteq> nn_empty" and up: "up (snap w)"
    and fin: "FinalizerKey \<in> set (om_finalizers (obj_meta rm))"
    and route: "map_of (c_route (snap w)) (route_key rm) = Some route"
  shows "wp (from_route rm) (\<lambda>(res, err) w'. invar w' \<and> advances route k rm c (snap w') err) w"
  unfolding from_route_def wp_bind [of "GetRoute r rm"]
proof (rule wp_mono [OF wp_GetRoute [OF inv, of rm]], goal_cases)
  case (1 g w1)
  then have w1: "invar w1" "snap w1 = snap w" by simp_all
  show ?case
  proof (cases g)
    case (Inl e)
    with w1 rm live c show ?thesis by (simp add: wp_return RequeueWith_def advances_error)
  next
    case (Inr x)
    then have x: "x = route" using 1 route by simp
    show ?thesis
      unfolding Inr sum.case x wp_bind
    proof (rule wp_mono [OF wp_url_step [OF w1(1) rm [folded w1(2)] live c [folded w1(2)],
          where route = route]], goal_cases)
      case (1 a w2)
      then show ?case
        using wp_from_probe [of w2 k rm c route] w1 rm live c k up fin
        by (cases a; cases "snd a") (auto simp: wp_simps RequeueWith_def Stop_def)
    qed
  qed
qed

lemma wp_from_finalizer:
  fixes rm :: RouteMonitor
  assumes inv: "invar w" and rm: "map_of (c_rm (snap w)) k = Some rm"
    and live: "om_deletionTimestamp (obj_meta rm) = None" and k: "k \<noteq> nn_empty"
    and route: "map_of (c_route (snap w)) (route_key rm) = Some route"
  shows "wp (from_finalizer rm) (\<lambda>(res, err) w'. invar w' \<and>
     advances route k rm (snap w) (snap w') err) w" (is "wp _ ?Q w")
  unfolding from_finalizer_def wp_bind
proof (rule wp_mono [OF wp_finalizer_step [OF inv rm live, where route = route]], goal_cases)
  case (1 a w1)
  show ?case
  proof (cases "snd a = None \<and> \<not> ShouldStop (fst a)")
    case False
    with 1 show ?thesis by (cases a; cases "snd a") (auto simp: wp_return RequeueWith_def Stop_def)
  next
    case True
    then have fin: "FinalizerKey \<in> set (om_finalizers (obj_meta rm))" "invar w1" "snap w1 = snap w"
      using 1 by (cases a; auto)+
    have "wp (from_blackbox rm) ?Q w1"
      unfolding from_blackbox_def wp_bind
    proof (rule wp_mono [OF bb_exist [OF fin(2)]], goal_cases)
      case (1 b w2)
      then have o: "c_rm (snap w2) = c_rm (snap w)" "c_route (snap w2) = c_route (snap w)"
        using changes_only_other_fields(6) [of bb_key "snap w1" "snap w2"]
          blackbox_route [of bb_key "snap w1" "snap w2"] fin(3) by simp_all
      with 1 show ?case
        using wp_from_route [of w2 k rm "snap w" route] rm live k route fin
        by (cases b) (auto simp: wp_return RequeueWith_def advances_error)
    qed
    then show ?thesis using True by (cases a) auto
  qed
qed

lemma wp_Reconcile_advances:
  fixes rm :: RouteMonitor
  assumes inv: "invar w" and rm: "map_of (c_rm (snap w)) k = Some rm"
    and live: "om_deletionTimestamp (obj_meta rm) = None" and k: "k \<noteq> nn_empty"
    and route: "map_of (c_route (snap w)) (route_key rm) = Some route"
  shows "wp (Reconcile r k) (\<lambda>(res, err) w'. invar w' \<and> advances route k rm (snap w) (snap w') err) w"
proof -
  have key: "obj_key rm = k" using wf_store_key [OF invar_wf [OF inv] rm] .
  have ne: "rm \<noteq> empty_RouteMonitor"
    using k key by (auto simp: empty_RouteMonitor_def empty_meta_def obj_key_def)
  have nodel: "\<not> WasDeleteRequested (obj_meta rm)" using live by (simp add: WasDeleteRequested_def)
  show ?thesis
    unfolding Reconcile_def from_probe_def [symmetric] from_route_def [symmetric]
      from_blackbox_def [symmetric] from_finalizer_def [symmetric] wp_bind
  proof (rule wp_mono [OF wp_GetRouteMonitor [OF inv, of k]], goal_cases)
    case (1 g w1)
    obtain rm1 res1 err1 where g: "g = (rm1, res1, err1)" by (cases g)
    have w1: "invar w1" "snap w1 = snap w" using 1 g by auto
    show ?case
    proof (cases err1)
      case (Some e)
      then show ?thesis using g w1 rm live by (simp add: wp_return RequeueWith_def advances_error)
    next
      case None
      then have go: "\<not> ShouldStop res1" "rm1 = rm" using 1 g rm ne by (auto split: if_splits)
      show ?thesis
        using wp_from_finalizer [of w1 k rm route] w1 rm live k route go nodel None by (simp add: g)
    qed
  qed
qed

end

section \<open>Convergence\<close>

lemma settled_missing: "monitor_settled parse L bbns route k rm c \<Longrightarrow> k \<noteq> nn_empty \<Longrightarrow> missing parse route rm = 0"
  by (auto simp: monitor_settled_def missing_def Let_def split: if_splits)

abbreviation rm_progress :: "'w Env \<Rightarrow> string \<Rightarrow> string \<Rightarrow> Route \<Rightarrow> NamespacedName \<Rightarrow> RouteMonitor
    \<Rightarrow> cluster \<Rightarrow> cluster \<Rightarrow> go_error option \<Rightarrow> bool" where
  "rm_progress E img bbns \<equiv>
     progress (ParseMonitorSLOSpecs (libs E)) (libs E) bbns (blackbox_up (New img bbns))"

lemma wp_rm_progress:
  assumes "ok_world E snap w" and "map_of (c_rm (snap w)) k = Some rm"
    and "om_deletionTimestamp (obj_meta rm) = None" and "k \<noteq> nn_empty"
    and "map_of (c_route (snap w)) (route_key rm) = Some route"
  shows "wp (Reconcile (NewReconciler E img bbns hypershift url) k) (\<lambda>(res, err) w'.
    ok_world E snap w' \<and> rm_progress E img bbns route k rm (snap w) (snap w') err) w"
  using rmr.wp_Reconcile_advances [OF assms, of img bbns hypershift url]
  by (simp add: NewReconciler_fields common_methods GetBlackBoxExporterNamespace_methods)

text \<open>Everyone else may do anything but write to this monitor and to its route.\<close>

definition rm_others ::
    "'w Env \<Rightarrow> ('w \<Rightarrow> cluster) \<Rightarrow> NamespacedName \<Rightarrow> NamespacedName \<Rightarrow> 'w \<Rightarrow> 'w \<Rightarrow> bool" where
  "rm_others E snap k p v v' \<longleftrightarrow> ok_world E snap v' \<and>
     map_of (c_rm (snap v')) k = map_of (c_rm (snap v)) k \<and>
     map_of (c_route (snap v')) p = map_of (c_route (snap v)) p"

text \<open>Along a run the monitor stays stored, live and with its spec, and lacks less with every
  reconcile without an error.\<close>

lemma rm_run_invariant:
  assumes run: "runs (Reconcile (NewReconciler E img bbns hypershift url) k) (rm_others E snap k (route_key rm)) w n v"
    and ok: "ok_world E snap w" and rm: "map_of (c_rm (snap w)) k = Some rm"
    and live: "om_deletionTimestamp (obj_meta rm) = None" and k: "k \<noteq> nn_empty"
    and route: "map_of (c_route (snap w)) (route_key rm) = Some route"
  defines "lacking \<equiv> missing (ParseMonitorSLOSpecs (libs E)) route"
  shows "ok_world E snap v \<and> map_of (c_route (snap v)) (route_key rm) = Some route \<and>
    (\<exists>rm'. map_of (c_rm (snap v)) k = Some rm' \<and> om_deletionTimestamp (obj_meta rm') = None \<and>
       obj_spec rm' = obj_spec rm \<and> (lacking rm' = 0 \<or> n + lacking rm' \<le> lacking rm))"
proof -
  define I where "I v \<longleftrightarrow> ok_world E snap v \<and> map_of (c_route (snap v)) (route_key rm) = Some route \<and>
    (\<exists>rm'. map_of (c_rm (snap v)) k = Some rm' \<and> om_deletionTimestamp (obj_meta rm') = None \<and>
       obj_spec rm' = obj_spec rm)" for v
  let ?l = "\<lambda>v. lacking (the (map_of (c_rm (snap v)) k))"
  have "I v \<and> (?l v = 0 \<or> n + ?l v \<le> ?l w)"
    using run
  proof (rule runs_lacking, goal_cases)
    case 1
    then show ?case using ok rm live route by (auto simp: I_def)
  next
    case (2 v res err v')
    then obtain rm' where v: "ok_world E snap v" "map_of (c_route (snap v)) (route_key rm) = Some route"
      and rm': "map_of (c_rm (snap v)) k = Some rm'" "om_deletionTimestamp (obj_meta rm') = None"
        "obj_spec rm' = obj_spec rm" by (auto simp: I_def)
    have p: "route_key rm' = route_key rm" using rm'(3) by (simp add: route_key_def)
    have "ok_world E snap v' \<and> rm_progress E img bbns route k rm' (snap v) (snap v') err"
      using wp_run [OF wp_rm_progress [OF v(1) rm'(1,2) k v(2) [folded p]] 2(2)] by simp
    then show ?case
      using v rm' settled_missing [OF _ k] by (fastforce simp: progress_def lacking_def I_def)
  next
    case (3 v v')
    then show ?case by (auto simp: I_def rm_others_def)
  qed
  then show ?thesis using rm by (auto simp: I_def)
qed

section \<open>Properties\<close>

text \<open>C3. A reconcile of a live RouteMonitor whose Route exists always makes progress: if it returns an
  error, the stored monitor is as before; if not, the monitor is settled (finalizer, URL of the route,
  ServiceMonitor, error status and PrometheusRule all as its spec asks for, exporter up), or it lacks
  strictly less than before, where it can lack at most five things.  The spec and the Routes are never
  changed.\<close>

theorem routemonitor_reconcile_progress:
  assumes "ok_world E snap w" and "map_of (c_rm (snap w)) k = Some rm"
    and "om_deletionTimestamp (obj_meta rm) = None" and "k \<noteq> nn_empty"
    and "map_of (c_route (snap w)) (route_key rm) = Some route"
  shows "wp (Reconcile (NewReconciler E img bbns hypershift url) k) (\<lambda>(res, err) w'.
    rm_progress E img bbns route k rm (snap w) (snap w') err) w"
  by (rule wp_mono [OF wp_rm_progress [OF assms]]) auto

text \<open>C2. The controller brings a live RouteMonitor whose Route exists to what its spec asks for: after five reconciles without an error, however many
  failed ones and whatever else was written to the cluster in between, except to the monitor and its
  Route, the next reconcile, if it ends without an error too, ends with the monitor settled.\<close>

theorem routemonitor_converges:
  assumes ok: "ok_world E snap w" and rm: "map_of (c_rm (snap w)) k = Some rm"
    and live: "om_deletionTimestamp (obj_meta rm) = None" and k: "k \<noteq> nn_empty"
    and route: "map_of (c_route (snap w)) (route_key rm) = Some route"
    and run: "runs (Reconcile (NewReconciler E img bbns hypershift url) k) (rm_others E snap k (route_key rm)) w n v"
    and n: "5 \<le> n"
    and last: "run_state (Reconcile (NewReconciler E img bbns hypershift url) k) v = ((res, None), v')"
  shows "\<exists>rm'. map_of (c_rm (snap v')) k = Some rm' \<and> obj_spec rm' = obj_spec rm \<and>
    monitor_settled (ParseMonitorSLOSpecs (libs E)) (libs E) bbns route k rm' (snap v') \<and>
    blackbox_up (New img bbns) (snap v')"
proof -
  let ?lacking = "missing (ParseMonitorSLOSpecs (libs E)) route"
  from rm_run_invariant [OF run ok rm live k route] obtain rm' where
    v: "ok_world E snap v" "map_of (c_route (snap v)) (route_key rm) = Some route"
    and rm': "map_of (c_rm (snap v)) k = Some rm'" "om_deletionTimestamp (obj_meta rm') = None"
      "obj_spec rm' = obj_spec rm" "?lacking rm' = 0 \<or> n + ?lacking rm' \<le> ?lacking rm" by blast
  have "?lacking rm' = 0" using rm'(4) n missing_le [of "ParseMonitorSLOSpecs (libs E)" route rm] by linarith
  moreover have p: "route_key rm' = route_key rm" using rm'(3) by (simp add: route_key_def)
  moreover have "rm_progress E img bbns route k rm' (snap v) (snap v') None"
    using wp_run [OF wp_rm_progress [OF v(1) rm'(1,2) k v(2) [folded p]] last] by simp
  ultimately show ?thesis using rm'(3) by (auto simp: progress_def)
qed

end
