(* ===== verification/Cum_Convergence.thy ===== *)
theory Cum_Convergence
  imports Cluster_Url_Monitor Monitor_Steps
begin

text \<open>
  The ClusterUrlMonitor controller, too, does one step per reconcile.  Here: every reconcile without an
  error makes progress or finds everything in place, so a bounded number of them brings a monitor to
  the state its spec asks for.
\<close>

section \<open>The cluster that is probed\<close>

definition no_error :: "'e + 'a \<Rightarrow> 'a option" where
  "no_error r = (case r of Inl _ \<Rightarrow> None | Inr x \<Rightarrow> Some x)"

lemma no_error_simps [simp]: "no_error (Inl e) = None" "no_error (Inr x) = Some x"
  by (simp_all add: no_error_def)

text \<open>The base domain that a domain reference stands for in a namespace: the one of the API server, or the
  one of the HostedCluster that the only control plane of the namespace is annotated with.\<close>

definition infra_domain :: "cluster \<Rightarrow> string option" where
  "infra_domain c =
     Option.bind (map_of (c_inf c) \<lparr>nn_name = ''cluster'', nn_namespace = []\<rparr>)
       (\<lambda>i. no_error (removeSubdomain ''api'' (inf_apiServerURL (obj_status i))))"

definition hosted_domain :: "cluster \<Rightarrow> string \<Rightarrow> string option" where
  "hosted_domain c ns =
     (case hcps_in ns c of
        [h] \<Rightarrow>
          (case strings_Split (map_read (om_annotations (obj_meta h)) hcpClusterAnnotation) CHR ''/'' of
             [hc_ns, hc] \<Rightarrow> Option.bind (map_of (c_hc c) \<lparr>nn_name = hc, nn_namespace = hc_ns\<rparr>)
                             (\<lambda>x. no_error (removeSubdomain ''rosa'' (obj_spec x)))
           | _ \<Rightarrow> None)
      | _ \<Rightarrow> None)"

definition cluster_domain :: "cluster \<Rightarrow> string \<Rightarrow> string \<Rightarrow> string option" where
  "cluster_domain c ns ref = (if ref = ClusterDomainRefHCP then hosted_domain c ns else infra_domain c)"

text \<open>The id of the cluster that is probed; a hosted one is probed only once it is available.\<close>

definition probed_cluster :: "Libs \<Rightarrow> cluster \<Rightarrow> string \<Rightarrow> string \<Rightarrow> string \<Rightarrow> bool" where
  "probed_cluster L c ns ref cid \<longleftrightarrow>
     (if ref = ClusterDomainRefHCP
      then \<exists>h. hcps_in ns c = [h] \<and> cid = hcps_clusterID (obj_spec h) \<and> isClusterVersionAvailable L h = None
      else own_clusterID c = Some cid)"

text \<open>The objects that these are read from.\<close>

definition same_sources :: "cluster \<Rightarrow> cluster \<Rightarrow> bool" where
  "same_sources c d \<longleftrightarrow> c_inf d = c_inf c \<and> c_hcp d = c_hcp c \<and> c_hc d = c_hc c \<and> c_cv d = c_cv c"

lemma same_sources_refl [simp]: "same_sources c c"
  by (simp add: same_sources_def)

lemma same_sources_trans: "same_sources c d \<Longrightarrow> same_sources d e \<Longrightarrow> same_sources c e"
  by (simp add: same_sources_def)

lemma same_sources_reads:
  assumes "same_sources c d"
  shows "cluster_domain d = cluster_domain c" "probed_cluster L d = probed_cluster L c" "hcps_in ns d = hcps_in ns c"
proof -
  have e: "c_inf d = c_inf c" "c_hcp d = c_hcp c" "c_hc d = c_hc c" "c_cv d = c_cv c"
    using assms by (simp_all add: same_sources_def)
  show "cluster_domain d = cluster_domain c" "probed_cluster L d = probed_cluster L c" "hcps_in ns d = hcps_in ns c"
    unfolding fun_eq_iff cluster_domain_def infra_domain_def hosted_domain_def probed_cluster_def
      hcps_in_def own_clusterID_def e by simp_all
qed

lemma same_sources_changes:
  "changes_only c_cum c_cum_update k c d \<Longrightarrow> same_sources c d"
  "changes_only c_sm c_sm_update k c d \<Longrightarrow> same_sources c d"
  "changes_only c_rsm c_rsm_update k c d \<Longrightarrow> same_sources c d"
  "changes_only c_pr c_pr_update k c d \<Longrightarrow> same_sources c d"
  "blackbox_only k c d \<Longrightarrow> same_sources c d"
  by (cases c; cases d; simp add: changes_only_def blackbox_only_def same_sources_def)+

section \<open>What a monitor still lacks\<close>

text \<open>No rule is made for a hosted cluster; otherwise one is wanted unless it is skipped or the SLO is absent or
  invalid.\<close>

definition cum_wants_rule :: "slo_parser \<Rightarrow> string \<Rightarrow> ClusterUrlMonitorSpec \<Rightarrow> bool" where
  "cum_wants_rule pslo url spec \<longleftrightarrow> \<not> cums_skipPrometheusRule spec \<and>
     cums_domainRef spec \<noteq> ClusterDomainRefHCP \<and> fst (pslo url (cums_slo spec)) \<noteq> []"

definition cum_error_pending :: "slo_parser \<Rightarrow> string \<Rightarrow> ClusterUrlMonitor \<Rightarrow> bool" where
  "cum_error_pending pslo url m \<longleftrightarrow> \<not> cums_skipPrometheusRule (obj_spec m) \<and>
     cums_domainRef (obj_spec m) \<noteq> ClusterDomainRefHCP \<and>
     (cumst_errorStatus (obj_status m) = [] \<longleftrightarrow> snd (pslo url (cums_slo (obj_spec m))) \<noteq> None)"

text \<open>The reference to the rule is not as the spec asks for; a hosted cluster's is left as it is.\<close>

definition cum_ref_pending :: "slo_parser \<Rightarrow> string \<Rightarrow> ClusterUrlMonitor \<Rightarrow> bool" where
  "cum_ref_pending pslo url m \<longleftrightarrow>
     (cums_skipPrometheusRule (obj_spec m) \<or> cums_domainRef (obj_spec m) \<noteq> ClusterDomainRefHCP) \<and>
     (cum_wants_rule pslo url (obj_spec m) \<longleftrightarrow> cumst_prometheusRuleRef (obj_status m) = nn_empty)"

definition cum_missing :: "slo_parser \<Rightarrow> string \<Rightarrow> ClusterUrlMonitor \<Rightarrow> nat" where
  "cum_missing pslo url m =
     of_bool (CUM_FinalizerKey \<notin> set (om_finalizers (obj_meta m))) +
     of_bool (cumst_serviceMonitorRef (obj_status m) = nn_empty) +
     of_bool (cum_error_pending pslo url m) + of_bool (cum_ref_pending pslo url m)"

lemma cum_missing_le: "cum_missing pslo url m \<le> 4"
  by (simp add: cum_missing_def)

text \<open>The ServiceMonitor of a monitor, of the right API group, has the spec of the template for the probed
  cluster.\<close>

definition cum_probe_stored ::
    "Libs \<Rightarrow> string \<Rightarrow> string \<Rightarrow> NamespacedName \<Rightarrow> ClusterUrlMonitorSpec \<Rightarrow> cluster \<Rightarrow> bool" where
  "cum_probe_stored L url bbns k spec c \<longleftrightarrow>
     (\<exists>x cid owner. map_of (if cums_domainRef spec = ClusterDomainRefHCP then c_rsm c else c_sm c) k = Some x \<and>
        probed_cluster L c (nn_namespace k) (cums_domainRef spec) cid \<and>
        obj_spec x = obj_spec (probe_template url bbns k cid False owner))"

text \<open>Everything is in place: the finalizer, the ServiceMonitor of the right API group for the probed cluster,
  the error status, and the PrometheusRule if one is wanted.\<close>

definition cum_settled ::
    "slo_parser \<Rightarrow> Libs \<Rightarrow> string \<Rightarrow> string \<Rightarrow> NamespacedName \<Rightarrow> ClusterUrlMonitor \<Rightarrow> cluster \<Rightarrow> bool" where
  "cum_settled pslo L bbns base k m c \<longleftrightarrow>
     (let spec = obj_spec m; st = obj_status m; url = clusterUrl spec base in
      CUM_FinalizerKey \<in> set (om_finalizers (obj_meta m)) \<and>
      cum_probe_stored L url bbns k spec c \<and> cumst_serviceMonitorRef st = k \<and>
      \<not> cum_error_pending pslo url m \<and> \<not> cum_ref_pending pslo url m \<and>
      (cum_wants_rule pslo url spec \<longrightarrow>
         (\<exists>p. map_of (c_pr c) k = Some p \<and>
            obj_spec p = obj_spec (TemplateForPrometheusRuleResource L url (fst (pslo url (cums_slo spec))) k))))"

text \<open>What a reconcile leaves of the monitor \<open>m\<close>: its spec is as it was and it is not being deleted.
  After an error it is stored as it was; without one everything is in place or less is missing.\<close>

definition cum_advances where
  "cum_advances pslo L bbns up base k m c d err \<longleftrightarrow>
     same_sources c d \<and>
     (\<exists>m'. map_of (c_cum d) k = Some m' \<and> obj_spec m' = obj_spec m \<and>
        om_deletionTimestamp (obj_meta m') = None \<and> (err \<noteq> None \<longrightarrow> m' = m) \<and>
        (err = None \<longrightarrow> cum_settled pslo L bbns base k m' d \<and> up d \<or>
           cum_missing pslo (clusterUrl (obj_spec m) base) m' < cum_missing pslo (clusterUrl (obj_spec m) base) m))"

lemma cum_probe_stored_cong:
  assumes "same_sources c d" "c_sm d = c_sm c" "c_rsm d = c_rsm c"
  shows "cum_probe_stored L url bbns k spec d = cum_probe_stored L url bbns k spec c"
  by (simp add: cum_probe_stored_def assms(2,3) same_sources_reads [OF assms(1)])

section \<open>The steps\<close>

context cluster_url_monitor_reconciler begin

abbreviation pslo :: slo_parser where "pslo \<equiv> mh_ParseMonitorSLOSpecs (cumr_Common s)"

abbreviation bbns :: string where "bbns \<equiv> bh_GetBlackBoxExporterNamespace (cumr_BlackBoxExporter s)"

abbreviation advances where
  "advances \<equiv> cum_advances pslo (libs (cumr_Client s)) bbns up"

lemma advances_error:
  assumes "map_of (c_cum d) k = Some m" "om_deletionTimestamp (obj_meta m) = None" "same_sources c d"
  shows "advances base k m c d (Some e)"
  using assms by (simp add: cum_advances_def)

lemma wp_getInfraClusterDomain:
  assumes "invar w"
  shows "wp (getInfraClusterDomain s) (\<lambda>d w'. invar w' \<and> snap w' = snap w \<and>
    (\<forall>x. d = Inr x \<longrightarrow> infra_domain (snap w) = Some x)) w"
  unfolding getInfraClusterDomain_def wp_bind
  by (rule wp_mono [OF get_infrastructure [OF assms]])
    (auto simp: wp_return infra_domain_def split: sum.splits)

lemma two_of_split: "length ts = 2 \<Longrightarrow> ts = [ts ! 0, ts ! 1]"
  by (auto simp: numeral_2_eq_2 length_Suc_conv)

lemma wp_getHypershiftClusterDomain:
  assumes "invar w"
  shows "wp (getHypershiftClusterDomain s m) (\<lambda>d w'. invar w' \<and> snap w' = snap w \<and>
    (\<forall>x. d = Inr x \<longrightarrow> hosted_domain (snap w) (om_namespace (obj_meta m)) = Some x)) w"
  unfolding getHypershiftClusterDomain_def wp_bind
proof (rule wp_mono [OF hcp [OF assms]], goal_cases)
  case (1 h w1)
  then have w1: "invar w1" "snap w1 = snap w" by simp_all
  show ?case
  proof (cases h)
    case (Inl e)
    then show ?thesis using w1 by (simp add: wp_return)
  next
    case (Inr hcp')
    let ?ts = "strings_Split (map_read (om_annotations (obj_meta hcp')) hcpClusterAnnotation) CHR ''/''"
    show ?thesis
    proof (cases "length ?ts = 2")
      case False
      then show ?thesis using w1 by (simp add: Inr Let_def wp_return)
    next
      case True
      have "hosted_domain (snap w) (om_namespace (obj_meta m)) =
          Option.bind (map_of (c_hc (snap w)) \<lparr>nn_name = ?ts ! 1, nn_namespace = ?ts ! 0\<rparr>)
            (\<lambda>x. no_error (removeSubdomain ''rosa'' (obj_spec x)))"
        unfolding hosted_domain_def using 1 Inr by (simp, subst two_of_split [OF True]) simp
      then show ?thesis
        unfolding Inr sum.case Let_def using True
        by (simp add: wp_bind, intro wp_mono [OF get_hosted_cluster [OF w1(1)]])
          (auto simp: wp_return w1(2) split: sum.splits)
    qed
  qed
qed

lemma wp_GetClusterDomain:
  assumes "invar w"
  shows "wp (GetClusterDomain s m) (\<lambda>d w'. invar w' \<and> snap w' = snap w \<and>
    (\<forall>x. d = Inr x \<longrightarrow> cluster_domain (snap w) (om_namespace (obj_meta m)) (cums_domainRef (obj_spec m)) = Some x)) w"
  unfolding GetClusterDomain_def cluster_domain_def
  using wp_getInfraClusterDomain [OF assms] wp_getHypershiftClusterDomain [OF assms] by simp

text \<open>A status write makes progress if it brings the monitor closer, or leaves it settled.\<close>

lemma wp_put_advances:
  fixes m :: ClusterUrlMonitor
  assumes inv: "invar w" and m: "map_of (c_cum (snap w)) k = Some m"
    and live: "om_deletionTimestamp (obj_meta m) = None" and c: "same_sources c (snap w)"
    and step: "\<And>m' d. changes_only c_cum c_cum_update k (snap w) d \<Longrightarrow> map_of (c_cum d) k = Some m' \<Longrightarrow>
      obj_spec m' = obj_spec m \<Longrightarrow> om_finalizers (obj_meta m') = om_finalizers (obj_meta m) \<Longrightarrow>
      obj_status m' = st \<Longrightarrow> cum_settled pslo (libs (cumr_Client s)) bbns base k m' d \<and> up d \<or>
        cum_missing pslo (clusterUrl (obj_spec m) base) m' < cum_missing pslo (clusterUrl (obj_spec m) base) m"
  shows "wp (mh_UpdateMonitorResourceStatus (cumr_Common s) (m\<lparr>obj_status := st\<rparr>)) (\<lambda>(res, err) w'.
     invar w' \<and> ShouldStop res \<and> advances base k m c (snap w') err) w"
proof (rule wp_put_status [OF inv m, where Q = "\<lambda>err d. advances base k m c d err"], goal_cases)
  case (1 e)
  then show ?case by (rule advances_error [OF m live c])
next
  case (2 m' d)
  then show ?case
    using step [OF 2(1-3,5,6)] live same_sources_trans [OF c same_sources_changes(1) [OF 2(1)]]
    by (auto simp: cum_advances_def)
qed

lemma wp_finalizer_step:
  fixes m :: ClusterUrlMonitor
  assumes inv: "invar w" and m: "map_of (c_cum (snap w)) k = Some m"
    and live: "om_deletionTimestamp (obj_meta m) = None"
  shows "wp (CUM_EnsureFinalizerSet s m) (\<lambda>(res, err) w'. invar w' \<and>
     (if err = None \<and> \<not> ShouldStop res
      then snap w' = snap w \<and> CUM_FinalizerKey \<in> set (om_finalizers (obj_meta m))
      else advances base k m (snap w) (snap w') err)) w"
proof -
  have key: "obj_key m = k" using wf_store_key [OF invar_wf [OF inv] m] .
  show ?thesis
    unfolding CUM_EnsureFinalizerSet_def
  proof (rule wp_mono [OF wp_add_finalizer [OF inv store_lens _ CUM_keys_differ]], goal_cases)
    case 1
    then show ?case using m key by simp
  next
    case (2 a w')
    obtain res err where a: "a = (res, err)" by (cases a)
    show ?case
    proof (cases "CUM_FinalizerKey \<in> set (om_finalizers (obj_meta m)) \<or> err \<noteq> None")
      case True
      with 2 a m live show ?thesis by (auto simp: advances_error split: if_splits)
    next
      case False
      with 2 a key obtain m' where m': "map_of (c_cum (snap w')) k = Some m'"
        "set (om_finalizers (obj_meta m')) =
           insert CUM_FinalizerKey (set (om_finalizers (obj_meta m))) - {CUM_PrevFinalizerKey}"
        "om_deletionTimestamp (obj_meta m') = om_deletionTimestamp (obj_meta m)"
        "obj_spec m' = obj_spec m" "obj_status m' = obj_status m"
        and ch: "changes_only c_cum c_cum_update k (snap w) (snap w')" and stop: "ShouldStop res" "invar w'"
        by auto
      have "cum_missing pslo url m' < cum_missing pslo url m" for url
        using False m' CUM_keys_differ [symmetric]
        by (simp add: cum_missing_def cum_error_pending_def cum_ref_pending_def)
      then show ?thesis
        using False a stop m' live same_sources_changes(1) [OF ch] by (auto simp: cum_advances_def)
    qed
  qed
qed

text \<open>The id that the ServiceMonitor is made with is the one of the probed cluster.\<close>

lemma wp_cluster_id:
  assumes "invar w"
  shows "wp (if ref = ClusterDomainRefHCP
      then do { h \<leftarrow> mh_GetHypershiftClusterID (cumr_Common s) ns;
                (case h of
                   Inl err \<Rightarrow> ret (Inl err)
                 | Inr id' \<Rightarrow>
                     do { g \<leftarrow> mh_GetHCP (cumr_Common s) ns;
                          (case g of
                             Inl err \<Rightarrow> ret (Inl err)
                           | Inr hcp \<Rightarrow>
                               (case isClusterVersionAvailable (libs (cumr_Client s)) hcp of
                                  Some err \<Rightarrow> ret (Inl err)
                                | None \<Rightarrow> ret (Inr id'))) }) }
      else mh_GetOSDClusterID (cumr_Common s))
    (\<lambda>i w'. invar w' \<and> snap w' = snap w \<and>
       (\<forall>cid. i = Inr cid \<longrightarrow> probed_cluster (libs (cumr_Client s)) (snap w) ns ref cid)) w"
proof (cases "ref = ClusterDomainRefHCP")
  case False
  then show ?thesis using osd_id [OF assms] by (simp add: probed_cluster_def)
next
  case True
  show ?thesis
    unfolding if_P [OF True] wp_bind
  proof (rule wp_mono [OF hypershift_id [OF assms, of ns]], goal_cases)
    case (1 i w1)
    show ?case
    proof (cases i)
      case (Inl e)
      then show ?thesis using 1 by (simp add: wp_return)
    next
      case (Inr cid)
      have w1: "invar w1" "snap w1 = snap w" using 1 by simp_all
      show ?thesis
        unfolding Inr sum.case wp_bind
        by (rule wp_mono [OF hcp [OF w1(1), of ns]])
          (use 1 Inr True in \<open>auto simp: wp_return probed_cluster_def split: sum.split option.split\<close>)
    qed
  qed
qed

lemma wp_probe_step:
  fixes m :: ClusterUrlMonitor
  assumes inv: "invar w" and m: "map_of (c_cum (snap w)) k = Some m"
    and live: "om_deletionTimestamp (obj_meta m) = None" and c: "same_sources c (snap w)"
    and k: "k \<noteq> nn_empty" and up: "up (snap w)"
    and base: "cluster_domain (snap w) (nn_namespace k) (cums_domainRef (obj_spec m)) = Some base"
  shows "wp (CUM_EnsureServiceMonitorExists s m) (\<lambda>(res, err) w'. invar w' \<and>
     (if err = None \<and> \<not> ShouldStop res
      then cum_probe_stored (libs (cumr_Client s)) (clusterUrl (obj_spec m) base) bbns k (obj_spec m) (snap w') \<and>
        cumst_serviceMonitorRef (obj_status m) = k \<and> up (snap w') \<and>
        map_of (c_cum (snap w')) k = Some m \<and> same_sources c (snap w')
      else advances base k m c (snap w') err)) w" (is "wp _ ?Q w")
proof -
  let ?hcp = "cums_domainRef (obj_spec m) = ClusterDomainRefHCP"
  have key: "obj_key m = k" using wf_store_key [OF invar_wf [OF inv] m] .
  then have nn: "\<lparr>nn_name = om_name (obj_meta m), nn_namespace = nn_namespace k\<rparr> = k"
    and ns: "om_namespace (obj_meta m) = nn_namespace k"
    by (auto simp: obj_key_def)
  have err: "?Q (RequeueReconcileWith (Some e)) w1"
    if "invar w1" "c_cum (snap w1) = c_cum (snap w)" "same_sources c (snap w1)" for e w1
    using that m live by (simp add: RequeueReconcileWith_def advances_error)
  have probe: "wp (do { e \<leftarrow> sh_TemplateAndUpdateServiceMonitorDeployment (cumr_ServiceMonitor s)
         (clusterUrl (obj_spec m) base) bbns k cid ?hcp False owner;
       (case e of
          Some err \<Rightarrow> ret (RequeueReconcileWith (Some err))
        | None \<Rightarrow>
            (case mh_SetResourceReference (cumr_Common s) (cumst_serviceMonitorRef (obj_status m)) k of
               ((updated, err), ref) \<Rightarrow>
                 (case err of
                    Some err \<Rightarrow> ret (RequeueReconcileWith (Some err))
                  | None \<Rightarrow>
                      if updated
                      then mh_UpdateMonitorResourceStatus (cumr_Common s)
                             (m\<lparr>obj_status := (obj_status m)\<lparr>cumst_serviceMonitorRef := ref\<rparr>\<rparr>)
                      else ret ContinueReconcile))) }) ?Q w1"
    if w1: "invar w1" "snap w1 = snap w"
      and cid: "probed_cluster (libs (cumr_Client s)) (snap w) (nn_namespace k) (cums_domainRef (obj_spec m)) cid"
    for cid owner w1
  proof -
    have other: "c_cum d = c_cum (snap w) \<and> same_sources (snap w) d \<and> same_sources c d \<and> up d"
      if "changes_only c_rsm c_rsm_update k (snap w1) d \<or> changes_only c_sm c_sm_update k (snap w1) d" for d
      using that other_stores(2,3) [of k "snap w" d] changes_only_other_fields(1,4) [of k "snap w" d]
        same_sources_changes(2,3) [of k "snap w" d] same_sources_trans [OF c, of d]
        w1(2) up_of [OF up, of d] by auto
    show ?thesis
    proof (rule wp_write_probe [OF w1(1) k], goal_cases)
      case (1 e w2)
      then show ?case using err [of w2 e] other [of "snap w2"] c w1(2) by auto
    next
      case (2 w2 p)
      then have st: "c_cum (snap w2) = c_cum (snap w)" "same_sources c (snap w2)"
        using other [of "snap w2"] by (auto split: if_splits)
      show ?case
        by (rule wp_mono [OF wp_put_advances [OF 2(1) _ live st(2)]])
          (use 2 m st k in \<open>auto simp: cum_missing_def cum_error_pending_def cum_ref_pending_def\<close>)
    next
      case (3 w2 p)
      then have o: "c_cum (snap w2) = c_cum (snap w) \<and> same_sources (snap w) (snap w2) \<and>
          same_sources c (snap w2) \<and> up (snap w2)"
        using other [of "snap w2"] by (auto split: if_splits)
      have "cum_probe_stored (libs (cumr_Client s)) (clusterUrl (obj_spec m) base) bbns k (obj_spec m) (snap w2)"
        using 3 cid same_sources_reads(2) [of "snap w" "snap w2"] o
        unfolding cum_probe_stored_def
        by (intro exI [of _ p] exI [of _ cid] exI [of _ owner]) (auto split: if_splits)
      then show ?case using 3 o m by (simp add: ContinueReconcile_def)
    qed
  qed
  show ?thesis
    unfolding CUM_EnsureServiceMonitorExists_def wp_bind [of "GetClusterDomain s m"]
  proof (rule wp_mono [OF wp_GetClusterDomain [OF inv, of m]], goal_cases)
    case (1 d w1)
    then have w1: "invar w1" "snap w1 = snap w" by simp_all
    show ?case
    proof (cases d)
      case (Inl e)
      show ?thesis unfolding Inl sum.case wp_return by (rule err) (use w1 c in simp_all)
    next
      case (Inr x)
      then have x: "x = base" using 1 base ns by simp
      show ?thesis
        unfolding Inr sum.case Let_def nn ns x wp_bind
          [of "if ?hcp then _ else _"]
      proof (rule wp_mono [OF wp_cluster_id [OF w1(1)]], goal_cases)
        case (1 i w2)
        show ?case
        proof (cases i)
          case (Inl e)
          show ?thesis unfolding Inl sum.case wp_return by (rule err) (use 1 w1 c in simp_all)
        next
          case (Inr cid)
          show ?thesis unfolding Inr sum.case by (rule probe) (use 1 w1 Inr in simp_all)
        qed
      qed
    qed
  qed
qed

text \<open>The last step starts from a monitor that lacks at most its error status and its PrometheusRule.\<close>

abbreviation ready where
  "ready base k m c \<equiv> CUM_FinalizerKey \<in> set (om_finalizers (obj_meta m)) \<and>
     cum_probe_stored (libs (cumr_Client s)) (clusterUrl (obj_spec m) base) bbns k (obj_spec m) c \<and>
     cumst_serviceMonitorRef (obj_status m) = k \<and> up c \<and> map_of (c_cum c) k = Some m"

lemma ready_pr:
  assumes rdy: "ready base k m c" and ch: "changes_only c_pr c_pr_update p c d"
  shows "ready base k m d"
proof -
  note o = other_stores(4) [OF ch] changes_only_other_fields(2) [OF ch]
  have "up d" by (rule up_of [of c]) (use o rdy in simp_all)
  then show ?thesis using rdy o cum_probe_stored_cong [OF same_sources_changes(4) [OF ch]] by simp
qed

lemma ready_cum:
  assumes rdy: "ready base k m c" and ch: "changes_only c_cum c_cum_update k c d"
  shows "up d" and "cum_probe_stored (libs (cumr_Client s)) (clusterUrl (obj_spec m) base) bbns k (obj_spec m) d"
proof -
  note o = other_stores(5) [OF ch] changes_only_other_fields(5) [OF ch]
  show "up d" by (rule up_of [of c]) (use o rdy in simp_all)
  show "cum_probe_stored (libs (cumr_Client s)) (clusterUrl (obj_spec m) base) bbns k (obj_spec m) d"
    using rdy o cum_probe_stored_cong [OF same_sources_changes(1) [OF ch]] by simp
qed

lemma settled_now:
  assumes "ready base k m d" and "om_deletionTimestamp (obj_meta m) = None" and "same_sources c d"
    and "\<not> cum_error_pending pslo (clusterUrl (obj_spec m) base) m"
    and "\<not> cum_ref_pending pslo (clusterUrl (obj_spec m) base) m"
    and "cum_wants_rule pslo (clusterUrl (obj_spec m) base) (obj_spec m) \<Longrightarrow>
      \<exists>p. map_of (c_pr d) k = Some p \<and> obj_spec p = obj_spec (TemplateForPrometheusRuleResource (libs (cumr_Client s))
        (clusterUrl (obj_spec m) base) (fst (pslo (clusterUrl (obj_spec m) base) (cums_slo (obj_spec m)))) k)"
  shows "advances base k m c d None"
  using assms by (auto simp: cum_advances_def cum_settled_def Let_def)

lemma wp_no_rule:
  fixes m :: ClusterUrlMonitor
  assumes inv: "invar w" and live: "om_deletionTimestamp (obj_meta m) = None"
    and c: "same_sources c (snap w)" and k: "k \<noteq> nn_empty" and rdy: "ready base k m (snap w)"
    and no: "\<not> cum_wants_rule pslo (clusterUrl (obj_spec m) base) (obj_spec m)"
      "\<not> cum_error_pending pslo (clusterUrl (obj_spec m) base) m"
  shows "wp (do { d \<leftarrow> ph_DeletePrometheusRuleDeployment (cumr_Prom s) (cumst_prometheusRuleRef (obj_status m));
       (case d of
          Some err \<Rightarrow> ret (RequeueReconcileWith (Some err))
        | None \<Rightarrow>
            (case mh_SetResourceReference (cumr_Common s) (cumst_prometheusRuleRef (obj_status m)) nn_empty of
               ((updated, _), ref) \<Rightarrow>
                 if updated
                 then mh_UpdateMonitorResourceStatus (cumr_Common s)
                        (m\<lparr>obj_status := (obj_status m)\<lparr>cumst_prometheusRuleRef := ref\<rparr>\<rparr>)
                 else ret z)) })
     (\<lambda>(res, err) w'. invar w' \<and> advances base k m c (snap w') err) w"
proof (rule wp_drop_rule [OF inv], goal_cases)
  case (1 e w1)
  then show ?case using rdy live c by (simp add: RequeueReconcileWith_def advances_error)
next
  case (2 w1)
  from 2(2) have "ready base k m (snap w1) \<and> same_sources c (snap w1)"
  proof
    assume "\<exists>p. changes_only c_pr c_pr_update p (snap w) (snap w1)"
    then obtain p where ch: "changes_only c_pr c_pr_update p (snap w) (snap w1)" ..
    show ?thesis using ready_pr [OF rdy ch] same_sources_trans [OF c same_sources_changes(4) [OF ch]] by simp
  next
    assume "snap w1 = snap w"
    then show ?thesis using rdy c by simp
  qed
  then have w1: "ready base k m (snap w1)" "same_sources c (snap w1)" by blast+
  show ?case
  proof (rule wp_mono [OF wp_put_advances [OF 2(1) _ live w1(2), where k = k and base = base]], goal_cases)
    case (2 m' d)
    note ready_cum [OF w1(1) 2(1)]
    with 2 no rdy show ?case
      by (auto simp: cum_settled_def cum_error_pending_def cum_ref_pending_def Let_def)
  qed (use w1 in auto)
qed

lemma wp_wanted_rule:
  fixes m :: ClusterUrlMonitor
  assumes inv: "invar w" and live: "om_deletionTimestamp (obj_meta m) = None"
    and c: "same_sources c (snap w)" and k: "k \<noteq> nn_empty" and rdy: "ready base k m (snap w)"
    and slo: "fst (pslo (clusterUrl (obj_spec m) base) (cums_slo (obj_spec m))) = slo"
    and yes: "cum_wants_rule pslo (clusterUrl (obj_spec m) base) (obj_spec m)"
      "\<not> cum_error_pending pslo (clusterUrl (obj_spec m) base) m"
  shows "wp (do { u \<leftarrow> ph_UpdatePrometheusRuleDeployment (cumr_Prom s)
            (TemplateForPrometheusRuleResource (libs (cumr_Client s)) (clusterUrl (obj_spec m) base) slo k);
       (case u of
          Some err \<Rightarrow> ret (RequeueReconcileWith (Some err))
        | None \<Rightarrow>
            (case mh_SetResourceReference (cumr_Common s) (cumst_prometheusRuleRef (obj_status m)) k of
               ((updated, _), ref) \<Rightarrow>
                 if updated
                 then mh_UpdateMonitorResourceStatus (cumr_Common s)
                        (m\<lparr>obj_status := (obj_status m)\<lparr>cumst_prometheusRuleRef := ref\<rparr>\<rparr>)
                 else ret ContinueReconcile)) })
     (\<lambda>(res, err) w'. invar w' \<and> advances base k m c (snap w') err) w"
proof (rule wp_write_rule [OF inv _ k], goal_cases)
  case 1
  then show ?case by simp
next
  case (2 e w1)
  then show ?case using rdy live c by (simp add: RequeueReconcileWith_def advances_error)
next
  case (3 w1 p)
  have w1: "ready base k m (snap w1)" "same_sources c (snap w1)"
    using ready_pr [OF rdy 3(2)] same_sources_trans [OF c same_sources_changes(4) [OF 3(2)]] by simp_all
  show ?case
    by (rule wp_mono [OF wp_put_advances [OF 3(1) _ live w1(2)]])
      (use w1 3 k yes in \<open>auto simp: cum_missing_def cum_error_pending_def cum_ref_pending_def cum_wants_rule_def\<close>)
next
  case (4 w1 p)
  have w1: "ready base k m (snap w1)" "same_sources c (snap w1)"
    using ready_pr [OF rdy 4(2)] same_sources_trans [OF c same_sources_changes(4) [OF 4(2)]] by simp_all
  have "advances base k m c (snap w1) None"
    by (rule settled_now [OF w1(1) live w1(2) yes(2)]) (use 4 yes slo in \<open>auto simp: cum_ref_pending_def\<close>)
  then show ?case using 4(1) by (simp add: ContinueReconcile_def)
qed

text \<open>With the URL known and a rule not out of the question.\<close>

lemma wp_rule_for_url:
  fixes m :: ClusterUrlMonitor
  assumes inv: "invar w" and live: "om_deletionTimestamp (obj_meta m) = None"
    and c: "same_sources c (snap w)" and k: "k \<noteq> nn_empty" and rdy: "ready base k m (snap w)"
    and may: "\<not> cums_skipPrometheusRule (obj_spec m)" "cums_domainRef (obj_spec m) \<noteq> ClusterDomainRefHCP"
    and url: "url = clusterUrl (obj_spec m) base" and p: "pslo url (cums_slo (obj_spec m)) = (slo, perr)"
    and status: "mh_SetErrorStatus (cumr_Common s) (cumst_errorStatus (obj_status m)) perr = (changed, st)"
    and m': "m' = m\<lparr>obj_status := (obj_status m)\<lparr>cumst_errorStatus := st\<rparr>\<rparr>"
    and nn: "\<lparr>nn_name = om_name (obj_meta m'), nn_namespace = om_namespace (obj_meta m')\<rparr> = k"
  shows "wp (if changed then mh_UpdateMonitorResourceStatus (cumr_Common s) m'
      else if slo = []
      then do { d \<leftarrow> ph_DeletePrometheusRuleDeployment (cumr_Prom s) (cumst_prometheusRuleRef (obj_status m'));
                (case d of
                   Some err \<Rightarrow> ret (RequeueReconcileWith (Some err))
                 | None \<Rightarrow>
                     (case mh_SetResourceReference (cumr_Common s) (cumst_prometheusRuleRef (obj_status m')) nn_empty of
                        ((updated, _), ref) \<Rightarrow>
                          if updated
                          then mh_UpdateMonitorResourceStatus (cumr_Common s)
                                 (m'\<lparr>obj_status := (obj_status m')\<lparr>cumst_prometheusRuleRef := ref\<rparr>\<rparr>)
                          else ret StopReconcile)) }
      else do { u \<leftarrow> ph_UpdatePrometheusRuleDeployment (cumr_Prom s)
                  (TemplateForPrometheusRuleResource (libs (cumr_Client s)) url slo
                     \<lparr>nn_name = om_name (obj_meta m'), nn_namespace = om_namespace (obj_meta m')\<rparr>);
                (case u of
                   Some err \<Rightarrow> ret (RequeueReconcileWith (Some err))
                 | None \<Rightarrow>
                     (case mh_SetResourceReference (cumr_Common s) (cumst_prometheusRuleRef (obj_status m'))
                             \<lparr>nn_name = om_name (obj_meta m'), nn_namespace = om_namespace (obj_meta m')\<rparr> of
                        ((updated, _), ref) \<Rightarrow>
                          if updated
                          then mh_UpdateMonitorResourceStatus (cumr_Common s)
                                 (m'\<lparr>obj_status := (obj_status m')\<lparr>cumst_prometheusRuleRef := ref\<rparr>\<rparr>)
                          else ret ContinueReconcile)) })
    (\<lambda>(res, err) w'. invar w' \<and> advances base k m c (snap w') err) w"
proof -
  define pending where "pending \<longleftrightarrow> cum_error_pending pslo url m"
  have wants: "cum_wants_rule pslo url (obj_spec m) \<longleftrightarrow> slo \<noteq> []"
    using may by (simp add: cum_wants_rule_def p)
  have ch: "changed \<longleftrightarrow> pending" "\<not> changed \<longrightarrow> st = cumst_errorStatus (obj_status m)" "st = [] \<longleftrightarrow> perr = None"
    using status parse_slo [of url "cums_slo (obj_spec m)" slo] p may
    by (auto simp: error_status pending_def cum_error_pending_def split: option.splits if_splits)
  show ?thesis
  proof (cases pending)
    case True
    have "wp (mh_UpdateMonitorResourceStatus (cumr_Common s) m')
        (\<lambda>(res, err) w'. invar w' \<and> ShouldStop res \<and> advances base k m c (snap w') err) w"
      unfolding m'
      by (rule wp_put_advances [OF inv _ live c]) (use True rdy may ch p url in
          \<open>simp_all add: pending_def cum_missing_def cum_error_pending_def cum_ref_pending_def\<close>)
    then show ?thesis using True ch(1) by (auto elim: wp_mono)
  next
    case np: False
    then have same: "m' = m" and nc: "\<not> changed" using ch by (simp_all add: m')
    show ?thesis
      unfolding if_not_P [OF nc] nn unfolding same
    proof (split if_split, intro conjI impI, goal_cases)
      case 1
      then show ?case
        by (intro wp_no_rule [OF inv live c k rdy]) (use wants np pending_def url in simp_all)
    next
      case 2
      then show ?case
        unfolding url by (intro wp_wanted_rule [OF inv live c k rdy]) (use wants np pending_def p url in simp_all)
    qed
  qed
qed

lemma wp_rule_step:
  fixes m :: ClusterUrlMonitor
  assumes inv: "invar w" and live: "om_deletionTimestamp (obj_meta m) = None"
    and c: "same_sources c (snap w)" and k: "k \<noteq> nn_empty" and rdy: "ready base k m (snap w)"
    and base: "cluster_domain (snap w) (nn_namespace k) (cums_domainRef (obj_spec m)) = Some base"
  shows "wp (CUM_EnsurePrometheusRuleExists s m) (\<lambda>(res, err) w'. invar w' \<and>
     advances base k m c (snap w') err) w" (is "wp _ ?Q w")
proof -
  note m = rdy [THEN conjunct2, THEN conjunct2, THEN conjunct2, THEN conjunct2]
  have key: "obj_key m = k" using wf_store_key [OF invar_wf [OF inv] m] .
  then have ns: "om_namespace (obj_meta m) = nn_namespace k" by (auto simp: obj_key_def)
  consider (skip) "cums_skipPrometheusRule (obj_spec m)"
    | (hosted) "\<not> cums_skipPrometheusRule (obj_spec m)" "cums_domainRef (obj_spec m) = ClusterDomainRefHCP"
    | (own) "\<not> cums_skipPrometheusRule (obj_spec m)" "cums_domainRef (obj_spec m) \<noteq> ClusterDomainRefHCP" by blast
  then show ?thesis
  proof cases
    case skip
    then show ?thesis
      unfolding CUM_EnsurePrometheusRuleExists_def Let_def if_P [OF skip]
      by (intro wp_no_rule [OF inv live c k rdy]) (simp_all add: cum_wants_rule_def cum_error_pending_def)
  next
    case hosted
    have "advances base k m c (snap w) None"
      by (rule settled_now [OF rdy live c])
        (use hosted in \<open>simp_all add: cum_wants_rule_def cum_error_pending_def cum_ref_pending_def\<close>)
    then show ?thesis
      unfolding CUM_EnsurePrometheusRuleExists_def Let_def if_not_P [OF hosted(1)] if_P [OF hosted(2)]
      using inv by (simp add: wp_return ContinueReconcile_def)
  next
    case own
    show ?thesis
      unfolding CUM_EnsurePrometheusRuleExists_def Let_def if_not_P [OF own(1)] if_not_P [OF own(2)]
        wp_bind [of "GetClusterDomain s m"]
    proof (rule wp_mono [OF wp_GetClusterDomain [OF inv, of m]], goal_cases)
      case (1 d w1)
      then have w1: "invar w1" "snap w1 = snap w" by simp_all
      show ?case
      proof (cases d)
        case (Inl e)
        then show ?thesis
          using w1 m live c by (simp add: wp_return RequeueReconcileWith_def advances_error)
      next
        case (Inr x)
        then have x: "x = base" using 1 base ns by simp
        obtain slo perr where p: "pslo (clusterUrl (obj_spec m) base) (cums_slo (obj_spec m)) = (slo, perr)"
          by fastforce
        obtain changed st where status: "mh_SetErrorStatus (cumr_Common s)
            (cumst_errorStatus (obj_status m)) perr = (changed, st)" by fastforce
        show ?thesis
          unfolding Inr sum.case x p prod.case status
          by (rule wp_rule_for_url [OF w1(1) live _ k _ own refl p status refl])
            (use c rdy w1(2) key in \<open>simp_all add: obj_key_def\<close>)
      qed
    qed
  qed
qed

section \<open>A reconcile\<close>

text \<open>What is left of a reconcile after each of its steps.\<close>

definition from_probe where
  "from_probe m = do { p \<leftarrow> CUM_EnsureServiceMonitorExists s m;
     (case p of (res, err) \<Rightarrow>
        if err \<noteq> None then ret (RequeueWith err)
        else if ShouldStop res then ret Stop
        else do { p \<leftarrow> CUM_EnsurePrometheusRuleExists s m;
          (case p of (res, err) \<Rightarrow> if err \<noteq> None then ret (RequeueWith err) else ret Stop) }) }"

definition from_blackbox where
  "from_blackbox m = do { b \<leftarrow> bh_EnsureBlackBoxExporterResourcesExist (cumr_BlackBoxExporter s);
     (case b of Some err \<Rightarrow> ret (RequeueWith (Some err)) | None \<Rightarrow> from_probe m) }"

definition from_finalizer where
  "from_finalizer m = do { f \<leftarrow> CUM_EnsureFinalizerSet s m;
     (case f of (res, err) \<Rightarrow>
      if err \<noteq> None then ret (RequeueWith err)
      else if ShouldStop res then ret Stop
      else from_blackbox m) }"

lemma wp_from_probe:
  fixes m :: ClusterUrlMonitor
  assumes inv: "invar w" and m: "map_of (c_cum (snap w)) k = Some m"
    and live: "om_deletionTimestamp (obj_meta m) = None" and c: "same_sources c (snap w)"
    and k: "k \<noteq> nn_empty" and up: "up (snap w)"
    and fin: "CUM_FinalizerKey \<in> set (om_finalizers (obj_meta m))"
    and base: "cluster_domain c (nn_namespace k) (cums_domainRef (obj_spec m)) = Some base"
  shows "wp (from_probe m) (\<lambda>(res, err) w'. invar w' \<and> advances base k m c (snap w') err) w"
proof -
  note dom = same_sources_reads(1)
  have last: "wp (do { p \<leftarrow> CUM_EnsurePrometheusRuleExists s m;
        (case p of (res, err) \<Rightarrow> if err \<noteq> None then ret (RequeueWith err) else ret Stop) })
      (\<lambda>(res, err) w'. invar w' \<and> advances base k m c (snap w') err) w1"
    if "invar w1" "same_sources c (snap w1)" "ready base k m (snap w1)" for w1
    unfolding wp_bind
    by (rule wp_mono [OF wp_rule_step [OF that(1) live that(2) k that(3)]])
      (use base dom [OF that(2)] in \<open>auto simp: wp_simps RequeueWith_def Stop_def\<close>)
  show ?thesis
    unfolding from_probe_def wp_bind
  proof (rule wp_mono [OF wp_probe_step [OF inv m live c k up, where base = base]], goal_cases)
    case 1
    then show ?case using base dom [OF c] by simp
  next
    case (2 a w1)
    then show ?case
      using last [of w1] fin
      by (cases a; cases "snd a") (auto simp: wp_simps RequeueWith_def Stop_def)
  qed
qed

lemma wp_from_finalizer:
  fixes m :: ClusterUrlMonitor
  assumes inv: "invar w" and m: "map_of (c_cum (snap w)) k = Some m"
    and live: "om_deletionTimestamp (obj_meta m) = None" and k: "k \<noteq> nn_empty"
    and base: "cluster_domain (snap w) (nn_namespace k) (cums_domainRef (obj_spec m)) = Some base"
  shows "wp (from_finalizer m) (\<lambda>(res, err) w'. invar w' \<and>
     advances base k m (snap w) (snap w') err) w" (is "wp _ ?Q w")
  unfolding from_finalizer_def wp_bind
proof (rule wp_mono [OF wp_finalizer_step [OF inv m live, where base = base]], goal_cases)
  case (1 a w1)
  show ?case
  proof (cases "snd a = None \<and> \<not> ShouldStop (fst a)")
    case False
    with 1 show ?thesis by (cases a; cases "snd a") (auto simp: wp_return RequeueWith_def Stop_def)
  next
    case True
    then have fin: "CUM_FinalizerKey \<in> set (om_finalizers (obj_meta m))" "invar w1" "snap w1 = snap w"
      using 1 by (cases a; auto)+
    have "wp (from_blackbox m) ?Q w1"
      unfolding from_blackbox_def wp_bind
    proof (rule wp_mono [OF bb_exist [OF fin(2)]], goal_cases)
      case (1 b w2)
      then have o: "c_cum (snap w2) = c_cum (snap w)" "same_sources (snap w) (snap w2)"
        using changes_only_other_fields(6) [of bb_key "snap w1" "snap w2"]
          same_sources_changes(5) [of bb_key "snap w1" "snap w2"] fin(3) by simp_all
      with 1 show ?case
        using wp_from_probe [of w2 k m "snap w" base] m live k base fin
        by (cases b) (auto simp: wp_return RequeueWith_def advances_error)
    qed
    then show ?thesis using True by (cases a) auto
  qed
qed

lemma wp_Reconcile_advances:
  fixes m :: ClusterUrlMonitor
  assumes inv: "invar w" and m: "map_of (c_cum (snap w)) k = Some m"
    and live: "om_deletionTimestamp (obj_meta m) = None" and k: "k \<noteq> nn_empty"
    and base: "cluster_domain (snap w) (nn_namespace k) (cums_domainRef (obj_spec m)) = Some base"
  shows "wp (CUM_Reconcile s k) (\<lambda>(res, err) w'. invar w' \<and> advances base k m (snap w) (snap w') err) w"
proof -
  have key: "obj_key m = k" using wf_store_key [OF invar_wf [OF inv] m] .
  have ne: "m \<noteq> empty_ClusterUrlMonitor"
    using k key by (auto simp: empty_ClusterUrlMonitor_def empty_meta_def obj_key_def)
  have absent: "CUM_EnsureMonitorAndDependenciesAbsent s m = ret ContinueReconcile"
    using live by (simp add: CUM_EnsureMonitorAndDependenciesAbsent_def)
  show ?thesis
    unfolding CUM_Reconcile_def from_probe_def [symmetric] from_blackbox_def [symmetric]
      from_finalizer_def [symmetric] wp_bind [of "GetClusterUrlMonitor s k"]
  proof (rule wp_mono [OF wp_GetClusterUrlMonitor [OF inv, of k]], goal_cases)
    case (1 g w1)
    obtain m1 res1 err1 where g: "g = (m1, res1, err1)" by (cases g)
    have w1: "invar w1" "snap w1 = snap w" using 1 g by auto
    show ?case
    proof (cases err1)
      case (Some e)
      then show ?thesis using g w1 m live by (simp add: wp_return RequeueWith_def advances_error)
    next
      case None
      then have go: "\<not> ShouldStop res1" "m1 = m" using 1 g m ne by (auto split: if_splits)
      show ?thesis
        using wp_from_finalizer [of w1 k m base] w1 m live k base go None
        by (simp add: g absent ContinueReconcile_def)
    qed
  qed
qed

end

section \<open>Convergence\<close>

lemma cum_settled_missing:
  "cum_settled ps L bbns base k m c \<Longrightarrow> k \<noteq> nn_empty \<Longrightarrow> cum_missing ps (clusterUrl (obj_spec m) base) m = 0"
  by (auto simp: cum_settled_def cum_missing_def Let_def)

abbreviation cum_progress :: "'w Env \<Rightarrow> string \<Rightarrow> string \<Rightarrow> string \<Rightarrow> NamespacedName \<Rightarrow> ClusterUrlMonitor
    \<Rightarrow> cluster \<Rightarrow> cluster \<Rightarrow> go_error option \<Rightarrow> bool" where
  "cum_progress E img bbns \<equiv>
     cum_advances (ParseMonitorSLOSpecs (libs E)) (libs E) bbns (blackbox_up (New img bbns))"

lemma wp_cum_progress:
  assumes "ok_world E snap w" and "map_of (c_cum (snap w)) k = Some m"
    and "om_deletionTimestamp (obj_meta m) = None" and "k \<noteq> nn_empty"
    and "cluster_domain (snap w) (nn_namespace k) (cums_domainRef (obj_spec m)) = Some base"
  shows "wp (CUM_Reconcile (CUM_NewReconciler E img bbns hypershift url) k) (\<lambda>(res, err) w'.
    ok_world E snap w' \<and> cum_progress E img bbns base k m (snap w) (snap w') err) w"
  using cumr.wp_Reconcile_advances [OF assms, of img bbns hypershift url]
  by (simp add: CUM_NewReconciler_fields common_methods GetBlackBoxExporterNamespace_methods)

text \<open>Everyone else may do anything but write to this monitor and change the domain that it refers to.\<close>

definition cum_others ::
    "'w Env \<Rightarrow> ('w \<Rightarrow> cluster) \<Rightarrow> NamespacedName \<Rightarrow> string \<Rightarrow> 'w \<Rightarrow> 'w \<Rightarrow> bool" where
  "cum_others E snap k ref v v' \<longleftrightarrow> ok_world E snap v' \<and>
     map_of (c_cum (snap v')) k = map_of (c_cum (snap v)) k \<and>
     cluster_domain (snap v') (nn_namespace k) ref = cluster_domain (snap v) (nn_namespace k) ref"

lemma cum_run_invariant:
  assumes run: "runs (CUM_Reconcile (CUM_NewReconciler E img bbns hypershift url) k)
      (cum_others E snap k (cums_domainRef (obj_spec m))) w n v"
    and ok: "ok_world E snap w" and m: "map_of (c_cum (snap w)) k = Some m"
    and live: "om_deletionTimestamp (obj_meta m) = None" and k: "k \<noteq> nn_empty"
    and base: "cluster_domain (snap w) (nn_namespace k) (cums_domainRef (obj_spec m)) = Some base"
  defines "lacking \<equiv> cum_missing (ParseMonitorSLOSpecs (libs E)) (clusterUrl (obj_spec m) base)"
  shows "ok_world E snap v \<and> cluster_domain (snap v) (nn_namespace k) (cums_domainRef (obj_spec m)) = Some base \<and>
    (\<exists>m'. map_of (c_cum (snap v)) k = Some m' \<and> om_deletionTimestamp (obj_meta m') = None \<and>
       obj_spec m' = obj_spec m \<and> (lacking m' = 0 \<or> n + lacking m' \<le> lacking m))"
proof -
  let ?dom = "\<lambda>c. cluster_domain c (nn_namespace k) (cums_domainRef (obj_spec m))"
  define I where "I v \<longleftrightarrow> ok_world E snap v \<and> ?dom (snap v) = Some base \<and>
    (\<exists>m'. map_of (c_cum (snap v)) k = Some m' \<and> om_deletionTimestamp (obj_meta m') = None \<and>
       obj_spec m' = obj_spec m)" for v
  let ?l = "\<lambda>v. lacking (the (map_of (c_cum (snap v)) k))"
  have "I v \<and> (?l v = 0 \<or> n + ?l v \<le> ?l w)"
    using run
  proof (rule runs_lacking, goal_cases)
    case 1
    then show ?case using ok m live base by (auto simp: I_def)
  next
    case (2 v res err v')
    then obtain m' where v: "ok_world E snap v" "?dom (snap v) = Some base"
      and m': "map_of (c_cum (snap v)) k = Some m'" "om_deletionTimestamp (obj_meta m') = None"
        "obj_spec m' = obj_spec m" by (auto simp: I_def)
    have pr: "ok_world E snap v' \<and> cum_progress E img bbns base k m' (snap v) (snap v') err"
      using wp_run [OF wp_cum_progress [OF v(1) m'(1,2) k] 2(2)] v(2) m'(3) by simp
    then have "?dom (snap v') = Some base"
      using v(2) same_sources_reads(1) [of "snap v" "snap v'"] by (simp add: cum_advances_def)
    then show ?case
      using pr m' cum_settled_missing [OF _ k] by (fastforce simp: cum_advances_def lacking_def I_def)
  next
    case (3 v v')
    then show ?case by (auto simp: I_def cum_others_def)
  qed
  then show ?thesis using m by (auto simp: I_def)
qed

section \<open>Properties\<close>

text \<open>C4. The ClusterUrlMonitor controller converges, on a classic cluster and on a hosted one: when the domain
  that the monitor refers to can be read, then after four reconciles without an error, however many
  failed ones and whatever else was written in between, except to the monitor and to that domain, the
  next one without an error ends with the monitor settled: the finalizer is set, the ServiceMonitor
  probes the URL of that domain under the id of that cluster (a hosted one is available), and the
  error status and the PrometheusRule are as the spec asks for; the exporter is up.\<close>

theorem cum_converges:
  assumes ok: "ok_world E snap w" and m: "map_of (c_cum (snap w)) k = Some m"
    and live: "om_deletionTimestamp (obj_meta m) = None" and k: "k \<noteq> nn_empty"
    and base: "cluster_domain (snap w) (nn_namespace k) (cums_domainRef (obj_spec m)) = Some base"
    and run: "runs (CUM_Reconcile (CUM_NewReconciler E img bbns hypershift url) k)
      (cum_others E snap k (cums_domainRef (obj_spec m))) w n v" and n: "4 \<le> n"
    and last: "run_state (CUM_Reconcile (CUM_NewReconciler E img bbns hypershift url) k) v = ((res, None), v')"
  shows "\<exists>m'. map_of (c_cum (snap v')) k = Some m' \<and> obj_spec m' = obj_spec m \<and>
    cum_settled (ParseMonitorSLOSpecs (libs E)) (libs E) bbns base k m' (snap v') \<and>
    blackbox_up (New img bbns) (snap v')"
proof -
  let ?lacking = "cum_missing (ParseMonitorSLOSpecs (libs E)) (clusterUrl (obj_spec m) base)"
  from cum_run_invariant [OF run ok m live k base] obtain m' where
    v: "ok_world E snap v" "cluster_domain (snap v) (nn_namespace k) (cums_domainRef (obj_spec m)) = Some base"
    and m': "map_of (c_cum (snap v)) k = Some m'" "om_deletionTimestamp (obj_meta m') = None"
      "obj_spec m' = obj_spec m" "?lacking m' = 0 \<or> n + ?lacking m' \<le> ?lacking m" by blast
  have "?lacking m' = 0"
    using m'(4) n cum_missing_le [of "ParseMonitorSLOSpecs (libs E)" "clusterUrl (obj_spec m) base" m] by linarith
  moreover have "cum_progress E img bbns base k m' (snap v) (snap v') None"
    using wp_run [OF wp_cum_progress [OF v(1) m'(1,2) k] last] v(2) m'(3) by simp
  ultimately show ?thesis using m'(3) by (auto simp: cum_advances_def)
qed

end
