(* ===== verification/Convergence_Witnesses.thy ===== *)
theory Convergence_Witnesses
  imports Witnesses Rm_Convergence Cum_Convergence
begin

text \<open>
  The convergence properties at concrete clusters: a RouteMonitor as its author creates it, with its
  Route, and a ClusterUrlMonitor for a hosted cluster, in the in-memory API server.  Six reconciles of
  the one and five of the other are evaluated; none returns an error.
\<close>

definition new_rm :: RouteMonitor where
  "new_rm = empty_RouteMonitor
     \<lparr>obj_meta := mon_meta,
      obj_spec := (obj_spec empty_RouteMonitor)\<lparr>rms_route :=
        \<lparr>rmrs_name = ''r'', rmrs_namespace = ''ns'', rmrs_port = 0, rmrs_suffix = []\<rparr>\<rparr>\<rparr>"

definition a_route :: Route where
  "a_route = \<lparr>obj_type = empty_type, obj_meta = empty_meta\<lparr>om_name := ''r'', om_namespace := ''ns''\<rparr>,
     obj_spec = \<lparr>rt_host = ''a.com'', rt_tls = None, rt_to = ([], [], 0), rt_wildcardPolicy = []\<rparr>,
     obj_status = [''a.com'']\<rparr>"

definition version_key :: NamespacedName where
  "version_key = \<lparr>nn_name = ''version'', nn_namespace = []\<rparr>"

definition infra_key :: NamespacedName where
  "infra_key = \<lparr>nn_name = ''cluster'', nn_namespace = []\<rparr>"

definition route_cluster :: cluster where
  "route_cluster = empty_cluster\<lparr>c_rm := [(mon_key, new_rm)], c_route := [(route_key new_rm, a_route)],
     c_cv := [(version_key, \<lparr>obj_type = empty_type, obj_meta = empty_meta\<lparr>om_name := ''version''\<rparr>,
        obj_spec = ''cid'', obj_status = []\<rparr>)],
     c_inf := [(infra_key, \<lparr>obj_type = empty_type, obj_meta = empty_meta\<lparr>om_name := ''cluster''\<rparr>,
        obj_spec = (), obj_status = \<lparr>inf_platformType = None, inf_apiServerURL = []\<rparr>\<rparr>)]\<rparr>"

abbreviation route_world :: "cluster \<times> unit" where
  "route_world \<equiv> (route_cluster, ())"

lemma ok_route_world: "ok_world mem_env fst route_world"
  by (rule ok_world_mem)
    (simp add: wf_cluster_def route_cluster_def empty_cluster_def wf_store_def new_rm_def a_route_def
      route_key_def version_key_def infra_key_def mon_key_def mon_meta_def empty_meta_def
      live_or_held_def obj_key_def empty_RouteMonitor_def)

lemma route_world_facts:
  "map_of (c_rm (fst route_world)) mon_key = Some new_rm"
  "om_deletionTimestamp (obj_meta new_rm) = None"
  "mon_key \<noteq> nn_empty"
  "map_of (c_route (fst route_world)) (route_key new_rm) = Some a_route"
  by (simp_all add: route_cluster_def new_rm_def mon_meta_def empty_meta_def mon_key_def)

abbreviation mem_rmr :: "(cluster \<times> unit) RouteMonitorReconciler" where
  "mem_rmr \<equiv> NewReconciler mem_env ''img'' ''ns'' False ''u''"

text \<open>The next \<open>n\<close> reconciles return no error.\<close>

fun clean_reconciles :: "('w, 'r \<times> go_error option) io \<Rightarrow> nat \<Rightarrow> 'w \<Rightarrow> bool" where
  "clean_reconciles rec 0 w = True"
| "clean_reconciles rec (Suc n) w =
     (case run_state rec w of
        ((_, None), w') \<Rightarrow> clean_reconciles rec n w'
      | ((_, Some _), _) \<Rightarrow> False)"

lemma clean_Suc:
  assumes "clean_reconciles rec (Suc n) v"
  obtains res v' where "run_state rec v = ((res, None), v')" "clean_reconciles rec n v'"
proof -
  obtain res err v' where r: "run_state rec v = ((res, err), v')"
    by (metis prod.exhaust)
  then show thesis using assms that [of res v'] by (cases err) simp_all
qed

lemma clean_run:
  assumes "clean_reconciles rec (Suc n) v" and "runs rec R w m v"
  shows "\<exists>v' res v''. runs rec R w (m + n) v' \<and> run_state rec v' = ((res, None), v'')"
  using assms
proof (induction n arbitrary: m v)
  case 0
  from clean_Suc [OF 0(1)] 0(2) show ?case by (metis add_0_right)
next
  case (Suc n)
  from clean_Suc [OF Suc.prems(1)] obtain res v1 where
    r: "run_state rec v = ((res, None), v1)" and c: "clean_reconciles rec (Suc n) v1" .
  from Suc.IH [OF c reconciled [OF Suc.prems(2) r]] show ?case by simp
qed

lemma six_clean: "clean_reconciles (Reconcile mem_rmr mon_key) 6 route_world"
  by code_simp

theorem routemonitor_reconcile_progress_witness:
  "wp (Reconcile mem_rmr mon_key) (\<lambda>(res, err) w'.
     rm_progress mem_env ''img'' ''ns'' a_route mon_key new_rm route_cluster (fst w') err) route_world"
  by (rule wp_mono [OF routemonitor_reconcile_progress [OF ok_route_world route_world_facts]]) simp

theorem routemonitor_converges_witness:
  "\<exists>n v v' res rm'. runs (Reconcile mem_rmr mon_key) (rm_others mem_env fst mon_key (route_key new_rm)) route_world n v \<and>
     run_state (Reconcile mem_rmr mon_key) v = ((res, None), v') \<and>
     map_of (c_rm (fst v')) mon_key = Some rm' \<and>
     monitor_settled (ParseMonitorSLOSpecs mem_libs) mem_libs ''ns'' a_route mon_key rm' (fst v')"
proof -
  have "clean_reconciles (Reconcile mem_rmr mon_key) (Suc 5) route_world" using six_clean by simp
  from clean_run [OF this start [of "Reconcile mem_rmr mon_key" "rm_others mem_env fst mon_key (route_key new_rm)"]]
  obtain v res v' where run: "runs (Reconcile mem_rmr mon_key) (rm_others mem_env fst mon_key (route_key new_rm)) route_world 5 v"
    and last: "run_state (Reconcile mem_rmr mon_key) v = ((res, None), v')" by auto
  from routemonitor_converges [OF ok_route_world route_world_facts run _ last]
  show ?thesis using run last by (simp only: libs_mem) blast
qed

section \<open>A hosted cluster\<close>

definition hosted_cum :: ClusterUrlMonitor where
  "hosted_cum = empty_ClusterUrlMonitor
     \<lparr>obj_meta := mon_meta,
      obj_spec := (obj_spec empty_ClusterUrlMonitor)
        \<lparr>cums_prefix := ''https://api.'', cums_port := ''443'', cums_suffix := ''/livez'',
         cums_domainRef := ClusterDomainRefHCP\<rparr>\<rparr>"

definition hosted_key :: NamespacedName where
  "hosted_key = \<lparr>nn_name = ''hc'', nn_namespace = ''clusters''\<rparr>"

definition hosted_cluster :: cluster where
  "hosted_cluster = route_cluster\<lparr>c_rm := [], c_cum := [(mon_key, hosted_cum)],
     c_hcp := [(\<lparr>nn_name = ''h'', nn_namespace = ''ns''\<rparr>, \<lparr>obj_type = empty_type,
       obj_meta = empty_meta\<lparr>om_name := ''h'', om_namespace := ''ns'',
         om_annotations := fmap_of_list [(hcpClusterAnnotation, ''clusters/hc'')]\<rparr>,
       obj_spec = \<lparr>hcps_clusterID = ''id'', hcps_aws = None, hcps_services = []\<rparr>,
       obj_status = \<lparr>hcpst_conditions =
           [\<lparr>cond_type = ''ClusterVersionAvailable'', cond_status = ''True'', cond_reason = []\<rparr>],
         hcpst_endpointHost = []\<rparr>\<rparr>)],
     c_hc := [(hosted_key, \<lparr>obj_type = empty_type,
       obj_meta = empty_meta\<lparr>om_name := ''hc'', om_namespace := ''clusters''\<rparr>,
       obj_spec = ''rosa.a.com'', obj_status = ()\<rparr>)]\<rparr>"

abbreviation hosted_world :: "cluster \<times> unit" where
  "hosted_world \<equiv> (hosted_cluster, ())"

lemma ok_hosted_world: "ok_world mem_env fst hosted_world"
  by (rule ok_world_mem)
    (simp add: wf_cluster_def hosted_cluster_def hosted_key_def hosted_cum_def route_cluster_def empty_cluster_def
      wf_store_def a_route_def new_rm_def route_key_def version_key_def infra_key_def mon_key_def mon_meta_def empty_meta_def
      live_or_held_def obj_key_def empty_RouteMonitor_def empty_ClusterUrlMonitor_def)

lemma hosted_world_facts:
  "map_of (c_cum (fst hosted_world)) mon_key = Some hosted_cum"
  "om_deletionTimestamp (obj_meta hosted_cum) = None"
  "mon_key \<noteq> nn_empty"
  "cluster_domain (fst hosted_world) (nn_namespace mon_key) (cums_domainRef (obj_spec hosted_cum)) = Some ''a.com''"
  by code_simp+

abbreviation mem_cumr :: "(cluster \<times> unit) ClusterUrlMonitorReconciler" where
  "mem_cumr \<equiv> CUM_NewReconciler mem_env ''img'' ''ns'' True ''u''"

lemma five_clean: "clean_reconciles (CUM_Reconcile mem_cumr mon_key) 5 hosted_world"
  by code_simp

theorem cum_converges_witness:
  "\<exists>n v v' res m'. runs (CUM_Reconcile mem_cumr mon_key)
       (cum_others mem_env fst mon_key ClusterDomainRefHCP) hosted_world n v \<and>
     run_state (CUM_Reconcile mem_cumr mon_key) v = ((res, None), v') \<and>
     map_of (c_cum (fst v')) mon_key = Some m' \<and>
     cum_settled (ParseMonitorSLOSpecs mem_libs) mem_libs ''ns'' ''a.com'' mon_key m' (fst v')"
proof -
  have "clean_reconciles (CUM_Reconcile mem_cumr mon_key) (Suc 4) hosted_world" using five_clean by simp
  from clean_run [OF this start [of "CUM_Reconcile mem_cumr mon_key"
        "cum_others mem_env fst mon_key (cums_domainRef (obj_spec hosted_cum))"]]
  obtain v res v' where run: "runs (CUM_Reconcile mem_cumr mon_key)
       (cum_others mem_env fst mon_key (cums_domainRef (obj_spec hosted_cum))) hosted_world 4 v"
    and last: "run_state (CUM_Reconcile mem_cumr mon_key) v = ((res, None), v')" by auto
  have ref: "cums_domainRef (obj_spec hosted_cum) = ClusterDomainRefHCP" by (simp add: hosted_cum_def)
  from cum_converges [OF ok_hosted_world hosted_world_facts run _ last]
  show ?thesis using run [unfolded ref] last by (simp only: libs_mem) blast
qed

end
