(* ===== verification/Go_Flag.thy ===== *)
theory Go_Flag
  imports Go_Base
begin

text \<open>
  Go's package flag as far as \<open>main\<close> uses it: a set of flags that write to variables, and \<open>flag.Parse\<close>
  on the command line.  The variables are a state \<open>'s\<close>; a flag's \<open>Set\<close> may reject a value.
\<close>

record 's Flag =
  fl_name :: string
  fl_IsBoolFlag :: bool
  fl_Set :: "string \<Rightarrow> 's \<Rightarrow> 's option"

text \<open>The command line exits the program (with status 2, or 0 for a request for help), or leaves the
  variables and the remaining arguments.\<close>

datatype 's parsed = ParseExit int | ParseOk 's "string list"

definition ParseBool :: "string \<Rightarrow> bool option" where
  "ParseBool s =
     (if s \<in> {''1'', ''t'', ''T'', ''TRUE'', ''true'', ''True''} then Some True
      else if s \<in> {''0'', ''f'', ''F'', ''FALSE'', ''false'', ''False''} then Some False
      else None)"

text \<open>\<open>flag.StringVar\<close> and \<open>flag.BoolVar\<close>: \<open>upd\<close> writes the variable.\<close>

definition StringVar :: "(string \<Rightarrow> 's \<Rightarrow> 's) \<Rightarrow> string \<Rightarrow> 's Flag" where
  "StringVar upd name = \<lparr>fl_name = name, fl_IsBoolFlag = False, fl_Set = (\<lambda>v s. Some (upd v s))\<rparr>"

definition BoolVar :: "(bool \<Rightarrow> 's \<Rightarrow> 's) \<Rightarrow> string \<Rightarrow> 's Flag" where
  "BoolVar upd name = \<lparr>fl_name = name, fl_IsBoolFlag = True,
     fl_Set = (\<lambda>v s. map_option (\<lambda>b. upd b s) (ParseBool v))\<rparr>"

text \<open>An argument: not a flag, the terminator \<open>--\<close>, malformed, or a name with or without a value.\<close>

datatype argument = Operand | Terminator | Malformed | FlagArg string "string option"

definition classify :: "string \<Rightarrow> argument" where
  "classify s =
     (if length s < 2 \<or> hd s \<noteq> CHR ''-'' then Operand
      else if s = ''--'' then Terminator
      else let name = (if s ! 1 = CHR ''-'' then drop 2 s else drop 1 s) in
        if name = [] \<or> hd name = CHR ''-'' \<or> hd name = CHR ''='' then Malformed
        else if CHR ''='' \<in> set name
             then FlagArg (takeWhile (\<lambda>c. c \<noteq> CHR ''='') name)
                    (Some (drop 1 (dropWhile (\<lambda>c. c \<noteq> CHR ''='') name)))
             else FlagArg name None)"

text \<open>\<open>flag.Parse\<close>: flags are taken from the front of the arguments until the first that is none.\<close>

fun flag_Parse :: "'s Flag list \<Rightarrow> string list \<Rightarrow> 's \<Rightarrow> 's parsed" where
  "flag_Parse fs [] s = ParseOk s []"
| "flag_Parse fs (a # rest) s =
     (case classify a of
        Operand \<Rightarrow> ParseOk s (a # rest)
      | Terminator \<Rightarrow> ParseOk s rest
      | Malformed \<Rightarrow> ParseExit 2
      | FlagArg name value \<Rightarrow>
          (case find (\<lambda>f. fl_name f = name) fs of
             None \<Rightarrow> if name = ''help'' \<or> name = ''h'' then ParseExit 0 else ParseExit 2
           | Some f \<Rightarrow>
               if fl_IsBoolFlag f
               then (case fl_Set f (case value of Some v \<Rightarrow> v | None \<Rightarrow> ''true'') s of
                       None \<Rightarrow> ParseExit 2
                     | Some s' \<Rightarrow> flag_Parse fs rest s')
               else (case value of
                       Some v \<Rightarrow>
                         (case fl_Set f v s of None \<Rightarrow> ParseExit 2 | Some s' \<Rightarrow> flag_Parse fs rest s')
                     | None \<Rightarrow>
                         (case rest of
                            [] \<Rightarrow> ParseExit 2
                          | v # rest' \<Rightarrow>
                              (case fl_Set f v s of
                                 None \<Rightarrow> ParseExit 2
                               | Some s' \<Rightarrow> flag_Parse fs rest' s')))))"

section \<open>Lemmas\<close>

text \<open>A name that can be used as a flag.\<close>

definition flag_name :: "string \<Rightarrow> bool" where
  "flag_name n \<longleftrightarrow> n \<noteq> [] \<and> hd n \<noteq> CHR ''-'' \<and> CHR ''='' \<notin> set n"

lemma classify_flag:
  assumes "flag_name n"
  shows "classify (''--'' @ n @ ''='' @ v) = FlagArg n (Some v)" "classify (''--'' @ n) = FlagArg n None"
proof -
  have "takeWhile (\<lambda>c. c \<noteq> CHR ''='') (n @ ''='' @ v) = n" "dropWhile (\<lambda>c. c \<noteq> CHR ''='') (n @ ''='' @ v) = ''='' @ v"
    using assms by (auto simp: flag_name_def takeWhile_append dropWhile_append dest: set_takeWhileD)
  moreover have "hd (n @ ''='' @ v) = hd n" "hd n \<noteq> CHR ''=''" "n \<noteq> []"
    using assms by (auto simp: flag_name_def) (metis hd_in_set)
  ultimately show "classify (''--'' @ n @ ''='' @ v) = FlagArg n (Some v)" "classify (''--'' @ n) = FlagArg n None"
    using assms by (auto simp: classify_def flag_name_def)
qed

lemma find_distinct:
  assumes "distinct (map fl_name fs)" "f \<in> set fs"
  shows "find (\<lambda>g. fl_name g = fl_name f) fs = Some f"
  using assms by (induction fs) auto

text \<open>The last value of a flag wins: one assignment in front of the other arguments.\<close>

lemma flag_Parse_assign:
  assumes "distinct (map fl_name fs)" "f \<in> set fs" "flag_name (fl_name f)"
  shows "flag_Parse fs ((''--'' @ fl_name f @ ''='' @ v) # rest) s =
    (case fl_Set f v s of None \<Rightarrow> ParseExit 2 | Some s' \<Rightarrow> flag_Parse fs rest s')"
  using classify_flag(1) [OF assms(3), of v] find_distinct [OF assms(1,2)]
  by (auto split: option.splits)

end
