(* ===== verification/Operator_Main.thy ===== *)
theory Operator_Main
  imports Go_Flag Hcp_Controller Route_Monitor Cluster_Url_Monitor
begin

text \<open>
  main.go and the \<open>SetupWithManager\<close> functions of the three controllers: the command line, the cache of
  the manager, the controllers with the events they watch, and the order in which the operator is put
  together.  The manager of controller-runtime is a parameter, a record of the calls \<open>main\<close> makes.
\<close>

section \<open>Kinds and their API groups\<close>

datatype Kind =
  K_RouteMonitor | K_ClusterUrlMonitor | K_Route | K_ServiceMonitor | K_RHOBS_ServiceMonitor
| K_PrometheusRule | K_Deployment | K_Service | K_ConfigMap | K_Secret | K_HostedControlPlane
| K_HostedCluster | K_VpcEndpoint | K_ClusterVersion | K_Infrastructure | K_IngressController
| K_CustomResourceDefinition

text \<open>The packages whose types \<open>init\<close> adds to the scheme, in its order.\<close>

definition scheme :: "string list" where
  "scheme = [''clientgoscheme'', ''rmov1alpha1'', ''monitoringv1'', ''routev1'', ''configv1'', ''operatorv1'',
     ''rmov1alpha1'', ''hypershiftv1beta1'', ''rhobsv1'', ''apiextensionsv1'', ''avov1alpha2'']"

section \<open>The command line\<close>

record 'z main_vars =
  metricsAddr :: string
  enableLeaderElection :: bool
  enablehypershift :: bool
  probeAddr :: string
  blackboxExporterImage :: string
  blackboxExporterNamespace :: string
  probeAPIURL :: string
  probeTenant :: string
  oidcClientID :: string
  oidcClientSecret :: string
  oidcIssuerURL :: string
  onlyPublicClusters :: bool
  skipInfrastructureHealthCheck :: bool
  zap_opts :: 'z

text \<open>The values of the flags that are not given.\<close>

definition default_vars :: "'z \<Rightarrow> 'z main_vars" where
  "default_vars opts =
     \<lparr>metricsAddr = '':8080'', enableLeaderElection = False, enablehypershift = False, probeAddr = '':8081'',
      blackboxExporterImage = ''quay.io/prometheus/blackbox-exporter@sha256:'' @
        ''b04a9fef4fa086a02fc7fcd8dcdbc4b7b35cc30cdee860fdc6a19dd8b208d63e'',
      blackboxExporterNamespace = OperatorNamespace, probeAPIURL = [], probeTenant = ''hcp'',
      oidcClientID = [], oidcClientSecret = [], oidcIssuerURL = [], onlyPublicClusters = False,
      skipInfrastructureHealthCheck = False, zap_opts = opts\<rparr>"

text \<open>The operator's own flags, in the order in which they are declared.\<close>

definition own_flags :: "'z main_vars Flag list" where
  "own_flags =
     [StringVar (\<lambda>v s. s\<lparr>metricsAddr := v\<rparr>) ''metrics-bind-address'',
      StringVar (\<lambda>v s. s\<lparr>probeAddr := v\<rparr>) ''health-probe-bind-address'',
      BoolVar (\<lambda>v s. s\<lparr>enableLeaderElection := v\<rparr>) ''leader-elect'',
      BoolVar (\<lambda>v s. s\<lparr>enablehypershift := v\<rparr>) ''enable-hypershift'',
      StringVar (\<lambda>v s. s\<lparr>blackboxExporterImage := v\<rparr>) ''blackbox-image'',
      StringVar (\<lambda>v s. s\<lparr>blackboxExporterNamespace := v\<rparr>) ''blackbox-namespace'',
      StringVar (\<lambda>v s. s\<lparr>probeAPIURL := v\<rparr>) ''probe-api-url'',
      StringVar (\<lambda>v s. s\<lparr>probeTenant := v\<rparr>) ''probe-tenant'',
      StringVar (\<lambda>v s. s\<lparr>oidcClientID := v\<rparr>) ''oidc-client-id'',
      StringVar (\<lambda>v s. s\<lparr>oidcClientSecret := v\<rparr>) ''oidc-client-secret'',
      StringVar (\<lambda>v s. s\<lparr>oidcIssuerURL := v\<rparr>) ''oidc-issuer-url'',
      BoolVar (\<lambda>v s. s\<lparr>onlyPublicClusters := v\<rparr>) ''only-public-clusters'',
      BoolVar (\<lambda>v s. s\<lparr>skipInfrastructureHealthCheck := v\<rparr>) ''skip-infrastructure-health-check'']"

text \<open>\<open>opts.BindFlags\<close> adds the flags of the logging library, which write to its options.\<close>

definition bind_flag :: "'z Flag \<Rightarrow> 'z main_vars Flag" where
  "bind_flag f = \<lparr>fl_name = fl_name f, fl_IsBoolFlag = fl_IsBoolFlag f,
     fl_Set = (\<lambda>v s. map_option (\<lambda>o'. s\<lparr>zap_opts := o'\<rparr>) (fl_Set f v (zap_opts s)))\<rparr>"

definition command_line :: "'z Flag list \<Rightarrow> 'z main_vars Flag list" where
  "command_line zapFlags = own_flags @ map bind_flag zapFlags"

definition flag_config :: "'z main_vars \<Rightarrow> OperatorConfig" where
  "flag_config v =
     \<lparr>oc_ProbeAPIURL = probeAPIURL v, oc_ProbeTenant = probeTenant v, oc_OIDCClientID = oidcClientID v,
      oc_OIDCClientSecret = oidcClientSecret v, oc_OIDCIssuerURL = oidcIssuerURL v,
      oc_OnlyPublicClusters = onlyPublicClusters v,
      oc_SkipInfrastructureHealthCheck = skipInfrastructureHealthCheck v\<rparr>"

section \<open>The manager's options\<close>

text \<open>\<open>cache.Options\<close>: the namespaces that are cached for a kind of its own entry and for the others;
  no namespaces stand for all of them.\<close>

definition AllNamespaces :: string where "AllNamespaces = []"

record CacheOptions =
  DefaultNamespaces :: "string list"
  ByObject :: "(Kind \<times> string list) list"

definition cacheOptions :: "bool \<Rightarrow> CacheOptions" where
  "cacheOptions enableHCP =
     (if \<not> enableHCP
      then \<lparr>DefaultNamespaces = [OperatorNamespace],
            ByObject = [(K_RouteMonitor, [AllNamespaces]), (K_ClusterUrlMonitor, [AllNamespaces]),
                        (K_Route, [AllNamespaces]), (K_ServiceMonitor, [AllNamespaces]),
                        (K_PrometheusRule, [AllNamespaces]), (K_IngressController, [AllNamespaces]),
                        (K_Service, [AllNamespaces])]\<rparr>
      else \<lparr>DefaultNamespaces = [], ByObject = []\<rparr>)"

record ManagerOptions =
  mo_Scheme :: "string list"
  mo_MetricsBindAddress :: string
  mo_HealthProbeBindAddress :: string
  mo_LeaderElection :: bool
  mo_LeaderElectionID :: string
  mo_Cache :: CacheOptions

definition manager_options :: "'z main_vars \<Rightarrow> bool \<Rightarrow> ManagerOptions" where
  "manager_options v enableHCP =
     \<lparr>mo_Scheme = scheme, mo_MetricsBindAddress = metricsAddr v, mo_HealthProbeBindAddress = probeAddr v,
      mo_LeaderElection = enableLeaderElection v, mo_LeaderElectionID = ''2793210b.openshift.io'',
      mo_Cache = cacheOptions enableHCP\<rparr>"

section \<open>Controllers and what they watch\<close>

text \<open>A handler maps an event on an object (its kind and metadata) to requests: one per owner of a kind,
  or what a function of the controller computes.\<close>

datatype 'w EventHandler =
  EnqueueRequestForOwner Kind bool
| EnqueueRequestsFromMapFunc "Kind \<Rightarrow> ObjectMeta \<Rightarrow> ('w, NamespacedName list) io"

datatype EventPredicate = LabelExists string | PredicateFunc "ObjectMeta \<Rightarrow> bool"

record 'w Watch =
  wt_Kind :: Kind
  wt_Handler :: "'w EventHandler"
  wt_Predicates :: "EventPredicate list"

record 'w Controller =
  ct_For :: Kind
  ct_Watches :: "'w Watch list"
  ct_Reconcile :: "NamespacedName \<Rightarrow> ('w, (CtrlResult \<times> go_error option) outcome) io"

definition no_panic :: "('w, 'a) io \<Rightarrow> ('w, 'a outcome) io" where
  "no_panic m = do { r \<leftarrow> m; ret (Returns r) }"

definition rm_controller :: "'w RouteMonitorReconciler \<Rightarrow> 'w Controller" where
  "rm_controller r =
     \<lparr>ct_For = K_RouteMonitor,
      ct_Watches = [\<lparr>wt_Kind = K_ServiceMonitor, wt_Handler = EnqueueRequestForOwner K_RouteMonitor True,
                     wt_Predicates = []\<rparr>],
      ct_Reconcile = (\<lambda>req. no_panic (Reconcile r req))\<rparr>"

definition cum_controller :: "'w ClusterUrlMonitorReconciler \<Rightarrow> 'w Controller" where
  "cum_controller r =
     \<lparr>ct_For = K_ClusterUrlMonitor,
      ct_Watches = [\<lparr>wt_Kind = K_ServiceMonitor, wt_Handler = EnqueueRequestForOwner K_ClusterUrlMonitor True,
                     wt_Predicates = []\<rparr>],
      ct_Reconcile = (\<lambda>req. no_panic (CUM_Reconcile r req))\<rparr>"

definition configMapHandler :: "'w Env \<Rightarrow> Kind \<Rightarrow> ObjectMeta \<Rightarrow> ('w, NamespacedName list) io" where
  "configMapHandler E kind m =
     (if kind \<noteq> K_ConfigMap then ret []
      else configMap_requests E \<lparr>obj_type = empty_type, obj_meta = m, obj_spec = fmempty, obj_status = ()\<rparr>)"

definition configMapPredicate :: "ObjectMeta \<Rightarrow> bool" where
  "configMapPredicate m \<longleftrightarrow> om_name m = configMapName \<and> om_namespace m = OperatorNamespace"

record 'w HostedControlPlaneReconciler =
  hcpr_Client :: "'w Env"
  hcpr_Net :: "'w Net"
  hcpr_RHOBSConfig :: RHOBSConfig

definition NewHostedControlPlaneReconciler ::
    "'w Env \<Rightarrow> 'w Net \<Rightarrow> RHOBSConfig \<Rightarrow> 'w HostedControlPlaneReconciler" where
  "NewHostedControlPlaneReconciler E N rhobsConfig =
     \<lparr>hcpr_Client = E, hcpr_Net = N, hcpr_RHOBSConfig = rhobsConfig\<rparr>"

definition hcp_controller :: "'w HostedControlPlaneReconciler \<Rightarrow> 'w Controller" where
  "hcp_controller r =
     \<lparr>ct_For = K_HostedControlPlane,
      ct_Watches =
        [\<lparr>wt_Kind = K_Route, wt_Handler = EnqueueRequestForOwner K_HostedControlPlane True,
          wt_Predicates = [LabelExists watchResourceLabel]\<rparr>,
         \<lparr>wt_Kind = K_RouteMonitor, wt_Handler = EnqueueRequestForOwner K_HostedControlPlane True,
          wt_Predicates = [LabelExists watchResourceLabel]\<rparr>,
         \<lparr>wt_Kind = K_ConfigMap, wt_Handler = EnqueueRequestsFromMapFunc (configMapHandler (hcpr_Client r)),
          wt_Predicates = [PredicateFunc configMapPredicate]\<rparr>],
      ct_Reconcile = hcp_Reconcile (hcpr_Client r) (hcpr_Net r) (hcpr_RHOBSConfig r)\<rparr>"

section \<open>The manager\<close>

record 'w Manager =
  mgr_New :: "ManagerOptions \<Rightarrow> ('w, go_error option) io"
  mgr_LabelSelectorPredicate :: "string \<Rightarrow> ('w, go_error option) io"
    \<comment> \<open>for the selector that wants a label to exist\<close>
  mgr_Complete :: "'w Controller \<Rightarrow> ('w, go_error option) io"
  mgr_AddHealthzCheck :: "string \<Rightarrow> ('w, go_error option) io"
  mgr_AddReadyzCheck :: "string \<Rightarrow> ('w, go_error option) io"
  mgr_Start :: "('w, go_error option) io"

definition rm_SetupWithManager :: "'w Manager \<Rightarrow> 'w RouteMonitorReconciler \<Rightarrow> ('w, go_error option) io" where
  "rm_SetupWithManager M r = mgr_Complete M (rm_controller r)"

definition cum_SetupWithManager :: "'w Manager \<Rightarrow> 'w ClusterUrlMonitorReconciler \<Rightarrow> ('w, go_error option) io" where
  "cum_SetupWithManager M r = mgr_Complete M (cum_controller r)"

definition hcp_SetupWithManager :: "'w Manager \<Rightarrow> 'w HostedControlPlaneReconciler \<Rightarrow> ('w, go_error option) io" where
  "hcp_SetupWithManager M r =
     do { p \<leftarrow> mgr_LabelSelectorPredicate M watchResourceLabel;
          (case p of
             Some err \<Rightarrow> ret (Some (wrap_w ''failed to build label selector predicate for routes'' err))
           | None \<Rightarrow> mgr_Complete M (hcp_controller r)) }"

section \<open>main\<close>

datatype program_end = Exit int | Finished

text \<open>A step of \<open>main\<close> whose error ends the program.\<close>

definition or_exit :: "('w, go_error option) io \<Rightarrow> ('w, program_end) io \<Rightarrow> ('w, program_end) io" where
  "or_exit step next =
     do { r \<leftarrow> step; (case r of Some err \<Rightarrow> ret (Exit 1) | None \<Rightarrow> next) }"

definition run_manager :: "'w Manager \<Rightarrow> 'w Net \<Rightarrow> string \<Rightarrow> ('w, program_end) io" where
  "run_manager M N version =
     or_exit (mgr_AddHealthzCheck M ''healthz'')
       (or_exit (mgr_AddReadyzCheck M ''readyz'')
         (do { SetInfo N version;
               or_exit (mgr_Start M) (ret Finished) }))"

definition main_from_flags ::
    "'w Manager \<Rightarrow> ('w, go_error option) io \<Rightarrow> 'w Env \<Rightarrow> 'w Net \<Rightarrow> string \<Rightarrow> 'z main_vars
       \<Rightarrow> ('w, program_end) io" where
  "main_from_flags M client_New E N version v =
     do { (cfg, hcp) \<leftarrow> startup client_New E (flag_config v);
          or_exit (mgr_New M (manager_options v (hcp \<noteq> None)))
            (or_exit (rm_SetupWithManager M (NewReconciler E (blackboxExporterImage v)
                        (blackboxExporterNamespace v) (enablehypershift v) (oc_ProbeAPIURL cfg)))
              (or_exit (cum_SetupWithManager M (CUM_NewReconciler E (blackboxExporterImage v)
                          (blackboxExporterNamespace v) (enablehypershift v) (oc_ProbeAPIURL cfg)))
                (case hcp of
                   None \<Rightarrow> run_manager M N version
                 | Some rhobsConfig \<Rightarrow>
                     or_exit (hcp_SetupWithManager M (NewHostedControlPlaneReconciler E N rhobsConfig))
                       (run_manager M N version)))) }"

definition main ::
    "'w Manager \<Rightarrow> ('w, go_error option) io \<Rightarrow> 'w Env \<Rightarrow> 'w Net \<Rightarrow> string \<Rightarrow> 'z Flag list \<Rightarrow> 'z
       \<Rightarrow> string list \<Rightarrow> ('w, program_end) io" where
  "main M client_New E N version zapFlags opts args =
     (case flag_Parse (command_line zapFlags) args (default_vars opts) of
        ParseExit n \<Rightarrow> ret (Exit n)
      | ParseOk v _ \<Rightarrow> main_from_flags M client_New E N version v)"

section \<open>The command line read back\<close>

definition bool_text :: "bool \<Rightarrow> string" where
  "bool_text b = (if b then ''true'' else ''false'')"

definition assignment :: "string \<Rightarrow> string \<Rightarrow> string" where
  "assignment name v = ''--'' @ name @ ''='' @ v"

text \<open>A command line that sets every flag of the operator.\<close>

definition own_args :: "'z main_vars \<Rightarrow> string list" where
  "own_args v =
     [assignment ''metrics-bind-address'' (metricsAddr v),
      assignment ''health-probe-bind-address'' (probeAddr v),
      assignment ''leader-elect'' (bool_text (enableLeaderElection v)),
      assignment ''enable-hypershift'' (bool_text (enablehypershift v)),
      assignment ''blackbox-image'' (blackboxExporterImage v),
      assignment ''blackbox-namespace'' (blackboxExporterNamespace v),
      assignment ''probe-api-url'' (probeAPIURL v),
      assignment ''probe-tenant'' (probeTenant v),
      assignment ''oidc-client-id'' (oidcClientID v),
      assignment ''oidc-client-secret'' (oidcClientSecret v),
      assignment ''oidc-issuer-url'' (oidcIssuerURL v),
      assignment ''only-public-clusters'' (bool_text (onlyPublicClusters v)),
      assignment ''skip-infrastructure-health-check'' (bool_text (skipInfrastructureHealthCheck v))]"

lemma ParseBool_text: "ParseBool (bool_text b) = Some b"
  by (cases b) (simp_all add: bool_text_def ParseBool_def)

lemma find_append: "find P xs \<noteq> None \<Longrightarrow> find P (xs @ ys) = find P xs"
  by (induction xs) auto

text \<open>One assignment of a flag of the operator, whatever flags the logging library adds.\<close>

lemma parse_own:
  assumes "flag_name n" and "find (\<lambda>f. fl_name f = n) (own_flags :: 'z main_vars Flag list) \<noteq> None"
  shows "flag_Parse (command_line zapFlags) (assignment n v # rest) (s :: 'z main_vars) =
    (case fl_Set (the (find (\<lambda>f. fl_name f = n) own_flags)) v s of
       None \<Rightarrow> ParseExit 2
     | Some s' \<Rightarrow> flag_Parse (command_line zapFlags) rest s')"
proof -
  obtain f :: "'z main_vars Flag" where f: "find (\<lambda>f. fl_name f = n) own_flags = Some f"
    using assms(2) by blast
  then have "find (\<lambda>f. fl_name f = n) (command_line zapFlags) = Some f"
    using find_append [OF assms(2)] by (simp add: command_line_def)
  then show ?thesis
    unfolding assignment_def flag_Parse.simps(2) classify_flag(1) [OF assms(1)] f by simp
qed

lemma parse_own_args:
  "flag_Parse (command_line zapFlags) (own_args v @ rest) s =
     flag_Parse (command_line zapFlags) rest (v\<lparr>zap_opts := zap_opts s\<rparr>)"
  unfolding own_args_def append_Cons append_Nil
  by (cases v; cases s) (simp add: parse_own flag_name_def own_flags_def StringVar_def BoolVar_def ParseBool_text
      del: flag_Parse.simps(2))

section \<open>The order of start-up\<close>

text \<open>The calls \<open>main\<close> makes to the manager, each with whether it succeeded, in a log that nothing else
  writes to.\<close>

datatype manager_call =
  Call_New ManagerOptions | Call_Selector string | Call_Complete Kind
| Call_Healthz string | Call_Readyz string | Call_Start

definition manager_logs ::
    "'w Manager \<Rightarrow> ('w, go_error option) io \<Rightarrow> 'w Env \<Rightarrow> 'w Net \<Rightarrow> ('w \<Rightarrow> (manager_call \<times> bool) list) \<Rightarrow> bool" where
  "manager_logs M client_New E N journal \<longleftrightarrow>
     (\<forall>opts. traces journal (\<lambda>r t. t = [(Call_New opts, r = None)]) (mgr_New M opts)) \<and>
     (\<forall>s. traces journal (\<lambda>r t. t = [(Call_Selector s, r = None)]) (mgr_LabelSelectorPredicate M s)) \<and>
     (\<forall>c. traces journal (\<lambda>r t. t = [(Call_Complete (ct_For c), r = None)]) (mgr_Complete M c)) \<and>
     (\<forall>s. traces journal (\<lambda>r t. t = [(Call_Healthz s, r = None)]) (mgr_AddHealthzCheck M s)) \<and>
     (\<forall>s. traces journal (\<lambda>r t. t = [(Call_Readyz s, r = None)]) (mgr_AddReadyzCheck M s)) \<and>
     traces journal (\<lambda>r t. t = [(Call_Start, r = None)]) (mgr_Start M) \<and>
     traces journal (\<lambda>_ t. t = []) client_New \<and>
     (\<forall>k. traces journal (\<lambda>_ t. t = []) (kube_Get (cm_api E) k)) \<and>
     (\<forall>k. traces journal (\<lambda>_ t. t = []) (kube_Get (crd_api E) k)) \<and>
     (\<forall>m ls v. traces journal (\<lambda>_ t. t = []) (metric_Set N m ls v))"

text \<open>Start-up runs through the calls in their order.  The first that fails is the last that is made and
  the program exits with status 1; if none fails it ends when the manager does.\<close>

fun ran :: "manager_call list \<Rightarrow> program_end \<Rightarrow> (manager_call \<times> bool) list \<Rightarrow> bool" where
  "ran [] e t \<longleftrightarrow> e = Finished \<and> t = []"
| "ran (c # cs) e [] \<longleftrightarrow> False"
| "ran (c # cs) e ((c', ok) # t) \<longleftrightarrow> c' = c \<and> (if ok then ran cs e t else e = Exit 1 \<and> t = [])"

definition startup_calls :: "ManagerOptions \<Rightarrow> bool \<Rightarrow> manager_call list" where
  "startup_calls opts enableHCP =
     [Call_New opts, Call_Complete K_RouteMonitor, Call_Complete K_ClusterUrlMonitor] @
     (if enableHCP then [Call_Selector watchResourceLabel, Call_Complete K_HostedControlPlane] else []) @
     [Call_Healthz ''healthz'', Call_Readyz ''readyz'', Call_Start]"

lemma traces_or_exit:
  assumes step: "traces journal (\<lambda>r t. t = [(c, r = None)]) step" and rest: "traces journal (ran cs) next'"
  shows "traces journal (ran (c # cs)) (or_exit step next')"
  unfolding or_exit_def
proof (rule traces_bind [OF step], goal_cases)
  case (1 r t)
  then show ?case
    by (cases r) (auto intro: traces_return traces_mono [OF rest])
qed

lemma or_exit_hcp:
  "or_exit (hcp_SetupWithManager M r) next' =
     or_exit (mgr_LabelSelectorPredicate M watchResourceLabel) (or_exit (mgr_Complete M (hcp_controller r)) next')"
proof -
  have "(case p of Some err \<Rightarrow> ret (Some (wrap_w m err)) | None \<Rightarrow> k) \<bind>
      (\<lambda>r. case r of Some err \<Rightarrow> ret (Exit 1) | None \<Rightarrow> next') =
    (case p of Some err \<Rightarrow> ret (Exit 1)
     | None \<Rightarrow> k \<bind> (\<lambda>r. case r of Some err \<Rightarrow> ret (Exit 1) | None \<Rightarrow> next'))" for p m k
    by (cases p) simp_all
  then show ?thesis
    by (simp add: or_exit_def hcp_SetupWithManager_def)
qed

lemma traces_run_manager:
  assumes "manager_logs M client_New E N journal"
  shows "traces journal (ran [Call_Healthz ''healthz'', Call_Readyz ''readyz'', Call_Start]) (run_manager M N version)"
  unfolding run_manager_def SetInfo_def
  by (intro traces_or_exit silent_bind traces_return)
    (use assms in \<open>simp_all add: manager_logs_def\<close>)

text \<open>What \<open>main\<close> does with a configuration once it is known whether there are hosted control planes.\<close>

lemma traces_controllers:
  assumes "manager_logs M client_New E N journal"
  shows "traces journal (ran (startup_calls (manager_options v (hcp \<noteq> None)) (hcp \<noteq> None)))
    (or_exit (mgr_New M (manager_options v (hcp \<noteq> None)))
      (or_exit (rm_SetupWithManager M r1)
        (or_exit (cum_SetupWithManager M r2)
          (case hcp of
             None \<Rightarrow> run_manager M N version
           | Some rhobsConfig \<Rightarrow>
               or_exit (hcp_SetupWithManager M (NewHostedControlPlaneReconciler E N rhobsConfig))
                 (run_manager M N version)))))"
proof -
  have fors: "ct_For (rm_controller r1) = K_RouteMonitor" "ct_For (cum_controller r2) = K_ClusterUrlMonitor"
    "ct_For (hcp_controller r) = K_HostedControlPlane" for r
    by (simp_all add: rm_controller_def cum_controller_def hcp_controller_def)
  have complete: "traces journal (\<lambda>x t. t = [(Call_Complete (ct_For c), x = None)]) (mgr_Complete M c)" for c
    using assms by (simp add: manager_logs_def)
  note steps = complete [of "rm_controller r1", unfolded fors] complete [of "cum_controller r2", unfolded fors]
    complete [of "hcp_controller r" for r, unfolded fors]
  have other: "traces journal (\<lambda>r t. t = [(Call_New opts, r = None)]) (mgr_New M opts)"
    "traces journal (\<lambda>r t. t = [(Call_Selector s, r = None)]) (mgr_LabelSelectorPredicate M s)" for opts s
    using assms by (simp_all add: manager_logs_def)
  show ?thesis
    by (cases hcp) (simp_all add: startup_calls_def or_exit_hcp rm_SetupWithManager_def cum_SetupWithManager_def
        traces_or_exit steps other traces_run_manager [OF assms])
qed

definition crd_key :: NamespacedName where
  "crd_key = \<lparr>nn_name = ''hostedcontrolplanes.hypershift.openshift.io'', nn_namespace = []\<rparr>"

lemma traces_startup:
  assumes "manager_logs M client_New E N journal"
  shows "traces journal (\<lambda>_ t. t = []) (startup client_New E flags)"
proof -
  have quiet: "traces journal (\<lambda>_ t. t = []) client_New"
    "traces journal (\<lambda>_ t. t = []) (kube_Get (cm_api E) k)"
    "traces journal (\<lambda>_ t. t = []) (kube_Get (crd_api E) k)" for k
    using assms by (simp_all add: manager_logs_def)
  have "traces journal (\<lambda>_ t. t = []) (getConfigFromConfigMap client_New E)"
    "traces journal (\<lambda>_ t. t = []) (shouldEnableHCP client_New E)"
    unfolding getConfigFromConfigMap_def shouldEnableHCP_def
    by (auto intro!: silent_bind quiet traces_return split: option.split sum.split)
  then show ?thesis
    unfolding startup_def Let_def by (auto intro!: silent_bind traces_return split: prod.split)
qed

lemma wp_shouldEnableHCP:
  assumes ok: "ok_world E snap w" and new: "reads (ok_world E snap) snap client_New"
  shows "wp (shouldEnableHCP client_New E) (\<lambda>(b, err) w'.
    (b \<longrightarrow> map_of (c_crd (snap w)) crd_key \<noteq> None) \<and>
    (api_reliable E \<and> yields (\<lambda>r. r = None) client_New \<longrightarrow> b = (map_of (c_crd (snap w)) crd_key \<noteq> None))) w"
proof -
  have get: "wp (kube_Get (crd_api E) crd_key) (\<lambda>r w'.
      (case r of Inl e \<Rightarrow> IsNotFound e \<longrightarrow> map_of (c_crd (snap w)) crd_key = None
               | Inr x \<Rightarrow> map_of (c_crd (snap w)) crd_key = Some x) \<and>
      (api_reliable E \<longrightarrow> (\<forall>e. r = Inl e \<longrightarrow> IsNotFound e))) w1"
    if "ok_world E snap w1" "snap w1 = snap w" for w1
  proof (rule wp_conj)
    show "wp (kube_Get (crd_api E) crd_key) (\<lambda>r w'. case r of
        Inl e \<Rightarrow> IsNotFound e \<longrightarrow> map_of (c_crd (snap w)) crd_key = None
      | Inr x \<Rightarrow> map_of (c_crd (snap w)) crd_key = Some x) w1"
      by (rule wp_mono [OF wp_Get_ok [OF that(1) ok_world_laws(17) [OF that(1)]]])
        (use that(2) in \<open>auto split: sum.splits\<close>)
    have "wp (kube_Get (crd_api E) crd_key) (\<lambda>r w'. \<forall>e. r = Inl e \<longrightarrow> IsNotFound e) w1" if "api_reliable E"
      using api_reliable_kinds(17) [OF that] by (simp add: kube_reliable_def)
    then show "wp (kube_Get (crd_api E) crd_key) (\<lambda>r w'. api_reliable E \<longrightarrow> (\<forall>e. r = Inl e \<longrightarrow> IsNotFound e)) w1"
      by (cases "api_reliable E") (auto simp: wp_iff_run)
  qed
  have new': "wp client_New (\<lambda>r w'. (ok_world E snap w' \<and> snap w' = snap w) \<and>
      (yields (\<lambda>r. r = None) client_New \<longrightarrow> r = None)) w"
  proof (rule wp_conj)
    show "wp client_New (\<lambda>r w'. ok_world E snap w' \<and> snap w' = snap w) w"
      using new ok by (simp add: reads_def)
    show "wp client_New (\<lambda>r w'. yields (\<lambda>r. r = None) client_New \<longrightarrow> r = None) w"
      by (cases "yields (\<lambda>r. r = None) client_New") (auto simp: wp_iff_run yields_def)
  qed
  show ?thesis
    unfolding shouldEnableHCP_def crd_key_def [symmetric] wp_bind
  proof (rule wp_mono [OF new'], goal_cases)
    case (1 n w1)
    show ?case
    proof (cases n)
      case (Some e)
      with 1 show ?thesis by (auto simp: wp_simps)
    next
      case None
      from 1 have w1: "ok_world E snap w1" "snap w1 = snap w" by simp_all
      show ?thesis
        unfolding None option.case wp_bind
        by (rule wp_mono [OF get [OF w1]]) (auto simp: wp_simps split: sum.splits)
    qed
  qed
qed

lemma wp_startup:
  assumes ok: "ok_world E snap w" and new: "reads (ok_world E snap) snap client_New"
  shows "wp (startup client_New E flags) (\<lambda>(cfg, hcp) w'.
    (hcp \<noteq> None \<longrightarrow> map_of (c_crd (snap w)) crd_key \<noteq> None) \<and>
    (api_reliable E \<and> yields (\<lambda>r. r = None) client_New \<longrightarrow>
       (hcp \<noteq> None) = (map_of (c_crd (snap w)) crd_key \<noteq> None))) w"
proof -
  have "reads (ok_world E snap) snap (kube_Get (cm_api E) config_key)"
    by (auto simp: reads_def intro: wp_mono [OF wp_Get_ok [OF _ ok_world_laws(9)]])
  then have "reads (ok_world E snap) snap (getConfigFromConfigMap client_New E)"
    unfolding getConfigFromConfigMap_def using new
    by (auto intro!: reads_rules split: option.split)
  from wp_reads [OF this ok] show ?thesis
    unfolding startup_def wp_bind Let_def
  proof (rule wp_mono, goal_cases)
    case (1 r w1)
    then have w1: "ok_world E snap w1" "snap w1 = snap w" by simp_all
    show ?case
      by (rule wp_mono [OF wp_shouldEnableHCP [OF w1(1) new]]) (auto simp: wp_simps w1(2))
  qed
qed

section \<open>Properties\<close>

text \<open>C33. Whatever values the operator's flags are given on the command line, in its order, are the values
  \<open>main\<close> goes on with, whatever flags the logging library adds; further arguments are parsed after them.\<close>

theorem flags_read_back:
  "flag_Parse (command_line zapFlags) (own_args v @ rest) s =
     flag_Parse (command_line zapFlags) rest (v\<lparr>zap_opts := zap_opts s\<rparr>)"
  by (rule parse_own_args)

text \<open>C17. The operator is put together in a fixed order and every step is checked: the manager is created
  and gets its two or three controllers and its probes before it is started; the first call that fails
  is the last one and the program exits with status 1.  A bad command line exits before anything is
  called.  The controller of hosted control planes is added only if their kind is installed in the
  cluster, and exactly then when the API server can be asked.\<close>

theorem startup_order:
  assumes "manager_logs M client_New E N journal" and "journal w = []"
    and "ok_world E snap w" and "reads (ok_world E snap) snap client_New"
  shows "wp (main M client_New E N version zapFlags opts args) (\<lambda>e w'.
    (case flag_Parse (command_line zapFlags) args (default_vars opts) of
       ParseExit n \<Rightarrow> e = Exit n \<and> journal w' = []
     | ParseOk v _ \<Rightarrow>
         (\<exists>hcp. ran (startup_calls (manager_options v hcp) hcp) e (journal w') \<and>
            (hcp \<longrightarrow> map_of (c_crd (snap w)) crd_key \<noteq> None) \<and>
            (api_reliable E \<and> yields (\<lambda>r. r = None) client_New \<longrightarrow>
               hcp = (map_of (c_crd (snap w)) crd_key \<noteq> None))))) w"
proof (cases "flag_Parse (command_line zapFlags) args (default_vars opts)")
  case (ParseExit n)
  then show ?thesis using assms(2) by (simp add: main_def wp_return)
next
  case (ParseOk v rest)
  have quiet: "wp (startup client_New E (flag_config v)) (\<lambda>_ w'. journal w' = []) w"
    using traces_startup [OF assms(1), of "flag_config v"] assms(2)
    by (auto simp: traces_def dest: spec [of _ w])
  show ?thesis
    unfolding main_def ParseOk parsed.case main_from_flags_def wp_bind
  proof (rule wp_mono [OF wp_conj [OF quiet wp_startup [OF assms(3,4)]]], goal_cases)
    case (1 a w1)
    obtain cfg hcp where a: "a = (cfg, hcp)" by (cases a)
    show ?case
      unfolding a prod.case
      by (rule wp_mono [OF traces_controllers [OF assms(1), unfolded traces_def, rule_format]])
        (use 1 a in \<open>auto intro!: exI [of _ "hcp \<noteq> None"]\<close>)
  qed
qed

end
