(* ===== verification/Operator_Events.thy ===== *)
theory Operator_Events
  imports Operator_Main
begin

text \<open>
  From events to reconciles: which requests an event on an object leads to, given what the controllers
  watch.  The objects the operator creates lead back to the object they were created for.
\<close>

section \<open>The event library\<close>

text \<open>What controller-runtime computes for an object: the requests for its owners of a kind, and whether a
  label exists.  \<open>gk\<close> is the group and kind of a kind.\<close>

record EventLib =
  el_OwnerRequests :: "Kind \<Rightarrow> bool \<Rightarrow> ObjectMeta \<Rightarrow> NamespacedName list"
  el_LabelExists :: "string \<Rightarrow> ObjectMeta \<Rightarrow> bool"

definition api_group :: "string \<Rightarrow> string" where
  "api_group apiVersion =
     (if CHR ''/'' \<in> set apiVersion then takeWhile (\<lambda>c. c \<noteq> CHR ''/'') apiVersion else [])"

text \<open>Its documented behaviour: the request for the controlling owner, if that is of the kind, in the
  namespace of the object.\<close>

definition event_lib_ok :: "EventLib \<Rightarrow> (Kind \<Rightarrow> string \<times> string) \<Rightarrow> bool" where
  "event_lib_ok L gk \<longleftrightarrow>
     (\<forall>k m. el_LabelExists L k m \<longleftrightarrow> fmlookup (om_labels m) k \<noteq> None) \<and>
     (\<forall>K m. el_OwnerRequests L K True m =
        (case find or_controller (om_ownerReferences m) of
           None \<Rightarrow> []
         | Some o' \<Rightarrow> if (api_group (or_apiVersion o'), or_kind o') = gk K
                     then [\<lparr>nn_name = or_name o', nn_namespace = om_namespace m\<rparr>] else []))"

text \<open>The documented behaviour of \<open>metav1.NewControllerRef\<close>.\<close>

definition controller_ref_ok :: "Libs \<Rightarrow> bool" where
  "controller_ref_ok L \<longleftrightarrow>
     (\<forall>m t. NewControllerRef L m t =
        \<lparr>or_apiVersion = tm_apiVersion t, or_kind = tm_kind t, or_name = om_name m, or_uid = om_uid m,
         or_controller = True, or_blockOwnerDeletion = True\<rparr>)"

definition of_kind :: "(Kind \<Rightarrow> string \<times> string) \<Rightarrow> Kind \<Rightarrow> TypeMeta \<Rightarrow> bool" where
  "of_kind gk K t \<longleftrightarrow> (api_group (tm_apiVersion t), tm_kind t) = gk K"

section \<open>The requests for an event\<close>

definition passes :: "EventLib \<Rightarrow> ObjectMeta \<Rightarrow> EventPredicate \<Rightarrow> bool" where
  "passes L m p = (case p of LabelExists k \<Rightarrow> el_LabelExists L k m | PredicateFunc f \<Rightarrow> f m)"

definition handle :: "EventLib \<Rightarrow> 'w EventHandler \<Rightarrow> Kind \<Rightarrow> ObjectMeta \<Rightarrow> ('w, NamespacedName list) io" where
  "handle L h kind m =
     (case h of
        EnqueueRequestForOwner K onlyController \<Rightarrow> ret (el_OwnerRequests L K onlyController m)
      | EnqueueRequestsFromMapFunc f \<Rightarrow> f kind m)"

fun watch_requests :: "EventLib \<Rightarrow> 'w Watch list \<Rightarrow> Kind \<Rightarrow> ObjectMeta \<Rightarrow> ('w, NamespacedName list) io" where
  "watch_requests L [] kind m = ret []"
| "watch_requests L (w # ws) kind m =
     do { reqs \<leftarrow> (if wt_Kind w = kind \<and> list_all (passes L m) (wt_Predicates w)
                  then handle L (wt_Handler w) kind m else ret []);
          more \<leftarrow> watch_requests L ws kind m;
          ret (reqs @ more) }"

text \<open>An event on an object of the controller's own kind is a request for the object itself.\<close>

definition event_requests :: "EventLib \<Rightarrow> 'w Controller \<Rightarrow> Kind \<Rightarrow> ObjectMeta \<Rightarrow> ('w, NamespacedName list) io" where
  "event_requests L c kind m =
     do { more \<leftarrow> watch_requests L (ct_Watches c) kind m;
          ret ((if kind = ct_For c then [\<lparr>nn_name = om_name m, nn_namespace = om_namespace m\<rparr>] else []) @ more) }"

lemma owner_requests:
  assumes "event_lib_ok L gk" and "controller_ref_ok C" and "of_kind gk K t"
    and "om_ownerReferences m = [NewControllerRef C own t]" and "om_namespace m = om_namespace own"
  shows "el_OwnerRequests L K True m = [\<lparr>nn_name = om_name own, nn_namespace = om_namespace own\<rparr>]"
  using assms by (simp add: event_lib_ok_def controller_ref_ok_def of_kind_def)

lemma label_passes: "event_lib_ok L gk \<Longrightarrow> passes L m (LabelExists k) = (fmlookup (om_labels m) k \<noteq> None)"
  by (simp add: event_lib_ok_def passes_def)

text \<open>The requests that an event is to the controllers of RouteMonitors, of ClusterUrlMonitors and of hosted
  control planes.\<close>

definition all_requests ::
    "EventLib \<Rightarrow> 'w RouteMonitorReconciler \<Rightarrow> 'w ClusterUrlMonitorReconciler \<Rightarrow> 'w HostedControlPlaneReconciler
       \<Rightarrow> Kind \<Rightarrow> ObjectMeta
       \<Rightarrow> ('w, NamespacedName list) io \<times> ('w, NamespacedName list) io \<times> ('w, NamespacedName list) io" where
  "all_requests L r r' r'' K m =
     (event_requests L (rm_controller r) K m, event_requests L (cum_controller r') K m, event_requests L (hcp_controller r'') K m)"

lemmas event_simps = all_requests_def event_requests_def handle_def rm_controller_def cum_controller_def hcp_controller_def

section \<open>Properties\<close>

text \<open>C20. An event on an object that the operator keeps for someone leads to a reconcile of that one, and to no
  other reconcile of any of the three controllers: the ServiceMonitor of a RouteMonitor or of a
  ClusterUrlMonitor, made from their template with their owner reference, to the monitor; the internal Route
  of a hosted control plane to that control plane; its internal RouteMonitor to that control plane, and
  to a reconcile of the RouteMonitor itself.  Events on PrometheusRules and on ServiceMonitors of the
  monitoring.rhobs API reach no controller.  The owners are objects as the cache of the client gives them,
  with their kind filled in.\<close>

theorem events_reach_owner:
  fixes rm :: RouteMonitor and cum :: ClusterUrlMonitor and h :: HostedControlPlane
  assumes L: "event_lib_ok L gk" and C: "controller_ref_ok C" and kinds: "gk K_RouteMonitor \<noteq> gk K_ClusterUrlMonitor"
    and rm: "of_kind gk K_RouteMonitor (obj_type rm)" and cum: "of_kind gk K_ClusterUrlMonitor (obj_type cum)"
    and h: "of_kind gk K_HostedControlPlane (obj_type h)"
  shows "all_requests L r r' r'' K_ServiceMonitor (obj_meta (probe_template url bbns (obj_key rm) cid
           insecure (NewControllerRef C (obj_meta rm) (obj_type rm)))) = (ret [obj_key rm], ret [], ret []) \<and>
    all_requests L r r' r'' K_ServiceMonitor (obj_meta (probe_template url bbns (obj_key cum) cid
           insecure (NewControllerRef C (obj_meta cum) (obj_type cum)))) = (ret [], ret [obj_key cum], ret []) \<and>
    all_requests L r r' r'' K_Route (obj_meta (buildInternalMonitoringRoute C h)) = (ret [], ret [], ret [obj_key h]) \<and>
    all_requests L r r' r'' K_RouteMonitor (obj_meta
      (buildInternalMonitoringRouteMonitor C (buildInternalMonitoringRoute C h) h port)) =
        (ret [obj_key (buildInternalMonitoringRouteMonitor C (buildInternalMonitoringRoute C h) h port)], ret [], ret [obj_key h]) \<and>
    (\<forall>K \<in> {K_PrometheusRule, K_RHOBS_ServiceMonitor}. \<forall>m. all_requests L r r' r'' K m = (ret [], ret [], ret []))"
proof (intro conjI)
  let ?sm = "\<lambda>x. obj_meta (probe_template url bbns (obj_key x) cid insecure
    (NewControllerRef C (obj_meta x) (obj_type x)))"
  have sm: "om_ownerReferences (?sm x) = [NewControllerRef C (obj_meta x) (obj_type x)] \<and>
      om_namespace (?sm x) = om_namespace (obj_meta x)" for x :: "('s, 't) kobj"
    by (simp add: probe_template_def TemplateForServiceMonitorResource_def obj_key_def)
  have other: "el_OwnerRequests L K True (?sm x) = []" if "of_kind gk K' (obj_type x)" "gk K' \<noteq> gk K"
    for x :: "('s, 't) kobj" and K K'
    using L C that sm [of x] by (simp add: event_lib_ok_def controller_ref_ok_def of_kind_def)
  have internal: "passes L m (LabelExists watchResourceLabel) \<and>
      el_OwnerRequests L K_HostedControlPlane True m = [obj_key h]"
    if "m \<in> {obj_meta (buildInternalMonitoringRoute C h), obj_meta
      (buildInternalMonitoringRouteMonitor C (buildInternalMonitoringRoute C h) h port)}" for m
    using that owner_requests [OF L C h, of m "obj_meta h"]
    by (auto simp: label_passes [OF L] buildInternalMonitoringRoute_def buildOwnerReferences_def
        buildInternalMonitoringRouteMonitor_def obj_key_def)
  show "all_requests L r r' r'' K_ServiceMonitor (?sm rm) = (ret [obj_key rm], ret [], ret [])"
    using owner_requests [OF L C rm] sm [of rm] other [OF rm kinds] by (simp add: event_simps obj_key_def)
  show "all_requests L r r' r'' K_ServiceMonitor (?sm cum) = (ret [], ret [obj_key cum], ret [])"
    using owner_requests [OF L C cum] sm [of cum] other [OF cum kinds [symmetric]] by (simp add: event_simps obj_key_def)
  show "all_requests L r r' r'' K_Route (obj_meta (buildInternalMonitoringRoute C h)) = (ret [], ret [], ret [obj_key h])"
    using internal by (simp add: event_simps)
  show "all_requests L r r' r'' K_RouteMonitor (obj_meta
      (buildInternalMonitoringRouteMonitor C (buildInternalMonitoringRoute C h) h port)) =
      (ret [obj_key (buildInternalMonitoringRouteMonitor C (buildInternalMonitoringRoute C h) h port)], ret [], ret [obj_key h])"
    using internal
    by (simp add: event_simps obj_key_def buildInternalMonitoringRouteMonitor_def buildInternalMonitoringRoute_def)
qed (auto simp: event_simps)

text \<open>C21. A change of the operator's config map requeues every hosted control plane exactly once, when the
  API server answers; an event on any other config map requeues none.\<close>

theorem config_change_requeues_all:
  assumes ok: "ok_world E snap w" and rel: "api_reliable E"
  shows "wp (event_requests L (hcp_controller (NewHostedControlPlaneReconciler E N cfg)) K_ConfigMap m)
    (\<lambda>reqs w'. snap w' = snap w \<and>
       mset reqs = (if om_name m = configMapName \<and> om_namespace m = OperatorNamespace
                    then mset (map fst (c_hcp (snap w))) else {#})) w"
proof -
  have wfs: "wf_store (c_hcp (snap w))" using ok_world_wf [OF ok] by (simp add: wf_cluster_stores)
  have "map (obj_key \<circ> snd) (c_hcp (snap w)) = map fst (c_hcp (snap w))"
    using wfs by (auto simp: wf_store_def)
  then have keys: "image_mset obj_key (image_mset snd (mset (c_hcp (snap w)))) = image_mset fst (mset (c_hcp (snap w)))"
    by (metis image_mset.compositionality mset_map)
  have list: "wp (kube_List (hcp_api E) None) (\<lambda>r w'. snap w' = snap w \<and>
      (\<exists>os. r = Inr os \<and> mset (map obj_key os) = mset (map fst (c_hcp (snap w))))) w"
  proof (rule wp_mono [OF wp_conj])
    show "wp (kube_List (hcp_api E) None) (\<lambda>r w'. \<exists>os. r = Inr os) w"
      using api_reliable_kinds(11) [OF rel] by (simp add: kube_reliable_def)
    show "wp (kube_List (hcp_api E) None) (\<lambda>r w'. snap w' = snap w \<and>
        (\<forall>os. r = Inr os \<longrightarrow> mset (map obj_key os) = mset (map fst (c_hcp (snap w))))) w"
      by (rule wp_List [OF ok ok_world_laws(11) [OF ok]])
        (auto simp: in_namespace_def comp_def keys)
  qed auto
  show ?thesis
    by (cases "configMapPredicate m")
      (auto simp: event_simps passes_def NewHostedControlPlaneReconciler_def configMapHandler_def
        configMap_requests_def configMapPredicate_def wp_simps intro!: wp_mono [OF list])
qed

end
