(* ===== verification/Rhobs_Metrics.thy ===== *)
theory Rhobs_Metrics
  imports Hcp_Controller
begin

text \<open>
  pkg/rhobs/metrics.go: the metrics the operator registers.  The client library panics when a metric
  is used with another number of label values than it was declared with; no run of the controller
  does so.
\<close>

section \<open>The metrics\<close>

datatype metric_type = Counter | Gauge | Histogram

record metric =
  mt_type :: metric_type
  mt_Name :: string
  mt_Help :: string
  mt_labels :: "string list"

definition apiRequestDuration :: metric where
  "apiRequestDuration =
     \<lparr>mt_type = Histogram, mt_Name = ''rhobs_route_monitor_operator_api_request_duration_seconds'',
      mt_Help = ''Duration of RHOBS synthetics API requests'', mt_labels = [''operation'', ''status'']\<rparr>"

definition apiRequestsTotal :: metric where
  "apiRequestsTotal =
     \<lparr>mt_type = Counter, mt_Name = ''rhobs_route_monitor_operator_api_requests_total'',
      mt_Help = ''Total number of RHOBS synthetics API requests'', mt_labels = [''operation'', ''status'']\<rparr>"

definition oidcTokenRefreshTotal :: metric where
  "oidcTokenRefreshTotal =
     \<lparr>mt_type = Counter, mt_Name = ''rhobs_route_monitor_operator_oidc_token_refresh_total'',
      mt_Help = ''Total number of OIDC token refresh attempts'', mt_labels = [''status'']\<rparr>"

definition oidcTokenRefreshDuration :: metric where
  "oidcTokenRefreshDuration =
     \<lparr>mt_type = Histogram, mt_Name = ''rhobs_route_monitor_operator_oidc_token_refresh_duration_seconds'',
      mt_Help = ''Duration of OIDC token refresh requests'', mt_labels = []\<rparr>"

definition probeDeletionTimeoutTotal :: metric where
  "probeDeletionTimeoutTotal =
     \<lparr>mt_type = Counter, mt_Name = ''rhobs_route_monitor_operator_probe_deletion_timeout_total'',
      mt_Help = ''Total number of probe deletions that exceeded the timeout and triggered fail-open behavior'',
      mt_labels = []\<rparr>"

definition operatorInfo :: metric where
  "operatorInfo =
     \<lparr>mt_type = Gauge, mt_Name = ''rhobs_route_monitor_operator_info'',
      mt_Help = ''Information about the route-monitor-operator instance'', mt_labels = [''version'']\<rparr>"

text \<open>What \<open>init\<close> registers, in its order.\<close>

definition registered_metrics :: "metric list" where
  "registered_metrics =
     [apiRequestDuration, apiRequestsTotal, oidcTokenRefreshTotal, oidcTokenRefreshDuration,
      probeDeletionTimeoutTotal, operatorInfo]"

lemmas metric_defs = apiRequestDuration_def apiRequestsTotal_def oidcTokenRefreshTotal_def
  oidcTokenRefreshDuration_def probeDeletionTimeoutTotal_def operatorInfo_def

section \<open>Well-labelled uses\<close>

text \<open>A use of a metric is well-labelled if the metric is registered under that name with that type
  and with as many labels as there are values.\<close>

definition well_labelled :: "metric_type \<Rightarrow> string \<Rightarrow> string list \<Rightarrow> bool" where
  "well_labelled ty name values \<longleftrightarrow>
     list_ex (\<lambda>m. mt_type m = ty \<and> mt_Name m = name \<and> length (mt_labels m) = length values)
       registered_metrics"

text \<open>The same outside world, except that a use of a metric that is not well-labelled does something
  else: whatever \<open>crash\<close> does.\<close>

definition strict :: "('w, unit) io \<Rightarrow> 'w Net \<Rightarrow> 'w Net" where
  "strict crash N = N
     \<lparr>metric_Inc := (\<lambda>m ls. if well_labelled Counter m ls then metric_Inc N m ls else crash),
      metric_Observe := (\<lambda>m ls v. if well_labelled Histogram m ls then metric_Observe N m ls v else crash),
      metric_Set := (\<lambda>m ls v. if well_labelled Gauge m ls then metric_Set N m ls v else crash)\<rparr>"

lemma strict_fields [simp]:
  "now (strict crash N) = now N" "http_Do (strict crash N) = http_Do N"
  "tls_Dial (strict crash N) = tls_Dial N"
  by (simp_all add: strict_def)

named_theorems strict_simps \<open>computations that do not notice whether metrics are checked\<close>

lemma strict_metrics [strict_simps]:
  "RecordAPIRequest (strict crash N) = RecordAPIRequest N"
  "RecordOIDCTokenRefresh (strict crash N) = RecordOIDCTokenRefresh N"
  "RecordProbeDeletionTimeout (strict crash N) = RecordProbeDeletionTimeout N"
  "SetInfo (strict crash N) = SetInfo N"
  by (simp_all add: fun_eq_iff strict_def RecordAPIRequest_def RecordOIDCTokenRefresh_def
      RecordProbeDeletionTimeout_def SetInfo_def well_labelled_def registered_metrics_def metric_defs)

text \<open>Every other computation uses metrics through these, the clock and HTTP only.\<close>

lemma strict_timed [strict_simps]: "timed (strict crash N) = timed N"
  by (intro ext) (simp add: timed_def)

lemma strict_rhobs_tokens [strict_simps]:
  "token_fresh (strict crash N) = token_fresh N"
  "NewClusterProbeRequest (strict crash N) = NewClusterProbeRequest N"
  "refreshAccessToken (strict crash N) = refreshAccessToken N"
  by (unfold token_fresh_def NewClusterProbeRequest_def refreshAccessToken_def
      strict_simps strict_fields, (rule refl)+)

lemma strict_rhobs_auth [strict_simps]: "GetAccessToken (strict crash N) = GetAccessToken N"
  by (unfold GetAccessToken_def strict_simps strict_fields, rule refl)

lemma strict_rhobs_headers [strict_simps]: "addAuthHeaders (strict crash N) = addAuthHeaders N"
  by (unfold addAuthHeaders_def strict_simps strict_fields, rule refl)

lemma strict_rhobs_authorized [strict_simps]: "authorized (strict crash N) = authorized N"
  by (unfold authorized_def strict_simps strict_fields, rule refl)

lemma strict_rhobs_requests [strict_simps]:
  "CreateProbe (strict crash N) = CreateProbe N"
  "GetProbe (strict crash N) = GetProbe N"
  "UpdateProbeLabels (strict crash N) = UpdateProbeLabels N"
  "terminate_probe (strict crash N) = terminate_probe N"
  by (unfold CreateProbe_def GetProbe_def UpdateProbeLabels_def terminate_probe_def
      strict_simps strict_fields, (rule refl)+)

lemma strict_rhobs_delete [strict_simps]: "DeleteProbe (strict crash N) = DeleteProbe N"
  by (unfold DeleteProbe_def strict_simps strict_fields, rule refl)

lemma strict_dynatrace_request [strict_simps]: "MakeRequest (strict crash N) = MakeRequest N"
  by (unfold MakeRequest_def strict_fields, rule refl)

lemma strict_dynatrace [strict_simps]:
  "ListDynatraceHttpMonitorsForCluster (strict crash N) = ListDynatraceHttpMonitorsForCluster N"
  "GetDynatraceHttpMonitor (strict crash N) = GetDynatraceHttpMonitor N"
  "GetLocationEntityIdFromDynatrace (strict crash N) = GetLocationEntityIdFromDynatrace N"
  "CreateDynatraceHttpMonitor (strict crash N) = CreateDynatraceHttpMonitor N"
  "DeleteSingleMonitor (strict crash N) = DeleteSingleMonitor N"
  by (unfold ListDynatraceHttpMonitorsForCluster_def GetDynatraceHttpMonitor_def
      GetLocationEntityIdFromDynatrace_def CreateDynatraceHttpMonitor_def DeleteSingleMonitor_def
      strict_simps, (rule refl)+)

lemma strict_delete_monitors [strict_simps]:
  "delete_monitors (strict crash N) c ms = delete_monitors N c ms"
  "removeDyntraceMonitors (strict crash N) c ms = removeDyntraceMonitors N c ms"
  by (induction ms; simp add: strict_simps)+

lemma strict_delete_by_cluster [strict_simps]:
  "DeleteDynatraceMonitorByCluserId (strict crash N) = DeleteDynatraceMonitorByCluserId N"
  by (unfold DeleteDynatraceMonitorByCluserId_def strict_simps, rule refl)

lemma strict_monitors [strict_simps]: "settle_monitors (strict crash N) = settle_monitors N"
  by (unfold settle_monitors_def strict_simps, rule refl)

lemma strict_synthetics [strict_simps]:
  "deployDynatraceHttpMonitorResources (strict crash N) = deployDynatraceHttpMonitorResources N"
  "deleteDynatraceHttpMonitorResources (strict crash N) = deleteDynatraceHttpMonitorResources N"
  "drop_probe (strict crash N) = drop_probe N"
  "create_probe (strict crash N) = create_probe N"
  "deleteRHOBSProbe (strict crash N) = deleteRHOBSProbe N"
  by (unfold deployDynatraceHttpMonitorResources_def deleteDynatraceHttpMonitorResources_def
      drop_probe_def create_probe_def deleteRHOBSProbe_def strict_simps, (rule refl)+)

lemma strict_refresh [strict_simps]: "refresh_probe (strict crash N) = refresh_probe N"
  by (unfold refresh_probe_def strict_simps strict_fields, rule refl)

lemma strict_ensure_probe [strict_simps]: "ensureRHOBSProbe E (strict crash N) = ensureRHOBSProbe E N"
  by (unfold ensureRHOBSProbe_def strict_simps, rule refl)

lemma strict_healthcheck [strict_simps]:
  "endpointOK (strict crash N) = endpointOK N" "olderThan (strict crash N) = olderThan N"
  "isKubeAPIServerReachable (strict crash N) = isKubeAPIServerReachable N"
  by (unfold endpointOK_def olderThan_def isKubeAPIServerReachable_def strict_fields, (rule refl)+)

lemma strict_healthcheck_hcp [strict_simps]:
  "healthcheckHostedControlPlane (strict crash N) = healthcheckHostedControlPlane N"
  by (unfold healthcheckHostedControlPlane_def strict_simps, rule refl)

lemma strict_ready [strict_simps]: "hcpReady E (strict crash N) = hcpReady E N"
  by (unfold hcpReady_def strict_simps, rule refl)

lemma strict_steps [strict_simps]:
  "delete_probe_step (strict crash N) = delete_probe_step N"
  "delete_dynatrace_step (strict crash N) = delete_dynatrace_step N"
  "reconcile_monitors E (strict crash N) = reconcile_monitors E N"
  "tls_step E (strict crash N) = tls_step E N"
  by (unfold delete_probe_step_def delete_dynatrace_step_def reconcile_monitors_def
      tls_step_def strict_simps strict_fields, (rule refl)+)

lemma strict_reconciles [strict_simps]:
  "reconcile_deletion E (strict crash N) = reconcile_deletion E N"
  "reconcile_live E (strict crash N) = reconcile_live E N"
  by (unfold reconcile_deletion_def reconcile_live_def strict_simps, (rule refl)+)

section \<open>Properties\<close>

text \<open>C18. No metric is ever misused: whatever a use of a metric under a wrong name, with the wrong type
  or the wrong number of label values would do, a reconcile of a hosted control plane and the recording
  of the version behave as if it did nothing special, so they never make such a use; and the names
  under which metrics are registered are pairwise different.\<close>

theorem metrics_well_labelled:
  "hcp_Reconcile E (strict crash N) fallback req = hcp_Reconcile E N fallback req \<and>
   SetInfo (strict crash N) version = SetInfo N version \<and> distinct (map mt_Name registered_metrics)"
proof (intro conjI)
  show "hcp_Reconcile E (strict crash N) fallback req = hcp_Reconcile E N fallback req"
    by (unfold hcp_Reconcile_def strict_simps, rule refl)
  show "SetInfo (strict crash N) version = SetInfo N version" by (simp add: strict_simps)
  show "distinct (map mt_Name registered_metrics)" by (simp add: registered_metrics_def metric_defs)
qed

end
