(* ===== verification/Operator_Witnesses.thy ===== *)
theory Operator_Witnesses
  imports Hcp_Witnesses Operator_Events Rhobs_Metrics
begin

text \<open>
  The properties of start-up and of events at concrete inputs: a manager that keeps a journal of the
  calls and answers them, next to the in-memory API server.
\<close>

section \<open>A manager\<close>

abbreviation mem_call :: "manager_call \<Rightarrow> ('c \<times> (manager_call \<times> bool) list, go_error option) io" where
  "mem_call c \<equiv> State (\<lambda>(s, l). (None, (s, l @ [(c, True)])))"

definition mem_manager :: "('c \<times> (manager_call \<times> bool) list) Manager" where
  "mem_manager =
     \<lparr>mgr_New = (\<lambda>opts. mem_call (Call_New opts)), mgr_LabelSelectorPredicate = (\<lambda>s. mem_call (Call_Selector s)),
      mgr_Complete = (\<lambda>c. mem_call (Call_Complete (ct_For c))),
      mgr_AddHealthzCheck = (\<lambda>s. mem_call (Call_Healthz s)), mgr_AddReadyzCheck = (\<lambda>s. mem_call (Call_Readyz s)),
      mgr_Start = mem_call Call_Start\<rparr>"

definition quiet_net :: "'w Net" where
  "quiet_net =
     \<lparr>now = ret 0, http_Do = (\<lambda>v r. ret (Inl (errors_New []))), tls_Dial = (\<lambda>a. ret None),
      metric_Inc = (\<lambda>m ls. ret ()), metric_Observe = (\<lambda>m ls v. ret ()), metric_Set = (\<lambda>m ls v. ret ())\<rparr>"

lemma mem_manager_logs: "manager_logs mem_manager (ret None) mem_env quiet_net snd"
  by (auto simp: manager_logs_def mem_manager_def traces_def wp_def mem_env_def mem_kube_def request_def
      quiet_net_def split: option.split)

definition hypershift_cluster :: cluster where
  "hypershift_cluster = empty_cluster\<lparr>c_crd := [(crd_key, \<lparr>obj_type = empty_type,
     obj_meta = empty_meta\<lparr>om_name := ''hostedcontrolplanes.hypershift.openshift.io''\<rparr>, obj_spec = (), obj_status = ()\<rparr>)]\<rparr>"

lemma ok_hypershift: "ok_world mem_env fst (hypershift_cluster, x)"
  by (rule ok_world_mem) (simp add: wf_cluster_def hypershift_cluster_def empty_cluster_def wf_store_def
      crd_key_def empty_meta_def live_or_held_def obj_key_def)

theorem startup_order_witness:
  "wp (main mem_manager (ret None) mem_env quiet_net ''v'' [] () [''--leader-elect'']) (\<lambda>e w'.
     ran (startup_calls (manager_options ((default_vars ())\<lparr>enableLeaderElection := True\<rparr>) True) True) e (snd w'))
   (hypershift_cluster, [])"
proof -
  have "flag_Parse (command_line []) [''--leader-elect''] (default_vars ()) =
      ParseOk ((default_vars ())\<lparr>enableLeaderElection := True\<rparr>) []"
    by (simp add: classify_def command_line_def own_flags_def StringVar_def BoolVar_def ParseBool_def)
  moreover have "reads (ok_world mem_env fst) fst (ret None)" by (rule reads_ret)
  moreover have "map_of (c_crd (fst (hypershift_cluster, []))) crd_key \<noteq> None"
    by (simp add: hypershift_cluster_def)
  ultimately show ?thesis
    using mem_api_reliable
    by (intro wp_mono [OF startup_order [OF mem_manager_logs _ ok_hypershift]])
      (auto simp: yields_return simp del: flag_Parse.simps)
qed

section \<open>Events\<close>

definition mem_gk :: "Kind \<Rightarrow> string \<times> string" where
  "mem_gk K =
     (if K = K_RouteMonitor then (''monitoring.openshift.io'', ''RouteMonitor'')
      else if K = K_ClusterUrlMonitor then (''monitoring.openshift.io'', ''ClusterUrlMonitor'')
      else if K = K_HostedControlPlane then (''hypershift.openshift.io'', ''HostedControlPlane'')
      else ([], []))"

definition mem_events :: EventLib where
  "mem_events =
     \<lparr>el_OwnerRequests = (\<lambda>K b m. case find or_controller (om_ownerReferences m) of
        None \<Rightarrow> []
      | Some o' \<Rightarrow> if (api_group (or_apiVersion o'), or_kind o') = mem_gk K
                  then [\<lparr>nn_name = or_name o', nn_namespace = om_namespace m\<rparr>] else []),
      el_LabelExists = (\<lambda>k m. fmlookup (om_labels m) k \<noteq> None)\<rparr>"

lemma mem_events_ok: "event_lib_ok mem_events mem_gk"
  by (simp add: event_lib_ok_def mem_events_def)

lemma mem_controller_ref: "controller_ref_ok mem_libs"
  by (simp add: controller_ref_ok_def mem_libs_def)

definition typed :: "string \<Rightarrow> string \<Rightarrow> ('s, 't) kobj \<Rightarrow> ('s, 't) kobj" where
  "typed apiVersion kind x = x\<lparr>obj_type := \<lparr>tm_kind = kind, tm_apiVersion = apiVersion\<rparr>\<rparr>"

lemma typed_kinds:
  "of_kind mem_gk K_RouteMonitor (obj_type (typed ''monitoring.openshift.io/v1alpha1'' ''RouteMonitor'' x))"
  "of_kind mem_gk K_ClusterUrlMonitor (obj_type (typed ''monitoring.openshift.io/v1alpha1'' ''ClusterUrlMonitor'' y))"
  "of_kind mem_gk K_HostedControlPlane (obj_type (typed ''hypershift.openshift.io/v1beta1'' ''HostedControlPlane'' z))"
  by (simp_all add: of_kind_def typed_def mem_gk_def api_group_def)

theorem events_reach_owner_witness:
  "event_requests mem_events (hcp_controller (NewHostedControlPlaneReconciler mem_env quiet_net no_config)) K_Route
     (obj_meta (buildInternalMonitoringRoute mem_libs
        (typed ''hypershift.openshift.io/v1beta1'' ''HostedControlPlane'' (an_hcp None None)))) =
   (ret [hcp_key] :: (cluster \<times> unit, _) io)"
proof -
  have "obj_key (typed ''hypershift.openshift.io/v1beta1'' ''HostedControlPlane'' (an_hcp None None)) = hcp_key"
    by (simp add: typed_def an_hcp_def obj_key_def hcp_key_def)
  moreover have "mem_gk K_RouteMonitor \<noteq> mem_gk K_ClusterUrlMonitor" by (simp add: mem_gk_def)
  note events_reach_owner [where r = "NewReconciler mem_env [] [] False [] :: (cluster \<times> unit) RouteMonitorReconciler"
        and r' = "CUM_NewReconciler mem_env [] [] False [] :: (cluster \<times> unit) ClusterUrlMonitorReconciler"
        and r'' = "NewHostedControlPlaneReconciler mem_env quiet_net no_config",
        OF mem_events_ok mem_controller_ref this typed_kinds(1) [of empty_RouteMonitor]
          typed_kinds(2) [of empty_ClusterUrlMonitor] typed_kinds(3) [of "an_hcp None None"],
        THEN conjunct2, THEN conjunct2, THEN conjunct1]
  ultimately show ?thesis by (simp add: all_requests_def)
qed

theorem config_change_requeues_all_witness:
  "wp (event_requests mem_events (hcp_controller (NewHostedControlPlaneReconciler mem_env quiet_net no_config))
     K_ConfigMap (obj_meta (a_config []))) (\<lambda>reqs _. reqs = [hcp_key]) (hcp_world (an_hcp None None))"
  by (rule wp_mono [OF config_change_requeues_all [OF ok_hcp_world mem_api_reliable]])
    (simp add: a_config_def hcp_world_def)

end
