(* ===== verification/Integration_Harness.thy ===== *)
theory Integration_Harness
  imports Route_Monitor Go_Net
begin

text \<open>
  int/integration.go: the client with which the integration tests drive a cluster in which the operator
  runs.  Its loops read an object once a second until it has appeared, has changed or is gone.  The
  runtime of a test is a parameter: the clock that sleeps, during which everyone else may act, the test
  framework, and the manager that provides the client (made with \<open>GetConfigOrDie\<close>, which may end the
  process).  A failed \<open>Must\<close> or \<open>Fail\<close> ends the test with a panic.
\<close>

section \<open>The runtime of a test\<close>

record 'w TestRuntime =
  rt_Sleep :: "int \<Rightarrow> ('w, unit) io"
  rt_Fail :: "string \<Rightarrow> int \<Rightarrow> ('w, unit) io"  \<comment> \<open>the message and the number of callers to skip; it panics\<close>
  rt_AddToScheme :: "string \<Rightarrow> ('w, go_error option) io"
  rt_NewManager :: "string list \<Rightarrow> ('w, go_error + 'w Env) io"  \<comment> \<open>the client of the manager\<close>
  rt_StartCache :: "('w, unit) io"  \<comment> \<open>in the background, until the context is cancelled\<close>
  rt_Cancel :: "('w, unit) io"

record 'w Integration =
  in_Client :: "'w Env"
  in_cancelFunc :: "('w, unit) io"

definition harness_scheme :: "string list" where
  "harness_scheme = [''clientgoscheme'', ''rmov1alpha1'', ''monitoringv1'', ''routev1'', ''configv1'', ''operatorv1'',
     ''rmov1alpha1'', ''hypershiftv1beta1'', ''rhobsv1'', ''apiextensionsv1'']"

fun add_to_scheme :: "'w TestRuntime \<Rightarrow> string list \<Rightarrow> ('w, unit outcome) io" where
  "add_to_scheme T [] = ret (Returns ())"
| "add_to_scheme T (p # ps) =
     do { e \<leftarrow> rt_AddToScheme T p;
          (case e of Some err \<Rightarrow> ret Panics | None \<Rightarrow> add_to_scheme T ps) }"

definition NewIntegration :: "'w TestRuntime \<Rightarrow> ('w, (go_error + 'w Integration) outcome) io" where
  "NewIntegration T =
     do { s \<leftarrow> add_to_scheme T harness_scheme;
          (case s of
             Panics \<Rightarrow> ret Panics
           | Returns _ \<Rightarrow>
               do { m \<leftarrow> rt_NewManager T harness_scheme;
                    (case m of
                       Inl err \<Rightarrow> ret (Returns (Inl err))
                     | Inr client \<Rightarrow>
                         do { _ \<leftarrow> rt_StartCache T;
                              _ \<leftarrow> rt_Sleep T (2 * Second);
                              ret (Returns (Inr \<lparr>in_Client = client, in_cancelFunc = rt_Cancel T\<rparr>)) }) }) }"

definition Shutdown :: "'w Integration \<Rightarrow> ('w, unit) io" where
  "Shutdown i = in_cancelFunc i"

section \<open>Loops\<close>

text \<open>At most \<open>n\<close> rounds of a body that may leave the loop with \<open>Inl\<close>, and a second's sleep after each
  round that does not: \<open>Inr\<close> is the state of the variables when the rounds have run out.\<close>

fun poll :: "'w TestRuntime \<Rightarrow> nat \<Rightarrow> ('s \<Rightarrow> ('w, 'r + 's) io) \<Rightarrow> 's \<Rightarrow> ('w, 'r + 's) io" where
  "poll T 0 body s = ret (Inr s)"
| "poll T (Suc n) body s =
     do { r \<leftarrow> body s;
          (case r of
             Inl x \<Rightarrow> ret (Inl x)
           | Inr s' \<Rightarrow> do { _ \<leftarrow> rt_Sleep T Second; poll T n body s' }) }"

text \<open>\<open>Get\<close> reads into a variable, which keeps its value when the request fails.\<close>

definition get_into ::
    "('s, 't, 'w) kube \<Rightarrow> NamespacedName \<Rightarrow> ('s, 't) kobj \<Rightarrow> ('w, ('s, 't) kobj \<times> go_error option) io" where
  "get_into K k x = do { g \<leftarrow> kube_Get K k; ret (case g of Inl e \<Rightarrow> (x, Some e) | Inr y \<Rightarrow> (y, None)) }"

definition is_not_found :: "go_error option \<Rightarrow> bool" where
  "is_not_found err = (case err of None \<Rightarrow> False | Some e \<Rightarrow> IsNotFound e)"

lemma is_not_found_simps [simp]: "\<not> is_not_found None" "is_not_found (Some e) = IsNotFound e"
  by (simp_all add: is_not_found_def)

section \<open>Removing a monitor\<close>

definition maxRetries :: nat where "maxRetries = 20"

definition RemoveClusterUrlMonitor ::
    "'w TestRuntime \<Rightarrow> 'w Integration \<Rightarrow> string \<Rightarrow> string \<Rightarrow> ('w, go_error option outcome) io" where
  "RemoveClusterUrlMonitor T i namespace name =
     (let namespacedName = \<lparr>nn_name = name, nn_namespace = namespace\<rparr> in
      do { (clusterUrlMonitor, err) \<leftarrow> get_into (cum_api (in_Client i)) namespacedName empty_ClusterUrlMonitor;
           if is_not_found err then ret (Returns None)
           else if err \<noteq> None then ret (Returns err)
           else do { err \<leftarrow> kube_Delete (cum_api (in_Client i)) clusterUrlMonitor;
             if err \<noteq> None then ret (Returns err)
             else do { t \<leftarrow> poll T maxRetries (\<lambda>x.
                         do { (y, err) \<leftarrow> get_into (cum_api (in_Client i)) namespacedName x;
                              ret (if is_not_found err then Inl () else Inr y) }) clusterUrlMonitor;
                       (case t of
                          Inl _ \<Rightarrow> ret (Returns err)
                        | Inr _ \<Rightarrow> do { _ \<leftarrow> rt_Fail T ''ClusterUrlMonitor wasn't removed after %d seconds'' (int maxRetries);
                                     ret Panics }) } } })"

definition RemoveRouteMonitor ::
    "'w TestRuntime \<Rightarrow> 'w Integration \<Rightarrow> string \<Rightarrow> string \<Rightarrow> ('w, go_error option outcome) io" where
  "RemoveRouteMonitor T i namespace name =
     (let namespacedName = \<lparr>nn_name = name, nn_namespace = namespace\<rparr> in
      do { (routeMonitor, err) \<leftarrow> get_into (rm_api (in_Client i)) namespacedName empty_RouteMonitor;
           if is_not_found err then ret (Returns None)
           else if err \<noteq> None then ret (Returns err)
           else do { err \<leftarrow> kube_Delete (rm_api (in_Client i)) routeMonitor;
             if err \<noteq> None then ret (Returns err)
             else do { t \<leftarrow> poll T maxRetries (\<lambda>x.
                         do { (y, err) \<leftarrow> get_into (rm_api (in_Client i)) namespacedName x;
                              ret (if is_not_found err then Inl () else Inr y) }) routeMonitor;
                       (case t of
                          Inl _ \<Rightarrow> ret (Returns err)
                        | Inr _ \<Rightarrow> do { _ \<leftarrow> rt_Fail T ''RouteMonitor wasn't removed after %d seconds'' (int maxRetries);
                                     ret Panics }) } } })"

section \<open>Waiting for objects\<close>

definition empty_ServiceMonitor :: ServiceMonitor where
  "empty_ServiceMonitor = \<lparr>obj_type = empty_type, obj_meta = empty_meta,
     obj_spec = \<lparr>sms_endpoints = [], sms_selector = fmempty, sms_namespaces = []\<rparr>, obj_status = ()\<rparr>"

definition empty_PrometheusRule :: PrometheusRule where
  "empty_PrometheusRule = \<lparr>obj_type = empty_type, obj_meta = empty_meta, obj_spec = [], obj_status = ()\<rparr>"

text \<open>The comparison of the counter with \<open>seconds\<close> after a loop whose rounds have run out: a negative
  number of seconds is not a number of rounds.\<close>

definition ran_out :: "int \<Rightarrow> string \<Rightarrow> go_error option" where
  "ran_out seconds msg = (if 0 \<le> seconds then Some (errors_New (msg @ itoa seconds @ '' seconds'')) else None)"

definition WaitForServiceMonitor ::
    "'w TestRuntime \<Rightarrow> 'w Integration \<Rightarrow> NamespacedName \<Rightarrow> int \<Rightarrow> ('w, ServiceMonitor \<times> go_error option) io" where
  "WaitForServiceMonitor T i name seconds =
     do { t \<leftarrow> poll T (nat seconds) (\<lambda>serviceMonitor.
            do { (serviceMonitor, err) \<leftarrow> get_into (sm_api (in_Client i)) name serviceMonitor;
                 ret (if \<not> is_not_found err then Inl serviceMonitor else Inr serviceMonitor) }) empty_ServiceMonitor;
          ret (case t of
             Inl serviceMonitor \<Rightarrow> (serviceMonitor, None)
           | Inr serviceMonitor \<Rightarrow> (serviceMonitor, ran_out seconds ''ServiceMonitor didn't appear after '')) }"

definition WaitForPrometheusRule ::
    "'w TestRuntime \<Rightarrow> 'w Integration \<Rightarrow> NamespacedName \<Rightarrow> int \<Rightarrow> ('w, PrometheusRule \<times> go_error option) io" where
  "WaitForPrometheusRule T i name seconds =
     do { t \<leftarrow> poll T (nat seconds) (\<lambda>prometheusRule.
            do { (prometheusRule, err) \<leftarrow> get_into (pr_api (in_Client i)) name prometheusRule;
                 ret (if \<not> is_not_found err then Inl prometheusRule else Inr prometheusRule) }) empty_PrometheusRule;
          ret (case t of
             Inl prometheusRule \<Rightarrow> (prometheusRule, None)
           | Inr prometheusRule \<Rightarrow> (prometheusRule, ran_out seconds ''PrometheusRule didn't appear after '')) }"

definition RouteMonitorWaitForPrometheusRuleRef ::
    "'w TestRuntime \<Rightarrow> 'w Integration \<Rightarrow> NamespacedName \<Rightarrow> int \<Rightarrow> ('w, RouteMonitor \<times> go_error option) io" where
  "RouteMonitorWaitForPrometheusRuleRef T i name seconds =
     do { t \<leftarrow> poll T (nat seconds) (\<lambda>routeMonitor.
            do { (routeMonitor, err) \<leftarrow> get_into (rm_api (in_Client i)) name routeMonitor;
                 ret (if nn_name (rmst_prometheusRuleRef (obj_status routeMonitor)) \<noteq> [] \<or> err \<noteq> None
                      then Inl (routeMonitor, err) else Inr routeMonitor) }) empty_RouteMonitor;
          ret (case t of
             Inl r \<Rightarrow> r
           | Inr routeMonitor \<Rightarrow> (routeMonitor, ran_out seconds ''PrometheusRuleRef didn't appear after '')) }"

definition ClusterUrlMonitorWaitForPrometheusRuleRef ::
    "'w TestRuntime \<Rightarrow> 'w Integration \<Rightarrow> NamespacedName \<Rightarrow> int \<Rightarrow> ('w, ClusterUrlMonitor \<times> go_error option) io" where
  "ClusterUrlMonitorWaitForPrometheusRuleRef T i name seconds =
     do { t \<leftarrow> poll T (nat seconds) (\<lambda>clusterUrlMonitor.
            do { (clusterUrlMonitor, err) \<leftarrow> get_into (cum_api (in_Client i)) name clusterUrlMonitor;
                 ret (if nn_name (cumst_prometheusRuleRef (obj_status clusterUrlMonitor)) \<noteq> [] \<or> err \<noteq> None
                      then Inl (clusterUrlMonitor, err) else Inr clusterUrlMonitor) }) empty_ClusterUrlMonitor;
          ret (case t of
             Inl r \<Rightarrow> r
           | Inr clusterUrlMonitor \<Rightarrow> (clusterUrlMonitor, ran_out seconds ''PrometheusRuleRef didn't appear after '')) }"

definition WaitForPrometheusRuleToClear ::
    "'w TestRuntime \<Rightarrow> 'w Integration \<Rightarrow> NamespacedName \<Rightarrow> int \<Rightarrow> ('w, go_error option) io" where
  "WaitForPrometheusRuleToClear T i name seconds =
     do { t \<leftarrow> poll T (nat seconds) (\<lambda>prometheusRule.
            do { (prometheusRule, err) \<leftarrow> get_into (pr_api (in_Client i)) name prometheusRule;
                 ret (if is_not_found err then Inl () else Inr prometheusRule) }) empty_PrometheusRule;
          ret (case t of
             Inl _ \<Rightarrow> None
           | Inr _ \<Rightarrow> ran_out seconds ''PrometheusRule didn't vanish after '') }"

section \<open>Waiting for an SLO\<close>

text \<open>The rounds that both functions below end with.\<close>

definition wait_for_spec ::
    "'w TestRuntime \<Rightarrow> 'w Integration \<Rightarrow> NamespacedName \<Rightarrow> RuleGroup list \<Rightarrow> int \<Rightarrow> PrometheusRule
       \<Rightarrow> ('w, go_error option) io" where
  "wait_for_spec T i name spec seconds prometheusRule =
     do { t \<leftarrow> poll T (nat seconds) (\<lambda>prometheusRule.
            do { (prometheusRule, err) \<leftarrow> get_into (pr_api (in_Client i)) name prometheusRule;
                 ret (if is_not_found err then Inl (Some (errors_New ''PrometheusRule wasn't found''))
                      else if spec = obj_spec prometheusRule then Inl None
                      else Inr prometheusRule) }) prometheusRule;
          ret (case t of
             Inl err \<Rightarrow> err
           | Inr _ \<Rightarrow> ran_out seconds ''PrometheusRule wasn't updated with the correct SLO after '') }"

definition RouteMonitorWaitForPrometheusRuleCorrectSLO ::
    "'w TestRuntime \<Rightarrow> 'w Integration \<Rightarrow> NamespacedName \<Rightarrow> string \<Rightarrow> int \<Rightarrow> ('w, go_error option) io" where
  "RouteMonitorWaitForPrometheusRuleCorrectSLO T i name targetSlo seconds =
     do { (prometheusRule, err) \<leftarrow> get_into (pr_api (in_Client i)) name empty_PrometheusRule;
          if is_not_found err then ret (Some (errors_New ''PrometheusRule wasn't found''))
          else if err \<noteq> None then ret err
          else do { (routeMonitor, err) \<leftarrow> get_into (rm_api (in_Client i)) name empty_RouteMonitor;
                    if is_not_found err then ret (Some (errors_New ''RouteMonitor wasn't found''))
                    else if err \<noteq> None then ret err
                    else let tmpl = TemplateForPrometheusRuleResource (libs (in_Client i))
                                      (rmst_routeURL (obj_status routeMonitor)) targetSlo name in
                         wait_for_spec T i name (obj_spec tmpl) seconds prometheusRule } }"

definition ClusterUrlMonitorWaitForPrometheusRuleCorrectSLO ::
    "'w TestRuntime \<Rightarrow> 'w Integration \<Rightarrow> NamespacedName \<Rightarrow> string \<Rightarrow> int \<Rightarrow> string \<Rightarrow> ('w, go_error option) io" where
  "ClusterUrlMonitorWaitForPrometheusRuleCorrectSLO T i name targetSlo seconds expectedUrl =
     do { (prometheusRule, err) \<leftarrow> get_into (pr_api (in_Client i)) name empty_PrometheusRule;
          if is_not_found err then ret (Some (errors_New ''PrometheusRule wasn't found''))
          else if err \<noteq> None then ret err
          else do { (clusterUrlMonitor, err) \<leftarrow> get_into (cum_api (in_Client i)) name empty_ClusterUrlMonitor;
                    if is_not_found err then ret (Some (errors_New ''ClusterUrlMonitor wasn't found''))
                    else if err \<noteq> None then ret err
                    else let tmpl = TemplateForPrometheusRuleResource (libs (in_Client i)) expectedUrl targetSlo name in
                         wait_for_spec T i name (obj_spec tmpl) seconds prometheusRule } }"

section \<open>A server that answers lets a deletion through\<close>

lemma wp_ensure_absent_clean:
  assumes ok: "ok_world E snap w" and laws: "kube_laws snap fld upd K" and lens: "lens fld upd"
    and wf: "\<And>c. wf_cluster c \<Longrightarrow> wf_store (fld c)" and rel: "kube_reliable K"
  shows "wp (ensure_absent K k) (\<lambda>r w'. r = None \<and> ok_world E snap w' \<and> removed fld upd k r (snap w) (snap w')) w"
proof (rule wp_conj [OF _ wp_ensure_absent [OF ok laws lens wf]])
  show "wp (ensure_absent K k) (\<lambda>r _. r = None) w"
    unfolding ensure_absent_def wp_bind
  proof (rule wp_Get_reliable [OF ok laws rel], goal_cases)
    case (2 x w1)
    then have key: "obj_key x = k" using wf_store_key [OF wf [OF ok_world_wf [OF ok]]] by blast
    have "wp (kube_Delete K x) (\<lambda>r _. \<forall>e. r = Some e \<longrightarrow> IsNotFound e) w1"
      using rel by (simp add: kube_reliable_def)
    moreover have "wp (kube_Delete K x) (\<lambda>r _. \<forall>e. r = Some e \<longrightarrow> \<not> IsNotFound e) w1"
      by (rule wp_Delete [OF 2(1) laws]) (use 2 key in auto)
    ultimately show ?case
      unfolding sum.case by (rule wp_mono [OF wp_conj]) (metis not_None_eq)
  qed (simp add: wp_simps)
qed

text \<open>Each step of the deletion of a RouteMonitor before the last leaves the RouteMonitors alone.\<close>

definition held :: "'w Env \<Rightarrow> ('w \<Rightarrow> cluster) \<Rightarrow> RouteMonitor store \<Rightarrow> 'w \<Rightarrow> bool" where
  "held E snap rms w \<longleftrightarrow> ok_world E snap w \<and> c_rm (snap w) = rms"

lemma wp_absent_held:
  assumes "api_reliable E" and "held E snap rms w"
  shows "wp (ensure_absent (svc_api E) k) (\<lambda>r w'. r = None \<and> held E snap rms w') w"
    "wp (ensure_absent (dep_api E) k) (\<lambda>r w'. r = None \<and> held E snap rms w') w"
    "wp (ensure_absent (cm_api E) k) (\<lambda>r w'. r = None \<and> held E snap rms w') w"
    "wp (ensure_absent (sm_api E) k) (\<lambda>r w'. r = None \<and> held E snap rms w') w"
    "wp (ensure_absent (pr_api E) k) (\<lambda>r w'. r = None \<and> held E snap rms w') w"
proof -
  have ok: "ok_world E snap w" and rms: "c_rm (snap w) = rms" using assms(2) by (simp_all add: held_def)
  note laws = ok_world_laws [OF ok] and rel = api_reliable_kinds [OF assms(1)]
  have other: "c_rm d = c_rm c"
    if "changes_only c_svc c_svc_update k c d \<or> changes_only c_dep c_dep_update k c d \<or>
      changes_only c_cm c_cm_update k c d \<or> changes_only c_sm c_sm_update k c d \<or>
      changes_only c_pr c_pr_update k c d" for c d
    using that by (cases c; cases d) (auto simp: changes_only_def)
  show "wp (ensure_absent (svc_api E) k) (\<lambda>r w'. r = None \<and> held E snap rms w') w"
    by (rule wp_mono [OF wp_ensure_absent_clean [OF ok laws(8) cluster_lenses(8) wf_cluster_stores(8) rel(8)]], assumption)
      (use rms other [of "snap w"] in \<open>auto simp: held_def removed_def\<close>)
  show "wp (ensure_absent (dep_api E) k) (\<lambda>r w'. r = None \<and> held E snap rms w') w"
    by (rule wp_mono [OF wp_ensure_absent_clean [OF ok laws(7) cluster_lenses(7) wf_cluster_stores(7) rel(7)]], assumption)
      (use rms other [of "snap w"] in \<open>auto simp: held_def removed_def\<close>)
  show "wp (ensure_absent (cm_api E) k) (\<lambda>r w'. r = None \<and> held E snap rms w') w"
    by (rule wp_mono [OF wp_ensure_absent_clean [OF ok laws(9) cluster_lenses(9) wf_cluster_stores(9) rel(9)]], assumption)
      (use rms other [of "snap w"] in \<open>auto simp: held_def removed_def\<close>)
  show "wp (ensure_absent (sm_api E) k) (\<lambda>r w'. r = None \<and> held E snap rms w') w"
    by (rule wp_mono [OF wp_ensure_absent_clean [OF ok laws(4) cluster_lenses(4) wf_cluster_stores(4) rel(4)]], assumption)
      (use rms other [of "snap w"] in \<open>auto simp: held_def removed_def\<close>)
  show "wp (ensure_absent (pr_api E) k) (\<lambda>r w'. r = None \<and> held E snap rms w') w"
    by (rule wp_mono [OF wp_ensure_absent_clean [OF ok laws(6) cluster_lenses(6) wf_cluster_stores(6) rel(6)]], assumption)
      (use rms other [of "snap w"] in \<open>auto simp: held_def removed_def\<close>)
qed

lemma wp_decision_held:
  assumes "api_reliable E" and "held E snap rms w"
  shows "wp (ShouldDeleteBlackBoxExporterResources E b) (\<lambda>r w'. (\<exists>del. r = Inr del) \<and> held E snap rms w') w"
proof -
  have lists: "wp (kube_List (rm_api E) ns) (\<lambda>r _. \<exists>os. r = Inr os) v"
    "wp (kube_List (cum_api E) ns) (\<lambda>r _. \<exists>os. r = Inr os) v" for ns v
    using api_reliable_kinds(1,2) [OF assms(1)] by (simp_all add: kube_reliable_def)
  have "wp (ShouldDeleteBlackBoxExporterResources E b) (\<lambda>r _. \<exists>del. r = Inr del) w"
    unfolding ShouldDeleteBlackBoxExporterResources_def wp_bind
    by (rule wp_mono [OF lists(1)])
      (auto simp: wp_simps Let_def intro!: wp_mono [OF lists(2)])
  from wp_conj [OF this wp_blackbox_decision [of E snap w b]] show ?thesis
    by (rule wp_mono) (use assms(2) in \<open>auto simp: held_def\<close>)
qed

lemma wp_exporter_held:
  assumes "api_reliable E" and "held E snap rms w"
  shows "wp (EnsureBlackBoxExporterResourcesAbsent E b) (\<lambda>r w'. r = None \<and> held E snap rms w') w"
  unfolding EnsureBlackBoxExporterResourcesAbsent_def wp_bind blackbox_absent
  by (rule wp_mono [OF wp_absent_held(1) [OF assms]])
    (auto simp: wp_bind intro!: wp_mono [OF wp_absent_held(2) [OF assms(1)]] wp_absent_held(3) [OF assms(1)])

text \<open>So does the last one, whose update finds the monitor stored.\<close>

lemma wp_update_clean:
  assumes ok: "ok_world E snap w" and rel: "api_reliable E"
    and x: "map_of (c_rm (snap w)) (obj_key x) = Some old" "\<not> adds_finalizer old x"
  shows "wp (UpdateMonitorResource (rm_api E) x) (\<lambda>(_, err) _. err = None) w"
  unfolding UpdateMonitorResource_def wp_bind
  by (rule wp_mono [OF wp_Update_reliable [OF ok ok_world_laws(1) [OF ok] api_reliable_kinds(1) [OF rel] x]])
    (auto simp: wp_simps StopReconcile_def)

lemma obj_key_finalizer_steps:
  "obj_key (x\<lparr>obj_meta := snd (DeleteFinalizer L (snd (DeleteFinalizer L (obj_meta x) f)) g)\<rparr>) = obj_key x"
  by (simp add: obj_key_def DeleteFinalizer_def Remove_def Let_def)

lemma wp_deletion_clean:
  assumes rel: "api_reliable E" and held: "held E snap rms w" and x: "map_of rms (obj_key x) = Some x"
  shows "wp (EnsureMonitorAndDependenciesAbsent (NewReconciler E img bbns hypershift url) x) (\<lambda>(_, err) _. err = None) w"
proof -
  have fin: "wp (case DeleteFinalizer (libs E) (obj_meta x) FinalizerKey of (deleted, m) \<Rightarrow>
      if deleted then UpdateMonitorResource (rm_api E) (x\<lparr>obj_meta := snd (DeleteFinalizer (libs E) m PrevFinalizerKey)\<rparr>)
      else ret StopReconcile) (\<lambda>(_, err) _. err = None) v" if "held E snap rms v" for v
  proof -
    let ?y = "x\<lparr>obj_meta := snd (DeleteFinalizer (libs E) (snd (DeleteFinalizer (libs E) (obj_meta x) FinalizerKey)) PrevFinalizerKey)\<rparr>"
    have "sets_ok (libs E)" using that by (simp add: held_def ok_world_def)
    then have "\<not> adds_finalizer x ?y"
      using finalizer_step_sets by (auto simp: adds_finalizer_def)
    with that x wp_update_clean [OF _ rel, of snap v ?y x] show ?thesis
      by (auto simp: held_def obj_key_finalizer_steps StopReconcile_def wp_simps split: prod.split)
  qed
  have rule: "wp (DeletePrometheusRuleDeployment E ref) (\<lambda>r v. r = None \<and> held E snap rms v) v"
    "wp (DeleteServiceMonitorDeployment E ref False) (\<lambda>r v. r = None \<and> held E snap rms v) v"
    if "held E snap rms v" for v ref
    using wp_absent_held(4,5) [OF rel that] that
    by (auto simp: DeletePrometheusRuleDeployment_absent DeleteServiceMonitorDeployment_absent wp_return)
  have rest: "wp (do { d \<leftarrow> DeleteServiceMonitorDeployment E (rmst_serviceMonitorRef (obj_status x)) False;
      (case d of Some err \<Rightarrow> ret (RequeueReconcileWith (Some err))
       | None \<Rightarrow> do { p \<leftarrow> DeletePrometheusRuleDeployment E (rmst_prometheusRuleRef (obj_status x));
          (case p of Some err \<Rightarrow> ret (RequeueReconcileWith (Some err))
           | None \<Rightarrow> (case DeleteFinalizer (libs E) (obj_meta x) FinalizerKey of (deleted, m) \<Rightarrow>
              if deleted then UpdateMonitorResource (rm_api E) (x\<lparr>obj_meta := snd (DeleteFinalizer (libs E) m PrevFinalizerKey)\<rparr>)
              else ret StopReconcile)) }) }) (\<lambda>(_, err) _. err = None) v" if "held E snap rms v" for v
    unfolding wp_bind
    by (rule wp_mono [OF rule(2) [OF that]])
      (auto simp: wp_bind intro!: wp_mono [OF rule(1)] fin)
  show ?thesis
    unfolding EnsureMonitorAndDependenciesAbsent_def NewReconciler_fields common_methods Let_def
      NewServiceMonitor_def NewPrometheusRule_def BlackBoxExporter_methods_def
      PrometheusRuleHandler.simps ServiceMonitorHandler.simps BlackBoxExporterHandler.simps wp_bind [of "ShouldDeleteBlackBoxExporterResources E _"]
  proof (rule wp_mono [OF wp_decision_held [OF rel held]], goal_cases)
    case (1 r v)
    then obtain del where r: "r = Inr del" and v: "held E snap rms v" by blast
    show ?case
    proof (cases del)
      case True
      show ?thesis
        unfolding r sum.case if_P [OF True] wp_bind [of "EnsureBlackBoxExporterResourcesAbsent E _"]
        by (rule wp_mono [OF wp_exporter_held [OF rel v]]) (auto intro!: rest)
    next
      case False
      show ?thesis unfolding r sum.case using rest [OF v] False by simp
    qed
  qed
qed

text \<open>The monitor whose last finalizers are the operator's is stored no more.\<close>

lemma rm_dropped_last:
  fixes rm :: RouteMonitor
  assumes d: "rm_dropped rm c d" and rm: "map_of (c_rm c) (obj_key rm) = Some rm"
    and del: "om_deletionTimestamp (obj_meta rm) \<noteq> None"
    and fins: "FinalizerKey \<in> set (om_finalizers (obj_meta rm))"
      "set (om_finalizers (obj_meta rm)) \<subseteq> {FinalizerKey, PrevFinalizerKey}"
  shows "map_of (c_rm d) (obj_key rm) = None"
proof -
  from d obtain m where m: "set (om_finalizers m) = set (om_finalizers (obj_meta rm)) - {FinalizerKey, PrevFinalizerKey}"
    "m\<lparr>om_finalizers := []\<rparr> = (obj_meta rm)\<lparr>om_finalizers := []\<rparr>"
    and sp: "spec_updated c_rm c_rm_update (rm\<lparr>obj_meta := m\<rparr>) c d"
    unfolding finalizers_dropped_def if_P [OF fins(1)] by (elim exE conjE) (rule that)
  have "om_finalizers m = []" using m(1) fins(2) by (metis Diff_eq_empty_iff set_empty)
  with sp rm obtain n where "om_finalizers (obj_meta n) = []" "same_server_meta (obj_meta n) (obj_meta rm)"
    "d = c_rm_update (settle (obj_key rm) n) c"
    by (auto simp: spec_updated_def same_sent_meta_def obj_key_finalizers [OF m(2)])
  then show ?thesis using del
    by (simp add: map_of_settle live_or_held_def same_server_meta_def)
qed

text \<open>One handling of a RouteMonitor that is being deleted ends the deletion.\<close>

lemma wp_Reconcile_completes:
  fixes rm :: RouteMonitor
  assumes ok: "ok_world E snap w" and rel: "api_reliable E" and rm: "map_of (c_rm (snap w)) k = Some rm"
    and del: "WasDeleteRequested (obj_meta rm)"
    and fins: "FinalizerKey \<in> set (om_finalizers (obj_meta rm))"
      "set (om_finalizers (obj_meta rm)) \<subseteq> {FinalizerKey, PrevFinalizerKey}"
  defines "s \<equiv> rmst_serviceMonitorRef (obj_status rm)" and "p \<equiv> rmst_prometheusRuleRef (obj_status rm)"
  shows "wp (Reconcile (NewReconciler E img bbns hypershift url) k) (\<lambda>(_, err) w'. err = None \<and> ok_world E snap w' \<and>
    map_of (c_rm (snap w')) k = None \<and> (s \<noteq> nn_empty \<longrightarrow> gone c_sm s (snap w')) \<and>
    (p \<noteq> nn_empty \<longrightarrow> gone c_pr p (snap w'))) w"
proof -
  let ?r = "NewReconciler E img bbns hypershift url"
  have key: "obj_key rm = k" using wf_store_key [OF wf_cluster_stores(1) [OF ok_world_wf [OF ok]] rm] .
  have ne: "rm \<noteq> empty_RouteMonitor"
    using del by (auto simp: WasDeleteRequested_def empty_RouteMonitor_def empty_meta_def)
  have get: "wp (GetRouteMonitor ?r k) (\<lambda>g v. g = (rm, ContinueOperation, None) \<and> ok_world E snap v \<and> snap v = snap w) w"
    unfolding GetRouteMonitor_def NewReconciler_fields wp_bind
    by (rule wp_mono [OF wp_Get_stored [OF ok ok_world_laws(1) [OF ok] rm]])
      (use ne api_reliable_kinds(1) [OF rel] in \<open>auto simp: wp_simps split: sum.splits\<close>)
  have body: "wp (EnsureMonitorAndDependenciesAbsent ?r rm) (\<lambda>(_, err) w'. err = None \<and> ok_world E snap w' \<and>
    map_of (c_rm (snap w')) k = None \<and> (s \<noteq> nn_empty \<longrightarrow> gone c_sm s (snap w')) \<and>
    (p \<noteq> nn_empty \<longrightarrow> gone c_pr p (snap w'))) v" if "ok_world E snap v" "snap v = snap w" for v
  proof -
    have held: "held E snap (c_rm (snap w)) v" and x: "map_of (c_rm (snap w)) (obj_key rm) = Some rm"
      using that rm key by (simp_all add: held_def)
    have kept: "\<forall>q. (gone c_sm q c \<longrightarrow> gone c_sm q d) \<and> (gone c_pr q c \<longrightarrow> gone c_pr q d)" if "rm_dropped rm c d" for c d
      using changes_only_other_fields(3) [OF finalizers_dropped_changes [OF cluster_lenses(1) that]] by (simp add: gone_def)
    have last: "map_of (c_rm d) k = None" if "c_rm c = c_rm (snap w)" "rm_dropped rm c d" for c d
      using rm_dropped_last [OF that(2) _ _ fins] that(1) rm del key by (simp add: WasDeleteRequested_def)
    from wp_conj [OF rmr.wp_delete_monitor [OF that(1), of img bbns hypershift url rm] wp_deletion_clean [OF rel held x]]
    show ?thesis
      by (rule wp_mono) (use kept last that in \<open>auto simp: s_def p_def split: prod.splits option.splits\<close>)
  qed
  show ?thesis
    unfolding Reconcile_def wp_bind [of "GetRouteMonitor _ _"]
    by (rule wp_mono [OF get])
      (use del in \<open>auto simp: wp_bind wp_return RequeueWith_def Stop_def intro!: wp_mono [OF body] split: prod.splits\<close>)
qed

section \<open>The loops\<close>

text \<open>What holds before every round and is restored by the sleep after it holds at the end of the rounds.\<close>

lemma wp_poll:
  assumes I: "I s w"
    and body: "\<And>s w. I s w \<Longrightarrow> wp (body s) (\<lambda>r w'. case r of Inl x \<Rightarrow> Q (Inl x) w' | Inr s' \<Rightarrow> J s' w') w"
    and slept: "\<And>s w. J s w \<Longrightarrow> wp (rt_Sleep T Second) (\<lambda>_. I s) w"
    and out: "\<And>s w. I s w \<Longrightarrow> Q (Inr s) w"
  shows "wp (poll T n body s) Q w"
  using I
proof (induction n arbitrary: s w)
  case (Suc n)
  show ?case
    unfolding poll.simps wp_bind
    by (rule wp_mono [OF body [OF Suc.prems]])
      (auto simp: wp_bind wp_return intro!: wp_mono [OF slept] Suc.IH split: sum.split)
qed (simp add: wp_return out)

lemma wp_get_into:
  assumes ok: "ok_world E snap w" and laws: "kube_laws snap fld upd K"
  shows "wp (get_into K k x) (\<lambda>(y, err) w'. ok_world E snap w' \<and> snap w' = snap w \<and>
     (case err of None \<Rightarrow> map_of (fld (snap w)) k = Some y
      | Some e \<Rightarrow> y = x \<and> (IsNotFound e \<longrightarrow> map_of (fld (snap w)) k = None) \<and>
          (kube_reliable K \<longrightarrow> IsNotFound e))) w"
proof -
  have "wp (kube_Get K k) (\<lambda>g _. kube_reliable K \<longrightarrow> (\<forall>e. g = Inl e \<longrightarrow> IsNotFound e)) w"
    by (cases "kube_reliable K") (auto simp: kube_reliable_def wp_iff_run)
  from wp_conj [OF this wp_Get_ok [OF ok laws, of k]] show ?thesis
    unfolding get_into_def wp_bind wp_return by (rule wp_mono) (auto split: sum.splits)
qed

text \<open>The sleep lets others act and leaves a server that keeps its promises.\<close>

definition sleeps_well :: "'w Env \<Rightarrow> ('w \<Rightarrow> cluster) \<Rightarrow> 'w TestRuntime \<Rightarrow> bool" where
  "sleeps_well E snap T \<longleftrightarrow> (\<forall>d w. ok_world E snap w \<longrightarrow> wp (rt_Sleep T d) (\<lambda>_. ok_world E snap) w)"

section \<open>Properties\<close>

text \<open>C19. With an API server that answers, a RouteMonitor that has the operator's finalizers and no others, and
  that the harness removes while the operator handles it once a second, is gone when the removal returns, and
  so are the monitoring.coreos.com ServiceMonitor and the PrometheusRule it refers to (or they are marked for
  deletion): the removal returns no error and does not fail the test.\<close>

theorem harness_removal_completes:
  assumes ok: "ok_world E snap w" and rel: "api_reliable E"
    and rm: "map_of (c_rm (snap w)) \<lparr>nn_name = name, nn_namespace = ns\<rparr> = Some rm"
    and fins: "FinalizerKey \<in> set (om_finalizers (obj_meta rm))"
      "set (om_finalizers (obj_meta rm)) \<subseteq> {FinalizerKey, PrevFinalizerKey}"
    and operator: "rt_Sleep T Second =
      do { _ \<leftarrow> Reconcile (NewReconciler E img bbns hypershift url) \<lparr>nn_name = name, nn_namespace = ns\<rparr>; ret () }"
  shows "wp (RemoveRouteMonitor T \<lparr>in_Client = E, in_cancelFunc = cancel\<rparr> ns name) (\<lambda>r w'. r = Returns None \<and>
     map_of (c_rm (snap w')) \<lparr>nn_name = name, nn_namespace = ns\<rparr> = None \<and>
     (rmst_serviceMonitorRef (obj_status rm) \<noteq> nn_empty \<longrightarrow> gone c_sm (rmst_serviceMonitorRef (obj_status rm)) (snap w')) \<and>
     (rmst_prometheusRuleRef (obj_status rm) \<noteq> nn_empty \<longrightarrow> gone c_pr (rmst_prometheusRuleRef (obj_status rm)) (snap w'))) w"
proof -
  let ?k = "\<lparr>nn_name = name, nn_namespace = ns\<rparr>"
  let ?s = "rmst_serviceMonitorRef (obj_status rm)" and ?p = "rmst_prometheusRuleRef (obj_status rm)"
  let ?left = "\<lambda>c. (?s \<noteq> nn_empty \<longrightarrow> gone c_sm ?s c) \<and> (?p \<noteq> nn_empty \<longrightarrow> gone c_pr ?p c)"
  have key: "obj_key rm = ?k" using wf_store_key [OF wf_cluster_stores(1) [OF ok_world_wf [OF ok]] rm] .
  let ?marked = "\<lambda>x. obj_status x = obj_status rm \<and> om_finalizers (obj_meta x) = om_finalizers (obj_meta rm) \<and>
    WasDeleteRequested (obj_meta x)"
  let ?I = "\<lambda>s v. ok_world E snap v \<and> ((\<exists>x. map_of (c_rm (snap v)) ?k = Some x \<and> ?marked x) \<or>
    map_of (c_rm (snap v)) ?k = None \<and> ?left (snap v))"
  let ?body = "\<lambda>x. do { (y, err) \<leftarrow> get_into (rm_api E) ?k x; ret (if is_not_found err then Inl () else Inr y) }"
  have laws: "kube_laws snap c_rm c_rm_update (rm_api E)" using ok_world_laws(1) [OF ok] .
  have kr: "kube_reliable (rm_api E)" using api_reliable_kinds(1) [OF rel] .
  have delete: "wp (kube_Delete (rm_api E) rm) (\<lambda>r v. r = None \<and> ok_world E snap v \<and>
      (\<exists>x. map_of (c_rm (snap v)) ?k = Some x \<and> ?marked x)) v" if v: "ok_world E snap v" "snap v = snap w" for v
  proof -
    have "wp (kube_Delete (rm_api E) rm) (\<lambda>r _. \<forall>e. r = Some e \<longrightarrow> IsNotFound e) v"
      using kr by (simp add: kube_reliable_def)
    moreover have "wp (kube_Delete (rm_api E) rm) (\<lambda>r v'. ok_world E snap v' \<and> (case r of Some e \<Rightarrow> \<not> IsNotFound e
        | None \<Rightarrow> \<exists>x. map_of (c_rm (snap v')) ?k = Some x \<and> ?marked x)) v"
      by (rule wp_Delete [OF v(1) laws])
        (use rm key fins(1) v(2) in \<open>auto simp: map_of_settle live_or_held_def WasDeleteRequested_def\<close>)
    ultimately show ?thesis
      by (rule wp_mono [OF wp_conj]) (auto split: option.splits)
  qed
  have rounds: "wp (poll T n ?body x) (\<lambda>r v. r = Inl () \<and> map_of (c_rm (snap v)) ?k = None \<and> ?left (snap v)) v"
    if "ok_world E snap v" "map_of (c_rm (snap v)) ?k = None \<and> ?left (snap v)" "0 < n" for v n x
  proof (cases n)
    case (Suc m)
    show ?thesis
      unfolding Suc poll.simps wp_bind
      by (rule wp_mono [OF wp_get_into [OF that(1) laws]])
        (use that kr in \<open>auto simp: wp_simps split: option.splits\<close>)
  qed (use that in simp)
  have all: "wp (poll T (Suc (Suc n)) ?body x) (\<lambda>r v. r = Inl () \<and> map_of (c_rm (snap v)) ?k = None \<and> ?left (snap v)) v"
    if v: "ok_world E snap v" "map_of (c_rm (snap v)) ?k = Some y" "?marked y" for v n x y
  proof -
    have sleep: "wp (rt_Sleep T Second) (\<lambda>_ v'. ok_world E snap v' \<and>
        map_of (c_rm (snap v')) ?k = None \<and> ?left (snap v')) v1" if "ok_world E snap v1" "snap v1 = snap v" for v1
      unfolding operator wp_bind wp_return
      by (rule wp_mono [OF wp_Reconcile_completes [OF that(1) rel, of ?k y]])
        (use v that fins in auto)
    show ?thesis
      unfolding poll.simps(2) [of T "Suc n"] wp_bind [of "?body x"]
      unfolding wp_bind [of "get_into _ _ _"]
      by (rule wp_mono [OF wp_get_into [OF v(1) laws]])
        (use v kr in \<open>auto simp: wp_return wp_bind simp del: poll.simps
            intro!: wp_mono [OF sleep] rounds split: option.splits\<close>)
  qed
  show ?thesis
    unfolding RemoveRouteMonitor_def Let_def Integration.simps wp_bind [of "get_into _ _ empty_RouteMonitor"]
  proof (rule wp_mono [OF wp_get_into [OF ok laws]], goal_cases)
    case (1 g v)
    then have g: "g = (rm, None)" and v: "ok_world E snap v" "snap v = snap w"
      using rm kr by (auto split: prod.splits option.splits)
    have loop: "wp (poll T maxRetries ?body rm) (\<lambda>r v. r = Inl () \<and> map_of (c_rm (snap v)) ?k = None \<and> ?left (snap v)) v1"
      if "ok_world E snap v1" "\<exists>x. map_of (c_rm (snap v1)) ?k = Some x \<and> ?marked x" for v1
    proof -
      have "maxRetries = Suc (Suc 18)" by (simp add: maxRetries_def)
      with that all show ?thesis by (metis (no_types, lifting))
    qed
    show ?case
      unfolding g prod.case if_not_P [OF is_not_found_simps(1)] if_False wp_bind [of "kube_Delete _ _"] simp_thms
    proof (rule wp_mono [OF delete [OF v]], goal_cases)
      case (1 d v1)
      then have "d = None" and v1: "ok_world E snap v1" "\<exists>x. map_of (c_rm (snap v1)) ?k = Some x \<and> ?marked x" by auto
      then show ?case
        unfolding \<open>d = None\<close> simp_thms if_False wp_bind [of "poll _ _ _ _"]
        by (intro wp_mono [OF loop [OF v1]]) (simp add: wp_return)
    qed
  qed
qed

text \<open>While the server answers, WaitForServiceMonitor returns without an error only when the object is
  stored, and then as it is stored, however long it waits and whatever others do meanwhile; a negative
  number of seconds apart.\<close>

lemma wait_for_servicemonitor_sound:
  assumes ok: "ok_world E snap w" and rel: "kube_reliable (sm_api E)" and sleep: "sleeps_well E snap T"
    and "0 \<le> seconds"
  shows "wp (WaitForServiceMonitor T \<lparr>in_Client = E, in_cancelFunc = cancel\<rparr> name seconds) (\<lambda>(sm, err) w'.
     err = None \<longrightarrow> map_of (c_sm (snap w')) name = Some sm) w"
  unfolding WaitForServiceMonitor_def Integration.simps wp_bind wp_return
proof (rule wp_poll [where I = "\<lambda>_. ok_world E snap" and J = "\<lambda>_. ok_world E snap"], goal_cases)
  case (2 x v)
  show ?case
    unfolding wp_bind
    by (rule wp_mono [OF wp_get_into [OF 2 ok_world_laws(4) [OF 2]]])
      (use rel in \<open>auto simp: wp_return split: option.splits\<close>)
qed (use assms in \<open>auto simp: ran_out_def sleeps_well_def\<close>)

text \<open>A server that fails every request, for a reason of its own, is taken for one that stores the
  object: an empty object is returned without an error.\<close>

lemma wait_for_servicemonitor_blind:
  assumes "yields (\<lambda>g. \<exists>e. g = Inl e \<and> \<not> IsNotFound e) (kube_Get (sm_api E) name)" and "0 < seconds"
  shows "yields (\<lambda>r. r = (empty_ServiceMonitor, None))
    (WaitForServiceMonitor T \<lparr>in_Client = E, in_cancelFunc = cancel\<rparr> name seconds)"
proof -
  obtain n where n: "nat seconds = Suc n" using assms(2) by (metis gr0_conv_Suc zero_less_nat_eq)
  show ?thesis
    unfolding WaitForServiceMonitor_def Integration.simps n poll.simps get_into_def bind_assoc
    by (rule yields_bind [OF assms(1)]) (auto intro: yields_return)
qed

end
