(* ===== verification/Integration_Witnesses.thy ===== *)
theory Integration_Witnesses
  imports Integration_Harness Witnesses
begin

text \<open>
  The property of the integration harness at a concrete cluster, the operator running on the in-memory
  server.
\<close>

section \<open>A monitor to remove\<close>

definition held_rm :: RouteMonitor where
  "held_rm = deleted_rm\<lparr>obj_meta := mon_meta\<lparr>om_finalizers := [FinalizerKey]\<rparr>\<rparr>"

definition held_cluster :: cluster where
  "held_cluster = empty_cluster\<lparr>c_rm := [(mon_key, held_rm)], c_sm := [(mon_key, a_servicemonitor)]\<rparr>"

lemma wf_held_cluster: "wf_cluster held_cluster"
  by (simp add: wf_cluster_def held_cluster_def empty_cluster_def wf_store_def held_rm_def deleted_rm_def
      mon_key_def mon_meta_def empty_meta_def live_or_held_def obj_key_def a_servicemonitor_def
      empty_RouteMonitor_def)

text \<open>A second in which the operator handles the monitor.\<close>

definition test_runtime :: "(cluster \<times> unit, unit) io \<Rightarrow> (cluster \<times> unit) TestRuntime" where
  "test_runtime second = \<lparr>rt_Sleep = (\<lambda>_. second), rt_Fail = (\<lambda>_ _. ret ()), rt_AddToScheme = (\<lambda>_. ret None),
     rt_NewManager = (\<lambda>_. ret (Inr mem_env)), rt_StartCache = ret (), rt_Cancel = ret ()\<rparr>"

definition operator_second :: "(cluster \<times> unit, unit) io" where
  "operator_second = do { _ \<leftarrow> Reconcile (NewReconciler mem_env ''img'' ''ns'' False ''u'') mon_key; ret () }"

lemma held_world:
  "ok_world mem_env fst (held_cluster, ())" "map_of (c_rm (fst (held_cluster, ()))) mon_key = Some held_rm"
  "FinalizerKey \<in> set (om_finalizers (obj_meta held_rm))"
  "set (om_finalizers (obj_meta held_rm)) \<subseteq> {FinalizerKey, PrevFinalizerKey}"
  by (rule ok_world_mem [OF wf_held_cluster]) (simp_all add: held_cluster_def held_rm_def)

section \<open>Witnesses\<close>

theorem harness_removal_completes_witness:
  "wp (RemoveRouteMonitor (test_runtime operator_second) \<lparr>in_Client = mem_env, in_cancelFunc = ret ()\<rparr> ''ns'' ''m'')
     (\<lambda>r w'. r = Returns None \<and> map_of (c_rm (fst w')) mon_key = None \<and> gone c_sm mon_key (fst w')) (held_cluster, ())"
  by (rule wp_mono [OF harness_removal_completes [OF held_world(1) mem_api_reliable held_world(2) [unfolded mon_key_def]
          held_world(3,4)]])
    (auto simp: test_runtime_def operator_second_def mon_key_def held_rm_def deleted_rm_def empty_RouteMonitor_def)

end
