(* ===== verification/Probe_Service.thy ===== *)
theory Probe_Service
  imports Rhobs_Trace
begin

text \<open>
  The RHOBS synthetics API as a store of probes, and what the handling of a cluster's probe makes of
  that store.  Any request may fail, with or without having had its effect; an answer that says that
  it succeeded is true.
\<close>

section \<open>The store\<close>

text \<open>A stored probe has the URL it probes, which the API's answers do not show; \<open>seen\<close> is what they show of
  it.\<close>

record StoredProbe = ProbeResponse +
  sp_URL :: string

definition seen :: "StoredProbe \<Rightarrow> ProbeResponse" where
  "seen p = \<lparr>pp_ID = pp_ID p, pp_Labels = pp_Labels p, pp_Status = pp_Status p\<rparr>"

lemma seen_fields [simp]: "pp_ID (seen p) = pp_ID p" "pp_Labels (seen p) = pp_Labels p" "pp_Status (seen p) = pp_Status p"
  by (simp_all add: seen_def)

abbreviation for_cluster :: "string \<Rightarrow> 'a ProbeResponse_scheme \<Rightarrow> bool" where
  "for_cluster i p \<equiv> pp_Labels p \<noteq> None \<and> labels_read (pp_Labels p) ''cluster-id'' = i"

definition mine :: "string \<Rightarrow> 'a ProbeResponse_scheme list \<Rightarrow> 'a ProbeResponse_scheme list" where
  "mine i ps = filter (for_cluster i) ps"

definition live :: "StoredProbe \<Rightarrow> bool" where
  "live p \<longleftrightarrow> pp_Status p \<noteq> ''terminating''"

text \<open>A probe with a URL and labels is added; the probe of an ID is marked, or removed at once; the labels of
  the probe of an ID are overridden.\<close>

definition created :: "string \<Rightarrow> string_map option \<Rightarrow> StoredProbe list \<Rightarrow> StoredProbe list \<Rightarrow> bool" where
  "created url labels ps ps' \<longleftrightarrow>
     (\<exists>p. ps' = ps @ [p] \<and> pp_ID p \<notin> pp_ID ` set ps \<and> sp_URL p = url \<and> pp_Labels p = labels \<and> live p)"

definition mark :: "StoredProbe \<Rightarrow> StoredProbe" where
  "mark p = p\<lparr>pp_Status := ''terminating''\<rparr>"

definition terminated :: "string \<Rightarrow> StoredProbe list \<Rightarrow> StoredProbe list \<Rightarrow> bool" where
  "terminated j ps ps' \<longleftrightarrow>
     ps' = map (\<lambda>p. if pp_ID p = j then mark p else p) ps \<or>
     ps' = filter (\<lambda>p. pp_ID p \<noteq> j) ps"

definition relabel :: "string_map \<Rightarrow> StoredProbe \<Rightarrow> StoredProbe" where
  "relabel ls p = p\<lparr>pp_Labels := Some (case pp_Labels p of None \<Rightarrow> ls | Some m \<Rightarrow> m ++\<^sub>f ls)\<rparr>"

definition relabelled :: "string \<Rightarrow> string_map \<Rightarrow> StoredProbe list \<Rightarrow> StoredProbe list \<Rightarrow> bool" where
  "relabelled j ls ps ps' \<longleftrightarrow> ps' = map (\<lambda>p. if pp_ID p = j then relabel ls p else p) ps"

section \<open>The API\<close>

definition text_labels :: "string_map \<Rightarrow> bool" where
  "text_labels ls \<longleftrightarrow> fmpred (\<lambda>k v. valid_utf8 k \<and> valid_utf8 v) ls"

text \<open>The answer to a request for the probes of a cluster.\<close>

definition list_answer :: "string \<Rightarrow> StoredProbe list \<Rightarrow> http_response \<Rightarrow> bool" where
  "list_answer i ps resp \<longleftrightarrow>
     (resp_StatusCode resp = 404 \<longrightarrow> mine i ps = []) \<and>
     (\<forall>body qs. resp_StatusCode resp = 200 \<and> resp_Body resp = Inr body \<and> unmarshal assign_ProbesList [] body = Inr qs
        \<longrightarrow> mine i qs = map seen (mine i ps))"

text \<open>What a request does to the store, next to its answer: nothing, or what it asks for; the latter if
  the answer says so.  A conflict is a stored probe with the same URL, whatever its cluster and status.\<close>

definition effect ::
    "(StoredProbe list \<Rightarrow> StoredProbe list \<Rightarrow> bool) \<Rightarrow> int set \<Rightarrow> go_error + http_response
       \<Rightarrow> StoredProbe list \<Rightarrow> StoredProbe list \<Rightarrow> bool" where
  "effect R codes a ps ps' \<longleftrightarrow> (ps' = ps \<or> R ps ps') \<and>
     (\<forall>resp. a = Inr resp \<and> resp_StatusCode resp \<in> codes \<longrightarrow> R ps ps')"

definition served ::
    "string \<Rightarrow> http_request \<Rightarrow> StoredProbe list \<Rightarrow> go_error + http_response \<Rightarrow> StoredProbe list \<Rightarrow> bool" where
  "served U r ps a ps' \<longleftrightarrow>
     (if creates r
      then \<forall>url ls. hr_url r = U \<and> hr_body r = marshal_ProbeRequest \<lparr>pq_StaticURL = url, pq_Labels = Some ls\<rparr> \<and>
             valid_utf8 url \<and> text_labels ls \<longrightarrow>
             effect (created url (Some ls)) {200, 201} a ps ps' \<and>
             (\<forall>resp. a = Inr resp \<and> resp_StatusCode resp = 409 \<longrightarrow>
                ps' = ps \<and> (\<exists>p \<in> set ps. sp_URL p = url))
      else if hr_method r = ''PATCH''
      then \<forall>j. hr_url r = U @ ''/'' @ j \<longrightarrow>
             (hr_body r = marshal_ProbePatchRequest \<lparr>pa_Status = ''terminating'', pa_Labels = None\<rparr> \<longrightarrow>
                effect (terminated j) {200, 204, 404} a ps ps') \<and>
             (\<forall>ls. hr_body r = marshal_ProbePatchRequest \<lparr>pa_Status = [], pa_Labels = Some (Some ls)\<rparr> \<and> text_labels ls \<longrightarrow>
                effect (relabelled j ls) {200} a ps ps')
      else (hr_method r \<in> {''GET'', ''POST''} \<longrightarrow> ps' = ps) \<and>
             (\<forall>i resp. hr_method r = ''GET'' \<and> hr_url r = U \<and> hr_query r = Some (label_query U i) \<and> a = Inr resp
                \<longrightarrow> list_answer i ps resp))"

definition probe_service :: "'w Net \<Rightarrow> string \<Rightarrow> ('w \<Rightarrow> StoredProbe list) \<Rightarrow> bool" where
  "probe_service N U svc \<longleftrightarrow>
     (\<forall>w. wp (now N) (\<lambda>_ w'. svc w' = svc w) w) \<and>
     (\<forall>m ls w. wp (metric_Inc N m ls) (\<lambda>_ w'. svc w' = svc w) w) \<and>
     (\<forall>m ls v w. wp (metric_Observe N m ls v) (\<lambda>_ w'. svc w' = svc w) w) \<and>
     (\<forall>v r w. wp (http_Do N v r) (\<lambda>a w'. served U r (svc w) a (svc w')) w)"

section \<open>Triples over the store\<close>

definition triple :: "('w \<Rightarrow> 's) \<Rightarrow> ('s \<Rightarrow> bool) \<Rightarrow> ('w, 'a) io \<Rightarrow> ('a \<Rightarrow> 's \<Rightarrow> bool) \<Rightarrow> bool" where
  "triple svc P m Q \<longleftrightarrow> (\<forall>w. P (svc w) \<longrightarrow> wp m (\<lambda>a w'. Q a (svc w')) w)"

lemma triple_return: "(\<And>s. P s \<Longrightarrow> Q a s) \<Longrightarrow> triple svc P (ret a) Q"
  by (simp add: triple_def wp_return)

lemma triple_bind:
  assumes "triple svc P m R" and "\<And>a. triple svc (R a) (f a) Q"
  shows "triple svc P (m \<bind> f) Q"
  unfolding triple_def wp_bind
proof (intro allI impI)
  fix w
  assume "P (svc w)"
  with assms(1) have "wp m (\<lambda>a w'. R a (svc w')) w" by (simp add: triple_def)
  then show "wp m (\<lambda>a. wp (f a) (\<lambda>b w'. Q b (svc w'))) w"
    by (rule wp_mono) (use assms(2) in \<open>simp add: triple_def\<close>)
qed

lemma triple_mono:
  "triple svc P m Q \<Longrightarrow> (\<And>s. P' s \<Longrightarrow> P s) \<Longrightarrow> (\<And>a s. Q a s \<Longrightarrow> Q' a s) \<Longrightarrow> triple svc P' m Q'"
  unfolding triple_def by (blast intro: wp_mono)

text \<open>A computation that leaves the store alone keeps every assertion on it.\<close>

lemma triple_silent:
  assumes "\<And>w. wp m (\<lambda>_ w'. svc w' = svc w) w"
  shows "triple svc P m (\<lambda>_. P)"
  unfolding triple_def by (auto intro: wp_mono [OF assms])

section \<open>Requests\<close>

text \<open>A request as it is sent differs from the one that was built in headers only, and a client keeps its
  base URL and tenant.\<close>

definition same_call :: "http_request \<Rightarrow> http_request \<Rightarrow> bool" where
  "same_call r r' \<longleftrightarrow> hr_method r' = hr_method r \<and> hr_url r' = hr_url r \<and> hr_query r' = hr_query r \<and>
     hr_body r' = hr_body r \<and> creates r' = creates r"

definition same_base :: "Client \<Rightarrow> Client \<Rightarrow> bool" where
  "same_base c c' \<longleftrightarrow> cl_baseURL c' = cl_baseURL c \<and> cl_tenant c' = cl_tenant c"

lemma same_base_refl [simp]: "same_base c c"
  by (simp add: same_base_def)

lemma same_base_trans: "same_base c c' \<Longrightarrow> same_base c' d \<Longrightarrow> same_base c d"
  by (simp add: same_base_def)

lemma same_base_URL: "same_base c c' \<Longrightarrow> buildProbesURL c' = buildProbesURL c"
  by (simp add: same_base_def buildProbesURL_def)

lemma served_same_call: "same_call r r' \<Longrightarrow> served U r' s a s' \<Longrightarrow> served U r s a s'"
  unfolding served_def same_call_def by (elim conjE) (simp only:)

lemma Header_Set_call [simp]: "hr_url (Header_Set k v r) = hr_url r" "hr_query (Header_Set k v r) = hr_query r"
  by (simp_all add: Header_Set_def)

lemma NewRequest_call: "NewRequest m u b = Inr r \<Longrightarrow>
  hr_method r = m \<and> hr_url r = u \<and> hr_query r = None \<and> hr_body r = b \<and> hr_headers r = []"
  by (auto simp: NewRequest_def split: sum.splits)

lemma triple_quiet:
  assumes "probe_service N U svc"
  shows "triple svc P (now N) (\<lambda>_. P)" "triple svc P (RecordAPIRequest N op d b) (\<lambda>_. P)"
    "triple svc P (RecordOIDCTokenRefresh N d b) (\<lambda>_. P)"
proof -
  have t: "triple svc P (metric_Inc N m ls) (\<lambda>_. P)" "triple svc P (metric_Observe N m ls v) (\<lambda>_. P)"
    "triple svc P (now N) (\<lambda>_. P)" for P m ls v
    using assms by (auto simp: probe_service_def intro!: triple_silent)
  show "triple svc P (now N) (\<lambda>_. P)" by (rule t)
  show "triple svc P (RecordAPIRequest N op d b) (\<lambda>_. P)" "triple svc P (RecordOIDCTokenRefresh N d b) (\<lambda>_. P)"
    unfolding RecordAPIRequest_def RecordOIDCTokenRefresh_def by (rule triple_bind [OF t(2) t(1)])+
qed

lemma triple_Do: "probe_service N U svc \<Longrightarrow> triple svc P (http_Do N v r) (\<lambda>a s'. \<exists>s. P s \<and> served U r s a s')"
  unfolding probe_service_def triple_def by (blast intro: wp_mono)

lemma triple_timed:
  assumes svc: "probe_service N U svc" and record_it: "\<And>d b P. triple svc P (record_it d b) (\<lambda>_. P)"
    and body: "triple svc P body (\<lambda>(s, a). Q a)"
  shows "triple svc P (timed N record_it body) Q"
  unfolding timed_def
proof (rule triple_bind [OF triple_quiet(1) [OF svc]], rule triple_bind [OF body], goal_cases)
  case (1 start a)
  then show ?case
    by (cases a) (auto intro!: triple_bind [OF triple_quiet(1) [OF svc]] triple_bind [OF record_it] triple_return)
qed

text \<open>A request for a token is no business of the store.\<close>

lemma triple_token_fresh: "probe_service N U svc \<Longrightarrow> triple svc P (token_fresh N c) (\<lambda>_. P)"
  unfolding token_fresh_def by (auto intro!: triple_return triple_bind [OF triple_quiet(1)])

lemma triple_GetAccessToken:
  assumes svc: "probe_service N U svc"
  shows "triple svc P (GetAccessToken N c) (\<lambda>(_, c') s. P s \<and> same_base c c')"
proof -
  note fresh = triple_bind [OF triple_token_fresh [OF svc, of P]]
  have "triple svc P (refreshAccessToken N o' c) (\<lambda>(_, c') s. P s \<and> same_base c c')" for o'
  proof (cases "NewRequest ''POST'' (tokenURL o') (token_form o')")
    case (Inr req0)
    let ?req = "Header_Set ''Accept'' ''application/json''
      (Header_Set ''Content-Type'' ''application/x-www-form-urlencoded'' req0)"
    have req: "\<not> creates ?req" "hr_method ?req = ''POST''" using NewRequest_call [OF Inr] by (simp_all add: creates_def)
    have "triple svc P (http_Do N True ?req) (\<lambda>_. P)"
      by (rule triple_mono [OF triple_Do [OF svc]]) (use req in \<open>auto simp: served_def\<close>)
    then have "triple svc P (do { r \<leftarrow> http_Do N True ?req;
       (case token_answer r of
          (success, Inl err) \<Rightarrow> ret (success, (Inl err, c))
        | (success, Inr tokenResp) \<Rightarrow>
            do { t' \<leftarrow> now N; ret (success, (Inr (tr_AccessToken tokenResp),
                   c\<lparr>cl_accessToken := tr_AccessToken tokenResp,
                     cl_tokenExpiry := t' + wrap64 (tr_ExpiresIn tokenResp * Second)\<rparr>)) }) })
       (\<lambda>(_, _, c') s. P s \<and> same_base c c')"
      by (rule triple_bind)
        (auto simp: same_base_def split: prod.split sum.split intro!: triple_return triple_bind [OF triple_quiet(1) [OF svc]])
    then show ?thesis
      unfolding refreshAccessToken_def Inr sum.case Let_def
      by (intro fresh) (auto intro!: triple_return triple_timed [OF svc triple_quiet(3) [OF svc]])
  qed (auto simp: refreshAccessToken_def intro!: fresh triple_return)
  then show ?thesis
    unfolding GetAccessToken_def by (auto split: option.split intro!: fresh triple_return)
qed

lemma triple_authorized:
  assumes svc: "probe_service N U svc"
  shows "triple svc P (authorized N c req)
    (\<lambda>(r, c') s. P s \<and> same_base c c' \<and> (\<forall>req'. r = Inr req' \<longrightarrow> same_call req req'))"
proof -
  have rhobs: "same_call req (addRHOBSHeaders c req)"
    by (auto simp: same_call_def addRHOBSHeaders_def creates_def Let_def split: option.split)
  then have bearer: "same_call req (Header_Set ''Authorization'' v (addRHOBSHeaders c req))" for v
    by (auto simp: same_call_def creates_def)
  show ?thesis
    unfolding authorized_def addAuthHeaders_def
    by (cases "cl_oidcConfig c = None")
      (auto intro!: triple_return triple_bind [OF triple_GetAccessToken [OF svc, of P]] rhobs bearer
        split: prod.split sum.split)
qed

lemma triple_request:
  assumes svc: "probe_service N U svc"
    and err: "\<And>e c' s. P s \<Longrightarrow> same_base c c' \<Longrightarrow> Q (x e, c') s"
    and sent: "\<And>a c' s s'. P s \<Longrightarrow> same_base c c' \<Longrightarrow> served U req s a s' \<Longrightarrow> Q (snd (answer a), c') s'"
  shows "triple svc P (do { (r, c') \<leftarrow> authorized N c req;
     (case r of
        Inl e \<Rightarrow> ret (x e, c')
      | Inr r' \<Rightarrow> timed N (RecordAPIRequest N op) (do { resp \<leftarrow> http_Do N True r';
                    (case answer resp of (apiSuccess, a) \<Rightarrow> ret (apiSuccess, (a, c'))) })) }) Q"
proof -
  have body: "triple svc P (do { resp \<leftarrow> http_Do N True r;
      (case answer resp of (apiSuccess, a) \<Rightarrow> ret (apiSuccess, (a, c'))) }) (\<lambda>(s, a). Q a)"
    if "same_base c c'" "same_call req r" for r c'
  proof (rule triple_bind [OF triple_Do [OF svc]], goal_cases)
    case (1 a)
    show ?case
      using sent [OF _ that(1) served_same_call [OF that(2)]]
      by (cases "answer a") (fastforce intro!: triple_return)
  qed
  show ?thesis
  proof (rule triple_bind [OF triple_authorized [OF svc]], goal_cases)
    case (1 a)
    obtain r c' where a: "a = (r, c')" by (cases a)
    show ?case
    proof (cases r)
      case (Inl e)
      then show ?thesis using err by (auto simp: a intro!: triple_return)
    next
      case (Inr r')
      have "triple svc P (timed N (RecordAPIRequest N op) (do { resp \<leftarrow> http_Do N True r';
          (case answer resp of (apiSuccess, a) \<Rightarrow> ret (apiSuccess, (a, c'))) })) Q"
        if "same_base c c'" "same_call req r'"
        by (rule triple_timed [OF svc triple_quiet(2) [OF svc] body [OF that]])
      then show ?thesis by (auto simp: a Inr triple_def)
    qed
  qed
qed

section \<open>The probes of a cluster\<close>

text \<open>The probes of the cluster \<open>i\<close> are \<open>M\<close> and the other ones are \<open>O\<close>.\<close>

definition has_probes :: "string \<Rightarrow> StoredProbe list \<Rightarrow> StoredProbe list \<Rightarrow> StoredProbe list \<Rightarrow> bool" where
  "has_probes i O' M ps \<longleftrightarrow> distinct (map pp_ID ps) \<and> mine i ps = M \<and> filter (\<lambda>p. \<not> for_cluster i p) ps = O'"

lemma has_probes_unique: "has_probes i O' M ps \<Longrightarrow> has_probes i O' M' ps \<longleftrightarrow> M' = M"
  by (auto simp: has_probes_def)

text \<open>The first probe of a cluster is the only one with its ID.\<close>

lemma has_probes_head:
  assumes "has_probes i O' (p # M) ps"
  shows "p \<in> set ps" "for_cluster i p" "\<And>q. q \<in> set ps \<Longrightarrow> pp_ID q = pp_ID p \<Longrightarrow> q = p"
    "\<And>q. q \<in> set M \<Longrightarrow> pp_ID q \<noteq> pp_ID p"
proof -
  have d: "distinct (map pp_ID ps)" and M: "mine i ps = p # M" using assms by (auto simp: has_probes_def)
  have "p \<in> set (mine i ps)" "set M \<subseteq> set (mine i ps)" unfolding M by auto
  then have p: "p \<in> set ps" "for_cluster i p" and sub: "set M \<subseteq> set ps" by (auto simp: mine_def)
  show "p \<in> set ps" "for_cluster i p" by (fact p)+
  show same: "q = p" if "q \<in> set ps" "pp_ID q = pp_ID p" for q
    using that p(1) d by (metis distinct_map inj_onD)
  have "distinct (mine i ps)" using d by (simp add: mine_def distinct_map)
  then have "p \<notin> set M" unfolding M by simp
  then show "pp_ID q \<noteq> pp_ID p" if "q \<in> set M" for q using that same sub by blast
qed

text \<open>A change of that probe, which stays one of the cluster's, and its removal.\<close>

lemma has_probes_map:
  assumes h: "has_probes i O' (p # M) ps" and f: "\<And>q. pp_ID (f q) = pp_ID q" and p: "for_cluster i (f p)"
  shows "has_probes i O' (f p # M) (map (\<lambda>q. if pp_ID q = pp_ID p then f q else q) ps)"
proof -
  let ?f = "\<lambda>q. if pp_ID q = pp_ID p then f q else q"
  note head = has_probes_head [OF h]
  have d: "distinct (map pp_ID ps)" and M: "mine i ps = p # M" and O': "filter (\<lambda>q. \<not> for_cluster i q) ps = O'"
    using h by (auto simp: has_probes_def)
  have keeps: "for_cluster i (?f q) \<longleftrightarrow> for_cluster i q" if "q \<in> set ps" for q
    using head(3) [OF that] p head(2) by (cases "pp_ID q = pp_ID p") simp_all
  have "filter (for_cluster i) (map ?f ps) = map ?f (filter (for_cluster i) ps)"
    unfolding filter_map comp_def using keeps by (intro arg_cong [where f = "map ?f"] filter_cong) simp_all
  moreover have "map ?f (p # M) = f p # M"
    using head(4) by (simp add: map_idI)
  ultimately have "mine i (map ?f ps) = f p # M" using M by (simp only: mine_def)
  moreover have "filter (\<lambda>q. \<not> for_cluster i q) (map ?f ps) = map ?f (filter (\<lambda>q. \<not> for_cluster i q) ps)"
    unfolding filter_map comp_def using keeps by (intro arg_cong [where f = "map ?f"] filter_cong) simp_all
  moreover have "?f q = q" if "q \<in> set (filter (\<lambda>q. \<not> for_cluster i q) ps)" for q
  proof (cases "pp_ID q = pp_ID p")
    case True
    with that head(3) have "q = p" by simp
    with that head(2) show ?thesis by simp
  qed simp
  then have "map ?f (filter (\<lambda>q. \<not> for_cluster i q) ps) = filter (\<lambda>q. \<not> for_cluster i q) ps"
    by (rule map_idI)
  moreover have "map pp_ID (map ?f ps) = map pp_ID ps" using f by simp
  ultimately show ?thesis using d O' by (simp only: has_probes_def simp_thms)
qed

lemma has_probes_drop:
  assumes h: "has_probes i O' (p # M) ps"
  shows "has_probes i O' M (filter (\<lambda>q. pp_ID q \<noteq> pp_ID p) ps)"
proof -
  note head = has_probes_head [OF h]
  have d: "distinct (map pp_ID ps)" and M: "mine i ps = p # M" and O': "filter (\<lambda>q. \<not> for_cluster i q) ps = O'"
    using h by (auto simp: has_probes_def)
  have "filter (\<lambda>q. pp_ID q \<noteq> pp_ID p) (p # M) = M"
    using head(4) by (simp add: filter_id_conv)
  moreover have "mine i (filter (\<lambda>q. pp_ID q \<noteq> pp_ID p) ps) = filter (\<lambda>q. pp_ID q \<noteq> pp_ID p) (mine i ps)"
    unfolding mine_def filter_filter by (rule filter_cong) (simp_all only: conj_commute)
  moreover have "filter (\<lambda>q. \<not> for_cluster i q) (filter (\<lambda>q. pp_ID q \<noteq> pp_ID p) ps) = filter (\<lambda>q. \<not> for_cluster i q) ps"
    unfolding filter_filter using head(2,3) by (intro filter_cong) (simp, blast)
  moreover have "distinct (map pp_ID (filter (\<lambda>q. pp_ID q \<noteq> pp_ID p) ps))" using d by (simp add: distinct_map_filter)
  ultimately show ?thesis using M O' by (simp only: has_probes_def simp_thms)
qed

lemma has_probes_terminated:
  assumes "has_probes i O' (p # M) ps" and "terminated (pp_ID p) ps ps'"
  shows "has_probes i O' (mark p # M) ps' \<or> has_probes i O' M ps'"
proof -
  have "for_cluster i p" using assms(1) by (auto simp: has_probes_def mine_def filter_eq_Cons_iff)
  then show ?thesis
    using assms(2) has_probes_map [OF assms(1), of mark] has_probes_drop [OF assms(1)]
    by (auto simp: terminated_def mark_def)
qed

lemma relabel_read: "labels_read (pp_Labels (relabel ls p)) k =
    (case fmlookup ls k of None \<Rightarrow> labels_read (pp_Labels p) k | Some v \<Rightarrow> v)"
  by (auto simp: relabel_def labels_read_def map_read_def split: option.splits)

lemma relabel_fields [simp]: "pp_ID (relabel ls p) = pp_ID p" "pp_Status (relabel ls p) = pp_Status p"
  "pp_Labels (relabel ls p) \<noteq> None" "live (relabel ls p) = live p"
  by (simp_all add: relabel_def live_def)

lemma has_probes_relabelled:
  assumes "has_probes i O' (p # M) ps" and "relabelled (pp_ID p) ls ps ps'"
    and "fmlookup ls ''cluster-id'' \<in> {None, Some i}"
  shows "has_probes i O' (relabel ls p # M) ps'"
proof -
  have "for_cluster i p" using assms(1) by (auto simp: has_probes_def mine_def filter_eq_Cons_iff)
  then have "for_cluster i (relabel ls p)" using assms(3) by (auto simp: relabel_read)
  then show ?thesis
    using assms(2) has_probes_map [OF assms(1), of "relabel ls"] by (simp add: relabelled_def)
qed

lemma has_probes_created:
  assumes "has_probes i O' M ps" and "created url (Some ls) ps ps'" and "map_read ls ''cluster-id'' = i"
  shows "\<exists>q. has_probes i O' (M @ [q]) ps' \<and> pp_Labels q = Some ls \<and> live q"
proof -
  from assms(2) obtain q where "ps' = ps @ [q]" "pp_ID q \<notin> pp_ID ` set ps" "pp_Labels q = Some ls" "live q"
    by (auto simp: created_def)
  then show ?thesis
    using assms(1,3) by (intro exI [of _ q]) (auto simp: has_probes_def mine_def labels_read_def)
qed

section \<open>What the client's operations make of the store\<close>

definition first :: "'a list \<Rightarrow> 'a option" where
  "first xs = (case xs of [] \<Rightarrow> None | x # _ \<Rightarrow> Some x)"

lemma first_simps: "first [] = None" "first (map f xs) = map_option f (first xs)"
  by (cases xs; simp add: first_def)+

lemma find_first: "find P xs = first (filter P xs)"
  by (induction xs) (auto simp: first_def)

lemma get_answer_sound:
  assumes "\<And>resp. a = Inr resp \<Longrightarrow> list_answer i ps resp" and "snd (get_answer i a) = Inr g"
  shows "g = map_option seen (first (mine i ps))"
proof -
  obtain resp where a: "a = Inr resp" using assms(2) by (cases a) (auto simp: get_answer_def)
  have "find (\<lambda>probe. pp_Labels probe \<noteq> None \<and> labels_read (pp_Labels probe) ''cluster-id'' = i) qs = first (mine i qs)"
    for qs :: "ProbeResponse list"
    by (simp only: find_first mine_def)
  with assms(2) assms(1) [OF a] show ?thesis
    unfolding a get_answer_def list_answer_def Let_def
    by (auto simp: first_simps simp del: not_None_eq split: sum.splits if_splits)
qed

lemma triple_GetProbe:
  assumes svc: "probe_service N U svc" and U: "buildProbesURL c = U"
  shows "triple svc (has_probes i O' M) (GetProbe N c i)
    (\<lambda>(r, c') s. has_probes i O' M s \<and> same_base c c' \<and> (\<forall>g. r = Inr g \<longrightarrow> g = map_option seen (first M)))"
proof (cases "NewRequest ''GET'' (buildProbesURL c) []")
  case (Inr req)
  let ?req = "req\<lparr>hr_query := Some (label_query (buildProbesURL c) i)\<rparr>"
  have req: "\<not> creates ?req" "hr_method ?req = ''GET''" "hr_url ?req = U" "hr_query ?req = Some (label_query U i)"
    using NewRequest_call [OF Inr] U by (simp_all add: creates_def)
  show ?thesis unfolding GetProbe_def Inr sum.case
  proof (rule triple_request [OF svc], goal_cases)
    case (2 a c' s s')
    then have "s' = s" "\<And>resp. a = Inr resp \<Longrightarrow> list_answer i s resp" using req by (auto simp: served_def)
    moreover have "mine i s = M" using 2(1) by (simp add: has_probes_def)
    ultimately show ?case using 2(1,2) get_answer_sound [of a i s] by auto
  qed simp
qed (simp add: GetProbe_def triple_return)

lemma delete_answer_None: "snd (delete_answer a) = None \<longleftrightarrow> (\<exists>resp. a = Inr resp \<and> resp_StatusCode resp \<in> {200, 204, 404})"
  by (auto simp: delete_answer_def Let_def split: sum.splits)

lemma update_answer_None: "snd (update_answer a) = None \<longleftrightarrow> (\<exists>resp. a = Inr resp \<and> resp_StatusCode resp \<in> {200})"
  by (auto simp: update_answer_def Let_def split: sum.splits)

lemma create_answer_Inr: "snd (create_answer req a) = Inr x \<Longrightarrow> \<exists>resp. a = Inr resp \<and> resp_StatusCode resp \<in> {200, 201, 409}"
  by (auto simp: create_answer_def Let_def split: sum.splits if_splits)

lemma triple_terminate_probe:
  assumes svc: "probe_service N U svc" and U: "buildProbesURL c = U"
  shows "triple svc (has_probes i O' (p # M)) (terminate_probe N c (pp_ID p))
    (\<lambda>(d, c') s. same_base c c' \<and>
       (has_probes i O' (mark p # M) s \<or> has_probes i O' M s \<or> d \<noteq> None \<and> has_probes i O' (p # M) s))"
proof (cases "NewRequest ''PATCH'' (buildProbeURL c (pp_ID p))
    (marshal_ProbePatchRequest \<lparr>pa_Status = ''terminating'', pa_Labels = None\<rparr>)")
  case (Inr req)
  let ?req = "Header_Set ''Content-Type'' ''application/json'' req"
  have req: "\<not> creates ?req" "hr_method ?req = ''PATCH''" "hr_url ?req = U @ ''/'' @ pp_ID p"
    "hr_body ?req = marshal_ProbePatchRequest \<lparr>pa_Status = ''terminating'', pa_Labels = None\<rparr>"
    using NewRequest_call [OF Inr] U by (simp_all add: creates_def probe_url_extends_collection)
  show ?thesis unfolding terminate_probe_def Inr sum.case
  proof (rule triple_request [OF svc, where x = Some], goal_cases)
    case (2 a c' s s')
    then have e: "effect (terminated (pp_ID p)) {200, 204, 404} a s s'" using req by (simp add: served_def)
    note t = has_probes_terminated [OF 2(1)]
    show ?case
    proof (cases "snd (delete_answer a)")
      case None
      then have "terminated (pp_ID p) s s'" using e by (auto simp: delete_answer_None effect_def)
      with t 2(2) show ?thesis by auto
    next
      case (Some x)
      with e t 2(1,2) show ?thesis by (auto simp: effect_def)
    qed
  qed simp
qed (simp add: terminate_probe_def triple_return)

lemma triple_DeleteProbe:
  assumes svc: "probe_service N U svc" and U: "buildProbesURL c = U"
  shows "triple svc (has_probes i O' M) (DeleteProbe N c i)
    (\<lambda>(d, c') s. same_base c c' \<and> (has_probes i O' M s \<and> (d = None \<longrightarrow> M = []) \<or>
       (\<exists>p M'. M = p # M' \<and> (has_probes i O' (mark p # M') s \<or> has_probes i O' M' s))))"
  unfolding DeleteProbe_def
proof (rule triple_bind [OF triple_GetProbe [OF svc U]], goal_cases)
  case (1 a)
  obtain r c1 where a: "a = (r, c1)" by (cases a)
  show ?case
  proof (cases "\<exists>q. r = Inr (Some q)")
    case True
    then obtain q where r: "r = Inr (Some q)" by blast
    show ?thesis
    proof (cases "M \<noteq> [] \<and> q = seen (hd M) \<and> same_base c c1")
      case True
      then obtain p M' where M: "M = p # M'" and q: "q = seen p" and b: "same_base c c1" by (cases M) auto
      have U1: "buildProbesURL c1 = U" using same_base_URL [OF b] U by simp
      show ?thesis
        unfolding a r prod.case sum.case option.case M q seen_fields
        by (rule triple_mono [OF triple_terminate_probe [OF svc U1]])
          (auto dest: same_base_trans [OF b])
    qed (auto simp: a r triple_def first_def split: list.splits)
  next
    case False
    then have "(\<exists>e. r = Inl e) \<or> r = Inr None" by (cases r) auto
    then show ?thesis
      by (auto simp: a intro!: triple_return) (auto simp: first_def split: list.splits)
  qed
qed

lemma triple_UpdateProbeLabels:
  assumes svc: "probe_service N U svc" and U: "buildProbesURL c = U"
    and ls: "text_labels ls" "fmlookup ls ''cluster-id'' \<in> {None, Some i}"
  shows "triple svc (has_probes i O' (p # M)) (UpdateProbeLabels N c (pp_ID p) ls)
    (\<lambda>(u, c') s. same_base c c' \<and> (has_probes i O' (relabel ls p # M) s \<or> u \<noteq> None \<and> has_probes i O' (p # M) s))"
proof (cases "NewRequest ''PATCH'' (buildProbeURL c (pp_ID p))
    (marshal_ProbePatchRequest \<lparr>pa_Status = [], pa_Labels = Some (Some ls)\<rparr>)")
  case (Inr req)
  let ?req = "Header_Set ''Content-Type'' ''application/json'' req"
  have req: "\<not> creates ?req" "hr_method ?req = ''PATCH''" "hr_url ?req = U @ ''/'' @ pp_ID p"
    "hr_body ?req = marshal_ProbePatchRequest \<lparr>pa_Status = [], pa_Labels = Some (Some ls)\<rparr>"
    using NewRequest_call [OF Inr] U by (simp_all add: creates_def probe_url_extends_collection)
  show ?thesis unfolding UpdateProbeLabels_def Inr sum.case
  proof (rule triple_request [OF svc, where x = Some], goal_cases)
    case (2 a c' s s')
    then have e: "effect (relabelled (pp_ID p) ls) {200} a s s'" using req ls(1) by (auto simp: served_def)
    note t = has_probes_relabelled [OF 2(1) _ ls(2)]
    show ?case
    proof (cases "snd (update_answer a)")
      case None
      then have "relabelled (pp_ID p) ls s s'" using e by (auto simp: update_answer_None effect_def)
      with t 2(2) show ?thesis by auto
    next
      case (Some x)
      with e t 2(1,2) show ?thesis by (auto simp: effect_def)
    qed
  qed simp
qed (simp add: UpdateProbeLabels_def triple_return)

lemma triple_CreateProbe:
  assumes svc: "probe_service N U svc" and U: "buildProbesURL c = U"
    and ls: "text_labels ls" "map_read ls ''cluster-id'' = i" and url: "valid_utf8 url"
  shows "triple svc (has_probes i O' M) (CreateProbe N c \<lparr>pq_StaticURL = url, pq_Labels = Some ls\<rparr>)
    (\<lambda>(r, c') s. (\<exists>q. has_probes i O' (M @ [q]) s \<and> pp_Labels q = Some ls \<and> live q) \<or>
       has_probes i O' M s \<and> (\<forall>x. r = Inr x \<longrightarrow> (\<exists>p \<in> set (O' @ M). sp_URL p = url)))"
proof (cases "NewRequest ''POST'' (buildProbesURL c) (marshal_ProbeRequest \<lparr>pq_StaticURL = url, pq_Labels = Some ls\<rparr>)")
  case (Inr req)
  let ?req = "Header_Set ''Content-Type'' ''application/json'' req"
  have req: "creates ?req" "hr_url ?req = U" "hr_body ?req = marshal_ProbeRequest \<lparr>pq_StaticURL = url, pq_Labels = Some ls\<rparr>"
    using NewRequest_call [OF Inr] U by (simp_all add: creates_def)
  show ?thesis unfolding CreateProbe_def Inr sum.case
  proof (rule triple_request [OF svc, where x = Inl], goal_cases)
    case (2 a c' s s')
    have e: "effect (created url (Some ls)) {200, 201} a s s'"
      and conflict: "\<And>resp. a = Inr resp \<Longrightarrow> resp_StatusCode resp = 409 \<Longrightarrow> s' = s \<and> (\<exists>p \<in> set s. sp_URL p = url)"
      using 2(3) req ls url unfolding served_def by auto
    have all: "set s = set (O' @ M)" using 2(1) by (auto simp: has_probes_def mine_def)
    note t = has_probes_created [OF 2(1) _ ls(2)]
    show ?case
    proof (cases "created url (Some ls) s s'")
      case True
      with t show ?thesis by auto
    next
      case False
      with e have same: "s' = s" by (auto simp: effect_def)
      have "\<exists>p \<in> set (O' @ M). sp_URL p = url" if "snd (create_answer \<lparr>pq_StaticURL = url, pq_Labels = Some ls\<rparr> a) = Inr x" for x
      proof -
        from create_answer_Inr [OF that] obtain resp where r: "a = Inr resp" "resp_StatusCode resp \<in> {200, 201, 409}" by blast
        with e False have "resp_StatusCode resp = 409" by (auto simp: effect_def)
        with conflict r all show ?thesis by auto
      qed
      then show ?thesis using 2(1) same by auto
    qed
  qed simp
qed (simp add: CreateProbe_def triple_return)

end
