(* ===== verification/Probe_Ensure.thy ===== *)
theory Probe_Ensure
  imports Probe_Service
begin

text \<open>
  The handling of a cluster's RHOBS probe on a store of probes: what it promises when it returns without
  an error, and what holds whatever fails.
\<close>

section \<open>Texts\<close>

lemma utf8_ascii: "list_all (\<lambda>c. between c 0 127) s \<Longrightarrow> valid_utf8 s"
proof (induction s)
  case (Cons c s)
  then have "rune_len (c # s) = 1" by (simp add: rune_len_def rune_lead_def)
  then show ?case using Cons by (simp add: valid_utf8.simps [of "c # s"])
qed (simp add: valid_utf8.simps)

lemma ascii_nat_dec: "list_all (\<lambda>c. between c 0 127) (nat_dec n)"
proof (induction n rule: nat_dec.induct)
  case (1 n)
  moreover have "n mod 10 \<le> 79" by (rule order_trans [of _ 9]) (simp_all add: less_Suc_eq_le [symmetric])
  ultimately show ?case by (subst nat_dec.simps) (simp add: between_def)
qed

lemma stamp_utf8: "valid_utf8 (format_stamp t)"
proof -
  have "list_all (\<lambda>c. between c 0 127) (pad k n)" for k n
    using ascii_nat_dec by (auto simp: pad_def itoa_def between_def list_all_iff)
  then show ?thesis
    by (intro utf8_ascii) (simp add: format_stamp_def Let_def between_def split: prod.split)
qed

section \<open>Cases of the store\<close>

lemma triple_cases:
  assumes "\<And>s. P s \<Longrightarrow> \<exists>R. R s \<and> triple svc R m Q"
  shows "triple svc P m Q"
  using assms unfolding triple_def by blast

text \<open>Whatever the result, the other clusters' probes are what they were and the cluster has at most one
  live probe; a result without an error says more.\<close>

definition ends_in ::
    "string \<Rightarrow> StoredProbe list \<Rightarrow> (StoredProbe list \<Rightarrow> bool) \<Rightarrow> go_error option outcome \<Rightarrow> StoredProbe list \<Rightarrow> bool" where
  "ends_in i O' G r s \<longleftrightarrow>
     (\<exists>M'. has_probes i O' M' s \<and> length (filter live M') \<le> 1 \<and> (r = Returns None \<longrightarrow> G M'))"

lemma ends_in_mono: "ends_in i O' G r s \<Longrightarrow> (\<And>M. G M \<Longrightarrow> G' M) \<Longrightarrow> ends_in i O' G' r s"
  by (auto simp: ends_in_def)

lemma ends_inI:
  "has_probes i O' M' s \<Longrightarrow> length (filter live M') \<le> Suc 0 \<Longrightarrow> (r = Returns None \<Longrightarrow> G M') \<Longrightarrow> ends_in i O' G r s"
  by (auto simp: ends_in_def)

text \<open>The one live probe of a cluster, with the labels its control plane calls for.\<close>

definition probed_as :: "HostedControlPlane \<Rightarrow> StoredProbe list \<Rightarrow> bool" where
  "probed_as h M \<longleftrightarrow> (\<exists>p region. filter live M = [p] \<and> getClusterRegion h = Returns (Inr region) \<and>
     isPrivateProbe (seen p) = isPrivateHCP h \<and> labels_read (pp_Labels p) ''region'' = region)"

text \<open>The cluster has no live probe, and the API refuses one, since a probe with its URL is stored: one of
  another cluster, or one of its own that is terminating.  The client takes the refusal for a success.\<close>

definition refused :: "string \<Rightarrow> StoredProbe list \<Rightarrow> StoredProbe list \<Rightarrow> bool" where
  "refused u O' M \<longleftrightarrow> filter live M = [] \<and> (\<exists>p \<in> set (O' @ M). sp_URL p = u)"

definition handled :: "HostedControlPlane \<Rightarrow> string \<Rightarrow> StoredProbe list \<Rightarrow> StoredProbe list \<Rightarrow> bool" where
  "handled h u O' M \<longleftrightarrow> probed_as h M \<or> refused u O' M"

lemma ends_in_handled: "ends_in i O' (probed_as h) r s \<Longrightarrow> ends_in i O' (handled h u O') r s"
  by (erule ends_in_mono) (simp add: handled_def)

definition text_cluster :: "HostedControlPlane \<Rightarrow> bool" where
  "text_cluster h \<longleftrightarrow> valid_utf8 (hcps_clusterID (obj_spec h)) \<and>
     (\<forall>host. GetAPIServerHostname h = Inr host \<longrightarrow> valid_utf8 (''https://'' @ host @ ''/livez'')) \<and>
     (\<forall>region. getClusterRegion h = Returns (Inr region) \<longrightarrow> valid_utf8 region)"

lemma live_mark [simp]: "\<not> live (mark p)"
  by (simp add: live_def mark_def)

lemma utf8_words: "valid_utf8 ''cluster-id''" "valid_utf8 ''private''" "valid_utf8 ''region''"
  "valid_utf8 ''last-reconciled''" "valid_utf8 ''true''" "valid_utf8 ''false''"
  by code_simp+

section \<open>Creating a probe\<close>

lemma case_ret: "(case r of Inl e \<Rightarrow> ret (f e) | Inr _ \<Rightarrow> ret a) = ret (case r of Inl e \<Rightarrow> f e | Inr _ \<Rightarrow> a)"
  by (cases r) simp_all

lemma triple_create_probe:
  assumes svc: "probe_service N U svc" and U: "buildProbesURL c = U" and utf: "text_cluster h" "valid_utf8 u"
    and i: "i = hcps_clusterID (obj_spec h)" and none: "filter live M = []"
  shows "triple svc (has_probes i O' M) (create_probe N c h u (isPrivateHCP h)) (ends_in i O' (handled h u O'))"
proof -
  have out: "triple svc (has_probes i O' M) (ret r) (ends_in i O' (handled h u O'))" if "r \<noteq> Returns None" for r
    using that none by (auto simp: ends_in_def intro!: triple_return exI [of _ M])
  show ?thesis
  proof (cases "\<exists>region. getClusterRegion h = Returns (Inr region)")
    case True
    then obtain region where region: "getClusterRegion h = Returns (Inr region)" by blast
    let ?ls = "\<lambda>t. fmap_of_list [(''cluster-id'', i), (''private'', if isPrivateHCP h then ''true'' else ''false''),
      (''region'', region), (''last-reconciled'', format_stamp t)]"
    have ls: "text_labels (?ls t)" "map_read (?ls t) ''cluster-id'' = i" for t
      using utf region utf8_words stamp_utf8 [of t]
      by (auto simp: text_labels_def text_cluster_def i map_read_def fmpred_iff fmlookup_of_list split: if_splits)
    have q: "isPrivateProbe (seen q) = isPrivateHCP h \<and> labels_read (pp_Labels q) ''region'' = region"
      if "pp_Labels q = Some (?ls t)" for q t
      using that by (simp add: isPrivateProbe_def labels_read_def map_read_def fmlookup_of_list)
    have post: "ends_in i O' (handled h u O') (case r of Inl err \<Rightarrow> Returns (Some (wrap_w ''failed to create RHOBS probe'' err))
        | Inr _ \<Rightarrow> Returns None) s"
      if "(\<exists>q. has_probes i O' (M @ [q]) s \<and> pp_Labels q = Some (?ls t) \<and> live q) \<or>
        has_probes i O' M s \<and> (\<forall>x. r = Inr x \<longrightarrow> (\<exists>p \<in> set (O' @ M). sp_URL p = u))" for r s t
      using that
    proof (elim disjE exE conjE)
      fix q
      assume *: "has_probes i O' (M @ [q]) s" "pp_Labels q = Some (?ls t)" "live q"
      then show ?thesis
        using none q [OF *(2)] region
        by (auto simp: ends_in_def handled_def probed_as_def intro!: exI [of _ "M @ [q]"])
    next
      assume *: "has_probes i O' M s" "\<forall>x. r = Inr x \<longrightarrow> (\<exists>p \<in> set (O' @ M). sp_URL p = u)"
      with none show ?thesis
        by (cases r) (auto simp: ends_in_def handled_def refused_def intro!: exI [of _ M])
    qed
    show ?thesis
      unfolding create_probe_def region outcome.case sum.case NewClusterProbeRequest_def NewProbeRequest_def
        Let_def bind_assoc i [symmetric]
    proof (rule triple_bind [OF triple_quiet(1) [OF svc]], unfold bind_left_identity, goal_cases)
      case (1 t)
      show ?case
      proof (rule triple_bind [OF triple_CreateProbe [OF svc U ls utf(2)]], goal_cases)
        case (1 a)
        obtain r c' where a: "a = (r, c')" by (cases a)
        show ?case unfolding a prod.case case_ret by (rule triple_return, rule post)
      qed
    qed
  next
    case False
    then show ?thesis
      using out by (auto simp: create_probe_def split: outcome.split sum.split)
  qed
qed

section \<open>Removing and refreshing a probe\<close>

text \<open>The first probe of the cluster, if there is one, is live, and no other.\<close>

definition fresh :: "StoredProbe list \<Rightarrow> bool" where
  "fresh M \<longleftrightarrow> filter live (tl M) = [] \<and> (M \<noteq> [] \<longrightarrow> live (hd M))"

lemma fresh_live: "fresh M \<Longrightarrow> length (filter live M) \<le> 1"
  by (cases M) (auto simp: fresh_def)

text \<open>After a deletion without an error no probe of the cluster is live.\<close>

lemma triple_delete_live:
  assumes svc: "probe_service N U svc" and U: "buildProbesURL c = U" and M: "fresh M"
  shows "triple svc (has_probes i O' M) (DeleteProbe N c i) (\<lambda>(d, c') s. same_base c c' \<and>
    (\<exists>M'. has_probes i O' M' s \<and> length (filter live M') \<le> 1 \<and> (d = None \<longrightarrow> filter live M' = [])))"
proof (rule triple_mono [OF triple_DeleteProbe [OF svc U]], assumption, clarify, goal_cases)
  case (1 d c' s)
  from 1(2) show ?case
  proof (elim disjE conjE exE)
    assume "has_probes i O' M s" "d = None \<longrightarrow> M = []"
    then show ?thesis using fresh_live [OF M] 1(1) by (auto intro!: exI [of _ M])
  next
    fix p T
    assume "M = p # T" "has_probes i O' (mark p # T) s"
    then show ?thesis using M 1(1) by (auto simp: fresh_def intro!: exI [of _ "mark p # T"])
  next
    fix p T
    assume "M = p # T" "has_probes i O' T s"
    then show ?thesis using M 1(1) by (auto simp: fresh_def intro!: exI [of _ T])
  qed
qed

lemma triple_drop_probe:
  assumes svc: "probe_service N U svc" and U: "buildProbesURL c = U" and M: "fresh M"
  shows "triple svc (has_probes i O' M) (drop_probe N c i) (\<lambda>d. ends_in i O' (\<lambda>M'. filter live M' = []) (Returns d))"
  unfolding drop_probe_def
proof (rule triple_bind [OF triple_GetProbe [OF svc U]], goal_cases)
  case (1 a)
  obtain g c1 where a: "a = (g, c1)" by (cases a)
  show ?case
    unfolding a prod.case
  proof (rule triple_cases, elim conjE, goal_cases)
    case (1 s)
    note delete = triple_delete_live [OF svc _ M, of c1 i O'] and U1 = same_base_URL [OF 1(2)]
    have "triple svc (has_probes i O' M)
      (case g of Inl err \<Rightarrow> ret (Some (wrap_w ''failed to check existing probe'' err)) | Inr None \<Rightarrow> ret None
       | Inr (Some existingProbe) \<Rightarrow> do { (d, _) \<leftarrow> DeleteProbe N c1 i;
           (case d of Some err \<Rightarrow> ret (Some (wrap_w ''failed to delete probe for limited support cluster'' err))
            | None \<Rightarrow> ret None) }) (\<lambda>d. ends_in i O' (\<lambda>M'. filter live M' = []) (Returns d))"
    proof (cases g)
      case (Inl e)
      then show ?thesis using fresh_live [OF M] by (auto simp: ends_in_def intro!: triple_return exI [of _ M])
    next
      case (Inr e)
      show ?thesis
      proof (cases e)
        case None
        then have "M = []" using 1(3) Inr by (auto simp: first_def split: list.splits)
        then show ?thesis unfolding Inr None by (auto simp: ends_in_def intro!: triple_return exI [of _ "[]"])
      next
        case (Some q)
        show ?thesis
          unfolding Inr Some sum.case option.case
          by (rule triple_bind [OF delete])
            (use U U1 in \<open>auto intro!: triple_return ends_inI split: option.split\<close>)
      qed
    qed
    then show ?case using 1(1) by blast
  qed
qed

definition refreshed :: "HostedControlPlane \<Rightarrow> Client \<Rightarrow> string \<Rightarrow> StoredProbe list
    \<Rightarrow> (go_error option + Client) outcome \<Rightarrow> StoredProbe list \<Rightarrow> bool" where
  "refreshed h c i O' r s \<longleftrightarrow>
     (case r of
        Panics \<Rightarrow> ends_in i O' (probed_as h) Panics s
      | Returns (Inl x) \<Rightarrow> ends_in i O' (probed_as h) (Returns x) s
      | Returns (Inr c') \<Rightarrow> same_base c c' \<and> (\<exists>M'. has_probes i O' M' s \<and> filter live M' = []))"

lemma relabel_private: "fmlookup ls ''private'' = None \<Longrightarrow> isPrivateProbe (seen (relabel ls p)) = isPrivateProbe (seen p)"
  by (simp add: isPrivateProbe_def relabel_read)

lemma triple_refresh_probe:
  assumes svc: "probe_service N U svc" and U: "buildProbesURL c = U" and utf: "text_cluster h"
    and i: "i = hcps_clusterID (obj_spec h)" and M: "fresh (p # T)"
  shows "triple svc (has_probes i O' (p # T)) (refresh_probe N c h (seen p) (isPrivateHCP h)) (refreshed h c i O')"
proof -
  have T: "filter live T = []" and p: "live p" using M by (simp_all add: fresh_def)
  let ?beat = "\<lambda>t. fmap_of_list [(''last-reconciled'', format_stamp t)]"
  have beat: "text_labels (?beat t)" "fmlookup (?beat t) ''cluster-id'' \<in> {None, Some i}"
    "fmlookup (?beat t) ''private'' = None" "fmlookup (?beat t) ''region'' = None" for t
    using utf8_words stamp_utf8 [of t] by (auto simp: text_labels_def fmpred_iff fmlookup_of_list split: if_splits)
  have out: "refreshed h c i O' r s"
    if "has_probes i O' (q # T) s" "live q" "r = Panics \<or> (\<exists>e. r = Returns (Inl (Some e)))" for r s q
    using that T by (auto simp: refreshed_def ends_in_def intro!: exI [of _ "q # T"])
  have good: "refreshed h c i O' (Returns (Inl None)) s"
    if "has_probes i O' (q # T) s" "live q" "getClusterRegion h = Returns (Inr region)"
      "isPrivateProbe (seen q) = isPrivateHCP h" "labels_read (pp_Labels q) ''region'' = region" for q s region
    using that T by (auto simp: refreshed_def ends_in_def probed_as_def intro!: exI [of _ "q # T"])
  text \<open>after the heartbeat\<close>
  have rest: "triple svc (has_probes i O' (q # T)) (case getClusterRegion h of
      Panics \<Rightarrow> ret Panics
    | Returns (Inl err) \<Rightarrow> ret (Returns (Inl (Some (wrap_w ''failed to get cluster region'' err))))
    | Returns (Inr clusterRegion) \<Rightarrow>
        let hasPrivateLabel = (case pp_Labels p of None \<Rightarrow> False | Some m \<Rightarrow> fmlookup m ''private'' \<noteq> None);
            labelsMatch = (hasPrivateLabel \<and> isPrivateProbe (seen p) = isPrivateHCP h \<and>
                           labels_read (pp_Labels p) ''region'' = clusterRegion) in
        if labelsMatch
        then (case beatErr of
                Some err \<Rightarrow> ret (Returns (Inl (Some (wrap_w ''probe labels match but heartbeat update failed'' err))))
              | None \<Rightarrow> ret (Returns (Inl None)))
        else if \<not> hasPrivateLabel \<or> isPrivateProbe (seen p) \<noteq> isPrivateHCP h
        then do { (d, client2) \<leftarrow> DeleteProbe N c1 i;
                  (case d of
                     Some err \<Rightarrow> ret (Returns (Inl (Some (wrap_w ''failed to delete probe for private label correction'' err))))
                   | None \<Rightarrow> ret (Returns (Inr client2))) }
        else do { t' \<leftarrow> now N;
                  (u, _) \<leftarrow> UpdateProbeLabels N c1 (pp_ID p)
                     (fmap_of_list [(''cluster-id'', i), (''region'', clusterRegion), (''last-reconciled'', format_stamp t')]);
                  (case u of
                     Some err \<Rightarrow> ret (Returns (Inl (Some (wrap_w ''failed to update RHOBS probe labels'' err))))
                   | None \<Rightarrow> ret (Returns (Inl None))) }) (refreshed h c i O')"
    if b: "same_base c c1" and q: "live q" "pp_ID q = pp_ID p" "isPrivateProbe (seen q) = isPrivateProbe (seen p)"
      "labels_read (pp_Labels q) ''region'' = labels_read (pp_Labels p) ''region''" for c1 q beatErr
  proof (cases "\<exists>region. getClusterRegion h = Returns (Inr region)")
    case False
    then show ?thesis
      using out [OF _ q(1)] by (auto intro!: triple_return split: outcome.split sum.split)
  next
    case True
    then obtain region where region: "getClusterRegion h = Returns (Inr region)" by blast
    have U1: "buildProbesURL c1 = U" using same_base_URL [OF b] U by simp
    have Q: "fresh (q # T)" using T q by (simp add: fresh_def)
    let ?ls = "\<lambda>t. fmap_of_list [(''cluster-id'', i), (''region'', region), (''last-reconciled'', format_stamp t)]"
    have ls: "text_labels (?ls t)" "fmlookup (?ls t) ''cluster-id'' \<in> {None, Some i}" "fmlookup (?ls t) ''private'' = None"
      "fmlookup (?ls t) ''region'' = Some region" for t
      using utf region utf8_words stamp_utf8 [of t]
      by (auto simp: text_labels_def text_cluster_def i fmpred_iff fmlookup_of_list split: if_splits)
    have delete: "triple svc (has_probes i O' (q # T)) (do { (d, client2) \<leftarrow> DeleteProbe N c1 i;
        (case d of
           Some err \<Rightarrow> ret (Returns (Inl (Some (wrap_w ''failed to delete probe for private label correction'' err))))
         | None \<Rightarrow> ret (Returns (Inr client2))) }) (refreshed h c i O')"
      by (rule triple_bind [OF triple_delete_live [OF svc U1 Q]])
        (auto simp: refreshed_def ends_in_def intro!: triple_return same_base_trans [OF b] split: option.split; force)
    have update: "triple svc (has_probes i O' (q # T)) (do { t' \<leftarrow> now N; (u, _) \<leftarrow> UpdateProbeLabels N c1 (pp_ID p) (?ls t');
        (case u of
           Some err \<Rightarrow> ret (Returns (Inl (Some (wrap_w ''failed to update RHOBS probe labels'' err))))
         | None \<Rightarrow> ret (Returns (Inl None))) }) (refreshed h c i O')" if "isPrivateProbe (seen p) = isPrivateHCP h"
    proof (rule triple_bind [OF triple_quiet(1) [OF svc]], goal_cases)
      case (1 t)
      have "refreshed h c i O' (Returns (Inl None)) s" if "has_probes i O' (relabel (?ls t) q # T) s" for s
        using good [OF that _ region] q ls [of t] \<open>isPrivateProbe (seen p) = isPrivateHCP h\<close>
        by (simp add: relabel_private relabel_read)
      with out show ?case
        unfolding q(2) [symmetric]
        by (intro triple_bind [OF triple_UpdateProbeLabels [OF svc U1 ls(1,2)]])
          (use q(1) in \<open>auto intro!: triple_return split: option.split; fastforce\<close>)
    qed
    show ?thesis
      unfolding region outcome.case sum.case Let_def
      using delete update good [OF _ q(1) region] out [OF _ q(1)] q(3,4)
      by (auto intro!: triple_return split: option.split)
  qed
  show ?thesis
    unfolding refresh_probe_def i [symmetric] seen_fields Let_def [of i] Let_def [of "pp_Labels p"]
  proof (rule triple_bind [OF triple_quiet(1) [OF svc]], rule triple_bind [OF triple_UpdateProbeLabels [OF svc U beat(1,2)]], goal_cases)
    case (1 t a)
    obtain u c1 where a: "a = (u, c1)" by (cases a)
    show ?case
      unfolding a prod.case
    proof (rule triple_cases, elim conjE disjE, goal_cases)
      case (1 s)
      show ?case
        by (rule exI, rule conjI, rule 1(2), rule rest [OF 1(1)])
          (use p beat [of t] in \<open>simp_all add: relabel_private relabel_read\<close>)
    next
      case (2 s)
      show ?case
        by (rule exI, rule conjI, rule 2(3), rule rest [OF 2(1)]) (use p in simp_all)
    qed
  qed
qed

section \<open>ensureRHOBSProbe\<close>

text \<open>What the handling of a cluster promises when it returns without an error: no live probe for a cluster
  with limited support, no change for a private one when only public ones are probed, and otherwise one
  live probe with the right labels, or none if a stored probe with the cluster's URL makes the API refuse it.\<close>

definition rhobs_goal ::
    "bool \<Rightarrow> RHOBSConfig \<Rightarrow> HostedControlPlane \<Rightarrow> StoredProbe list \<Rightarrow> StoredProbe list \<Rightarrow> StoredProbe list \<Rightarrow> bool" where
  "rhobs_goal limited cfg h O' M M' \<longleftrightarrow>
     (if limited then filter live M' = []
      else if OnlyPublicClusters cfg \<and> isPrivateHCP h then M' = M
      else \<exists>host. GetAPIServerHostname h = Inr host \<and> handled h (''https://'' @ host @ ''/livez'') O' M')"

text \<open>The cluster's API server is not the store.\<close>

definition off_the_store :: "'w Env \<Rightarrow> ('w \<Rightarrow> StoredProbe list) \<Rightarrow> bool" where
  "off_the_store E svc \<longleftrightarrow> (\<forall>k w. wp (kube_Get (hc_api E) k) (\<lambda>_ w'. svc w' = svc w) w)"

lemma triple_limited_support:
  assumes "off_the_store E svc" and "yields ((=) limited) (limited_support E h)"
  shows "triple svc P (limited_support E h) (\<lambda>l s. P s \<and> l = limited)"
proof -
  have "triple svc P (kube_Get (hc_api E) k) (\<lambda>_. P)" for k
    using assms(1) by (auto simp: off_the_store_def intro!: triple_silent)
  then have silent: "triple svc P (limited_support E h) (\<lambda>_. P)"
    unfolding limited_support_def Let_def by (auto intro!: triple_return triple_bind)
  show ?thesis
    unfolding triple_def
  proof (intro allI impI)
    fix w
    assume "P (svc w)"
    with silent have "wp (limited_support E h) (\<lambda>_ w'. P (svc w')) w" by (simp add: triple_def)
    from wp_yields [OF assms(2) this] show "wp (limited_support E h) (\<lambda>l w'. P (svc w') \<and> l = limited) w"
      by (rule wp_mono) simp
  qed
qed

lemma triple_wait: "(\<And>s. P s \<Longrightarrow> A) \<Longrightarrow> (A \<Longrightarrow> triple svc P m Q) \<Longrightarrow> triple svc P m Q"
  unfolding triple_def by blast

lemma triple_probe:
  assumes svc: "probe_service N U svc" and U: "U = buildProbesURL (createRHOBSClient cfg)"
    and utf: "text_cluster h" and i: "i = hcps_clusterID (obj_spec h)" and M: "fresh M"
    and host: "GetAPIServerHostname h = Inr host"
  defines "u \<equiv> ''https://'' @ host @ ''/livez''"
  shows "triple svc (has_probes i O' M) (do { (g, client) \<leftarrow> GetProbe N (createRHOBSClient cfg) i;
    (case g of
       Inl err \<Rightarrow> ret (Returns (Some (wrap_w ''failed to check existing probe'' err)))
     | Inr None \<Rightarrow> create_probe N client h u (isPrivateHCP h)
     | Inr (Some existingProbe) \<Rightarrow>
         if pp_Status existingProbe = ''failed''
         then do { (d, client') \<leftarrow> DeleteProbe N client i;
                   (case d of
                      Some err \<Rightarrow> ret (Returns (Some (wrap_w ''failed to delete failed probe'' err)))
                    | None \<Rightarrow> create_probe N client' h u (isPrivateHCP h)) }
         else do { f \<leftarrow> refresh_probe N client h existingProbe (isPrivateHCP h);
                   (case f of
                      Panics \<Rightarrow> ret Panics
                    | Returns (Inl r) \<Rightarrow> ret (Returns r)
                    | Returns (Inr client') \<Rightarrow> create_probe N client' h u (isPrivateHCP h)) }) })
    (ends_in i O' (handled h u O'))"
proof (rule triple_bind [OF triple_GetProbe [OF svc U [symmetric]]], goal_cases)
  case (1 a)
  obtain g c where a: "a = (g, c)" by (cases a)
  have url: "valid_utf8 u" using utf host by (simp add: text_cluster_def u_def)
  have create: "triple svc P (create_probe N c' h u (isPrivateHCP h)) (ends_in i O' (handled h u O'))"
    if "buildProbesURL c' = U" "\<And>s. P s \<Longrightarrow> \<exists>M'. has_probes i O' M' s \<and> filter live M' = []" for c' P
  proof (rule triple_cases)
    fix s
    assume "P s"
    with that(2) obtain M' where m: "has_probes i O' M' s" "filter live M' = []" by blast
    show "\<exists>R. R s \<and> triple svc R (create_probe N c' h u (isPrivateHCP h)) (ends_in i O' (handled h u O'))"
      by (intro exI [of _ "has_probes i O' M'"] conjI m(1) triple_create_probe [OF svc that(1) utf url i m(2)])
  qed
  show ?case
    unfolding a prod.case
  proof (rule triple_wait [where A = "same_base (createRHOBSClient cfg) c \<and> (\<forall>e. g = Inr e \<longrightarrow> e = map_option seen (first M))"], simp, elim conjE, goal_cases)
    case 1
    have Uc: "buildProbesURL c = U" using same_base_URL [OF 1(1)] U by simp
    have url': "buildProbesURL c' = U" if "same_base c c'" for c' using same_base_URL [OF that] Uc by simp
    have err: "ends_in i O' (handled h u O') (Returns (Some e)) s" if "has_probes i O' M s" for e s
      by (rule ends_inI [OF that]) (use fresh_live [OF M] in simp_all)
    consider e where "g = Inl e" | "g = Inr None" "M = []" | p T where "g = Inr (Some (seen p))" "M = p # T"
      using 1(2) by (cases g) (auto simp: first_def split: list.splits)
    then show ?case
    proof cases
      case 1
      then show ?thesis using err by (auto intro!: triple_return)
    next
      case 2
      then show ?thesis unfolding 2(1) sum.case option.case by (intro create [OF Uc]) auto
    next
      case (3 p T)
      have "triple svc (has_probes i O' M) (do { (d, client') \<leftarrow> DeleteProbe N c i;
          (case d of
             Some err \<Rightarrow> ret (Returns (Some (wrap_w ''failed to delete failed probe'' err)))
           | None \<Rightarrow> create_probe N client' h u (isPrivateHCP h)) }) (ends_in i O' (handled h u O'))"
      proof (rule triple_bind [OF triple_delete_live [OF svc Uc M]], goal_cases)
        case (1 b)
        obtain d c' where b: "b = (d, c')" by (cases b)
        show ?case
        proof (cases d)
          case None
          show ?thesis unfolding b None prod.case option.case
            by (rule triple_wait [where A = "same_base c c'"], simp, rule create [OF url']) auto
        qed (auto simp: b intro!: triple_return intro: ends_inI)
      qed
      moreover have "triple svc (has_probes i O' M) (do { f \<leftarrow> refresh_probe N c h (seen p) (isPrivateHCP h);
          (case f of
             Panics \<Rightarrow> ret Panics
           | Returns (Inl r) \<Rightarrow> ret (Returns r)
           | Returns (Inr client') \<Rightarrow> create_probe N client' h u (isPrivateHCP h)) }) (ends_in i O' (handled h u O'))"
        unfolding 3(2)
      proof (rule triple_bind [OF triple_refresh_probe [OF svc Uc utf i M [unfolded 3(2)]]], goal_cases)
        case (1 f)
        show ?case
        proof (cases "\<exists>c'. f = Returns (Inr c')")
          case True
          then obtain c' where f: "f = Returns (Inr c')" by blast
          show ?thesis unfolding f outcome.case sum.case
            by (rule triple_wait [where A = "same_base c c'"], simp add: refreshed_def, rule create [OF url'])
              (auto simp: refreshed_def)
        qed (cases f; auto simp: refreshed_def intro!: triple_return intro: ends_in_handled split: sum.splits)
      qed
      ultimately have both: "triple svc (has_probes i O' M) (if pp_Status (seen p) = ''failed''
         then do { (d, client') \<leftarrow> DeleteProbe N c i;
          (case d of
             Some err \<Rightarrow> ret (Returns (Some (wrap_w ''failed to delete failed probe'' err)))
           | None \<Rightarrow> create_probe N client' h u (isPrivateHCP h)) }
         else do { f \<leftarrow> refresh_probe N c h (seen p) (isPrivateHCP h);
          (case f of
             Panics \<Rightarrow> ret Panics
           | Returns (Inl r) \<Rightarrow> ret (Returns r)
           | Returns (Inr client') \<Rightarrow> create_probe N client' h u (isPrivateHCP h)) }) (ends_in i O' (handled h u O'))"
        by simp
      show ?thesis
        unfolding 3(1) sum.case option.case
        by (rule triple_mono [OF both]) simp_all
    qed
  qed
qed

lemma triple_ensureRHOBSProbe:
  assumes svc: "probe_service N (buildProbesURL (createRHOBSClient cfg)) svc" and "off_the_store E svc"
    and "yields ((=) limited) (limited_support E h)" and utf: "text_cluster h" and M: "fresh M"
  shows "triple svc (has_probes (hcps_clusterID (obj_spec h)) O' M) (ensureRHOBSProbe E N h cfg)
     (ends_in (hcps_clusterID (obj_spec h)) O' (rhobs_goal limited cfg h O' M))"
proof -
  let ?i = "hcps_clusterID (obj_spec h)"
  let ?E = "ends_in ?i O' (rhobs_goal limited cfg h O' M)"
  have err: "ends_in ?i O' G (Returns (Some e)) s" if "has_probes ?i O' M s" for e s G
    by (rule ends_inI [OF that]) (use fresh_live [OF M] in simp_all)
  have drop: "triple svc (has_probes ?i O' M) (do { r \<leftarrow> drop_probe N (createRHOBSClient cfg) ?i; ret (Returns r) }) ?E" if limited
    by (rule triple_bind [OF triple_drop_probe [OF svc refl M]])
      (use that in \<open>auto simp: ends_in_def rhobs_goal_def intro!: triple_return\<close>)
  have "triple svc (has_probes ?i O' M) (ensureRHOBSProbe E N h cfg) ?E"
    unfolding ensureRHOBSProbe_def Let_def
  proof (split if_split, intro conjI impI, goal_cases)
    case 2
    show ?case
    proof (rule triple_bind [OF triple_limited_support [OF assms(2,3)]], goal_cases)
      case (1 l)
      show ?case
      proof (rule triple_wait [where A = "l = limited"], goal_cases)
        case 2
        note l = this
        show ?case
        proof (rule triple_mono [where P = "has_probes ?i O' M" and Q = ?E], goal_cases)
        case 1
        show ?case
        proof (cases l)
          case True
          then show ?thesis using drop l by simp
        next
          case False
          have skip: "?E (Returns None) s" if "has_probes ?i O' M s" "OnlyPublicClusters cfg \<and> isPrivateHCP h" for s
            by (rule ends_inI [OF that(1)]) (use False l that fresh_live [OF M] in \<open>simp_all add: rhobs_goal_def\<close>)
          have probe: "triple svc (has_probes ?i O' M) m ?E"
            if "triple svc (has_probes ?i O' M) m (ends_in ?i O' (handled h (''https://'' @ host @ ''/livez'') O'))"
              "GetAPIServerHostname h = Inr host" "\<not> (OnlyPublicClusters cfg \<and> isPrivateHCP h)" for m host
            by (rule triple_mono [OF that(1)]) (use False l that(2,3) in \<open>auto elim!: ends_in_mono simp: rhobs_goal_def\<close>)
          show ?thesis
            using False skip err probe [OF triple_probe [OF svc refl utf refl M]]
            by (auto intro!: triple_return split: sum.split)
        qed
        qed simp_all
      qed simp
    qed
  qed (use err in \<open>auto intro!: triple_return\<close>)
  then show ?thesis .
qed


section \<open>A probe that is terminating\<close>

definition labelled_as :: "HostedControlPlane \<Rightarrow> StoredProbe \<Rightarrow> bool" where
  "labelled_as h p \<longleftrightarrow> (\<exists>m. pp_Labels p = Some m \<and> fmlookup m ''private'' \<noteq> None) \<and> isPrivateProbe (seen p) = isPrivateHCP h \<and>
     (\<forall>region. getClusterRegion h = Returns (Inr region) \<longrightarrow> labels_read (pp_Labels p) ''region'' = region)"

text \<open>C15. A probe that is terminating and has the right labels is taken for the cluster's probe: while it is
  the first one that the API lists, no probe is created, whatever fails.\<close>

theorem terminating_probe_not_replaced:
  assumes svc: "probe_service N (buildProbesURL (createRHOBSClient cfg)) svc" and "off_the_store E svc"
    and "yields ((=) False) (limited_support E h)"
    and p: "pp_Status p = ''terminating''" "labelled_as h p"
    and start: "has_probes (hcps_clusterID (obj_spec h)) O' (p # T) (svc w)"
  shows "wp (ensureRHOBSProbe E N h cfg) (\<lambda>_ w'. \<exists>q. has_probes (hcps_clusterID (obj_spec h)) O' (q # T) (svc w') \<and> \<not> live q) w"
proof -
  let ?i = "hcps_clusterID (obj_spec h)"
  define S where "S s \<longleftrightarrow> (\<exists>q. has_probes ?i O' (q # T) s \<and> \<not> live q)" for s
  let ?Q = "\<lambda>_. S"
  have dead: "\<not> live p" using p(1) by (simp add: live_def)
  have same: "S s" if "has_probes ?i O' (p # T) s" for s using that dead by (auto simp: S_def)
  let ?beat = "\<lambda>t. fmap_of_list [(''last-reconciled'', format_stamp t)]"
  have beat: "text_labels (?beat t)" "fmlookup (?beat t) ''cluster-id'' \<in> {None, Some ?i}" for t
    using utf8_words stamp_utf8 [of t] by (auto simp: text_labels_def fmpred_iff fmlookup_of_list split: if_splits)
  have refresh: "triple svc (has_probes ?i O' (p # T)) (refresh_probe N c h (seen p) (isPrivateHCP h))
      (\<lambda>r s. S s \<and> (\<forall>c'. r \<noteq> Returns (Inr c')))" if U: "buildProbesURL c = buildProbesURL (createRHOBSClient cfg)" for c
  proof -
    obtain m where m: "pp_Labels p = Some m" "fmlookup m ''private'' \<noteq> None" using p(2) by (auto simp: labelled_as_def)
    have update: "triple svc (has_probes ?i O' (p # T)) (UpdateProbeLabels N c (pp_ID p) (?beat t)) ?Q" for t
      by (rule triple_mono [OF triple_UpdateProbeLabels [OF svc U beat]])
        (use dead same in \<open>auto simp: S_def intro: exI [of _ "relabel (?beat t) p"]\<close>)
    show ?thesis
      unfolding refresh_probe_def seen_fields Let_def
      by (rule triple_bind [OF triple_quiet(1) [OF svc]], rule triple_bind [OF update])
        (use p(2) m in \<open>auto simp: labelled_as_def intro!: triple_return split: prod.split outcome.split sum.split option.split\<close>)
  qed
  have "triple svc (has_probes ?i O' (p # T)) (ensureRHOBSProbe E N h cfg) ?Q"
    unfolding ensureRHOBSProbe_def Let_def
  proof (split if_split, intro conjI impI, goal_cases)
    case 2
    show ?case
    proof (rule triple_bind [OF triple_limited_support [OF assms(2,3)]], rule triple_wait, erule conjunct2, goal_cases)
      case (1 l)
      have probe: "triple svc (has_probes ?i O' (p # T)) (do { (g, client) \<leftarrow> GetProbe N (createRHOBSClient cfg) ?i;
          (case g of
             Inl err \<Rightarrow> ret (Returns (Some (wrap_w ''failed to check existing probe'' err)))
           | Inr None \<Rightarrow> create_probe N client h u (isPrivateHCP h)
           | Inr (Some existingProbe) \<Rightarrow>
               if pp_Status existingProbe = ''failed''
               then do { (d, client') \<leftarrow> DeleteProbe N client ?i;
                         (case d of
                            Some err \<Rightarrow> ret (Returns (Some (wrap_w ''failed to delete failed probe'' err)))
                          | None \<Rightarrow> create_probe N client' h u (isPrivateHCP h)) }
               else do { f \<leftarrow> refresh_probe N client h existingProbe (isPrivateHCP h);
                         (case f of
                            Panics \<Rightarrow> ret Panics
                          | Returns (Inl r) \<Rightarrow> ret (Returns r)
                          | Returns (Inr client') \<Rightarrow> create_probe N client' h u (isPrivateHCP h)) }) }) ?Q" for u
      proof (rule triple_bind [OF triple_GetProbe [OF svc refl]], goal_cases)
        case (1 a)
        obtain g c where a: "a = (g, c)" by (cases a)
        show ?case
          unfolding a prod.case
        proof (rule triple_wait [where A = "same_base (createRHOBSClient cfg) c \<and> (\<forall>e. g = Inr e \<longrightarrow> e = Some (seen p))"], simp add: first_simps first_def, elim conjE, goal_cases)
          case 1
          note U = same_base_URL [OF 1(1)]
          show ?case
          proof (cases g)
            case (Inl e)
            then show ?thesis using same by (auto intro!: triple_return)
          next
            case (Inr e)
            then have e: "e = Some (seen p)" using 1(2) by simp
            have f: "pp_Status (seen p) \<noteq> ''failed''" using p(1) by simp
            have "triple svc (has_probes ?i O' (p # T)) (do { f \<leftarrow> refresh_probe N c h (seen p) (isPrivateHCP h);
                (case f of
                   Panics \<Rightarrow> ret Panics
                 | Returns (Inl r) \<Rightarrow> ret (Returns r)
                 | Returns (Inr client') \<Rightarrow> create_probe N client' h u (isPrivateHCP h)) }) ?Q"
              by (rule triple_bind [OF refresh [OF U]])
                (auto simp: triple_def wp_return split: outcome.split sum.split)
            then show ?thesis
              unfolding Inr e sum.case option.case if_not_P [OF f]
              by (rule triple_mono) simp_all
          qed
        qed
      qed
      have l: "\<not> l" using 1 by simp
      show ?case
        unfolding if_not_P [OF l]
        by (rule triple_mono [where P = "has_probes ?i O' (p # T)" and Q = ?Q])
          (use probe same in \<open>auto intro!: triple_return split: sum.split\<close>)
    qed
  qed (use same in \<open>auto intro!: triple_return\<close>)
  with start show ?thesis by (simp add: triple_def S_def)
qed

end
