(* ===== verification/Hcp_Monitored.thy ===== *)
theory Hcp_Monitored
  imports Hcp_Live Probe_Ensure
begin

text \<open>
  A reconcile of a live control plane, over the cluster's API server and the store of probes together:
  what holds when it ends with the periodic requeue.
\<close>

section \<open>Two parts of the world\<close>

text \<open>The API server, and the connections to the control plane itself, are not the store of probes.\<close>

definition kube_apart :: "('w \<Rightarrow> 'x) \<Rightarrow> ('s, 't, 'w) kube \<Rightarrow> bool" where
  "kube_apart svc K \<longleftrightarrow> (\<forall>k. outside svc (kube_Get K k)) \<and> (\<forall>x. outside svc (kube_Create K x)) \<and>
     (\<forall>x. outside svc (kube_Update K x)) \<and> (\<forall>x. outside svc (kube_Delete K x))"

definition apart :: "'w Env \<Rightarrow> 'w Net \<Rightarrow> ('w \<Rightarrow> 'x) \<Rightarrow> bool" where
  "apart E N svc \<longleftrightarrow> kube_apart svc (route_api E) \<and> kube_apart svc (rm_api E) \<and> kube_apart svc (svc_api E) \<and>
     kube_apart svc (cm_api E) \<and> kube_apart svc (hc_api E) \<and> kube_apart svc (vpce_api E) \<and>
     (\<forall>a. outside svc (tls_Dial N a))"

lemma outside_kube:
  assumes "kube_apart svc K"
  shows "outside svc (kube_Get K k)" "outside svc (kube_Create K x)" "outside svc (kube_Update K x)" "outside svc (kube_Delete K x)"
  using assms by (simp_all add: kube_apart_def)

lemma apart_kinds:
  assumes "apart E N svc"
  shows "kube_apart svc (route_api E)" "kube_apart svc (rm_api E)" "kube_apart svc (svc_api E)" "kube_apart svc (cm_api E)"
    "kube_apart svc (hc_api E)" "kube_apart svc (vpce_api E)" "outside svc (tls_Dial N a)"
  using assms by (simp_all add: apart_def)

lemma apart_off_the_store: "apart E N svc \<Longrightarrow> off_the_store E svc"
  by (simp add: apart_def kube_apart_def off_the_store_def outside_def)

text \<open>The steps before the probe leave the store alone.\<close>

lemma outside_now: "probe_service N U svc \<Longrightarrow> outside svc (now N)"
  by (simp add: probe_service_def outside_def)

lemma outside_endpointOK:
  assumes "probe_service N U svc"
  shows "outside svc (endpointOK N url secure)"
proof (cases "NewRequest ''GET'' url []")
  case (Inr req)
  have req: "\<not> creates req" "hr_method req = ''GET''" using NewRequest_call [OF Inr] by (simp_all add: creates_def)
  have "outside svc (http_Do N v req)" for v
    unfolding outside_def
  proof
    fix w
    have "wp (http_Do N v req) (\<lambda>a w'. served U req (svc w) a (svc w')) w"
      using assms by (simp add: probe_service_def)
    then show "wp (http_Do N v req) (\<lambda>_ w'. svc w' = svc w) w"
      by (rule wp_mono) (use req in \<open>simp add: served_def\<close>)
  qed
  then show ?thesis
    unfolding endpointOK_def Inr sum.case by (intro outside_intros)
qed (simp add: endpointOK_def outside_return)

lemma outside_steps:
  assumes svc: "probe_service N U svc" and ap: "apart E N svc"
  shows "outside svc (hcpReady E N h cfg)" "outside svc (isVpcEndpointReady E h cfg)" "outside svc (tls_step E N h cfg)"
    "outside svc (deployInternalMonitoringObjects E h cfg)"
proof -
  note kinds = outside_kube [OF apart_kinds(1) [OF ap]] outside_kube [OF apart_kinds(2) [OF ap]]
    outside_kube [OF apart_kinds(3) [OF ap]] outside_kube [OF apart_kinds(4) [OF ap]] outside_kube [OF apart_kinds(6) [OF ap]]
    apart_kinds(7) [OF ap] outside_now [OF svc] outside_endpointOK [OF svc]
  show "outside svc (hcpReady E N h cfg)"
    unfolding hcpReady_def olderThan_def getHealthCheckConfigMap_def createHealthcheckConfigMap_def
      healthcheckHostedControlPlane_def resetHealthCheckSuccesses_def addHealthCheckSuccess_def Let_def
    by (intro outside_intros kinds)
  show "outside svc (isVpcEndpointReady E h cfg)"
    unfolding isVpcEndpointReady_def Let_def by (intro outside_intros kinds)
  show "outside svc (tls_step E N h cfg)"
    unfolding tls_step_def getKubeAPIServerPort_def isKubeAPIServerReachable_def deleteInternalMonitoringObjects_def
      delete_if_present_def Let_def
    by (intro outside_intros kinds) (auto intro!: outside_intros kinds split: list.split)
  show "outside svc (deployInternalMonitoringObjects E h cfg)"
    unfolding deployInternalMonitoringObjects_def create_or_update_def getKubeAPIServerPort_def
    by (intro outside_intros kinds) (auto intro!: outside_intros kinds split: list.split)
qed

section \<open>The reconcile\<close>

text \<open>The internal Route and RouteMonitor of a control plane stand in the cluster.\<close>

definition internally_monitored :: "Libs \<Rightarrow> HostedControlPlane \<Rightarrow> cluster \<Rightarrow> bool" where
  "internally_monitored L h c \<longleftrightarrow> (\<exists>port rt m. apiserver_port h c = Some port \<and>
     deployed c_route (internal_key h) (buildInternalMonitoringRoute L h) rt c \<and>
     deployed c_rm (internal_key h) (buildInternalMonitoringRouteMonitor L (buildInternalMonitoringRoute L h) h port) m c)"

lemma apiserver_port_cong: "c_svc d = c_svc c \<Longrightarrow> apiserver_port h d = apiserver_port h c"
  by (simp add: apiserver_port_def)

lemma internal_frame_svc: "internal_frame k c d \<Longrightarrow> c_svc d = c_svc c"
  by (cases c; cases d) (simp add: internal_frame_def)

lemma wp_monitors:
  assumes ok: "ok_world E snap w" and N: "net_frame N snap" and ap: "apart E N svc"
    and service: "probe_service N (buildProbesURL (createRHOBSClient cfg)) svc"
    and lim: "yields ((=) limited) (limited_support E h)" and utf: "text_cluster h" and M: "fresh M"
    and start: "has_probes (hcps_clusterID (obj_spec h)) O' M (svc w)"
    and cfg: "ProbeAPIURL cfg \<noteq> []" "\<not> SkipInfrastructureHealthCheck cfg" "reconcile_interval cfg \<noteq> rhobsAPIRetryTimeout"
  shows "wp (reconcile_monitors E N None h cfg) (\<lambda>r w'. r = Returns (Requeue_after (reconcile_interval cfg), None) \<longrightarrow>
     internally_monitored (libs E) h (snap w') \<and>
     (\<exists>M'. has_probes (hcps_clusterID (obj_spec h)) O' M' (svc w') \<and> rhobs_goal limited cfg h O' M M')) w"
proof -
  let ?i = "hcps_clusterID (obj_spec h)"
  have laws: "api_laws E snap" using ok by (simp add: ok_world_def)
  have probe: "wp (ensureRHOBSProbe E N h cfg) (\<lambda>r w'. snap w' = snap w1 \<and> ends_in ?i O' (rhobs_goal limited cfg h O' M) r (svc w')) w1"
    if "ok_world E snap w1" "svc w1 = svc w" for w1
  proof (rule wp_conj)
    show "wp (ensureRHOBSProbe E N h cfg) (\<lambda>_ w'. snap w' = snap w1) w1"
      using keeps_ensureRHOBSProbe [OF laws N] that(1) by (simp add: keeps_def)
    show "wp (ensureRHOBSProbe E N h cfg) (\<lambda>r w'. ends_in ?i O' (rhobs_goal limited cfg h O' M) r (svc w')) w1"
      using triple_ensureRHOBSProbe [OF service apart_off_the_store [OF ap] lim utf M, of O'] start that(2)
      by (simp add: triple_def)
  qed
  have "wp (deployInternalMonitoringObjects E h cfg) (\<lambda>_ w'. svc w' = svc w) w"
    using outside_steps(4) [OF service ap] by (simp add: outside_def)
  note deploy = wp_conj [OF wp_deploy_internal [OF ok cfg(2), of h] this]
  show ?thesis
    unfolding reconcile_monitors_def wp_bind [of "deployInternalMonitoringObjects _ _ _"]
  proof (rule wp_mono [OF deploy], goal_cases)
    case (1 r w1)
    show ?case
    proof (cases r)
      case None
      with 1 have "internally_monitored (libs E) h (snap w1)"
        using apiserver_port_cong [OF internal_frame_svc] by (auto simp: internally_monitored_def)
      with 1 show ?thesis
        unfolding None option.case wp_bind wp_return outcome.case
        using cfg by (auto intro!: wp_mono [OF probe] simp: wp_simps RequeueWith_def Requeue_after_def ends_in_def split: outcome.split option.split)
    qed (simp add: wp_return RequeueWith_def)
  qed
qed


end
