(* ===== verification/Memory_Probes.thy ===== *)
theory Memory_Probes
  imports Memory_Cluster Hcp_Monitored
begin

text \<open>
  A synthetics API that keeps its probes in memory and answers every request that it understands, next to
  the in-memory cluster: the concrete instance of \<open>probe_service\<close>, and the properties of the handling of
  probes at it.
\<close>

section \<open>Reading requests\<close>

definition assign_ProbeRequest :: "string \<Rightarrow> json \<Rightarrow> ProbeRequest \<Rightarrow> ProbeRequest option" where
  "assign_ProbeRequest k v rq =
     (if k = ''static_url'' then map_option (\<lambda>s. rq\<lparr>pq_StaticURL := s\<rparr>) (decode_string (pq_StaticURL rq) v)
      else if k = ''labels'' then map_option (\<lambda>m. rq\<lparr>pq_Labels := m\<rparr>) (decode_map (pq_Labels rq) v)
      else Some rq)"

definition read_ProbeRequest :: "string \<Rightarrow> go_error + ProbeRequest" where
  "read_ProbeRequest = unmarshal assign_ProbeRequest \<lparr>pq_StaticURL = [], pq_Labels = None\<rparr>"

definition assign_Patch :: "string \<Rightarrow> json \<Rightarrow> ProbePatchRequest \<Rightarrow> ProbePatchRequest option" where
  "assign_Patch k v rq =
     (if k = ''status'' then map_option (\<lambda>s. rq\<lparr>pa_Status := s\<rparr>) (decode_string (pa_Status rq) v)
      else if k = ''labels'' then map_option (\<lambda>m. rq\<lparr>pa_Labels := Some m\<rparr>) (decode_map None v)
      else Some rq)"

definition read_Patch :: "string \<Rightarrow> go_error + ProbePatchRequest" where
  "read_Patch = unmarshal assign_Patch \<lparr>pa_Status = [], pa_Labels = None\<rparr>"

lemma names: "fold_name ''static_url'' = ''static_url''" "valid_utf8 ''terminating''"
  by code_simp+

lemma read_marshal_ProbeRequest:
  assumes "valid_utf8 url" and "text_labels ls"
  shows "read_ProbeRequest (marshal_ProbeRequest \<lparr>pq_StaticURL = url, pq_Labels = Some ls\<rparr>) =
    Inr \<lparr>pq_StaticURL = url, pq_Labels = Some ls\<rparr>"
  unfolding read_ProbeRequest_def marshal_ProbeRequest_def
proof (rule unmarshal_print)
  let ?rq = "\<lparr>pq_StaticURL = url, pq_Labels = Some ls\<rparr>"
  show "plain_json (JObj [(''static_url'', JStr (pq_StaticURL ?rq)), (''labels'', encode_map (pq_Labels ?rq))])"
    using assms by (simp add: utf8_names plain_map text_labels_def del: valid_utf8.simps)
  show "depth (JObj [(''static_url'', JStr (pq_StaticURL ?rq)), (''labels'', encode_map (pq_Labels ?rq))]) \<le> 4"
    using depth_map [of "Some ls"] by simp
  show "decode_struct assign_ProbeRequest \<lparr>pq_StaticURL = [], pq_Labels = None\<rparr>
      (JObj [(''static_url'', JStr (pq_StaticURL ?rq)), (''labels'', encode_map (pq_Labels ?rq))]) = Some ?rq"
    by (simp add: names fold_names assign_ProbeRequest_def decode_encode_map del: fold_name.simps)
qed

lemma read_marshal_Patch:
  "read_Patch (marshal_ProbePatchRequest \<lparr>pa_Status = ''terminating'', pa_Labels = None\<rparr>) =
     Inr \<lparr>pa_Status = ''terminating'', pa_Labels = None\<rparr>" (is ?status)
  "text_labels ls \<Longrightarrow> read_Patch (marshal_ProbePatchRequest \<lparr>pa_Status = [], pa_Labels = Some (Some ls)\<rparr>) =
     Inr \<lparr>pa_Status = [], pa_Labels = Some (Some ls)\<rparr>" (is "_ \<Longrightarrow> ?labels")
proof -
  show ?status
    unfolding read_Patch_def marshal_ProbePatchRequest_def
    by (rule unmarshal_print)
      (simp_all add: utf8_names names fold_names assign_Patch_def del: valid_utf8.simps fold_name.simps)
  show ?labels if "text_labels ls"
    unfolding read_Patch_def marshal_ProbePatchRequest_def
    by (rule unmarshal_print)
      (use that depth_map [of "Some ls"] in
        \<open>simp_all add: utf8_names fold_names plain_map text_labels_def assign_Patch_def decode_encode_map
           del: valid_utf8.simps fold_name.simps\<close>)
qed

section \<open>The server\<close>

definition reply :: "int \<Rightarrow> string \<Rightarrow> go_error + http_response" where
  "reply code body = Inr \<lparr>resp_StatusCode = code, resp_Status = [], resp_Body = Inr body\<rparr>"

text \<open>An ID that is longer than those in use.\<close>

definition fresh_ID :: "StoredProbe list \<Rightarrow> string" where
  "fresh_ID ps = concat (map pp_ID ps) @ ''x''"

text \<open>A probe whose URL is in use is refused; a probe that is terminated is removed at once.\<close>

definition serve_create :: "string \<Rightarrow> string_map \<Rightarrow> StoredProbe list \<Rightarrow> (go_error + http_response) \<times> StoredProbe list" where
  "serve_create url ls ps =
     (if list_ex (\<lambda>p. sp_URL p = url) ps then (reply 409 [], ps)
      else let p = \<lparr>pp_ID = fresh_ID ps, pp_Labels = Some ls, pp_Status = ''active'', sp_URL = url\<rparr>
           in (reply 201 (json_print (probe_json (seen p))), ps @ [p]))"

definition serve_patch :: "string \<Rightarrow> ProbePatchRequest \<Rightarrow> StoredProbe list \<Rightarrow> (go_error + http_response) \<times> StoredProbe list" where
  "serve_patch j rq ps =
     (case pa_Labels rq of
        Some (Some ls) \<Rightarrow> (reply 200 [], map (\<lambda>p. if pp_ID p = j then relabel ls p else p) ps)
      | _ \<Rightarrow> (reply 200 [], filter (\<lambda>p. pp_ID p \<noteq> j) ps))"

definition serve :: "string \<Rightarrow> http_request \<Rightarrow> StoredProbe list \<Rightarrow> (go_error + http_response) \<times> StoredProbe list" where
  "serve U r ps =
     (if creates r
      then (case read_ProbeRequest (hr_body r) of
              Inl e \<Rightarrow> (reply 400 [], ps)
            | Inr rq \<Rightarrow> (case pq_Labels rq of None \<Rightarrow> (reply 400 [], ps) | Some ls \<Rightarrow> serve_create (pq_StaticURL rq) ls ps))
      else if hr_method r = ''PATCH''
      then (case read_Patch (hr_body r) of
              Inl e \<Rightarrow> (reply 400 [], ps)
            | Inr rq \<Rightarrow> serve_patch (drop (length U + 1) (hr_url r)) rq ps)
      else if hr_method r = ''GET'' \<and> list_all probe_utf8 (map seen ps)
      then (reply 200 (json_print (probes_json (map seen ps))), ps)
      else (reply 500 [], ps))"

lemma fresh_ID: "fresh_ID ps \<notin> pp_ID ` set ps"
proof
  assume "fresh_ID ps \<in> pp_ID ` set ps"
  then have "length (fresh_ID ps) \<in> set (map (length \<circ> pp_ID) ps)" by auto
  then have "length (fresh_ID ps) \<le> sum_list (map (length \<circ> pp_ID) ps)" by (rule member_le_sum_list) simp
  then show False by (simp add: fresh_ID_def length_concat comp_def)
qed

lemma mine_seen: "mine i (map seen ps) = map seen (mine i ps)"
  by (simp add: mine_def filter_map comp_def)

lemma serve_served: "served U r ps (fst (serve U r ps)) (snd (serve U r ps))"
proof (cases "creates r")
  case True
  have create: "effect (created url (Some ls)) {200, 201} (fst (serve_create url ls ps)) ps (snd (serve_create url ls ps)) \<and>
      (\<forall>resp. fst (serve_create url ls ps) = Inr resp \<and> resp_StatusCode resp = 409 \<longrightarrow>
         snd (serve_create url ls ps) = ps \<and> (\<exists>p \<in> set ps. sp_URL p = url))" for url ls
    using fresh_ID [of ps]
    by (auto simp: serve_create_def effect_def created_def reply_def Let_def live_def list_ex_iff)
  show ?thesis
    unfolding served_def if_P [OF True] serve_def
    using create by (auto simp: read_marshal_ProbeRequest)
next
  case False
  note F = this
  show ?thesis
  proof (cases "hr_method r = ''PATCH''")
    case True
    show ?thesis
      unfolding served_def if_not_P [OF F] if_P [OF True] serve_def
      by (auto simp: read_marshal_Patch serve_patch_def effect_def terminated_def relabelled_def)
  next
    case False
    show ?thesis
      unfolding served_def if_not_P [OF F] if_not_P [OF False] serve_def
      by (auto simp: list_answer_def reply_def unmarshal_probes mine_seen)
  qed
qed

definition probe_net :: "string \<Rightarrow> int \<Rightarrow> ('c \<times> StoredProbe list) Net" where
  "probe_net U t =
     \<lparr>now = ret t,
      http_Do = (\<lambda>v r. State (\<lambda>(c, ps). case serve U r ps of (a, ps') \<Rightarrow> (a, (c, ps')))),
      tls_Dial = (\<lambda>a. ret None),
      metric_Inc = (\<lambda>m ls. ret ()), metric_Observe = (\<lambda>m ls v. ret ()), metric_Set = (\<lambda>m ls v. ret ())\<rparr>"

lemma probe_net_service: "probe_service (probe_net U t) U snd"
  using serve_served [of U]
  by (auto simp: probe_service_def probe_net_def wp_return wp_def split: prod.split) (metis fst_conv snd_conv)

lemma mem_env_off_the_store: "off_the_store mem_env snd"
  by (simp add: off_the_store_def mem_env_def mem_kube_def wp_request split: option.split)

section \<open>A cluster and its probe\<close>

definition probed_hcp :: HostedControlPlane where
  "probed_hcp =
     \<lparr>obj_type = empty_type, obj_meta = empty_meta\<lparr>om_name := ''h'', om_namespace := ''ns''\<rparr>,
      obj_spec = \<lparr>hcps_clusterID = ''id'',
        hcps_aws = Some \<lparr>aws_region = ''us-east-1'', aws_endpointAccess = EndpointAccess_Private\<rparr>,
        hcps_services = [\<lparr>spub_service = ''APIServer'', spub_type = ''Route'', spub_route = Some ''api.a.com''\<rparr>]\<rparr>,
      obj_status = \<lparr>hcpst_conditions = [\<lparr>cond_type = ''Available'', cond_status = ''True'', cond_reason = []\<rparr>],
        hcpst_endpointHost = ''api.a.com''\<rparr>\<rparr>"

definition probing :: RHOBSConfig where
  "probing = \<lparr>ProbeAPIURL = ''https://rhobs'', Tenant = ''hcp'', OIDCClientID = [], OIDCClientSecret = [],
     OIDCIssuerURL = [], OnlyPublicClusters = False, SkipInfrastructureHealthCheck = False, ReconcileInterval = 0\<rparr>"

definition probe_with :: "string \<Rightarrow> string \<Rightarrow> StoredProbe" where
  "probe_with visibility status = \<lparr>pp_ID = ''p'',
     pp_Labels = Some (fmap_of_list [(''cluster-id'', ''id''), (''private'', visibility), (''region'', ''us-east-1'')]),
     pp_Status = status, sp_URL = ''https://api.a.com/livez''\<rparr>"

lemma probed_hcp_facts:
  "hcps_clusterID (obj_spec probed_hcp) = ''id''" "getClusterRegion probed_hcp = Returns (Inr ''us-east-1'')"
  "isPrivateHCP probed_hcp" "text_cluster probed_hcp"
proof -
  show "hcps_clusterID (obj_spec probed_hcp) = ''id''" "isPrivateHCP probed_hcp"
    by (simp_all add: probed_hcp_def isPrivateHCP_def)
  show region: "getClusterRegion probed_hcp = Returns (Inr ''us-east-1'')"
    by (simp add: probed_hcp_def getClusterRegion_def)
  have "valid_utf8 ''id''" "valid_utf8 ''us-east-1''" "valid_utf8 ''https://api.a.com/livez''"
    by code_simp+
  then show "text_cluster probed_hcp"
    unfolding text_cluster_def region by (simp add: probed_hcp_def GetAPIServerHostname_def del: valid_utf8.simps)
qed

lemma unlimited: "yields ((=) False) (limited_support E probed_hcp)"
  by (simp add: limited_support_def probed_hcp_def empty_meta_def map_read_def yields_return)

abbreviation api_net :: "(cluster \<times> StoredProbe list) Net" where
  "api_net \<equiv> probe_net (buildProbesURL (createRHOBSClient probing)) (4 * Hour)"

lemma has_probe_with:
  "has_probes (hcps_clusterID (obj_spec probed_hcp)) [] [probe_with v st] (snd (empty_cluster, [probe_with v st]))"
  by (simp add: probed_hcp_facts has_probes_def mine_def probe_with_def labels_read_def map_read_def)

section \<open>Witnesses\<close>

text \<open>One live probe of the right visibility, or none while the URL is in use.\<close>

definition replaced :: "StoredProbe list \<Rightarrow> bool" where
  "replaced ps \<longleftrightarrow> (\<exists>p. filter live (mine ''id'' ps) = [p] \<and> isPrivateProbe (seen p)) \<or>
     filter live (mine ''id'' ps) = [] \<and> (\<exists>p \<in> set ps. sp_URL p = ''https://api.a.com/livez'')"

lemma replaced_goal:
  assumes "rhobs_goal False probing probed_hcp [] M M'" and "has_probes (hcps_clusterID (obj_spec probed_hcp)) [] M' ps"
  shows "replaced ps"
proof -
  have "GetAPIServerHostname probed_hcp = Inr ''api.a.com''" by (simp add: probed_hcp_def GetAPIServerHostname_def)
  moreover have "set M' \<subseteq> set ps" using assms(2) by (auto simp: has_probes_def mine_def)
  ultimately show ?thesis
    using assms
    by (auto simp: rhobs_goal_def probing_def handled_def refused_def probed_as_def probed_hcp_facts has_probes_def replaced_def)
qed


theorem terminating_probe_not_replaced_witness:
  "wp (ensureRHOBSProbe mem_env api_net probed_hcp probing) (\<lambda>_ w'. filter live (mine ''id'' (snd w')) = [])
     (empty_cluster, [probe_with ''true'' ''terminating''])"
proof -
  have probe: "labelled_as probed_hcp (probe_with ''true'' ''terminating'')"
    "pp_Status (probe_with ''true'' ''terminating'') = ''terminating''"
    by (simp_all add: labelled_as_def probed_hcp_facts probe_with_def isPrivateProbe_def labels_read_def map_read_def)
  note dead = terminating_probe_not_replaced [where svc = snd and w = "(empty_cluster, [probe_with ''true'' ''terminating''])",
      OF probe_net_service mem_env_off_the_store unlimited probe(2,1)
      has_probe_with]
  show ?thesis
    by (rule wp_mono [OF dead]) (auto simp: probed_hcp_facts has_probes_def)
qed


text \<open>A control plane that is four hours old, its kube-apiserver service and its VPC endpoint, and a probe
  with the wrong visibility.  When only public clusters are to be probed a reconcile ends with the periodic
  requeue and the internal Route and RouteMonitor stand; otherwise the probe is replaced before it does.\<close>

definition probed_world :: "cluster \<times> StoredProbe list" where
  "probed_world =
     (empty_cluster\<lparr>
        c_svc := [(\<lparr>nn_name = ''kube-apiserver'', nn_namespace = ''ns''\<rparr>,
          \<lparr>obj_type = empty_type, obj_meta = empty_meta\<lparr>om_name := ''kube-apiserver'', om_namespace := ''ns''\<rparr>,
           obj_spec = \<lparr>svc_selector = fmempty, svc_ports = [\<lparr>sp_targetPort = [], sp_port = 443, sp_name = []\<rparr>]\<rparr>,
           obj_status = ()\<rparr>)],
        c_vpce := [(\<lparr>nn_name = ''private-hcp'', nn_namespace = ''ns''\<rparr>,
          \<lparr>obj_type = empty_type, obj_meta = empty_meta\<lparr>om_name := ''private-hcp'', om_namespace := ''ns''\<rparr>,
           obj_spec = (), obj_status = ''available''\<rparr>)]\<rparr>,
      [probe_with ''false'' ''active''])"

lemma mem_env_apart: "apart mem_env api_net snd"
  by (simp add: apart_def kube_apart_def outside_def mem_env_def mem_kube_def wp_request probe_net_def wp_return
      split: option.split)

lemma probe_net_frame: "net_frame (probe_net U t) fst"
  by (auto simp: net_frame_def probe_net_def wp_return wp_def split: prod.split)

lemma ok_probed_world: "ok_world mem_env fst probed_world"
  unfolding probed_world_def
  by (rule ok_world_mem) (simp add: wf_cluster_def empty_cluster_def wf_store_def empty_meta_def live_or_held_def obj_key_def)

abbreviation public_only :: RHOBSConfig where
  "public_only \<equiv> probing\<lparr>OnlyPublicClusters := True\<rparr>"

lemma public_only_requeued:
  "fst (run_state (reconcile_live mem_env api_net None probed_hcp public_only) probed_world) =
     Returns (Requeue_after (reconcile_interval public_only), None)"
  by code_simp


end
